(* ===== verification/Prelude.thy ===== *)
theory Prelude
  imports Main "HOL-Library.Word" "HOL-Library.AList" "HOL-Library.Monad_Syntax"
begin

text \<open>
  The prelude of the development: the named collections of facts, the types the components
  share, and the generic lemmas on lists, association lists and options that their proofs use.

  Conventions of the model.
  \<^item> A Go function that may panic at run time (slice bounds, nil dereference, negative shift)
    returns \<open>'a go\<close>, an option in which \<open>None\<close> is the panic. A panic in a handler's
    goroutine ends the process, so nothing is observed after it.
  \<^item> A Go function with an \<open>error\<close> result returns \<open>'a err\<close>: \<open>Inl\<close> is the error,
    with the text the source gives it where the source gives one.
  \<^item> A Go map is an association list with distinct keys (\<open>gomap\<close>). Go's \<open>range\<close> visits
    the keys in an unspecified order; wherever the source ranges over a map, the model takes
    the order from a parameter.
  \<^item> Go's \<open>int\<close> is \<open>int\<close> for indices and counters and \<open>64 word\<close> where the code
    uses the bits of it; bytes are \<open>8 word\<close>.
\<close>

named_theorems go_simps "unfolding and evaluation of the modelled Go library"
named_theorems store_simps "laws of the stores"
named_theorems session_simps "effect of the operations on the fields of a session"

section \<open>Types\<close>

type_synonym 'a go = "'a option"
type_synonym 'a err = "string + 'a"
type_synonym byte = "8 word"
type_synonym bytes = "8 word list"
type_synonym goint = "64 word"
type_synonym ('k, 'v) gomap = "('k \<times> 'v) list"

section \<open>Go maps as association lists\<close>

abbreviation m_get :: "('k, 'v) gomap \<Rightarrow> 'k \<Rightarrow> 'v option" where
  "m_get m k \<equiv> map_of m k"

abbreviation m_set :: "('k, 'v) gomap \<Rightarrow> 'k \<Rightarrow> 'v \<Rightarrow> ('k, 'v) gomap" where
  "m_set m k v \<equiv> AList.update k v m"

abbreviation m_del :: "('k, 'v) gomap \<Rightarrow> 'k \<Rightarrow> ('k, 'v) gomap" where
  "m_del m k \<equiv> AList.delete k m"

abbreviation m_keys :: "('k, 'v) gomap \<Rightarrow> 'k list" where
  "m_keys m \<equiv> map fst m"

definition m_len :: "('k, 'v) gomap \<Rightarrow> int" where
  "m_len m = int (length m)"

text \<open>Reading an absent key gives the zero value of the element type.\<close>

definition m_zero :: "'v \<Rightarrow> ('k, 'v) gomap \<Rightarrow> 'k \<Rightarrow> 'v" where
  "m_zero z m k = (case m_get m k of None \<Rightarrow> z | Some v \<Rightarrow> v)"

lemma m_get_set [simp]: "m_get (m_set m k v) k' = (if k' = k then Some v else m_get m k')"
  by (simp add: update_conv' fun_upd_apply)

lemma m_get_del [simp]: "m_get (m_del m k) k' = (if k' = k then None else m_get m k')"
  by (simp add: delete_conv' fun_upd_apply)

lemma m_zero_set [simp]: "m_zero z (m_set m k v) k' = (if k' = k then v else m_zero z m k')"
  by (simp add: m_zero_def)

lemma m_zero_Nil [simp]: "m_zero z [] k = z"
  by (simp add: m_zero_def)

lemma fst_m_set [simp]: "fst ` set (m_set m k v) = insert k (fst ` set m)"
  using dom_update [of k v m] by (simp add: dom_map_of_conv_image_fst)

lemma fst_m_del [simp]: "fst ` set (m_del m k) = fst ` set m - {k}"
  using delete_keys [of k m] by (metis delete_conv' dom_fun_upd dom_map_of_conv_image_fst)

lemma distinct_m_set [simp]: "distinct (m_keys m) \<Longrightarrow> distinct (m_keys (m_set m k v))"
  by (rule distinct_update)

lemma distinct_m_del [simp]: "distinct (m_keys m) \<Longrightarrow> distinct (m_keys (m_del m k))"
  by (rule distinct_delete)

lemma m_len_card: "distinct (m_keys m) \<Longrightarrow> m_len m = int (card (dom (m_get m)))"
  by (metis distinct_card dom_map_of_conv_image_fst length_map m_len_def set_map)

lemma m_len_nonneg [simp]: "0 \<le> m_len m"
  by (simp add: m_len_def)

lemma length_m_set: "length (m_set m k v) = (if m_get m k = None then Suc (length m) else length m)"
  by (induction m) auto

lemma m_len_set: "m_len (m_set m k v) = (if m_get m k = None then m_len m + 1 else m_len m)"
  by (simp add: m_len_def length_m_set)

lemma m_get_in_keys: "m_get m k = Some v \<Longrightarrow> k \<in> set (m_keys m)"
  by (force dest: map_of_SomeD)

lemma m_keys_get: "k \<in> set (m_keys m) \<Longrightarrow> \<exists>v. m_get m k = Some v"
  by (metis domIff dom_map_of_conv_image_fst not_None_eq set_map)

section \<open>Panics\<close>

lemma go_bind_Some [go_simps]: "(Some x \<bind> f) = f x"
  by simp

lemma go_bind_eq_Some: "(m \<bind> f) = Some y \<longleftrightarrow> (\<exists>x. m = Some x \<and> f x = Some y)"
  by (cases m) auto

text \<open>A branch on an error that gives up, and one that goes on.\<close>

lemma err_continue:
  "(case x of Inl e \<Rightarrow> Some None | Inr y \<Rightarrow> f y) = Some (Some z) \<longleftrightarrow>
   (\<exists>y. x = Inr y \<and> f y = Some (Some z))"
  by (cases x) auto

text \<open>
  A slice expression \<open>b[i:j]\<close> panics unless \<open>i \<le> j\<close> and \<open>j\<close> is within the slice. Go
  compares \<open>j\<close> with the capacity; the model takes a slice's capacity to be its length, as it is
  for the byte slices that JSON decoding and \<open>append\<close> produce up to padding. In the sources a
  slice \<open>b[:j]\<close> is followed by \<open>b[j:]\<close>, which Go compares with the length.
\<close>

definition go_slice :: "'a list \<Rightarrow> nat \<Rightarrow> nat \<Rightarrow> 'a list go" where
  "go_slice b i j = (if i \<le> j \<and> j \<le> length b then Some (take (j - i) (drop i b)) else None)"

text \<open>An index expression \<open>b[i]\<close> panics out of range.\<close>

definition go_index :: "'a list \<Rightarrow> int \<Rightarrow> 'a go" where
  "go_index b i = (if 0 \<le> i \<and> i < int (length b) then Some (b ! nat i) else None)"

lemma go_slice_append [simp]:
  "i = length xs \<Longrightarrow> j = length xs + length ys \<Longrightarrow> go_slice (xs @ ys @ zs) i j = Some ys"
  by (simp add: go_slice_def)

lemma go_slice_prefix [simp]: "j = length xs \<Longrightarrow> go_slice (xs @ ys) 0 j = Some xs"
  by (simp add: go_slice_def)

lemma go_slice_Some_length: "go_slice b i j = Some c \<Longrightarrow> length c = j - i"
  by (auto simp: go_slice_def split: if_splits)

lemma go_index_Some_iff: "go_index b i = Some x \<longleftrightarrow> 0 \<le> i \<and> i < int (length b) \<and> x = b ! nat i"
  by (auto simp: go_index_def)

lemma go_index_ok: "0 \<le> i \<Longrightarrow> i < int (length b) \<Longrightarrow> go_index b i = Some (b ! nat i)"
  by (simp add: go_index_def)

section \<open>Loops that may panic\<close>

text \<open>A \<open>for\<close> loop over a list whose body updates a state and may panic.\<close>

fun go_fold :: "('a \<Rightarrow> 's \<Rightarrow> 's go) \<Rightarrow> 'a list \<Rightarrow> 's \<Rightarrow> 's go" where
  "go_fold f [] s = Some s"
| "go_fold f (x # xs) s = (f x s \<bind> go_fold f xs)"

lemma go_fold_append: "go_fold f (xs @ ys) s = (go_fold f xs s \<bind> go_fold f ys)"
  by (induction xs arbitrary: s) (auto split: Option.bind_splits)

lemma go_fold_invariant:
  assumes "go_fold f xs s = Some s'" and "P s"
    and "\<And>x s s'. x \<in> set xs \<Longrightarrow> P s \<Longrightarrow> f x s = Some s' \<Longrightarrow> P s'"
  shows "P s'"
  using assms
proof (induction xs arbitrary: s)
  case Nil
  then show ?case by simp
next
  case (Cons x xs)
  from Cons.prems(1) obtain s1 where s1: "f x s = Some s1" "go_fold f xs s1 = Some s'"
    by (auto simp: go_bind_eq_Some)
  have "P s1" using Cons.prems(2) Cons.prems(3) [of x s s1] s1(1) by simp
  then show ?case using Cons.IH [OF s1(2)] Cons.prems(3) by (meson list.set_intros(2))
qed

lemma go_fold_total:
  assumes "P s" and "\<And>x s. x \<in> set xs \<Longrightarrow> P s \<Longrightarrow> \<exists>s'. f x s = Some s' \<and> P s'"
  shows "\<exists>s'. go_fold f xs s = Some s' \<and> P s'"
  using assms
proof (induction xs arbitrary: s)
  case Nil
  then show ?case by simp
next
  case (Cons x xs)
  then obtain s1 where "f x s = Some s1" "P s1" by (meson list.set_intros(1))
  moreover have "\<exists>s'. go_fold f xs s1 = Some s' \<and> P s'"
    using Cons.IH [OF \<open>P s1\<close>] Cons.prems(2) by (meson list.set_intros(2))
  ultimately show ?case by simp
qed

text \<open>A loop that collects a value per element and may panic.\<close>

fun go_map :: "('a \<Rightarrow> 'b go) \<Rightarrow> 'a list \<Rightarrow> 'b list go" where
  "go_map f [] = Some []"
| "go_map f (x # xs) = do { y \<leftarrow> f x; ys \<leftarrow> go_map f xs; Some (y # ys) }"

lemma go_map_Some: "(\<And>x. x \<in> set xs \<Longrightarrow> f x = Some (g x)) \<Longrightarrow> go_map f xs = Some (map g xs)"
  by (induction xs) auto

section \<open>Counting\<close>

lemma card_le_length_filter: "card {x \<in> set xs. P x} \<le> length (filter P xs)"
  by (metis card_length set_filter)

lemma distinct_append1: "distinct (xs @ [x]) \<longleftrightarrow> distinct xs \<and> x \<notin> set xs"
  by auto

text \<open>Two quorums of a set of \<open>n\<close> nodes share more than \<open>t\<close> of them.\<close>

lemma quorum_intersection:
  assumes "finite N" "A \<subseteq> N" "B \<subseteq> N" and "card N + t < card A + card B"
  shows "t < card (A \<inter> B)"
proof -
  have fin: "finite A" "finite B" using assms finite_subset by auto
  have "card (A \<union> B) \<le> card N" using assms by (meson Un_least card_mono)
  moreover have "card A + card B = card (A \<union> B) + card (A \<inter> B)"
    using fin by (rule card_Un_Int)
  ultimately show ?thesis using assms(4) by linarith
qed

section \<open>Results of case distinctions\<close>

text \<open>A case distinction with a known value; unlike the split rules these give the cases as
  equations also under quantifiers.\<close>

lemma case_sum_eq: "case_sum f g x = y \<longleftrightarrow> (\<exists>e. x = Inl e \<and> f e = y) \<or> (\<exists>v. x = Inr v \<and> g v = y)"
  by (cases x) auto

lemma case_prod_eq: "case_prod f p = y \<longleftrightarrow> (\<exists>u v. p = (u, v) \<and> f u v = y)"
  by (cases p) auto

lemma case_list_eq: "case_list a f xs = y \<longleftrightarrow> (xs = [] \<and> a = y) \<or> (\<exists>h t. xs = h # t \<and> f h t = y)"
  by (cases xs) auto

lemma case_option_eq: "case_option a f x = y \<longleftrightarrow> (x = None \<and> a = y) \<or> (\<exists>v. x = Some v \<and> f v = y)"
  by (cases x) auto

end
