(* ===== verification/GoLib.thy ===== *)
theory GoLib
  imports Prelude
begin

unbundle bit_operations_syntax

text \<open>
  The parts of Go's standard library that the sources use: \<open>strings.Split\<close>,
  \<open>strings.Join\<close> and \<open>strings.HasPrefix\<close>, \<open>strconv.Itoa\<close> and \<open>strconv.Atoi\<close>,
  \<open>big.Int.Text\<close>, \<open>SetString\<close>, \<open>Bytes\<close> and \<open>SetBytes\<close>, \<open>encoding/hex\<close> and the
  big-endian functions of \<open>encoding/binary\<close>, with their round trips.
\<close>

section \<open>strings\<close>

text \<open>Every separator in the sources is a single character.\<close>

fun Split :: "string \<Rightarrow> char \<Rightarrow> string list" where
  "Split [] d = [[]]"
| "Split (c # cs) d =
     (if c = d then [] # Split cs d
      else (case Split cs d of [] \<Rightarrow> [[c]] | w # ws \<Rightarrow> (c # w) # ws))"

fun Join :: "string list \<Rightarrow> char \<Rightarrow> string" where
  "Join [] d = []"
| "Join [w] d = w"
| "Join (w # v # ws) d = w @ [d] @ Join (v # ws) d"

definition HasPrefix :: "string \<Rightarrow> string \<Rightarrow> bool" where
  "HasPrefix s p \<longleftrightarrow> take (length p) s = p"

lemma Split_nonempty [simp]: "Split s d \<noteq> []"
  by (cases s) (auto split: list.splits)

lemma Split_no_sep: "d \<notin> set s \<Longrightarrow> Split s d = [s]"
  by (induction s) auto

lemma Split_append_sep: "d \<notin> set w \<Longrightarrow> Split (w @ d # s) d = w # Split s d"
  by (induction w) auto

lemma Split_Join:
  "ws \<noteq> [] \<Longrightarrow> \<forall>w \<in> set ws. d \<notin> set w \<Longrightarrow> Split (Join ws d) d = ws"
proof (induction ws rule: induct_list012)
  case (3 w v ws)
  then show ?case by (simp add: Split_append_sep)
qed (auto simp: Split_no_sep)

lemma Join_Split: "Join (Split s d) d = s"
proof (induction s)
  case (Cons c cs)
  obtain w ws where "Split cs d = w # ws" by (cases "Split cs d") auto
  with Cons show ?case by (cases ws) auto
qed simp

lemma HasPrefix_append [simp]: "HasPrefix (p @ s) p"
  by (simp add: HasPrefix_def)

section \<open>Numbers in text\<close>

definition digit_char :: "nat \<Rightarrow> char" where
  "digit_char d = (if d < 10 then char_of (48 + d) else char_of (87 + d))"

definition digit_val :: "char \<Rightarrow> nat option" where
  "digit_val c =
     (let n = of_char c :: nat in
      if 48 \<le> n \<and> n \<le> 57 then Some (n - 48)
      else if 97 \<le> n \<and> n \<le> 122 then Some (n - 87)
      else if 65 \<le> n \<and> n \<le> 90 then Some (n - 55)
      else None)"

function text_nat :: "nat \<Rightarrow> nat \<Rightarrow> string" where
  "text_nat b n =
     (if b < 2 \<or> n < b then [digit_char n] else text_nat b (n div b) @ [digit_char (n mod b)])"
  by pat_completeness auto
termination
  by (relation "measure snd") (auto intro: div_less_dividend)

declare text_nat.simps [simp del]

text \<open>\<open>big.Int.Text(b)\<close> and, for base ten, \<open>strconv.Itoa\<close>.\<close>

definition big_Text :: "int \<Rightarrow> nat \<Rightarrow> string" where
  "big_Text i b = (if i < 0 then CHR ''-'' # text_nat b (nat (- i)) else text_nat b (nat i))"

definition Itoa :: "int \<Rightarrow> string" where
  "Itoa i = big_Text i 10"

fun parse_digits :: "nat \<Rightarrow> nat \<Rightarrow> string \<Rightarrow> nat option" where
  "parse_digits b acc [] = Some acc"
| "parse_digits b acc (c # cs) =
     (case digit_val c of
        None \<Rightarrow> None
      | Some d \<Rightarrow> if d < b then parse_digits b (acc * b + d) cs else None)"

definition parse_nat :: "nat \<Rightarrow> string \<Rightarrow> nat option" where
  "parse_nat b s = (if s = [] then None else parse_digits b 0 s)"

text \<open>\<open>big.Int.SetString(s, b)\<close>: an optional sign, then at least one digit of the base.\<close>

definition big_SetString :: "string \<Rightarrow> nat \<Rightarrow> int option" where
  "big_SetString s b =
     (case s of
        [] \<Rightarrow> None
      | c # cs \<Rightarrow>
          if c = CHR ''-'' then map_option (\<lambda>n. - int n) (parse_nat b cs)
          else if c = CHR ''+'' then map_option int (parse_nat b cs)
          else map_option int (parse_nat b (c # cs)))"

text \<open>\<open>strconv.Atoi\<close> is the same in base ten, with an error outside the 64-bit range.\<close>

definition Atoi :: "string \<Rightarrow> int err" where
  "Atoi s =
     (case big_SetString s 10 of
        None \<Rightarrow> Inl ''invalid syntax''
      | Some i \<Rightarrow> if - (2 ^ 63) \<le> i \<and> i < 2 ^ 63 then Inr i else Inl ''value out of range'')"

lemma digit_char_range:
  "d < 10 \<Longrightarrow> (of_char (digit_char d) :: nat) = 48 + d"
  "10 \<le> d \<Longrightarrow> d < 36 \<Longrightarrow> (of_char (digit_char d) :: nat) = 87 + d"
  by (auto simp: digit_char_def of_char_of take_bit_eq_mod)

lemma digit_val_char [simp]: "d < 36 \<Longrightarrow> digit_val (digit_char d) = Some d"
  by (cases "d < 10") (auto simp: digit_val_def Let_def digit_char_range)

lemma parse_digits_append:
  "parse_digits b acc (s @ t) = (parse_digits b acc s \<bind> (\<lambda>a. parse_digits b a t))"
  by (induction s arbitrary: acc) (auto split: option.splits)

lemma text_nat_nonempty [simp]: "text_nat b n \<noteq> []"
  by (subst text_nat.simps) simp

lemma parse_text_nat:
  assumes "2 \<le> b" "b \<le> 36"
  shows "parse_digits b 0 (text_nat b n) = Some n"
proof (induction n rule: less_induct)
  case (less n)
  show ?case
  proof (cases "n < b")
    case True
    then show ?thesis using assms by (subst text_nat.simps) simp
  next
    case False
    with assms less.IH [of "n div b"]
    have IH: "parse_digits b 0 (text_nat b (n div b)) = Some (n div b)" by simp
    have lt: "n mod b < b" using assms by simp
    then have "digit_val (digit_char (n mod b)) = Some (n mod b)"
      using assms by (intro digit_val_char) linarith
    with IH lt False assms show ?thesis
      by (subst text_nat.simps) (simp add: parse_digits_append)
  qed
qed

lemma digit_char_alnum: "d < 36 \<Longrightarrow> 48 \<le> (of_char (digit_char d) :: nat)"
  by (cases "d < 10") (auto simp: digit_char_range)

lemma text_nat_chars:
  assumes "2 \<le> b" "b \<le> 36" "c \<in> set (text_nat b n)"
  shows "48 \<le> (of_char c :: nat)"
  using assms(3)
proof (induction n rule: less_induct)
  case (less n)
  have "n mod b < b" using assms by simp
  then have lt: "n mod b < 36" using assms(2) by linarith
  show ?case
  proof (cases "n < b")
    case True
    with less.prems have "c = digit_char n" by (subst (asm) text_nat.simps) simp
    with True assms show ?thesis by (simp add: digit_char_alnum)
  next
    case False
    with less.prems assms have "c \<in> set (text_nat b (n div b)) \<or> c = digit_char (n mod b)"
      by (subst (asm) text_nat.simps) auto
    with less.IH [of "n div b"] False assms lt show ?thesis
      by (auto simp: digit_char_alnum)
  qed
qed

lemma text_nat_no_sign:
  assumes "2 \<le> b" "b \<le> 36"
  shows "CHR ''-'' \<notin> set (text_nat b n)" "CHR ''+'' \<notin> set (text_nat b n)"
  using text_nat_chars [OF assms, of "CHR ''-''" n] text_nat_chars [OF assms, of "CHR ''+''" n]
  by auto

lemma SetString_Text:
  assumes "2 \<le> b" "b \<le> 36"
  shows "big_SetString (big_Text i b) b = Some i"
proof -
  obtain c cs where eq: "text_nat b (nat i) = c # cs" by (cases "text_nat b (nat i)") auto
  have "c \<noteq> CHR ''-''" "c \<noteq> CHR ''+''"
    using text_nat_no_sign [OF assms, of "nat i"] eq by auto
  with eq parse_text_nat [OF assms, of "nat i"] parse_text_nat [OF assms, of "nat (- i)"]
  show ?thesis by (auto simp: big_SetString_def big_Text_def parse_nat_def)
qed

lemma Atoi_Itoa: "- (2 ^ 63) \<le> i \<Longrightarrow> i < 2 ^ 63 \<Longrightarrow> Atoi (Itoa i) = Inr i"
  by (simp add: Atoi_def Itoa_def SetString_Text)

text \<open>A number in text contains no control character, so no delimiter of the code.\<close>

lemma big_Text_chars:
  assumes "2 \<le> b" "b \<le> 36" "c \<in> set (big_Text i b)"
  shows "32 \<le> (of_char c :: nat)"
  using assms text_nat_chars [OF assms(1,2)]
  by (fastforce simp: big_Text_def split: if_splits)

section \<open>encoding/hex\<close>

definition hex_EncodeToString :: "bytes \<Rightarrow> string" where
  "hex_EncodeToString b =
     concat (map (\<lambda>x. [digit_char (unat x div 16), digit_char (unat x mod 16)]) b)"

definition hex_digit :: "char \<Rightarrow> nat option" where
  "hex_digit c = (case digit_val c of Some d \<Rightarrow> if d < 16 then Some d else None | None \<Rightarrow> None)"

fun hex_DecodeString :: "string \<Rightarrow> bytes err" where
  "hex_DecodeString [] = Inr []"
| "hex_DecodeString [c] = Inl ''odd length hex string''"
| "hex_DecodeString (c # d # s) =
     (case (hex_digit c, hex_digit d) of
        (Some x, Some y) \<Rightarrow>
          (case hex_DecodeString s of Inl e \<Rightarrow> Inl e | Inr bs \<Rightarrow> Inr (of_nat (x * 16 + y) # bs))
      | _ \<Rightarrow> Inl ''invalid byte'')"

lemma hex_Decode_Encode [simp]: "hex_DecodeString (hex_EncodeToString b) = Inr b"
proof (induction b)
  case Nil
  then show ?case by (simp add: hex_EncodeToString_def)
next
  case (Cons x b)
  have lt: "unat x < 256" using unsigned_less [of x, where 'a = nat] by simp
  then have "unat x div 16 < 16" by simp
  with Cons lt show ?case
    by (simp add: hex_EncodeToString_def hex_digit_def)
qed

section \<open>encoding/binary, big endian\<close>

definition PutUint64 :: "64 word \<Rightarrow> bytes" where
  "PutUint64 w = map (\<lambda>i. ucast (drop_bit (56 - 8 * i) w)) [0..<8]"

definition BE_Uint64 :: "bytes \<Rightarrow> 64 word go" where
  "BE_Uint64 b =
     (if length b < 8 then None
      else Some (foldl (\<lambda>acc x. push_bit 8 acc OR ucast x) 0 (take 8 b)))"

definition PutUint32 :: "32 word \<Rightarrow> bytes" where
  "PutUint32 w = map (\<lambda>i. ucast (drop_bit (24 - 8 * i) w)) [0..<4]"

definition BE_Uint32 :: "bytes \<Rightarrow> 32 word go" where
  "BE_Uint32 b =
     (if length b < 4 then None
      else Some (foldl (\<lambda>acc x. push_bit 8 acc OR ucast x) 0 (take 4 b)))"

lemma length_PutUint64 [simp]: "length (PutUint64 w) = 8"
  by (simp add: PutUint64_def)

lemma length_PutUint32 [simp]: "length (PutUint32 w) = 4"
  by (simp add: PutUint32_def)

lemma upt_8: "[0..<8] = [0, 1, 2, 3, 4, 5, 6, 7::nat]"
  by (simp add: upt_rec)

lemma upt_4: "[0..<4] = [0, 1, 2, 3::nat]"
  by (simp add: upt_rec)

text \<open>Reading one more byte of a big-endian number.\<close>

lemma be_step:
  fixes w :: "'a::len word"
  shows "push_bit 8 (drop_bit (m + 8) w) OR ucast (ucast (drop_bit m w) :: 8 word) = drop_bit m w"
proof (rule bit_word_eqI)
  fix n assume "n < LENGTH('a)"
  then show "bit (push_bit 8 (drop_bit (m + 8) w) OR ucast (ucast (drop_bit m w) :: 8 word)) n
      = bit (drop_bit m w) n"
    by (cases "n < 8") (auto simp: bit_simps)
qed

lemma Uint64_Put [simp]: "BE_Uint64 (PutUint64 w @ rest) = Some w"
proof -
  have z: "drop_bit 64 w = 0" by (rule bit_word_eqI) (auto simp: bit_simps)
  have "foldl (\<lambda>acc x. push_bit 8 acc OR ucast x) 0 (PutUint64 w) = w"
    unfolding PutUint64_def upt_8
    using be_step [of 56 w] be_step [of 48 w] be_step [of 40 w] be_step [of 32 w]
      be_step [of 24 w] be_step [of 16 w] be_step [of 8 w] be_step [of 0 w] z
    by simp
  then show ?thesis by (simp add: BE_Uint64_def)
qed

lemma Uint32_Put [simp]: "BE_Uint32 (PutUint32 w @ rest) = Some w"
proof -
  have z: "drop_bit 32 w = 0" by (rule bit_word_eqI) (auto simp: bit_simps)
  have "foldl (\<lambda>acc x. push_bit 8 acc OR ucast x) 0 (PutUint32 w) = w"
    unfolding PutUint32_def upt_4
    using be_step [of 24 w] be_step [of 16 w] be_step [of 8 w] be_step [of 0 w] z
    by simp
  then show ?thesis by (simp add: BE_Uint32_def)
qed

section \<open>big.Int as bytes\<close>

text \<open>\<open>big.Int.Bytes\<close>: the absolute value, big endian, without leading zeros.\<close>

function bytes_nat :: "nat \<Rightarrow> bytes" where
  "bytes_nat n = (if n = 0 then [] else bytes_nat (n div 256) @ [of_nat (n mod 256)])"
  by pat_completeness auto
termination
  by (relation "measure id") auto

declare bytes_nat.simps [simp del]

definition big_Bytes :: "int \<Rightarrow> bytes" where
  "big_Bytes i = bytes_nat (nat \<bar>i\<bar>)"

definition big_SetBytes :: "bytes \<Rightarrow> int" where
  "big_SetBytes b = foldl (\<lambda>acc x. acc * 256 + uint x) 0 b"

lemma big_SetBytes_Bytes: "big_SetBytes (big_Bytes i) = \<bar>i\<bar>"
proof -
  have "big_SetBytes (bytes_nat n) = int n" for n
  proof (induction n rule: bytes_nat.induct)
    case (1 n)
    show ?case
    proof (cases "n = 0")
      case True
      then show ?thesis by (subst bytes_nat.simps) (simp add: big_SetBytes_def)
    next
      case False
      have "uint (of_nat (n mod 256) :: byte) = int (n mod 256)"
        by (simp add: unsigned_of_nat take_bit_eq_mod zmod_int)
      with 1 False show ?thesis
        by (subst bytes_nat.simps) (simp add: big_SetBytes_def zdiv_int zmod_int)
    qed
  qed
  then show ?thesis by (simp add: big_Bytes_def)
qed

section \<open>Strings as bytes\<close>

text \<open>A Go string is its bytes; the model writes the conversions \<open>[]byte(s)\<close> and \<open>string(b)\<close>.\<close>

definition string_bytes :: "string \<Rightarrow> bytes" where
  "string_bytes s = map (\<lambda>c. word_of_nat (of_char c)) s"

definition bytes_string :: "bytes \<Rightarrow> string" where
  "bytes_string b = map (\<lambda>w. char_of (unat w)) b"

lemma word_of_char_inverse [simp]: "char_of (unat (word_of_nat (of_char c) :: 8 word)) = c"
proof -
  have "(of_char c :: nat) mod 256 = of_char c" by (rule of_char_mod_256)
  then show ?thesis by (simp add: unat_of_nat take_bit_eq_mod)
qed

lemma bytes_string_bytes [simp]: "bytes_string (string_bytes s) = s"
  by (induction s) (simp_all add: bytes_string_def string_bytes_def)

lemma string_bytes_inject [simp]: "string_bytes s = string_bytes t \<longleftrightarrow> s = t"
  by (metis bytes_string_bytes)

lemma string_bytes_append [simp]: "string_bytes (s @ t) = string_bytes s @ string_bytes t"
  by (simp add: string_bytes_def)

end
