(* ===== verification/Ids.thy ===== *)
theory Ids
  imports GoLib
begin

text \<open>
  Identifiers of the key generation protocol: \<open>ADKGID\<close> (one per key), \<open>RoundID\<close> (one per
  broadcast of a dealer within a key) and \<open>RoundDetails\<close>, from
  \<open>common/adkg_common.go\<close>, with the delimiters of \<open>common/dkgstore.go\<close> and the curve
  names and phases of \<open>common/types.go\<close>. The lemmas are the round trips between the
  structured and the textual form, and what \<open>RoundID.Leader\<close> reads back.
\<close>

section \<open>Constants\<close>

definition Delimiter1 :: char where "Delimiter1 = CHR 0x1C"
definition Delimiter2 :: char where "Delimiter2 = CHR 0x1D"
definition Delimiter3 :: char where "Delimiter3 = CHR 0x1E"
definition Delimiter4 :: char where "Delimiter4 = CHR 0x1F"
definition Delimiter5 :: char where "Delimiter5 = CHR 0x1A"

lemmas Delimiter_defs [go_simps] =
  Delimiter1_def Delimiter2_def Delimiter3_def Delimiter4_def Delimiter5_def

type_synonym CurveName = string

definition SECP256K1 :: CurveName where "SECP256K1 = ''secp256k1''"
definition ED25519 :: CurveName where "ED25519 = ''ed25519''"

type_synonym phase = string

definition Initial :: phase where "Initial = ''INITIAL''"
definition Started :: phase where "Started = ''STARTED''"
definition Proposing :: phase where "Proposing = ''PROPOSING''"
definition Ended :: phase where "Ended = ''ENDED''"

definition phase_IsValid :: "phase \<Rightarrow> unit err" where
  "phase_IsValid p =
     (if p = Initial \<or> p = Started \<or> p = Proposing \<or> p = Ended then Inr ()
      else Inl ''invalid phase'')"

lemma Initial_Ended [simp]: "Initial \<noteq> Ended" "Ended \<noteq> Initial"
  by (simp_all add: Initial_def Ended_def)

section \<open>ADKGID\<close>

type_synonym ADKGID = string
type_synonym RoundID = string

definition GenerateADKGID :: "int \<Rightarrow> ADKGID" where
  "GenerateADKGID index = Join [''ADKG'', big_Text index 16] Delimiter3"

definition NewADKGID :: "int \<Rightarrow> CurveName \<Rightarrow> ADKGID" where
  "NewADKGID index curve =
     (let baseStr = (if curve = ED25519 then Join [''ADKG'', ED25519] Delimiter5 else ''ADKG'')
      in Join [baseStr, big_Text index 16] Delimiter3)"

definition GetCurve :: "ADKGID \<Rightarrow> CurveName err" where
  "GetCurve adkgid =
     (let substrs = Split adkgid Delimiter3 in
      if length substrs \<noteq> 2 then Inl ''could not parse dkgid''
      else
        let ids = Split (substrs ! 0) Delimiter5 in
        if length ids = 1 then Inr SECP256K1
        else if length ids = 2 \<and> ids ! 1 = ED25519 then Inr ED25519
        else Inl ''invalid curve'')"

definition GetIndex :: "ADKGID \<Rightarrow> int err" where
  "GetIndex adkgid =
     (let substrs = Split adkgid Delimiter3 in
      if length substrs \<noteq> 2 then Inl ''could not parse dkgid''
      else
        case big_SetString (substrs ! 1) 16 of
          None \<Rightarrow> Inl ''could not get back index from dkgid''
        | Some index \<Rightarrow> Inr index)"

section \<open>Rounds\<close>

record RoundDetails =
  rd_ADKGID :: ADKGID
  rd_Dealer :: int
  rd_Kind :: string

definition RoundDetails_ID :: "RoundDetails \<Rightarrow> RoundID" where
  "RoundDetails_ID d = Join [rd_ADKGID d, rd_Kind d, Itoa (rd_Dealer d)] Delimiter4"

text \<open>
  \<open>RoundDetails.FromID\<close> fills its receiver. On an error every caller drops the receiver, so
  the model returns the error alone.
\<close>

definition FromID :: "RoundID \<Rightarrow> RoundDetails err" where
  "FromID roundID =
     (let substrings = Split roundID Delimiter4 in
      if length substrings \<noteq> 3 then Inl ''expected length of 2''
      else
        case Atoi (substrings ! 2) of
          Inl e \<Rightarrow> Inl e
        | Inr index \<Rightarrow>
            Inr \<lparr>rd_ADKGID = substrings ! 0, rd_Dealer = index, rd_Kind = substrings ! 1\<rparr>)"

definition ADKGIDFromRoundID :: "RoundID \<Rightarrow> ADKGID err" where
  "ADKGIDFromRoundID r = (case FromID r of Inl e \<Rightarrow> Inl e | Inr d \<Rightarrow> Inr (rd_ADKGID d))"

definition GetADKGIDFromRoundID :: "RoundID \<Rightarrow> ADKGID err" where
  "GetADKGIDFromRoundID roundID =
     (case FromID roundID of Inl e \<Rightarrow> Inl e | Inr r \<Rightarrow> Inr (rd_ADKGID r))"

definition CreateRound :: "ADKGID \<Rightarrow> int \<Rightarrow> string \<Rightarrow> RoundID" where
  "CreateRound adkgid dealer kind =
     RoundDetails_ID \<lparr>rd_ADKGID = adkgid, rd_Dealer = dealer, rd_Kind = kind\<rparr>"

definition Leader :: "RoundID \<Rightarrow> int err" where
  "Leader r =
     (let substrs = Split r Delimiter4 in
      if length substrs \<noteq> 3 then Inl ''could not parse round id''
      else
        case big_SetString (substrs ! 2) 16 of
          None \<Rightarrow> Inl ''could not get back index from round id''
        | Some index \<Rightarrow> Inr index)"

section \<open>Lemmas\<close>

lemma delimiter_not_in_Text:
  assumes "2 \<le> b" "b \<le> 36"
  shows "Delimiter3 \<notin> set (big_Text i b)" "Delimiter4 \<notin> set (big_Text i b)"
    "Delimiter5 \<notin> set (big_Text i b)"
  using big_Text_chars [OF assms, of Delimiter3 i] big_Text_chars [OF assms, of Delimiter4 i]
    big_Text_chars [OF assms, of Delimiter5 i]
  by (auto simp: Delimiter_defs)

lemma delimiter4_not_in_Itoa [simp]: "Delimiter4 \<notin> set (Itoa i)"
  by (simp add: Itoa_def delimiter_not_in_Text)

lemma kinds_no_Delimiter4 [simp]:
  "Delimiter4 \<notin> set ''acss''" "Delimiter4 \<notin> set ''keyset''"
  by (simp_all add: Delimiter_defs)

lemma NewADKGID_Split:
  "Split (NewADKGID i c) Delimiter3 =
     [if c = ED25519 then ''ADKG'' @ Delimiter5 # ED25519 else ''ADKG'', big_Text i 16]"
  unfolding NewADKGID_def Let_def using delimiter_not_in_Text(1) [of 16 i]
  by (subst Split_Join) (auto simp: Delimiter_defs ED25519_def)

lemma NewADKGID_no_Delimiter4 [simp]: "Delimiter4 \<notin> set (NewADKGID i c)"
  using delimiter_not_in_Text(2) [of 16 i]
  by (auto simp: NewADKGID_def Let_def Delimiter_defs ED25519_def)

lemma NewADKGID_index: "GetIndex (NewADKGID i c) = Inr i"
  by (simp add: GetIndex_def NewADKGID_Split SetString_Text)

lemma NewADKGID_curve: "GetCurve (NewADKGID i c) = Inr (if c = ED25519 then ED25519 else SECP256K1)"
proof -
  have "Split (''ADKG'' @ Delimiter5 # ED25519) Delimiter5 = [''ADKG'', ED25519]"
    by (simp add: Delimiter_defs ED25519_def)
  moreover have "Split ''ADKG'' Delimiter5 = [''ADKG'']" by (simp add: Delimiter_defs)
  ultimately show ?thesis by (simp add: GetCurve_def NewADKGID_Split del: append_Cons)
qed

lemma GenerateADKGID_secp: "GenerateADKGID i = NewADKGID i SECP256K1"
  by (simp add: GenerateADKGID_def NewADKGID_def SECP256K1_def ED25519_def)

lemma Split_RoundDetails_ID:
  assumes "Delimiter4 \<notin> set (rd_ADKGID d)" "Delimiter4 \<notin> set (rd_Kind d)"
  shows "Split (RoundDetails_ID d) Delimiter4 = [rd_ADKGID d, rd_Kind d, Itoa (rd_Dealer d)]"
  unfolding RoundDetails_ID_def using assms by (subst Split_Join) auto

lemma FromID_ID:
  assumes "Delimiter4 \<notin> set (rd_ADKGID d)" "Delimiter4 \<notin> set (rd_Kind d)"
    and "- (2 ^ 63) \<le> rd_Dealer d" "rd_Dealer d < 2 ^ 63"
  shows "FromID (RoundDetails_ID d) = Inr d"
  using assms by (simp add: FromID_def Split_RoundDetails_ID Atoi_Itoa)

text \<open>Reading a decimal numeral in base sixteen: at least the number, more from ten on.\<close>

lemma parse16_text10:
  "\<exists>m. parse_digits 16 0 (text_nat 10 n) = Some m \<and> n \<le> m \<and> (n < m \<longleftrightarrow> 10 \<le> n)"
proof (induction n rule: less_induct)
  case (less n)
  show ?case
  proof (cases "n < 10")
    case True
    then show ?thesis by (subst text_nat.simps) simp
  next
    case False
    with less.IH [of "n div 10"] obtain m where
      m: "parse_digits 16 0 (text_nat 10 (n div 10)) = Some m" "n div 10 \<le> m" by auto
    have lt: "n mod 10 < 36" by (rule less_trans [of _ 10]) auto
    have "digit_val (digit_char (n mod 10)) = Some (n mod 10)" by (rule digit_val_char [OF lt])
    moreover have "n mod 10 < 16" by (rule less_trans [of _ 10]) auto
    ultimately have "parse_digits 16 0 (text_nat 10 n) = Some (m * 16 + n mod 10)"
      using m(1) False by (subst text_nat.simps) (simp add: parse_digits_append)
    moreover have "n < m * 16 + n mod 10"
    proof -
      have "n = n div 10 * 10 + n mod 10" by simp
      moreover have "0 < n div 10" using False by (simp add: div_greater_zero_iff)
      ultimately show ?thesis using m(2) by linarith
    qed
    ultimately show ?thesis using False by auto
  qed
qed

lemma SetString16_Itoa: "\<exists>j. big_SetString (Itoa i) 16 = Some j \<and> (j = i \<longleftrightarrow> \<bar>i\<bar> < 10)"
proof -
  obtain c cs where eq: "text_nat 10 (nat i) = c # cs" by (cases "text_nat 10 (nat i)") auto
  then have c: "c \<noteq> CHR ''-''" "c \<noteq> CHR ''+''"
    using text_nat_no_sign [of 10 "nat i"] by auto
  show ?thesis
  proof (cases "i < 0")
    case True
    then show ?thesis using parse16_text10 [of "nat (- i)"]
      by (auto simp: big_SetString_def Itoa_def big_Text_def parse_nat_def)
  next
    case False
    then show ?thesis using parse16_text10 [of "nat i"] eq c
      by (auto simp: big_SetString_def Itoa_def big_Text_def parse_nat_def)
  qed
qed

section \<open>Properties\<close>

text \<open>
  \<open>RoundDetails.FromID\<close> inverts \<open>RoundDetails.ID\<close>: a round's identifier gives back its
  ADKGID, kind and dealer, provided the ADKGID and the kind do not contain the delimiter (no
  identifier the node creates does) and the dealer is a 64-bit integer.
\<close>

lemma round_id_roundtrip:
  assumes "Delimiter4 \<notin> set adkgid" "Delimiter4 \<notin> set kind"
    and "- (2 ^ 63) \<le> dealer" "dealer < 2 ^ 63"
  shows "FromID (CreateRound adkgid dealer kind) =
    Inr \<lparr>rd_ADKGID = adkgid, rd_Dealer = dealer, rd_Kind = kind\<rparr>"
  unfolding CreateRound_def by (rule FromID_ID) (use assms in simp_all)

lemma round_id_roundtrip_witness:
  "FromID (CreateRound (NewADKGID 17 ED25519) 3 ''keyset'') =
    Inr \<lparr>rd_ADKGID = NewADKGID 17 ED25519, rd_Dealer = 3, rd_Kind = ''keyset''\<rparr>"
  by (rule round_id_roundtrip) (rule NewADKGID_no_Delimiter4 kinds_no_Delimiter4 | simp)+

text \<open>
  The identifier of a key gives back the key's index and curve: \<open>GetIndex\<close> and
  \<open>GetCurve\<close> invert \<open>NewADKGID\<close>, for every index; a curve other than ed25519 reads back as
  secp256k1.
\<close>

lemma adkgid_roundtrip:
  "GetIndex (NewADKGID i c) = Inr i \<and>
   GetCurve (NewADKGID i c) = Inr (if c = ED25519 then ED25519 else SECP256K1)"
  by (simp add: NewADKGID_index NewADKGID_curve)

text \<open>
  C30. \<open>RoundID.Leader\<close> reads the dealer in base sixteen although \<open>RoundDetails.ID\<close> writes it
  in base ten: the leader of a round is its dealer exactly when the dealer's index has one
  decimal digit. From dealer 10 on, the leader the handlers compare with the sender is wrong.
\<close>

theorem leader_is_dealer_iff:
  assumes "Delimiter4 \<notin> set adkgid" "Delimiter4 \<notin> set kind"
  shows "Leader (CreateRound adkgid dealer kind) = Inr dealer \<longleftrightarrow> \<bar>dealer\<bar> < 10"
proof -
  have "Split (CreateRound adkgid dealer kind) Delimiter4 = [adkgid, kind, Itoa dealer]"
    unfolding CreateRound_def using assms by (subst Split_RoundDetails_ID) auto
  moreover obtain j where "big_SetString (Itoa dealer) 16 = Some j" "j = dealer \<longleftrightarrow> \<bar>dealer\<bar> < 10"
    using SetString16_Itoa by blast
  ultimately show ?thesis by (simp add: Leader_def)
qed

theorem leader_is_dealer_iff_witness:
  "Leader (CreateRound (NewADKGID 0 SECP256K1) 9 ''acss'') = Inr 9 \<and>
   Leader (CreateRound (NewADKGID 0 SECP256K1) 10 ''acss'') \<noteq> Inr 10"
  using leader_is_dealer_iff [of "NewADKGID 0 SECP256K1" "''acss''" 9]
    leader_is_dealer_iff [of "NewADKGID 0 SECP256K1" "''acss''" 10]
  by (simp only: NewADKGID_no_Delimiter4 kinds_no_Delimiter4) simp

lemma Leader_CreateRound:
  assumes "Delimiter4 \<notin> set adkgid" "Delimiter4 \<notin> set kind" "\<bar>dealer\<bar> < 10"
  shows "Leader (CreateRound adkgid dealer kind) = Inr dealer"
proof -
  have "Split (CreateRound adkgid dealer kind) Delimiter4 = [adkgid, kind, Itoa dealer]"
    unfolding CreateRound_def using assms by (subst Split_RoundDetails_ID) auto
  then show ?thesis using SetString16_Itoa [of dealer] assms(3) by (auto simp: Leader_def)
qed

lemma CreateRound_inject:
  assumes "Delimiter4 \<notin> set a" "Delimiter4 \<notin> set k" "Delimiter4 \<notin> set a'" "Delimiter4 \<notin> set k'"
    and "CreateRound a d k = CreateRound a' d' k'"
  shows "a = a' \<and> k = k' \<and> d = d'"
proof -
  have "Split (CreateRound a d k) Delimiter4 = [a, k, Itoa d]"
    "Split (CreateRound a' d' k') Delimiter4 = [a', k', Itoa d']"
    unfolding CreateRound_def using assms by (simp_all add: Split_RoundDetails_ID)
  with assms(5) have "a = a'" "k = k'" "Itoa d = Itoa d'" by auto
  moreover have "big_SetString (Itoa x) 10 = Some x" for x
    by (simp add: Itoa_def SetString_Text)
  ultimately show ?thesis by (metis option.inject)
qed

end
