(* ===== verification/Bits.thy ===== *)
theory Bits
  imports Ids
begin

unbundle bit_operations_syntax

text \<open>
  Sets of dealers as the bits of an \<open>int\<close> (\<open>keygen/common/common.go\<close>), the subset test
  of the key set broadcast (\<open>keyset/common.go\<close>) and the union of key sets of the key
  derivation (\<open>keyderivation/init_handler.go\<close>). A Go \<open>int\<close> used as a bit set is a
  \<open>64 word\<close>; its comparisons with 0 are signed. The lemmas relate each operation to the
  set of bits it stands for.
\<close>

section \<open>Operations\<close>

text \<open>A shift by a negative count panics; by 64 or more it gives 0.\<close>

definition shl1 :: "int \<Rightarrow> goint go" where
  "shl1 pos = (if pos < 0 then None else Some (push_bit (nat pos) 1))"

definition HasBit :: "goint \<Rightarrow> int \<Rightarrow> bool go" where
  "HasBit n pos = do { b \<leftarrow> shl1 pos; let val = n AND b; Some (0 <s val) }"

definition SetBit :: "goint \<Rightarrow> int \<Rightarrow> goint go" where
  "SetBit n pos = do { b \<leftarrow> shl1 pos; Some (n OR b) }"

fun GetSetBits_from :: "nat \<Rightarrow> int \<Rightarrow> goint \<Rightarrow> int list" where
  "GetSetBits_from 0 i val = []"
| "GetSetBits_from (Suc m) i val =
     (if HasBit val i = Some True then i # GetSetBits_from m (i + 1) val
      else GetSetBits_from m (i + 1) val)"

text \<open>The loop \<open>for i := 1; i \<le> n; i++\<close>; its positions are never negative.\<close>

definition GetSetBits :: "int \<Rightarrow> goint \<Rightarrow> int list" where
  "GetSetBits n val = GetSetBits_from (nat n) 1 val"

text \<open>\<open>n \&= n - 1\<close> clears the lowest bit; the guard is the signed \<open>n > 0\<close>.\<close>

lemma and_minus_1_less:
  fixes n :: goint
  assumes "n \<noteq> 0"
  shows "n AND (n - 1) < n"
proof -
  have "n AND (n - 1) \<le> n - 1" by (rule word_and_le1)
  moreover have "n - 1 < n" using assms by (simp add: word_less_nat_alt unat_minus_one unat_gt_0)
  ultimately show ?thesis by (rule order.strict_trans1)
qed

function CountBit_loop :: "goint \<Rightarrow> int \<Rightarrow> int" where
  "CountBit_loop n count = (if 0 <s n then CountBit_loop (n AND (n - 1)) (count + 1) else count)"
  by pat_completeness auto
termination
proof (relation "measure (\<lambda>(n, count). unat n)")
  fix n :: goint and count :: int
  assume "0 <s n"
  then have "n \<noteq> 0" by auto
  then show "((n AND (n - 1), count + 1), n, count) \<in> measure (\<lambda>(n, count). unat n)"
    using and_minus_1_less [of n] by (simp add: word_less_nat_alt)
qed simp

declare CountBit_loop.simps [simp del]

definition CountBit :: "goint \<Rightarrow> int" where
  "CountBit n = CountBit_loop n 0"

definition IntToByteValue :: "goint \<Rightarrow> bytes" where
  "IntToByteValue val = PutUint64 val"

definition ByteToIntValue :: "bytes \<Rightarrow> goint go" where
  "ByteToIntValue val = BE_Uint64 val"

fun Contains :: "int list \<Rightarrow> int \<Rightarrow> bool" where
  "Contains [] e = False"
| "Contains (a # s) e = (if a = e then True else Contains s e)"

text \<open>\<open>keyset.Predicate\<close>: is \<open>T_j\<close> a subset of \<open>T_i\<close>?\<close>

definition keyset_Predicate :: "bytes \<Rightarrow> bytes \<Rightarrow> bool go" where
  "keyset_Predicate Ti Tj = do {
     b \<leftarrow> BE_Uint64 Tj;
     a \<leftarrow> BE_Uint64 Ti;
     Some (b AND a = b) }"

text \<open>\<open>keyderivation.Union\<close>: the first list as it is, then the new items of the others.\<close>

fun Union_add :: "int list \<Rightarrow> int list \<Rightarrow> int list \<Rightarrow> int list \<times> int list" where
  "Union_add [] a m = (a, m)"
| "Union_add (item # s) a m =
     (if item \<in> set m then Union_add s a m else Union_add s (a @ [item]) (item # m))"

fun Union_all :: "int list list \<Rightarrow> int list \<Rightarrow> int list \<Rightarrow> int list" where
  "Union_all [] a m = a"
| "Union_all (s # args) a m = (let (a', m') = Union_add s a m in Union_all args a' m')"

definition Union :: "int list list \<Rightarrow> int list" where
  "Union args = (case args of [] \<Rightarrow> [] | a # rest \<Rightarrow> Union_all rest a a)"

section \<open>The set a bit mask stands for\<close>

definition bitset :: "goint \<Rightarrow> int set" where
  "bitset w = {i. 0 \<le> i \<and> i < 63 \<and> bit w (nat i)}"

lemma signed_pos_iff: "0 <s (w :: goint) \<longleftrightarrow> w \<noteq> 0 \<and> \<not> bit w 63"
proof -
  have "sint w < 0 \<longleftrightarrow> bit w 63" using bit_last_iff [of w] by simp
  moreover have "sint w = 0 \<longleftrightarrow> w = 0" by (rule signed_eq_0_iff)
  ultimately show ?thesis by (auto simp: word_sless_alt)
qed

lemma bit_single: "bit (push_bit k (1::goint)) n \<longleftrightarrow> n = k \<and> n < 64"
  by (simp only: bit_push_bit_iff bit_1_iff possible_bit_word) auto

lemma HasBit_iff: "0 \<le> i \<Longrightarrow> HasBit w i = Some (i \<in> bitset w)"
proof -
  assume i: "0 \<le> i"
  let ?v = "w AND push_bit (nat i) 1"
  have b: "bit ?v n \<longleftrightarrow> n = nat i \<and> n < 64 \<and> bit w n" for n
    by (simp only: bit_and_iff bit_single) auto
  have "?v \<noteq> 0 \<longleftrightarrow> (\<exists>n<64. bit ?v n)"
    by (simp only: bit_eq_iff) simp
  then have "?v \<noteq> 0 \<longleftrightarrow> nat i < 64 \<and> bit w (nat i)"
    by (simp only: b) blast
  moreover have "bit ?v 63 \<longleftrightarrow> nat i = 63 \<and> bit w (nat i)" by (subst b) auto
  moreover have "nat i < 64 \<and> nat i \<noteq> 63 \<longleftrightarrow> i < 63" using i by linarith
  ultimately have "0 <s ?v \<longleftrightarrow> i \<in> bitset w"
    using i by (simp only: signed_pos_iff bitset_def mem_Collect_eq) blast
  with i show ?thesis by (simp add: HasBit_def shl1_def)
qed

lemma HasBit_negative: "i < 0 \<Longrightarrow> HasBit w i = None"
  by (simp add: HasBit_def shl1_def)

lemma bitset_SetBit:
  assumes "0 \<le> i" "SetBit w i = Some w'"
  shows "bitset w' = (if i < 63 then insert i (bitset w) else bitset w)"
proof -
  have w': "w' = w OR push_bit (nat i) 1" using assms by (simp add: SetBit_def shl1_def)
  have "bit w' n \<longleftrightarrow> bit w n \<or> (n = nat i \<and> n < 64)" for n
    unfolding w' by (simp only: bit_or_iff bit_single)
  then have "x \<in> bitset w' \<longleftrightarrow> x \<in> bitset w \<or> (x = i \<and> i < 63)" for x
    using assms(1) by (simp only: bitset_def mem_Collect_eq) linarith
  then show ?thesis by auto
qed

lemma SetBit_total: "0 \<le> i \<Longrightarrow> \<exists>w'. SetBit w i = Some w'"
  by (simp add: SetBit_def shl1_def)

lemma bitset_0 [simp]: "bitset 0 = {}"
  by (simp add: bitset_def)

lemma GetSetBits_from_eq:
  "0 \<le> i \<Longrightarrow> GetSetBits_from m i w = filter (\<lambda>j. j \<in> bitset w) [i..i + int m - 1]"
proof (induction m arbitrary: i)
  case (Suc m)
  have "[i..i + int (Suc m) - 1] = i # [i + 1..(i + 1) + int m - 1]"
    by (subst upto.simps) (simp add: algebra_simps)
  with Suc show ?case by (simp add: HasBit_iff)
qed simp

lemma GetSetBits_filter: "GetSetBits n w = filter (\<lambda>j. j \<in> bitset w) [1..n]"
  by (cases "0 \<le> n") (simp_all add: GetSetBits_def GetSetBits_from_eq)

lemma set_GetSetBits: "set (GetSetBits n w) = bitset w \<inter> {1..n}"
  by (auto simp: GetSetBits_filter)

lemma distinct_GetSetBits [simp]: "distinct (GetSetBits n w)"
  by (simp add: GetSetBits_filter)

lemma Contains_iff [simp]: "Contains s e \<longleftrightarrow> e \<in> set s"
  by (induction s) auto

lemma ByteToInt_IntToByte [simp]: "ByteToIntValue (IntToByteValue w) = Some w"
  using Uint64_Put [of w "[]"] by (simp add: ByteToIntValue_def IntToByteValue_def)

lemma keyset_Predicate_words:
  "keyset_Predicate (IntToByteValue a) (IntToByteValue b) = Some (b AND a = b)"
  using Uint64_Put [of a "[]"] Uint64_Put [of b "[]"]
  by (simp add: keyset_Predicate_def IntToByteValue_def)

lemma word_subset_bits: "(b AND a = b) \<longleftrightarrow> (\<forall>i < 64. bit b i \<longrightarrow> bit (a :: goint) i)"
proof
  assume "b AND a = b"
  then show "\<forall>i < 64. bit b i \<longrightarrow> bit a i" by (metis bit_and_iff)
next
  assume "\<forall>i < 64. bit b i \<longrightarrow> bit a i"
  then show "b AND a = b" by (intro bit_word_eqI) (auto simp: bit_and_iff)
qed

lemma bitset_subset_iff:
  assumes "\<not> bit b 63"
  shows "b AND a = b \<longleftrightarrow> bitset b \<subseteq> bitset (a :: goint)"
proof
  assume "b AND a = b"
  then show "bitset b \<subseteq> bitset a"
    by (simp only: word_subset_bits) (auto simp: bitset_def)
next
  assume sub: "bitset b \<subseteq> bitset a"
  have "bit a i" if "i < 64" "bit b i" for i
  proof -
    have "i \<noteq> 63" using assms that by auto
    with that have "int i \<in> bitset b" by (simp add: bitset_def)
    with sub have "int i \<in> bitset a" by blast
    then show ?thesis by (simp add: bitset_def)
  qed
  then show "b AND a = b" by (simp only: word_subset_bits) blast
qed

lemma bitset_and_subset: "b AND a = b \<Longrightarrow> bitset b \<subseteq> bitset (a :: goint)"
  by (simp only: word_subset_bits) (auto simp: bitset_def)

lemma finite_bitset [simp]: "finite (bitset w)"
  by (rule finite_subset [of _ "{0..<63}"]) (auto simp: bitset_def)

section \<open>Counting bits\<close>

text \<open>Clearing the lowest bit removes one element of the set.\<close>

lemma clear_lowest_bit:
  fixes n :: goint
  assumes "n \<noteq> 0"
  obtains l where "l < 64" "bit n l" "\<And>i. bit (n AND (n - 1)) i \<longleftrightarrow> bit n i \<and> i \<noteq> l"
proof -
  have "\<exists>i<64. bit n i" using assms by (simp only: bit_eq_iff) simp
  then obtain i where "bit n i" by blast
  define l where "l = (LEAST i. bit n i)"
  have l: "bit n l" unfolding l_def by (rule LeastI) (rule \<open>bit n i\<close>)
  have low: "\<not> bit n j" if "j < l" for j using that not_less_Least unfolding l_def by blast
  have l64: "l < 64" using l bit_imp_le_length by fastforce
  define hi where "hi = drop_bit (Suc l) n"
  have hi: "bit (push_bit (Suc l) hi) j \<longleftrightarrow> Suc l \<le> j \<and> j < 64 \<and> bit n j" for j
    unfolding hi_def by (simp only: bit_push_bit_iff bit_drop_bit_eq possible_bit_word comp_apply) auto
  have "bit n j = bit (push_bit (Suc l) hi OR push_bit l 1) j" if "j < 64" for j
    using l low [of j] that by (simp only: bit_or_iff hi bit_single) (cases j l rule: linorder_cases; auto)
  then have n: "n = push_bit (Suc l) hi OR push_bit l 1"
    by (intro bit_word_eqI) simp
  have "\<not> bit (push_bit (Suc l) hi AND push_bit l 1) j" for j
    by (simp only: bit_and_iff hi bit_single) auto
  then have disj: "push_bit (Suc l) hi AND push_bit l 1 = 0"
    by (intro bit_word_eqI) simp
  have "n = push_bit (Suc l) hi + push_bit l 1"
    using n disj by (metis disjunctive_add_eq_or)
  then have n1: "n - 1 = push_bit (Suc l) hi + mask l"
    by (simp add: mask_eq_exp_minus_1 push_bit_of_1 algebra_simps)
  have "\<not> bit (push_bit (Suc l) hi AND mask l) j" for j
    by (simp only: bit_and_iff hi bit_mask_iff) auto
  then have disj2: "push_bit (Suc l) hi AND mask l = 0"
    by (intro bit_word_eqI) simp
  have n1': "n - 1 = push_bit (Suc l) hi OR mask l"
    using n1 disj2 by (metis disjunctive_add_eq_or)
  have "bit (n AND (n - 1)) i \<longleftrightarrow> bit n i \<and> i \<noteq> l" for i
    unfolding n1' using low [of i]
    by (simp only: bit_and_iff bit_or_iff hi bit_mask_iff possible_bit_word)
      (auto dest: bit_imp_le_length)
  with l l64 that show thesis by blast
qed

lemma bitset_clear_lowest:
  fixes n :: goint
  assumes "0 <s n"
  obtains l where "l \<in> bitset n" "bitset (n AND (n - 1)) = bitset n - {l}"
    "\<not> bit (n AND (n - 1)) 63"
proof -
  from assms have n: "n \<noteq> 0" "\<not> bit n 63" by (simp_all add: signed_pos_iff)
  obtain l where l: "l < 64" "bit n l" "\<And>i. bit (n AND (n - 1)) i \<longleftrightarrow> bit n i \<and> i \<noteq> l"
    using clear_lowest_bit [OF n(1)] by blast
  have "l \<noteq> 63" using l(2) n(2) by auto
  then have "int l \<in> bitset n" using l by (simp add: bitset_def)
  moreover have "bitset (n AND (n - 1)) = bitset n - {int l}"
    by (auto simp only: bitset_def l(3))
  moreover have "\<not> bit (n AND (n - 1)) 63" using n(2) by (simp only: l(3)) simp
  ultimately show thesis by (rule that)
qed

lemma bitset_empty_iff: "\<not> bit w 63 \<Longrightarrow> bitset w = {} \<longleftrightarrow> w = 0"
  using bitset_subset_iff [of w 0] by auto

lemma CountBit_loop_card:
  "\<not> bit n 63 \<Longrightarrow> CountBit_loop n c = c + int (card (bitset n))"
proof (induction n c rule: CountBit_loop.induct)
  case (1 n c)
  show ?case
  proof (cases "0 <s n")
    case True
    then obtain l where l: "l \<in> bitset n" "bitset (n AND (n - 1)) = bitset n - {l}"
      "\<not> bit (n AND (n - 1)) 63" by (rule bitset_clear_lowest)
    have "card (bitset n) = Suc (card (bitset n - {l}))"
      using l(1) by (metis card.remove finite_bitset)
    moreover have "CountBit_loop n c = CountBit_loop (n AND (n - 1)) (c + 1)"
      using True by (subst CountBit_loop.simps) (simp only: if_True)
    moreover have "\<dots> = c + 1 + int (card (bitset (n AND (n - 1))))"
      by (rule "1.IH" [OF True l(3)])
    ultimately show ?thesis by (simp only: l(2))
  next
    case False
    with 1 have "n = 0" by (simp add: signed_pos_iff)
    with False show ?thesis by (subst CountBit_loop.simps) simp
  qed
qed

lemma Union_add_spec:
  "set a = set m \<Longrightarrow> distinct a \<Longrightarrow> Union_add s a m = (a', m') \<Longrightarrow>
   set a' = set a \<union> set s \<and> set m' = set a' \<and> distinct a'"
proof (induction s a m rule: Union_add.induct)
  case (2 item s a m)
  show ?case
  proof (cases "item \<in> set m")
    case True
    with 2 show ?thesis by auto
  next
    case False
    with 2 have "set a' = set (a @ [item]) \<union> set s \<and> set m' = set a' \<and> distinct a'" by auto
    then show ?thesis by auto
  qed
qed simp

lemma Union_all_spec:
  "set a = set m \<Longrightarrow> distinct a \<Longrightarrow>
   set (Union_all args a m) = set a \<union> \<Union> (set ` set args) \<and> distinct (Union_all args a m)"
proof (induction args arbitrary: a m)
  case (Cons s args)
  obtain a' m' where "Union_add s a m = (a', m')" by fastforce
  with Cons Union_add_spec [OF Cons.prems this] show ?case by auto
qed simp

lemma Union_spec:
  assumes "\<forall>s \<in> set args. distinct s"
  shows "set (Union args) = \<Union> (set ` set args) \<and> distinct (Union args)"
proof (cases args)
  case (Cons a rest)
  with assms Union_all_spec [of a a rest] show ?thesis by (auto simp: Union_def)
qed (auto simp: Union_def)

section \<open>Properties\<close>

text \<open>
  \<open>GetSetBits\<close> lists, in increasing order and without repetition, the members between
  1 and \<open>n\<close> of the set that the bits of its argument stand for; position 0 and the sign bit
  are never listed.
\<close>

lemma GetSetBits_correct:
  "set (GetSetBits n w) = {i. 1 \<le> i \<and> i \<le> n \<and> i < 63 \<and> bit w (nat i)} \<and>
   sorted (GetSetBits n w) \<and> distinct (GetSetBits n w)"
  by (auto simp: GetSetBits_filter bitset_def intro!: sorted_wrt_filter)

text \<open>
  C31. \<open>CountBit\<close>, whose loop clears the lowest bit until the (signed) value is no longer
  positive, terminates and returns the number of elements of the set, for every mask that does
  not use the sign bit.
\<close>

theorem CountBit_correct: "\<not> bit w 63 \<Longrightarrow> CountBit w = int (card (bitset w))"
  by (simp add: CountBit_def CountBit_loop_card)

theorem CountBit_correct_witness: "CountBit 22 = 3"
proof -
  have "GetSetBits 62 22 = [1, 2, 4]" by code_simp
  then have "bitset 22 \<inter> {1..62} = {1, 2, 4}" using set_GetSetBits [of 62 22] by simp
  moreover have "bitset 22 \<subseteq> {1..62}"
  proof
    fix i assume "i \<in> bitset 22"
    moreover from this have "i \<noteq> 0" by (auto simp: bitset_def)
    ultimately show "i \<in> {1..62}" by (simp add: bitset_def)
  qed
  ultimately have "bitset 22 = {1, 2, 4}" by blast
  then show ?thesis using CountBit_correct [of 22] by simp
qed

text \<open>
  \<open>keyset.Predicate\<close> on the encodings of two masks decides inclusion of the sets they
  stand for, when the second does not use the sign bit.
\<close>

lemma keyset_Predicate_subset:
  "\<not> bit b 63 \<Longrightarrow>
   keyset_Predicate (IntToByteValue a) (IntToByteValue b) = Some (bitset b \<subseteq> bitset a)"
  by (simp only: keyset_Predicate_words bitset_subset_iff not_False_eq_True)

lemma keyset_Predicate_subset_witness:
  "keyset_Predicate (IntToByteValue 14) (IntToByteValue 6) = Some (bitset 6 \<subseteq> bitset 14)"
  by (rule keyset_Predicate_subset) simp

text \<open>
  \<open>Union\<close> of key sets without repetition has exactly the members of the key sets, each
  once, so that a dealer in several key sets contributes its share once to the derived key.
\<close>

lemma Union_correct:
  "\<forall>s \<in> set args. distinct s \<Longrightarrow>
   set (Union args) = \<Union> (set ` set args) \<and> distinct (Union args)"
  by (simp add: Union_spec)

theorem Union_correct_witness:
  "set (Union [[1, 2], [2, 3]]) = {1, 2, 3} \<and> distinct (Union [[1, 2], [2, 3]])"
proof -
  have "\<forall>s \<in> set [[1, 2], [2, 3 :: int]]. distinct s" by simp
  from Union_correct [OF this] show ?thesis by auto
qed

end
