(* ===== verification/Sha256.thy ===== *)
theory Sha256
  imports GoLib
begin

unbundle bit_operations_syntax

text \<open>
  \<open>crypto/sha256\<close> of Go's standard library: SHA-256 as FIPS 180-4 defines it, on byte lists.
  The code uses it as \<open>common.HashByte\<close> (\<open>common/adkg_shared.go\<close>), as the challenge of the
  proofs of \<open>keygen/common/aba/aba.go\<close> and as the coin of the agreement.
\<close>

definition sha_K :: "32 word list" where
  "sha_K = [
    1116352408, 1899447441, 3049323471, 3921009573, 961987163, 1508970993, 2453635748, 2870763221,
    3624381080, 310598401, 607225278, 1426881987, 1925078388, 2162078206, 2614888103, 3248222580,
    3835390401, 4022224774, 264347078, 604807628, 770255983, 1249150122, 1555081692, 1996064986,
    2554220882, 2821834349, 2952996808, 3210313671, 3336571891, 3584528711, 113926993, 338241895,
    666307205, 773529912, 1294757372, 1396182291, 1695183700, 1986661051, 2177026350, 2456956037,
    2730485921, 2820302411, 3259730800, 3345764771, 3516065817, 3600352804, 4094571909, 275423344,
    430227734, 506948616, 659060556, 883997877, 958139571, 1322822218, 1537002063, 1747873779,
    1955562222, 2024104815, 2227730452, 2361852424, 2428436474, 2756734187, 3204031479, 3329325298]"

definition sha_H0 :: "32 word list" where
  "sha_H0 = [
    1779033703, 3144134277, 1013904242, 2773480762, 1359893119, 2600822924, 528734635, 1541459225]"

definition sha_pad :: "bytes \<Rightarrow> bytes" where
  "sha_pad m =
     (let l = length m; z = (119 - l mod 64) mod 64
      in m @ [0x80] @ replicate z 0 @ PutUint64 (of_nat (8 * l)))"

definition sha_s0 :: "32 word \<Rightarrow> 32 word" where
  "sha_s0 x = word_rotr 7 x XOR word_rotr 18 x XOR drop_bit 3 x"

definition sha_s1 :: "32 word \<Rightarrow> 32 word" where
  "sha_s1 x = word_rotr 17 x XOR word_rotr 19 x XOR drop_bit 10 x"

definition sha_S0 :: "32 word \<Rightarrow> 32 word" where
  "sha_S0 x = word_rotr 2 x XOR word_rotr 13 x XOR word_rotr 22 x"

definition sha_S1 :: "32 word \<Rightarrow> 32 word" where
  "sha_S1 x = word_rotr 6 x XOR word_rotr 11 x XOR word_rotr 25 x"

definition sha_Ch :: "32 word \<Rightarrow> 32 word \<Rightarrow> 32 word \<Rightarrow> 32 word" where
  "sha_Ch x y z = (x AND y) XOR (NOT x AND z)"

definition sha_Maj :: "32 word \<Rightarrow> 32 word \<Rightarrow> 32 word \<Rightarrow> 32 word" where
  "sha_Maj x y z = (x AND y) XOR (x AND z) XOR (y AND z)"

fun sha_words :: "bytes \<Rightarrow> 32 word list" where
  "sha_words (a # b # c # d # r) =
     (push_bit 24 (ucast a) OR push_bit 16 (ucast b) OR push_bit 8 (ucast c) OR ucast d)
       # sha_words r"
| "sha_words _ = []"

text \<open>The message schedule, kept in reverse: its head is \<open>W(t - 1)\<close>.\<close>

fun sha_extend :: "nat \<Rightarrow> 32 word list \<Rightarrow> 32 word list" where
  "sha_extend 0 w = w"
| "sha_extend (Suc n) w =
     sha_extend n ((sha_s1 (w ! 1) + w ! 6 + sha_s0 (w ! 14) + w ! 15) # w)"

definition sha_schedule :: "bytes \<Rightarrow> 32 word list" where
  "sha_schedule block = rev (sha_extend 48 (rev (sha_words block)))"

fun sha_round :: "32 word list \<Rightarrow> 32 word \<times> 32 word \<Rightarrow> 32 word list" where
  "sha_round [a, b, c, d, e, f, g, h] (k, w) =
     (let t1 = h + sha_S1 e + sha_Ch e f g + k + w; t2 = sha_S0 a + sha_Maj a b c
      in [t1 + t2, a, b, c, d + t1, e, f, g])"
| "sha_round s _ = s"

definition sha_compress :: "32 word list \<Rightarrow> bytes \<Rightarrow> 32 word list" where
  "sha_compress H block =
     map2 (+) H (foldl sha_round H (zip sha_K (sha_schedule block)))"

function sha_blocks :: "32 word list \<Rightarrow> bytes \<Rightarrow> 32 word list" where
  "sha_blocks H m = (if m = [] then H else sha_blocks (sha_compress H (take 64 m)) (drop 64 m))"
  by pat_completeness auto
termination
  by (relation "measure (length \<circ> snd)") auto

declare sha_blocks.simps [simp del]

definition sha256_Sum256 :: "bytes \<Rightarrow> bytes" where
  "sha256_Sum256 m = concat (map PutUint32 (sha_blocks sha_H0 (sha_pad m)))"

text \<open>\<open>common.HashByte\<close>\<close>

definition HashByte :: "bytes \<Rightarrow> bytes" where
  "HashByte msg = sha256_Sum256 msg"

section \<open>The digest has 32 bytes\<close>

lemma length_sha_round [simp]: "length (sha_round s x) = length s"
  by (induction s x rule: sha_round.induct) (auto simp: Let_def)

lemma length_foldl_sha_round [simp]: "length (foldl sha_round s xs) = length s"
  by (induction xs arbitrary: s) auto

lemma length_sha_compress [simp]: "length (sha_compress H b) = length H"
  by (simp add: sha_compress_def)

lemma length_sha_blocks [simp]: "length (sha_blocks H m) = length H"
  by (induction H m rule: sha_blocks.induct) (subst sha_blocks.simps, simp)

lemma length_sha256 [simp]: "length (sha256_Sum256 m) = 32"
proof -
  have "length (concat (map PutUint32 ws)) = 4 * length ws" for ws
    by (induction ws) auto
  then show ?thesis by (simp add: sha256_Sum256_def sha_H0_def)
qed

end
