(* ===== verification/Externals.thy ===== *)
theory Externals
  imports Bits Sha256
begin

text \<open>
  The packages outside the repository that the protocol calls, as parameters: a record of
  operations per curve (\<open>kryptology/pkg/core/curves\<close> and \<open>kryptology/pkg/sharing\<close>), and a
  record \<open>lib\<close> with the two curves, the JSON codec, the erasure code (\<open>vivint/infectious\<close>),
  ECIES (\<open>TRON-US/go-eccrypto\<close>), Keccak-256 and the order in which Go ranges over maps.
  Each operation of the model that uses one of them takes the record as an argument.

  What the code relies on is stated as predicates on these records: \<open>curve_laws\<close> (the
  scalars are a prime field, the points a group of the same order, encodings decode),
  \<open>codec_laws\<close>, \<open>fec_laws\<close>, \<open>ecies_laws\<close> and \<open>range_laws\<close>. They state documented behaviour
  of those packages, and a theorem that needs one of them has it as a hypothesis.
\<close>

section \<open>Data shared with the packages\<close>

text \<open>\<open>infectious.Share\<close> and \<open>common.Point\<close>\<close>

record Share =
  sh_Number :: int
  sh_Data :: bytes

record Point =
  pt_X :: int
  pt_Y :: int

text \<open>\<open>tronCrypto.EciesMetadata\<close>\<close>

record EciesMetadata =
  em_Mode :: int
  em_Iv :: string
  em_EphemPublicKey :: string
  em_Mac :: string

text \<open>\<open>messages.MessageData\<close>: the dealer's commitments and one encrypted share per node.\<close>

record MessageData =
  md_Commitments :: bytes
  md_ShareMap :: "(32 word, bytes) gomap"

text \<open>
  The message structures of the protocol, one constructor per Go structure, with the fields in
  the order of the source: every one starts with the round, the kind and the curve (the key set
  init message has its data before the curve).
\<close>

datatype payload =
    AcssShare RoundID string CurveName
  | AcssPropose RoundID string CurveName bytes
  | AcssEcho RoundID string CurveName Share bytes
  | AcssReady RoundID string CurveName Share bytes
  | AcssOutput RoundID string CurveName bytes
  | KeysetInit RoundID string bytes CurveName
  | KeysetPropose RoundID string CurveName bytes
  | KeysetEcho RoundID string CurveName Share bytes
  | KeysetReady RoundID string CurveName Share bytes
  | KeysetOutput RoundID string CurveName bytes
  | AbaInit RoundID string CurveName int int
  | AbaEst1 RoundID string CurveName int int
  | AbaAux1 RoundID string CurveName int int
  | AbaAuxset RoundID string CurveName int int
  | AbaEst2 RoundID string CurveName int int
  | AbaAux2 RoundID string CurveName int int
  | AbaCoinInit RoundID string CurveName string
  | AbaCoin RoundID string CurveName bytes
  | KeyderivationInit RoundID string CurveName
  | KeyderivationShare RoundID string CurveName bytes bytes bytes
  | PubKeygen RoundID string CurveName Point

section \<open>Curves\<close>

record ('s, 'p) curve =
  c_Name :: string
  s_New :: "int \<Rightarrow> 's"
  s_Zero :: 's
  s_One :: 's
  s_Add :: "'s \<Rightarrow> 's \<Rightarrow> 's"
  s_Sub :: "'s \<Rightarrow> 's \<Rightarrow> 's"
  s_Mul :: "'s \<Rightarrow> 's \<Rightarrow> 's"
  s_Div :: "'s \<Rightarrow> 's \<Rightarrow> 's"
  s_Neg :: "'s \<Rightarrow> 's"
  s_MulAdd :: "'s \<Rightarrow> 's \<Rightarrow> 's \<Rightarrow> 's"
  s_IsZero :: "'s \<Rightarrow> bool"
  s_SetBytes :: "bytes \<Rightarrow> 's option"
  s_Bytes :: "'s \<Rightarrow> bytes"
  s_SetBigInt :: "int \<Rightarrow> 's option"
  s_BigInt :: "'s \<Rightarrow> int"
  s_Hash :: "bytes \<Rightarrow> 's"
  s_Random :: "bytes \<Rightarrow> 's"
  p_Generator :: 'p
  p_Identity :: 'p
  p_Add :: "'p \<Rightarrow> 'p \<Rightarrow> 'p"
  p_Sub :: "'p \<Rightarrow> 'p \<Rightarrow> 'p"
  p_Mul :: "'p \<Rightarrow> 's \<Rightarrow> 'p"
  p_Equal :: "'p \<Rightarrow> 'p \<Rightarrow> bool"
  p_Hash :: "bytes \<Rightarrow> 'p"
  p_Set :: "int \<Rightarrow> int \<Rightarrow> 'p option"
  p_ToAffineCompressed :: "'p \<Rightarrow> bytes"
  p_ToAffineUncompressed :: "'p \<Rightarrow> bytes"
  p_FromAffineCompressed :: "bytes \<Rightarrow> 'p option"
  poly_Init :: "'s \<Rightarrow> nat \<Rightarrow> bytes \<Rightarrow> 's list"
  poly_Evaluate :: "'s list \<Rightarrow> 's \<Rightarrow> 's"

text \<open>
  The scalars of a curve are a field: \<open>v\<close> reads a scalar as an element of it. The points are
  a cyclic group of the same prime order: \<open>d\<close> is the logarithm of a point to the base of the
  generator, an element of the same field (it exists; nothing computes it). Small integers are
  distinct in the field, and encodings have the lengths the documentation gives and decode to
  what was encoded. A polynomial initialised with a secret has the secret as its constant
  coefficient and as many coefficients as the threshold.
\<close>

definition curve_field :: "('s, 'p) curve \<Rightarrow> ('s \<Rightarrow> 'f::field) \<Rightarrow> bool" where
  "curve_field C v \<longleftrightarrow>
     (\<forall>a b. v a = v b \<longrightarrow> a = b) \<and>
     v (s_Zero C) = 0 \<and> v (s_One C) = 1 \<and>
     (\<forall>a b. v (s_Add C a b) = v a + v b) \<and>
     (\<forall>a b. v (s_Sub C a b) = v a - v b) \<and>
     (\<forall>a b. v (s_Mul C a b) = v a * v b) \<and>
     (\<forall>a b. v b \<noteq> 0 \<longrightarrow> v (s_Div C a b) = v a / v b) \<and>
     (\<forall>a. v (s_Neg C a) = - v a) \<and>
     (\<forall>a b c. v (s_MulAdd C a b c) = v a * v b + v c) \<and>
     (\<forall>a. s_IsZero C a \<longleftrightarrow> v a = 0) \<and>
     (\<forall>i. v (s_New C i) = of_int i) \<and>
     (\<forall>i. 0 < \<bar>i\<bar> \<and> \<bar>i\<bar> < 256 \<longrightarrow> (of_int i :: 'f) \<noteq> 0)"

definition curve_group :: "('s, 'p) curve \<Rightarrow> ('s \<Rightarrow> 'f::field) \<Rightarrow> ('p \<Rightarrow> 'f) \<Rightarrow> bool" where
  "curve_group C v d \<longleftrightarrow>
     (\<forall>p q. d p = d q \<longrightarrow> p = q) \<and>
     (\<forall>p q. p_Equal C p q \<longleftrightarrow> d p = d q) \<and>
     d (p_Generator C) = 1 \<and> d (p_Identity C) = 0 \<and>
     (\<forall>p q. d (p_Add C p q) = d p + d q) \<and>
     (\<forall>p q. d (p_Sub C p q) = d p - d q) \<and>
     (\<forall>p s. d (p_Mul C p s) = d p * v s)"

definition curve_codec :: "('s, 'p) curve \<Rightarrow> bool" where
  "curve_codec C \<longleftrightarrow>
     (\<forall>s. s_SetBytes C (s_Bytes C s) = Some s \<and> length (s_Bytes C s) = 32) \<and>
     (\<forall>p. p_FromAffineCompressed C (p_ToAffineCompressed C p) = Some p) \<and>
     (\<forall>p. length (p_ToAffineCompressed C p) = (if c_Name C = ''ed25519'' then 32 else 33))"

definition curve_poly :: "('s, 'p) curve \<Rightarrow> ('s \<Rightarrow> 'f::field) \<Rightarrow> bool" where
  "curve_poly C v \<longleftrightarrow>
     (\<forall>s k r. 0 < k \<longrightarrow> length (poly_Init C s k r) = k \<and> poly_Init C s k r ! 0 = s) \<and>
     (\<forall>cs x. v (poly_Evaluate C cs x) = (\<Sum>i<length cs. v (cs ! i) * v x ^ i))"

definition curve_laws :: "('s, 'p) curve \<Rightarrow> ('s \<Rightarrow> 'f::field) \<Rightarrow> ('p \<Rightarrow> 'f) \<Rightarrow> bool" where
  "curve_laws C v d \<longleftrightarrow> curve_field C v \<and> curve_group C v d \<and> curve_codec C \<and> curve_poly C v"

section \<open>The other packages\<close>

record ('s, 'p) lib =
  lib_K256 :: "('s, 'p) curve"
  lib_ED25519 :: "('s, 'p) curve"
  json_Marshal :: "payload \<Rightarrow> bytes option"
  bijson_Unmarshal :: "string \<Rightarrow> bytes \<Rightarrow> payload option"
  json_MarshalData :: "MessageData \<Rightarrow> bytes option"
  json_UnmarshalData :: "bytes \<Rightarrow> MessageData option"
  fec_New :: "int \<Rightarrow> int \<Rightarrow> bool"
  fec_Encode :: "int \<times> int \<Rightarrow> bytes \<Rightarrow> Share list option"
  fec_Decode :: "int \<times> int \<Rightarrow> Share list \<Rightarrow> bytes option"
  tron_Encrypt :: "string \<Rightarrow> bytes \<Rightarrow> bytes \<Rightarrow> (string \<times> EciesMetadata) option"
  tron_Decrypt :: "string \<Rightarrow> string \<Rightarrow> EciesMetadata \<Rightarrow> bytes option"
  tron_PublicKey :: "bytes \<Rightarrow> (bool \<Rightarrow> bytes) option"
  keccak256 :: "bytes \<Rightarrow> bytes"
  range_int :: "int list \<Rightarrow> int list"
  range_str :: "string list \<Rightarrow> string list"

text \<open>\<open>common.CurveFromName\<close>\<close>

definition CurveFromName :: "('s, 'p) lib \<Rightarrow> CurveName \<Rightarrow> ('s, 'p) curve" where
  "CurveFromName L c =
     (if c = SECP256K1 then lib_K256 L else if c = ED25519 then lib_ED25519 L else lib_K256 L)"

text \<open>The name of a message structure, the \<open>Method\<close> of the message that carries it.\<close>

fun payload_kind :: "payload \<Rightarrow> string" where
  "payload_kind (AcssShare _ _ _) = ''acss_share''"
| "payload_kind (AcssPropose _ _ _ _) = ''acss_propose''"
| "payload_kind (AcssEcho _ _ _ _ _) = ''acss_echo''"
| "payload_kind (AcssReady _ _ _ _ _) = ''acss_ready''"
| "payload_kind (AcssOutput _ _ _ _) = ''acss_output''"
| "payload_kind (KeysetInit _ _ _ _) = ''keyset_init''"
| "payload_kind (KeysetPropose _ _ _ _) = ''keyset_propose''"
| "payload_kind (KeysetEcho _ _ _ _ _) = ''keyset_echo''"
| "payload_kind (KeysetReady _ _ _ _ _) = ''keyset_ready''"
| "payload_kind (KeysetOutput _ _ _ _) = ''keyset_output''"
| "payload_kind (AbaInit _ _ _ _ _) = ''aba_init''"
| "payload_kind (AbaEst1 _ _ _ _ _) = ''aba_est1''"
| "payload_kind (AbaAux1 _ _ _ _ _) = ''aba_aux1''"
| "payload_kind (AbaAuxset _ _ _ _ _) = ''aba_auxset''"
| "payload_kind (AbaEst2 _ _ _ _ _) = ''aba_est2''"
| "payload_kind (AbaAux2 _ _ _ _ _) = ''aba_aux2''"
| "payload_kind (AbaCoinInit _ _ _ _) = ''aba_coin_init''"
| "payload_kind (AbaCoin _ _ _ _) = ''aba_coin''"
| "payload_kind (KeyderivationInit _ _ _) = ''key_derivation_init''"
| "payload_kind (KeyderivationShare _ _ _ _ _ _) = ''key_derivation_pk_share''"
| "payload_kind (PubKeygen _ _ _ _) = ''key_derivation_pubkey_gen''"

definition codec_laws :: "('s, 'p) lib \<Rightarrow> bool" where
  "codec_laws L \<longleftrightarrow>
     (\<forall>p b. json_Marshal L p = Some b \<longrightarrow> bijson_Unmarshal L (payload_kind p) b = Some p) \<and>
     (\<forall>m b. json_MarshalData L m = Some b \<longrightarrow> json_UnmarshalData L b = Some m)"

text \<open>
  The erasure code cuts a message, whose length is a multiple of the required number of shares
  \<open>k\<close>, into shares numbered 0 to \<open>n - 1\<close>; any \<open>k\<close> or more of them decode to the message.
\<close>

definition fec_laws :: "('s, 'p) lib \<Rightarrow> int \<Rightarrow> int \<Rightarrow> bool" where
  "fec_laws L k n \<longleftrightarrow>
     fec_New L k n \<and>
     (\<forall>m. m \<noteq> [] \<and> int (length m) mod k = 0 \<longrightarrow>
        (\<exists>ss. fec_Encode L (k, n) m = Some ss \<and>
              map sh_Number ss = map int [0..<nat n] \<and>
              (\<forall>rs. distinct rs \<and> set rs \<subseteq> set ss \<and> k \<le> int (length rs) \<longrightarrow>
                    fec_Decode L (k, n) rs = Some m)))"

text \<open>
  ECIES for the public key of a scalar: the ciphertext and the metadata are hexadecimal text
  of an initialisation vector of 16 bytes, a MAC of 32 bytes and an uncompressed public key,
  which has a compressed form of 33 bytes; decrypting with the scalar gives the message.
\<close>

definition ecies_laws :: "('s, 'p) lib \<Rightarrow> ('s, 'p) curve \<Rightarrow> bool" where
  "ecies_laws L C \<longleftrightarrow>
     (\<forall>priv m r. \<exists>ct iv epk mac cpk meta.
        tron_Encrypt L (hex_EncodeToString (p_ToAffineUncompressed C (p_Mul C (p_Generator C) priv))) m r =
          Some (hex_EncodeToString ct, meta) \<and>
        meta = \<lparr>em_Mode = 1, em_Iv = hex_EncodeToString iv,
                em_EphemPublicKey = hex_EncodeToString epk, em_Mac = hex_EncodeToString mac\<rparr> \<and>
        length iv = 16 \<and> length mac = 32 \<and>
        tron_PublicKey L epk = Some cpk \<and> length (cpk True) = 33 \<and> cpk False = epk \<and>
        tron_PublicKey L (cpk True) = Some cpk \<and>
        tron_Decrypt L (hex_EncodeToString (s_Bytes C priv)) (hex_EncodeToString ct) meta = Some m)"

text \<open>Ranging over a map visits every key once, in some order.\<close>

definition range_laws :: "('s, 'p) lib \<Rightarrow> bool" where
  "range_laws L \<longleftrightarrow>
     (\<forall>xs. set (range_int L xs) = set xs \<and> (distinct xs \<longrightarrow> distinct (range_int L xs))) \<and>
     (\<forall>xs. set (range_str L xs) = set xs \<and> (distinct xs \<longrightarrow> distinct (range_str L xs)))"

section \<open>The laws as rules\<close>

named_theorems curve_simps "the laws of a curve as rewrite rules on values and logarithms"

lemma curve_field_simps [curve_simps]:
  assumes "curve_field C v"
  shows "v (s_Zero C) = 0" "v (s_One C) = 1" "v (s_Add C a b) = v a + v b"
    "v (s_Sub C a b) = v a - v b" "v (s_Mul C a b) = v a * v b" "v (s_Neg C a) = - v a"
    "v (s_MulAdd C a b c) = v a * v b + v c" "s_IsZero C a \<longleftrightarrow> v a = 0"
    "v (s_New C i) = of_int i"
  using assms unfolding curve_field_def by blast+

lemma curve_Div: "curve_field C v \<Longrightarrow> v b \<noteq> 0 \<Longrightarrow> v (s_Div C a b) = v a / v b"
  unfolding curve_field_def by blast

lemma curve_value_inject: "curve_field C v \<Longrightarrow> v a = v b \<longleftrightarrow> a = b"
  unfolding curve_field_def by blast

lemma curve_small_nonzero:
  fixes v :: "'s \<Rightarrow> 'f::field"
  shows "curve_field C v \<Longrightarrow> i \<noteq> 0 \<Longrightarrow> \<bar>i\<bar> < 256 \<Longrightarrow> (of_int i :: 'f) \<noteq> 0"
  unfolding curve_field_def by auto

lemma curve_small_inject:
  fixes v :: "'s \<Rightarrow> 'f::field"
  assumes "curve_field C v" "\<bar>i - j\<bar> < 256"
  shows "(of_int i :: 'f) = of_int j \<longleftrightarrow> i = j"
  using curve_small_nonzero [OF assms(1), of "i - j"] assms(2) by auto

lemma curve_group_simps [curve_simps]:
  assumes "curve_group C v d"
  shows "p_Equal C p q \<longleftrightarrow> d p = d q" "d (p_Generator C) = 1" "d (p_Identity C) = 0"
    "d (p_Add C p q) = d p + d q" "d (p_Sub C p q) = d p - d q" "d (p_Mul C p s) = d p * v s"
  using assms unfolding curve_group_def by blast+

lemma curve_log_inject: "curve_group C v d \<Longrightarrow> d p = d q \<longleftrightarrow> p = q"
  unfolding curve_group_def by blast

lemma curve_codec_simps [curve_simps]:
  assumes "curve_codec C"
  shows "s_SetBytes C (s_Bytes C s) = Some s" "length (s_Bytes C s) = 32"
    "p_FromAffineCompressed C (p_ToAffineCompressed C p) = Some p"
    "length (p_ToAffineCompressed C p) = (if c_Name C = ''ed25519'' then 32 else 33)"
  using assms unfolding curve_codec_def by blast+

lemma curve_poly_simps [curve_simps]:
  assumes "curve_poly C v"
  shows "0 < k \<Longrightarrow> length (poly_Init C s k r) = k" "0 < k \<Longrightarrow> poly_Init C s k r ! 0 = s"
    "v (poly_Evaluate C cs x) = (\<Sum>i<length cs. v (cs ! i) * v x ^ i)"
  using assms unfolding curve_poly_def by blast+

lemma curve_laws_parts:
  assumes "curve_laws C v d"
  shows "curve_field C v" "curve_group C v d" "curve_codec C" "curve_poly C v"
  using assms unfolding curve_laws_def by blast+

lemma codec_unmarshal:
  "codec_laws L \<Longrightarrow> json_Marshal L p = Some b \<Longrightarrow> bijson_Unmarshal L (payload_kind p) b = Some p"
  unfolding codec_laws_def by blast

lemma codec_unmarshal_data:
  "codec_laws L \<Longrightarrow> json_MarshalData L m = Some b \<Longrightarrow> json_UnmarshalData L b = Some m"
  unfolding codec_laws_def by blast

lemma fec_code:
  "fec_laws L k n \<Longrightarrow> m \<noteq> [] \<Longrightarrow> int (length m) mod k = 0 \<Longrightarrow>
   \<exists>ss. fec_Encode L (k, n) m = Some ss \<and> map sh_Number ss = map int [0..<nat n] \<and>
     (\<forall>rs. distinct rs \<and> set rs \<subseteq> set ss \<and> k \<le> int (length rs) \<longrightarrow>
       fec_Decode L (k, n) rs = Some m)"
  unfolding fec_laws_def by simp

lemma range_int_laws:
  "range_laws L \<Longrightarrow> set (range_int L xs) = set xs"
  "range_laws L \<Longrightarrow> distinct xs \<Longrightarrow> distinct (range_int L xs)"
  unfolding range_laws_def by blast+

lemma range_str_laws:
  "range_laws L \<Longrightarrow> set (range_str L xs) = set xs"
  "range_laws L \<Longrightarrow> distinct xs \<Longrightarrow> distinct (range_str L xs)"
  unfolding range_laws_def by blast+

end
