(* ===== verification/Lagrange.thy ===== *)
theory Lagrange
  imports Complex_Main
begin

text \<open>
  Interpolation in a field, independent of the program: a polynomial function of degree below
  \<open>k\<close> that vanishes at \<open>k\<close> points vanishes everywhere, and so its value at 0 is the sum of its
  values at \<open>k\<close> points weighted with the Lagrange coefficients at 0. Fields may be finite, so
  everything is about functions, not about coefficients.
\<close>

definition poly_fn :: "nat \<Rightarrow> ('f::field \<Rightarrow> 'f) \<Rightarrow> bool" where
  "poly_fn k f \<longleftrightarrow> (\<exists>c. \<forall>x. f x = (\<Sum>i<k. c i * x ^ i))"

lemma poly_fnI: "(\<And>x. f x = (\<Sum>i<k. c i * x ^ i)) \<Longrightarrow> poly_fn k f"
  unfolding poly_fn_def by blast

lemma poly_fn_mono:
  assumes "poly_fn k f" "k \<le> m"
  shows "poly_fn m f"
proof -
  from assms(1) obtain c where c: "\<And>x. f x = (\<Sum>i<k. c i * x ^ i)"
    unfolding poly_fn_def by blast
  have "(\<Sum>i<m. (if i < k then c i else 0) * x ^ i) = (\<Sum>i<k. c i * x ^ i)" for x
  proof -
    have "(\<Sum>i<m. (if i < k then c i else 0) * x ^ i) =
        (\<Sum>i<k. (if i < k then c i else 0) * x ^ i)"
      by (rule sum.mono_neutral_right) (use assms(2) in auto)
    then show ?thesis by simp
  qed
  with c show ?thesis by (intro poly_fnI [where c = "\<lambda>i. if i < k then c i else 0"]) simp
qed

lemma poly_fn_scale:
  assumes "poly_fn k f"
  shows "poly_fn k (\<lambda>x. a * f x)"
proof -
  from assms obtain c where "\<And>x. f x = (\<Sum>i<k. c i * x ^ i)" unfolding poly_fn_def by blast
  then show ?thesis
    by (intro poly_fnI [where c = "\<lambda>i. a * c i"]) (simp add: sum_distrib_left mult.assoc)
qed

lemma poly_fn_add:
  assumes "poly_fn k f" "poly_fn k g"
  shows "poly_fn k (\<lambda>x. f x + g x)"
proof -
  from assms obtain c e where "\<And>x. f x = (\<Sum>i<k. c i * x ^ i)" "\<And>x. g x = (\<Sum>i<k. e i * x ^ i)"
    unfolding poly_fn_def by blast
  then show ?thesis
    by (intro poly_fnI [where c = "\<lambda>i. c i + e i"]) (simp add: sum.distrib distrib_right)
qed

lemma poly_fn_zero: "poly_fn k (\<lambda>x. 0)"
  by (rule poly_fnI [where c = "\<lambda>_. 0"]) simp

lemma poly_fn_sum: "(\<And>a. a \<in> A \<Longrightarrow> poly_fn k (f a)) \<Longrightarrow> poly_fn k (\<lambda>x. \<Sum>a\<in>A. f a x)"
  by (induction A rule: infinite_finite_induct) (auto intro: poly_fn_zero poly_fn_add)

lemma poly_fn_diff: "poly_fn k f \<Longrightarrow> poly_fn k g \<Longrightarrow> poly_fn k (\<lambda>x. f x - g x)"
  using poly_fn_add [of k f "\<lambda>x. - 1 * g x"] poly_fn_scale [of k g "- 1"] by simp

lemma poly_fn_times_x:
  assumes "poly_fn k f"
  shows "poly_fn (Suc k) (\<lambda>x. x * f x)"
proof -
  from assms obtain c where c: "\<And>x. f x = (\<Sum>i<k. c i * x ^ i)" unfolding poly_fn_def by blast
  show ?thesis
    by (rule poly_fnI [where c = "\<lambda>i. case i of 0 \<Rightarrow> 0 | Suc j \<Rightarrow> c j"])
      (simp add: c sum.lessThan_Suc_shift sum_distrib_left algebra_simps del: sum.lessThan_Suc)
qed

lemma poly_fn_linear_times:
  assumes "poly_fn k f"
  shows "poly_fn (Suc k) (\<lambda>x. (x - a) * f x)"
proof -
  have "poly_fn (Suc k) (\<lambda>x. x * f x - a * f x)"
    using assms by (intro poly_fn_diff poly_fn_times_x poly_fn_mono [OF poly_fn_scale]) auto
  then show ?thesis by (simp add: algebra_simps)
qed

lemma poly_fn_prod: "finite S \<Longrightarrow> poly_fn (Suc (card S)) (\<lambda>x. \<Prod>a\<in>S. x - a)"
proof (induction S rule: finite_induct)
  case empty
  show ?case by (rule poly_fnI [where c = "\<lambda>_. 1"]) simp
next
  case (insert a S)
  then show ?case using poly_fn_linear_times [of "Suc (card S)" _ a] by simp
qed

text \<open>Too many roots.\<close>

lemma poly_fn_roots:
  assumes "poly_fn k f" "finite R" "card R = k" "\<And>x. x \<in> R \<Longrightarrow> f x = 0"
  shows "f x = 0"
  using assms
proof (induction k arbitrary: f R x)
  case 0
  then show ?case by (auto simp: poly_fn_def)
next
  case (Suc k)
  then obtain a where a: "a \<in> R" by (metis card.empty equals0I nat.distinct(1))
  from Suc.prems(1) obtain c where c: "\<And>x. f x = (\<Sum>i\<le>k. c i * x ^ i)"
    by (auto simp: poly_fn_def lessThan_Suc_atMost)
  obtain b where b: "\<And>z. (\<Sum>i\<le>k. c i * z ^ i) =
      (z - a) * (\<Sum>i<k. b i * z ^ i) + (\<Sum>i\<le>k. c i * a ^ i)"
    using polyfun_linear_factor [where c = c and n = k and a = a] by blast
  let ?g = "\<lambda>z. \<Sum>i<k. b i * z ^ i"
  have f: "f z = (z - a) * ?g z" for z
    using b [of z] c [of z] c [of a] Suc.prems(4) [OF a] by simp
  have "?g z = 0" for z
  proof (rule Suc.IH [where f = ?g and R = "R - {a}"])
    show "poly_fn k ?g" by (rule poly_fnI) (rule refl)
    show "finite (R - {a})" "card (R - {a}) = k" using Suc.prems(2,3) a by auto
    show "?g y = 0" if "y \<in> R - {a}" for y
      using f [of y] Suc.prems(4) [of y] that by simp
  qed
  then show ?case by (simp add: f)
qed

text \<open>The Lagrange coefficient at 0 of the point \<open>x\<close> among the points \<open>X\<close>.\<close>

definition lagrange0 :: "'f::field set \<Rightarrow> 'f \<Rightarrow> 'f" where
  "lagrange0 X x = (\<Prod>y\<in>X - {x}. y) / (\<Prod>y\<in>X - {x}. y - x)"

lemma lagrange_at_0:
  fixes f :: "'f::field \<Rightarrow> 'f"
  assumes f: "poly_fn k f" and X: "finite X" "k \<le> card X"
  shows "(\<Sum>x\<in>X. f x * lagrange0 X x) = f 0"
proof -
  let ?b = "\<lambda>x z. (\<Prod>y\<in>X - {x}. z - y) / (\<Prod>y\<in>X - {x}. x - y)"
  let ?h = "\<lambda>z. (\<Sum>x\<in>X. f x * ?b x z) - f z"
  have fb: "poly_fn (card X) (\<lambda>z. f x * ?b x z)" if "x \<in> X" for x
  proof -
    have "poly_fn (card X) (\<lambda>z. \<Prod>y\<in>X - {x}. z - y)"
      using poly_fn_prod [of "X - {x}"] X(1) that card_Suc_Diff1 [OF X(1) that] by simp
    then have "poly_fn (card X) (\<lambda>z. f x / (\<Prod>y\<in>X - {x}. x - y) * (\<Prod>y\<in>X - {x}. z - y))"
      by (rule poly_fn_scale)
    then show ?thesis by simp
  qed
  have h: "poly_fn (card X) ?h"
    by (intro poly_fn_diff poly_fn_sum fb poly_fn_mono [OF f X(2)])
  have root: "?h z = 0" if "z \<in> X" for z
  proof -
    have nz: "(\<Prod>y\<in>X - {z}. z - y) \<noteq> 0" using X(1) by (simp add: prod_zero_iff)
    have "f x * ?b x z = (if x = z then f z else 0)" if "x \<in> X" for x
      using nz \<open>z \<in> X\<close> X(1) by (cases "x = z") (auto simp: prod_zero_iff)
    then have "(\<Sum>x\<in>X. f x * ?b x z) = (\<Sum>x\<in>X. if x = z then f z else 0)"
      by (intro sum.cong) auto
    then show ?thesis using \<open>z \<in> X\<close> X(1) by simp
  qed
  have "?h 0 = 0" by (rule poly_fn_roots [OF h X(1) refl root])
  moreover have "?b x 0 = lagrange0 X x" for x
  proof -
    have "(\<Prod>y\<in>X - {x}. 0 - y) / (\<Prod>y\<in>X - {x}. x - y) = (\<Prod>y\<in>X - {x}. (- y) / (x - y))"
      by (simp only: prod_dividef diff_0)
    also have "\<dots> = (\<Prod>y\<in>X - {x}. y / (y - x))"
    proof (rule prod.cong)
      fix y
      show "- y / (x - y) = y / (y - x)"
        using minus_divide_divide [of y "y - x"] by simp
    qed (rule refl)
    finally show ?thesis by (simp add: lagrange0_def prod_dividef)
  qed
  ultimately have "(\<Sum>x\<in>X. f x * lagrange0 X x) - f 0 = 0" by (simp only:)
  then show ?thesis by simp
qed

end
