(* ===== verification/Sharing.thy ===== *)
theory Sharing
  imports Externals Lagrange
begin

text \<open>
  Secret sharing: \<open>common/sharing/shared.go\<close> (base points), \<open>shamir.go\<close>, \<open>feldman.go\<close> and
  the functions of \<open>keygen/common/aba/aba.go\<close> that the coin and the key derivation use
  (challenge hash, Lagrange coefficients, a node's public key share from the dealers'
  commitments). The lemmas read every loop as a sum or a product in the scalar field, and show
  that shares combine to the secret, that Feldman verification accepts exactly the shares on
  the committed polynomial and that the derived public key share is the commitment of the sum
  of the node's shares.
\<close>

section \<open>Base points\<close>

definition k256Scalar :: string where
  "k256Scalar = ''6c47fa13c92d8b47d1579f112657c22ddd0c3a6ed1fb56c8fc80a086477bf89c''"

definition ed25519Scalar :: string where
  "ed25519Scalar = ''19d7725aab29dab57a2124400cb2ca69c9830f691104d1471b8cb0759cd17d1''"

definition getFixedScalar :: "('s, 'p) curve \<Rightarrow> 's err" where
  "getFixedScalar c =
     (if c_Name c = ''secp256k1'' then
        (case big_SetString k256Scalar 16 of
           None \<Rightarrow> Inl ''invalid hex for scalar''
         | Some b2 \<Rightarrow> (case s_SetBigInt c b2 of None \<Rightarrow> Inl ''SetBigInt'' | Some s2 \<Rightarrow> Inr s2))
      else if c_Name c = ''ed25519'' then
        (case big_SetString ed25519Scalar 16 of
           None \<Rightarrow> Inl ''invalid hex for scalar''
         | Some b2 \<Rightarrow> (case s_SetBigInt c b2 of None \<Rightarrow> Inl ''SetBigInt'' | Some s2 \<Rightarrow> Inr s2))
      else Inl ''Invalid curve'')"

text \<open>
  \<open>sharing.CurveParams\<close>: the base points \<open>g\<close> (the generator times a fixed scalar) and
  \<open>h\<close> (the generator). An unknown name dereferences a nil curve; the nil points of a failed
  conversion panic at their first use, so both are \<open>None\<close>.
\<close>

definition CurveParams :: "('s, 'p) lib \<Rightarrow> string \<Rightarrow> ('p \<times> 'p) go" where
  "CurveParams L curveName =
     (if curveName = ''secp256k1'' \<or> curveName = ''ed25519'' then
        let c = (if curveName = ''secp256k1'' then lib_K256 L else lib_ED25519 L) in
        (case getFixedScalar c of
           Inl e \<Rightarrow> None
         | Inr scalar \<Rightarrow> Some (p_Mul c (p_Generator c) scalar, p_Generator c))
      else None)"

section \<open>Shamir shares\<close>

record ShamirShare =
  ss_Id :: "32 word"
  ss_Value :: bytes

definition ShamirShare_Validate :: "('s, 'p) curve \<Rightarrow> ShamirShare \<Rightarrow> unit err" where
  "ShamirShare_Validate c ss =
     (if ss_Id ss = 0 then Inl ''invalid identifier''
      else
        case s_SetBytes c (ss_Value ss) of
          None \<Rightarrow> Inl ''SetBytes''
        | Some sc \<Rightarrow> if s_IsZero c sc then Inl ''invalid share'' else Inr ())"

definition ShamirShare_Bytes :: "ShamirShare \<Rightarrow> bytes" where
  "ShamirShare_Bytes ss = PutUint32 (ss_Id ss) @ ss_Value ss"

record ('s, 'p) Shamir =
  sm_threshold :: "32 word"
  sm_limit :: "32 word"
  sm_curve :: "('s, 'p) curve"

definition NewShamir ::
  "32 word \<Rightarrow> 32 word \<Rightarrow> ('s, 'p) curve option \<Rightarrow> ('s, 'p) Shamir err" where
  "NewShamir threshold limit curve =
     (if limit < threshold then Inl ''limit cannot be less than threshold''
      else if threshold < 2 then Inl ''threshold cannot be less than 2''
      else if limit > 255 then Inl ''cannot exceed 255 shares''
      else
        case curve of
          None \<Rightarrow> Inl ''invalid curve''
        | Some c \<Rightarrow> Inr \<lparr>sm_threshold = threshold, sm_limit = limit, sm_curve = c\<rparr>)"

text \<open>The polynomial and its values at 1, 2, ..., limit.\<close>

definition polyShares :: "('s, 'p) curve \<Rightarrow> 's list \<Rightarrow> nat \<Rightarrow> ShamirShare list" where
  "polyShares c poly limit =
     map (\<lambda>i. \<lparr>ss_Id = of_nat (i + 1),
               ss_Value = s_Bytes c (poly_Evaluate c poly (s_New c (int i + 1)))\<rparr>) [0..<limit]"

definition Shamir_getPolyAndShares ::
  "('s, 'p) Shamir \<Rightarrow> 's \<Rightarrow> bytes \<Rightarrow> ShamirShare list \<times> 's list" where
  "Shamir_getPolyAndShares s secret reader =
     (let poly = poly_Init (sm_curve s) secret (unat (sm_threshold s)) reader
      in (polyShares (sm_curve s) poly (unat (sm_limit s)), poly))"

definition Shamir_Split :: "('s, 'p) Shamir \<Rightarrow> 's \<Rightarrow> bytes \<Rightarrow> ShamirShare list err" where
  "Shamir_Split s secret reader =
     (if s_IsZero (sm_curve s) secret then Inl ''invalid secret''
      else Inr (fst (Shamir_getPolyAndShares s secret reader)))"

section \<open>Lagrange coefficients and interpolation\<close>

text \<open>
  The inner loop of all four interpolations: numerator and denominator of the coefficient of
  the point \<open>xi\<close> with key \<open>i\<close> over the points \<open>xs\<close>, skipping the key \<open>i\<close>.
\<close>

fun lagrange_terms :: "('s, 'p) curve \<Rightarrow> 'k \<Rightarrow> 's \<Rightarrow> ('k \<times> 's) list \<Rightarrow> 's \<times> 's \<Rightarrow> 's \<times> 's" where
  "lagrange_terms c i xi [] (num, den) = (num, den)"
| "lagrange_terms c i xi ((j, xj) # xs) (num, den) =
     (if i = j then lagrange_terms c i xi xs (num, den)
      else lagrange_terms c i xi xs (s_Mul c num xj, s_Mul c den (s_Sub c xj xi)))"

fun lagrange_loop ::
  "('s, 'p) curve \<Rightarrow> ('k \<times> 's) list \<Rightarrow> ('k \<times> 's) list \<Rightarrow> ('k, 's) gomap \<Rightarrow> ('k, 's) gomap err" where
  "lagrange_loop c xs [] result = Inr result"
| "lagrange_loop c xs ((i, xi) # rest) result =
     (let (num, den) = lagrange_terms c i xi xs (s_One c, s_One c) in
      if s_IsZero c den then Inl ''divide by zero''
      else lagrange_loop c xs rest (m_set result i (s_Div c num den)))"

text \<open>
  \<open>aba.LagrangeCoeffs\<close>: the points are a map from the identities to their scalars, ranged over
  in the order \<open>ord\<close> gives.
\<close>

definition LagrangeCoeffs ::
  "(int list \<Rightarrow> int list) \<Rightarrow> int list \<Rightarrow> ('s, 'p) curve \<Rightarrow> (int, 's) gomap err" where
  "LagrangeCoeffs ord identities c =
     (let xs = map (\<lambda>xi. (xi, s_New c xi)) (ord (remdups identities))
      in lagrange_loop c xs xs [])"

definition Shamir_LagrangeCoeffs ::
  "(32 word list \<Rightarrow> 32 word list) \<Rightarrow> ('s, 'p) Shamir \<Rightarrow> 32 word list \<Rightarrow> (32 word, 's) gomap err" where
  "Shamir_LagrangeCoeffs ord s identities =
     (let xs = map (\<lambda>xi. (xi, s_New (sm_curve s) (uint xi))) (ord (remdups identities))
      in lagrange_loop (sm_curve s) xs xs [])"

text \<open>\<open>interpolate\<close> and \<open>interpolatePoint\<close> differ in the type of the values.\<close>

fun interpolate_loop ::
  "('s, 'p) curve \<Rightarrow> (nat \<times> 's) list \<Rightarrow> (nat \<times> 's \<times> 's) list \<Rightarrow> 's \<Rightarrow> 's err" where
  "interpolate_loop c xs [] result = Inr result"
| "interpolate_loop c xs ((i, xi, yi) # rest) result =
     (let (num, den) = lagrange_terms c i xi xs (s_One c, s_One c) in
      if s_IsZero c den then Inl ''divide by zero''
      else interpolate_loop c xs rest (s_Add c result (s_Mul c yi (s_Div c num den))))"

definition interpolate :: "('s, 'p) curve \<Rightarrow> 's list \<Rightarrow> 's list \<Rightarrow> 's err" where
  "interpolate c xs ys =
     interpolate_loop c (enumerate 0 xs) (enumerate 0 (zip xs ys)) (s_Zero c)"

fun interpolatePoint_loop ::
  "('s, 'p) curve \<Rightarrow> (nat \<times> 's) list \<Rightarrow> (nat \<times> 's \<times> 'p) list \<Rightarrow> 'p \<Rightarrow> 'p err" where
  "interpolatePoint_loop c xs [] result = Inr result"
| "interpolatePoint_loop c xs ((i, xi, yi) # rest) result =
     (let (num, den) = lagrange_terms c i xi xs (s_One c, s_One c) in
      if s_IsZero c den then Inl ''divide by zero''
      else interpolatePoint_loop c xs rest (p_Add c result (p_Mul c yi (s_Div c num den))))"

definition interpolatePoint :: "('s, 'p) curve \<Rightarrow> 's list \<Rightarrow> 'p list \<Rightarrow> 'p err" where
  "interpolatePoint c xs ys =
     interpolatePoint_loop c (enumerate 0 xs) (enumerate 0 (zip xs ys)) (p_Identity c)"

text \<open>The loop of \<open>Combine\<close> and \<open>CombinePoints\<close> that validates the shares and reads them.\<close>

fun combine_loop ::
  "('s, 'p) Shamir \<Rightarrow> ShamirShare list \<Rightarrow> 32 word list \<Rightarrow> ('s \<times> 's) list \<Rightarrow> ('s \<times> 's) list err" where
  "combine_loop s [] dups acc = Inr (rev acc)"
| "combine_loop s (share # shares) dups acc =
     (case ShamirShare_Validate (sm_curve s) share of
        Inl e \<Rightarrow> Inl e
      | Inr _ \<Rightarrow>
          if ss_Id share > sm_limit s then Inl ''invalid share identifier''
          else if ss_Id share \<in> set dups then Inl ''duplicate share''
          else
            case s_SetBytes (sm_curve s) (ss_Value share) of
              None \<Rightarrow> Inl ''SetBytes''
            | Some y \<Rightarrow>
                combine_loop s shares (ss_Id share # dups)
                  ((s_New (sm_curve s) (uint (ss_Id share)), y) # acc))"

definition Shamir_Combine :: "('s, 'p) Shamir \<Rightarrow> ShamirShare list \<Rightarrow> 's err" where
  "Shamir_Combine s shares =
     (if int (length shares) < uint (sm_threshold s) then Inl ''invalid number of shares''
      else
        case combine_loop s shares [] [] of
          Inl e \<Rightarrow> Inl e
        | Inr pts \<Rightarrow> interpolate (sm_curve s) (map fst pts) (map snd pts))"

definition Shamir_CombinePoints :: "('s, 'p) Shamir \<Rightarrow> ShamirShare list \<Rightarrow> 'p err" where
  "Shamir_CombinePoints s shares =
     (if int (length shares) < uint (sm_threshold s) then Inl ''invalid number of shares''
      else
        case combine_loop s shares [] [] of
          Inl e \<Rightarrow> Inl e
        | Inr pts \<Rightarrow>
            interpolatePoint (sm_curve s) (map fst pts)
              (map (\<lambda>y. p_Mul (sm_curve s) (p_Generator (sm_curve s)) y) (map snd pts)))"

section \<open>Feldman commitments\<close>

text \<open>
  The loop \<open>for j := 1; j < k; j++\<close> that evaluates committed coefficients in the exponent:
  \<open>i\<close> is the power of \<open>x\<close>, \<open>rhs\<close> the sum so far.
\<close>

fun commit_loop :: "('s, 'p) curve \<Rightarrow> 's \<Rightarrow> 'p list \<Rightarrow> int list \<Rightarrow> 's \<Rightarrow> 'p \<Rightarrow> 'p go" where
  "commit_loop c x commits [] i rhs = Some rhs"
| "commit_loop c x commits (j # js) i rhs = do {
     cj \<leftarrow> go_index commits j;
     let i' = s_Mul c i x;
     commit_loop c x commits js i' (p_Add c rhs (p_Mul c cj i')) }"

text \<open>
  \<open>FeldmanVerifier.Verify\<close>; \<open>c\<close> is the curve of the commitments, which the source looks up by
  the name the points carry.
\<close>

definition Feldman_Verify ::
  "('s, 'p) lib \<Rightarrow> ('s, 'p) curve \<Rightarrow> 'p list \<Rightarrow> ShamirShare \<Rightarrow> unit err go" where
  "Feldman_Verify L c commits share = do {
     c0 \<leftarrow> go_index commits 0;
     case ShamirShare_Validate c share of
       Inl e \<Rightarrow> Some (Inl e)
     | Inr _ \<Rightarrow> do {
         rhs \<leftarrow> commit_loop c (s_New c (uint (ss_Id share))) commits
                  [1..int (length commits) - 1] (s_One c) c0;
         sc \<leftarrow> s_SetBytes c (ss_Value share);
         (base, h) \<leftarrow> CurveParams L (c_Name c);
         let lhs = p_Mul c base sc;
         Some (if p_Equal c lhs rhs then Inr () else Inl ''not equal'') } }"

record ('s, 'p) Feldman =
  fm_Threshold :: "32 word"
  fm_Limit :: "32 word"
  fm_Curve :: "('s, 'p) curve"

definition NewFeldman ::
  "32 word \<Rightarrow> 32 word \<Rightarrow> ('s, 'p) curve option \<Rightarrow> ('s, 'p) Feldman err" where
  "NewFeldman threshold limit curve =
     (if limit < threshold then Inl ''limit cannot be less than threshold''
      else if threshold < 2 then Inl ''threshold cannot be less than 2''
      else if limit > 255 then Inl ''cannot exceed 255 shares''
      else
        case curve of
          None \<Rightarrow> Inl ''invalid curve''
        | Some c \<Rightarrow> Inr \<lparr>fm_Threshold = threshold, fm_Limit = limit, fm_Curve = c\<rparr>)"

definition Feldman_shamir :: "('s, 'p) Feldman \<Rightarrow> ('s, 'p) Shamir" where
  "Feldman_shamir f =
     \<lparr>sm_threshold = fm_Threshold f, sm_limit = fm_Limit f, sm_curve = fm_Curve f\<rparr>"

text \<open>Commitments to the first \<open>t\<close> coefficients.\<close>

definition commitPoly :: "('s, 'p) curve \<Rightarrow> 'p \<Rightarrow> 's list \<Rightarrow> nat \<Rightarrow> 'p list" where
  "commitPoly c base poly t = map (\<lambda>i. p_Mul c base (poly ! i)) [0..<t]"

definition Feldman_Split ::
  "('s, 'p) lib \<Rightarrow> ('s, 'p) Feldman \<Rightarrow> 's \<Rightarrow> bytes \<Rightarrow> ('p list \<times> ShamirShare list) err go" where
  "Feldman_Split L f secret reader =
     (if s_IsZero (fm_Curve f) secret then Some (Inl ''invalid secret'')
      else do {
        let (shares, poly) = Shamir_getPolyAndShares (Feldman_shamir f) secret reader;
        (base, h) \<leftarrow> CurveParams L (c_Name (fm_Curve f));
        Some (Inr (commitPoly (fm_Curve f) base poly (unat (fm_Threshold f)), shares)) })"

definition Feldman_LagrangeCoeffs ::
  "(32 word list \<Rightarrow> 32 word list) \<Rightarrow> ('s, 'p) Feldman \<Rightarrow> (32 word, ShamirShare) gomap \<Rightarrow>
   (32 word, 's) gomap err" where
  "Feldman_LagrangeCoeffs ord f shares =
     Shamir_LagrangeCoeffs ord (Feldman_shamir f) (map (ss_Id \<circ> snd) shares)"

definition Feldman_Combine :: "('s, 'p) Feldman \<Rightarrow> ShamirShare list \<Rightarrow> 's err" where
  "Feldman_Combine f shares = Shamir_Combine (Feldman_shamir f) shares"

definition Feldman_CombinePoints :: "('s, 'p) Feldman \<Rightarrow> ShamirShare list \<Rightarrow> 'p err" where
  "Feldman_CombinePoints f shares = Shamir_CombinePoints (Feldman_shamir f) shares"

section \<open>The functions of the agreement\<close>

text \<open>\<open>aba.Hash\<close>: the challenge of the equality-of-logarithms proofs.\<close>

definition aba_Hash :: "'p \<Rightarrow> 'p \<Rightarrow> 'p \<Rightarrow> 'p \<Rightarrow> 'p \<Rightarrow> 'p \<Rightarrow> ('s, 'p) curve \<Rightarrow> 's" where
  "aba_Hash g h gTilde hTilde gI gITilde c =
     s_Hash c (sha256_Sum256
       (p_ToAffineCompressed c g @ p_ToAffineCompressed c gI @ p_ToAffineCompressed c h @
        p_ToAffineCompressed c gTilde @ p_ToAffineCompressed c gITilde @
        p_ToAffineCompressed c hTilde))"

text \<open>
  \<open>aba.DerivePublicKey\<close>. Indexing the commitments of a dealer that has none panics. For an
  empty list of dealers the source returns a nil point, which panics at its first use; the
  callers return before on an empty list.
\<close>

definition derive_dealer ::
  "('s, 'p) curve \<Rightarrow> 's \<Rightarrow> int \<Rightarrow> (int, 'p list) gomap \<Rightarrow> int \<Rightarrow> 'p go" where
  "derive_dealer c x k commitment l2 = do {
     let commits = m_zero [] commitment l2;
     c0 \<leftarrow> go_index commits 0;
     commit_loop c x commits [1..k - 1] (s_One c) c0 }"

fun derive_loop ::
  "('s, 'p) curve \<Rightarrow> 's \<Rightarrow> int \<Rightarrow> (int, 'p list) gomap \<Rightarrow> int list \<Rightarrow> 'p option \<Rightarrow> 'p go" where
  "derive_loop c x k commitment [] gI = gI"
| "derive_loop c x k commitment (l2 # Tj) gI = do {
     rhs \<leftarrow> derive_dealer c x k commitment l2;
     derive_loop c x k commitment Tj
       (Some (case gI of None \<Rightarrow> rhs | Some g \<Rightarrow> p_Add c g rhs)) }"

definition DerivePublicKey ::
  "int \<Rightarrow> int \<Rightarrow> ('s, 'p) curve \<Rightarrow> int list \<Rightarrow> (int, 'p list) gomap \<Rightarrow> 'p go" where
  "DerivePublicKey nodeId k c Tj commitment =
     derive_loop c (s_New c nodeId) k commitment Tj None"

section \<open>The loops as products and sums\<close>

text \<open>Points with distinct keys and distinct values.\<close>

definition good_points :: "('s \<Rightarrow> 'f) \<Rightarrow> ('k \<times> 's) list \<Rightarrow> bool" where
  "good_points v xs \<longleftrightarrow> distinct (map fst xs) \<and> distinct (map (v \<circ> snd) xs)"

lemma lagrange_terms_prod:
  assumes "curve_field c v" "lagrange_terms c i xi xs (num, den) = (num', den')"
  shows "v num' = v num * (\<Prod>(j, xj)\<leftarrow>filter (\<lambda>(j, xj). j \<noteq> i) xs. v xj) \<and>
    v den' = v den * (\<Prod>(j, xj)\<leftarrow>filter (\<lambda>(j, xj). j \<noteq> i) xs. v xj - v xi)"
  using assms(2)
proof (induction xs arbitrary: num den)
  case (Cons p xs)
  then show ?case
    by (cases p) (fastforce simp: curve_field_simps [OF assms(1)] mult.assoc split: if_splits)
qed simp

lemma prod_other_points:
  assumes "good_points v xs" "(i, xi) \<in> set xs"
  shows "(\<Prod>(j, xj)\<leftarrow>filter (\<lambda>(j, xj). j \<noteq> i) xs. h (v xj)) =
    (\<Prod>y \<in> v ` snd ` set xs - {v xi}. h y)"
proof -
  let ?ys = "filter (\<lambda>(j, xj). j \<noteq> i) xs"
  have dist: "distinct (map (v \<circ> snd) ?ys)"
    using assms(1) by (auto simp: good_points_def distinct_map_filter)
  have "(j \<noteq> i) = (v xj \<noteq> v xi)" if "(j, xj) \<in> set xs" for j xj
  proof -
    have "(j, xj) = (i, xi)" if "v xj = v xi"
      using assms \<open>(j, xj) \<in> set xs\<close> that inj_onD [of "v \<circ> snd" "set xs" "(j, xj)" "(i, xi)"]
      by (simp add: good_points_def distinct_map)
    moreover have "(j, xj) = (i, xi)" if "j = i"
      using assms \<open>(j, xj) \<in> set xs\<close> that unfolding good_points_def
      by (auto dest: eq_key_imp_eq_value)
    ultimately show ?thesis by auto
  qed
  then have "set (map (v \<circ> snd) ?ys) = v ` snd ` set xs - {v xi}" by force
  moreover have "map (\<lambda>(j, xj). h (v xj)) ?ys = map h (map (v \<circ> snd) ?ys)"
    by (simp add: case_prod_beta)
  ultimately show ?thesis using prod.distinct_set_conv_list [OF dist, of h] by (simp only:)
qed

lemma lagrange_terms_lagrange0:
  fixes v :: "'s \<Rightarrow> 'f::field"
  assumes "curve_field c v" "good_points v xs" "(i, xi) \<in> set xs"
    and "lagrange_terms c i xi xs (s_One c, s_One c) = (num, den)"
  shows "v den \<noteq> 0 \<and> v num / v den = lagrange0 (v ` snd ` set xs) (v xi)"
proof -
  let ?X = "v ` snd ` set xs"
  have "v num = (\<Prod>y \<in> ?X - {v xi}. y)" "v den = (\<Prod>y \<in> ?X - {v xi}. y - v xi)"
    using lagrange_terms_prod [OF assms(1,4)] prod_other_points [OF assms(2,3), of "\<lambda>y. y"]
      prod_other_points [OF assms(2,3), of "\<lambda>y. y - v xi"]
    by (simp_all add: curve_field_simps [OF assms(1)])
  moreover have "(\<Prod>y \<in> ?X - {v xi}. y - v xi) \<noteq> 0"
    by (simp add: prod_zero_iff)
  ultimately show ?thesis by (simp add: lagrange0_def)
qed

lemma lagrange_coefficient:
  assumes "curve_field c v" "good_points v xs" "(i, xi) \<in> set xs"
  obtains num den where "lagrange_terms c i xi xs (s_One c, s_One c) = (num, den)"
    "\<not> s_IsZero c den" "v (s_Div c num den) = lagrange0 (v ` snd ` set xs) (v xi)"
proof -
  obtain num den where nd: "lagrange_terms c i xi xs (s_One c, s_One c) = (num, den)"
    by fastforce
  from lagrange_terms_lagrange0 [OF assms nd]
  show thesis using that [OF nd] assms(1) by (simp add: curve_field_simps curve_Div)
qed

lemma lagrange_loop_ok:
  assumes "curve_field c v" "good_points v xs" "set rest \<subseteq> set xs" "distinct (map fst rest)"
  shows "\<exists>r. lagrange_loop c xs rest res = Inr r \<and>
    (\<forall>(k, x) \<in> set rest. \<exists>s. m_get r k = Some s \<and> v s = lagrange0 (v ` snd ` set xs) (v x)) \<and>
    (\<forall>k. k \<notin> fst ` set rest \<longrightarrow> m_get r k = m_get res k) \<and>
    (distinct (m_keys res) \<longrightarrow> distinct (m_keys r)) \<and>
    set (m_keys r) = set (m_keys res) \<union> fst ` set rest"
  using assms(3,4)
proof (induction rest arbitrary: res)
  case (Cons p rest)
  obtain i xi where p: "p = (i, xi)" by fastforce
  with Cons.prems have mem: "(i, xi) \<in> set xs" by simp
  obtain num den where nd: "lagrange_terms c i xi xs (s_One c, s_One c) = (num, den)"
    "\<not> s_IsZero c den" "v (s_Div c num den) = lagrange0 (v ` snd ` set xs) (v xi)"
    by (rule lagrange_coefficient [OF assms(1,2) mem])
  from Cons.prems have rest: "set rest \<subseteq> set xs" "distinct (map fst rest)" "i \<notin> fst ` set rest"
    by (auto simp: p)
  show ?case
    using Cons.IH [OF rest(1,2), of "m_set res i (s_Div c num den)"] nd rest(3)
    by (auto simp: p)
qed simp

lemma interpolate_loop_ok:
  assumes "curve_field c v" "good_points v xs" "\<forall>(i, xi, yi) \<in> set rest. (i, xi) \<in> set xs"
  shows "\<exists>r. interpolate_loop c xs rest res = Inr r \<and>
    v r = v res + (\<Sum>(i, xi, yi)\<leftarrow>rest. v yi * lagrange0 (v ` snd ` set xs) (v xi))"
  using assms(3)
proof (induction rest arbitrary: res)
  case (Cons p rest)
  obtain i xi yi where p: "p = (i, xi, yi)" by (cases p)
  with Cons.prems have mem: "(i, xi) \<in> set xs" by simp
  obtain num den where nd: "lagrange_terms c i xi xs (s_One c, s_One c) = (num, den)"
    "\<not> s_IsZero c den" "v (s_Div c num den) = lagrange0 (v ` snd ` set xs) (v xi)"
    by (rule lagrange_coefficient [OF assms(1,2) mem])
  obtain r where r: "interpolate_loop c xs rest (s_Add c res (s_Mul c yi (s_Div c num den))) = Inr r"
    "v r = v (s_Add c res (s_Mul c yi (s_Div c num den))) +
      (\<Sum>(i, xi, yi)\<leftarrow>rest. v yi * lagrange0 (v ` snd ` set xs) (v xi))"
    using Cons.IH Cons.prems by fastforce
  with nd show ?case by (auto simp: p curve_field_simps [OF assms(1)])
qed simp

lemma interpolatePoint_loop_ok:
  assumes "curve_field c v" "curve_group c v d" "good_points v xs"
    and "\<forall>(i, xi, yi) \<in> set rest. (i, xi) \<in> set xs"
  shows "\<exists>r. interpolatePoint_loop c xs rest res = Inr r \<and>
    d r = d res + (\<Sum>(i, xi, yi)\<leftarrow>rest. d yi * lagrange0 (v ` snd ` set xs) (v xi))"
  using assms(4)
proof (induction rest arbitrary: res)
  case (Cons p rest)
  obtain i xi yi where p: "p = (i, xi, yi)" by (cases p)
  with Cons.prems have mem: "(i, xi) \<in> set xs" by simp
  obtain num den where nd: "lagrange_terms c i xi xs (s_One c, s_One c) = (num, den)"
    "\<not> s_IsZero c den" "v (s_Div c num den) = lagrange0 (v ` snd ` set xs) (v xi)"
    by (rule lagrange_coefficient [OF assms(1,3) mem])
  obtain r where
    r: "interpolatePoint_loop c xs rest (p_Add c res (p_Mul c yi (s_Div c num den))) = Inr r"
    "d r = d (p_Add c res (p_Mul c yi (s_Div c num den))) +
      (\<Sum>(i, xi, yi)\<leftarrow>rest. d yi * lagrange0 (v ` snd ` set xs) (v xi))"
    using Cons.IH Cons.prems by fastforce
  with nd show ?case by (auto simp: p curve_group_simps [OF assms(2)])
qed simp

text \<open>Sums over enumerated points are sums over the set of their values.\<close>

lemma good_points_enumerate: "distinct (map v xs) \<Longrightarrow> good_points v (enumerate n xs)"
  unfolding good_points_def by (simp flip: map_map)

lemma enumerate_zip_members:
  "length ys = length xs \<Longrightarrow> (i, x, y) \<in> set (enumerate n (zip xs ys)) \<Longrightarrow>
   (i, x) \<in> set (enumerate n xs)"
  by (auto simp: in_set_enumerate_eq)

lemma sum_enumerate_points:
  assumes "distinct (map v xs)" "length ys = length xs"
    and "\<And>i. i < length xs \<Longrightarrow> w (ys ! i) = f (v (xs ! i))"
  shows "(\<Sum>(i, xi, yi)\<leftarrow>enumerate n (zip xs ys). w yi * h (v xi)) =
    (\<Sum>x \<in> v ` set xs. f x * h x)"
proof -
  have "map (\<lambda>(i, xi, yi). w yi * h (v xi)) (enumerate n (zip xs ys)) =
      map (\<lambda>x. f x * h x) (map v xs)"
    by (rule nth_equalityI) (use assms(2,3) in \<open>simp_all add: nth_enumerate_eq\<close>)
  then show ?thesis
    using sum.distinct_set_conv_list [OF assms(1), of "\<lambda>x. f x * h x"] by simp
qed

lemma interpolate_correct:
  assumes "curve_field c v" "distinct (map v xs)" "length ys = length xs"
    and "poly_fn k f" "k \<le> length xs" "\<And>i. i < length xs \<Longrightarrow> v (ys ! i) = f (v (xs ! i))"
  shows "\<exists>r. interpolate c xs ys = Inr r \<and> v r = f 0"
proof -
  have "card (v ` set xs) = length xs" using distinct_card [OF assms(2)] by simp
  then have lag: "(\<Sum>x \<in> v ` set xs. f x * lagrange0 (v ` set xs) x) = f 0"
    using assms(5) by (intro lagrange_at_0 [OF assms(4)]) auto
  have "snd ` set (enumerate 0 xs) = set xs" by (metis map_snd_enumerate set_map)
  moreover have "\<forall>(i, xi, yi) \<in> set (enumerate 0 (zip xs ys)). (i, xi) \<in> set (enumerate 0 xs)"
    using enumerate_zip_members [OF assms(3)] by fastforce
  ultimately show ?thesis
    using interpolate_loop_ok [OF assms(1) good_points_enumerate [OF assms(2)],
        of "enumerate 0 (zip xs ys)" 0 "s_Zero c"]
      sum_enumerate_points [where w = v and f = f and n = 0, OF assms(2,3,6), where h = "lagrange0 (v ` set xs)"]
    by (simp add: interpolate_def curve_field_simps [OF assms(1)] lag)
qed

lemma interpolatePoint_correct:
  assumes "curve_field c v" "curve_group c v d" "distinct (map v xs)" "length ys = length xs"
    and "poly_fn k f" "k \<le> length xs" "\<And>i. i < length xs \<Longrightarrow> d (ys ! i) = f (v (xs ! i))"
  shows "\<exists>r. interpolatePoint c xs ys = Inr r \<and> d r = f 0"
proof -
  have "card (v ` set xs) = length xs" using distinct_card [OF assms(3)] by simp
  then have lag: "(\<Sum>x \<in> v ` set xs. f x * lagrange0 (v ` set xs) x) = f 0"
    using assms(6) by (intro lagrange_at_0 [OF assms(5)]) auto
  have "snd ` set (enumerate 0 xs) = set xs" by (metis map_snd_enumerate set_map)
  moreover have "\<forall>(i, xi, yi) \<in> set (enumerate 0 (zip xs ys)). (i, xi) \<in> set (enumerate 0 xs)"
    using enumerate_zip_members [OF assms(4)] by fastforce
  ultimately show ?thesis
    using interpolatePoint_loop_ok [OF assms(1,2) good_points_enumerate [OF assms(3)],
        of "enumerate 0 (zip xs ys)" 0 "p_Identity c"]
      sum_enumerate_points [where w = d and f = f and n = 0, OF assms(3,4,7), where h = "lagrange0 (v ` set xs)"]
    by (simp add: interpolatePoint_def curve_group_simps [OF assms(2)] lag)
qed

section \<open>Combining shares\<close>

text \<open>The polynomial function of a list of coefficients.\<close>

definition poly_val :: "('s \<Rightarrow> 'f::field) \<Rightarrow> 's list \<Rightarrow> 'f \<Rightarrow> 'f" where
  "poly_val v cs x = (\<Sum>i<length cs. v (cs ! i) * x ^ i)"

lemma poly_fn_poly_val: "poly_fn (length cs) (poly_val v cs)"
  unfolding poly_val_def by (rule poly_fnI) (rule refl)

lemma poly_val_0: "cs \<noteq> [] \<Longrightarrow> poly_val v cs 0 = v (cs ! 0)"
  by (cases cs) (simp_all add: poly_val_def sum.lessThan_Suc_shift del: sum.lessThan_Suc)

lemma combine_loop_ok:
  assumes "\<forall>sh \<in> set shares. ss_Id sh \<noteq> 0 \<and> ss_Id sh \<le> sm_limit s \<and>
      (\<exists>y. s_SetBytes (sm_curve s) (ss_Value sh) = Some y \<and> \<not> s_IsZero (sm_curve s) y)"
    and "distinct (map ss_Id shares)" "set (map ss_Id shares) \<inter> set dups = {}"
  shows "combine_loop s shares dups acc =
    Inr (rev acc @ map (\<lambda>sh. (s_New (sm_curve s) (uint (ss_Id sh)),
                              the (s_SetBytes (sm_curve s) (ss_Value sh)))) shares)"
  using assms
proof (induction shares arbitrary: dups acc)
  case (Cons sh shares)
  then obtain y where "s_SetBytes (sm_curve s) (ss_Value sh) = Some y"
    "\<not> s_IsZero (sm_curve s) y" by auto
  with Cons show ?case by (auto simp: ShamirShare_Validate_def)
qed simp

text \<open>What the shares of a split are.\<close>

lemma polyShares_member:
  assumes "sh \<in> set (polyShares c poly limit)" "limit \<le> 255"
  shows "\<exists>i. 1 \<le> i \<and> i \<le> limit \<and> uint (ss_Id sh) = int i \<and>
    ss_Value sh = s_Bytes c (poly_Evaluate c poly (s_New c (int i)))"
proof -
  from assms obtain i where i: "i < limit" "ss_Id sh = of_nat (i + 1)"
    "ss_Value sh = s_Bytes c (poly_Evaluate c poly (s_New c (int i + 1)))"
    by (auto simp: polyShares_def)
  have "uint (of_nat (i + 1) :: 32 word) = int (i + 1)"
    using i(1) assms(2) by (simp only: unsigned_of_nat) (simp add: take_bit_eq_mod)
  with i show ?thesis by (intro exI [of _ "i + 1"]) (auto simp: add.commute)
qed

lemma share_value:
  assumes "curve_field c v" "curve_codec c" "curve_poly c v"
    and "sh \<in> set (polyShares c poly limit)" "limit \<le> 255"
  shows "\<exists>y. s_SetBytes c (ss_Value sh) = Some y \<and>
    v y = poly_val v poly (of_int (uint (ss_Id sh)))"
proof -
  obtain i where i: "uint (ss_Id sh) = int i"
    "ss_Value sh = s_Bytes c (poly_Evaluate c poly (s_New c (int i)))"
    using polyShares_member [OF assms(4,5)] by blast
  have "v (poly_Evaluate c poly (s_New c (int i))) = poly_val v poly (of_int (int i))"
    by (simp add: curve_poly_simps [OF assms(3)] curve_field_simps [OF assms(1)] poly_val_def)
  then show ?thesis by (simp only: i curve_codec_simps [OF assms(2)]) blast
qed

text \<open>Identifiers up to 255 are distinct points of the field.\<close>

lemma limited_points_distinct:
  fixes v :: "'s \<Rightarrow> 'f::field"
  assumes "curve_field c v" "\<forall>sh \<in> set shares. ss_Id sh \<le> l" "distinct (map ss_Id shares)"
    and "l \<le> 255"
  shows "distinct (map (\<lambda>sh. of_int (uint (ss_Id sh)) :: 'f) shares)"
proof -
  have "inj_on (\<lambda>sh. of_int (uint (ss_Id sh)) :: 'f) (set shares)"
  proof (rule inj_onI)
    fix a b assume ab: "a \<in> set shares" "b \<in> set shares"
      and eq: "(of_int (uint (ss_Id a)) :: 'f) = of_int (uint (ss_Id b))"
    have "uint (ss_Id sh) \<le> 255" if "sh \<in> set shares" for sh
      using assms(2,4) that word_le_def [of "ss_Id sh" "255"] by auto
    with ab have "\<bar>uint (ss_Id a) - uint (ss_Id b)\<bar> < 256"
      using uint_ge_0 [of "ss_Id a"] uint_ge_0 [of "ss_Id b"] by (smt (verit))
    with eq have "uint (ss_Id a) = uint (ss_Id b)"
      by (simp only: curve_small_inject [OF assms(1)])
    then have "ss_Id a = ss_Id b" by (simp only: word_uint_eq_iff)
    then show "a = b" using ab assms(3) by (simp add: distinct_map inj_on_def)
  qed
  then show ?thesis using assms(3) by (simp add: distinct_map)
qed

lemma share_points_distinct:
  fixes v :: "'s \<Rightarrow> 'f::field"
  assumes "curve_field c v" "set shares \<subseteq> set (polyShares c poly limit)" "limit \<le> 255"
    and "distinct (map ss_Id shares)"
  shows "distinct (map (\<lambda>sh. of_int (uint (ss_Id sh)) :: 'f) shares)"
proof -
  have "ss_Id sh \<le> 255" if "sh \<in> set shares" for sh
    using polyShares_member [OF subsetD [OF assms(2) that] assms(3)] assms(3)
    by (auto simp: word_le_def)
  then show ?thesis
    using limited_points_distinct [OF assms(1), of shares 255] assms(4) by simp
qed

definition valid_shares :: "('s, 'p) Shamir \<Rightarrow> 's list \<Rightarrow> ShamirShare list \<Rightarrow> bool" where
  "valid_shares s poly shares \<longleftrightarrow>
     set shares \<subseteq> set (polyShares (sm_curve s) poly (unat (sm_limit s))) \<and>
     distinct (map ss_Id shares) \<and>
     (\<forall>sh \<in> set shares. \<exists>y. s_SetBytes (sm_curve s) (ss_Value sh) = Some y \<and>
        \<not> s_IsZero (sm_curve s) y)"

lemma combine_loop_shares:
  assumes "valid_shares s poly shares" "sm_limit s \<le> 255"
  shows "combine_loop s shares [] [] =
    Inr (map (\<lambda>sh. (s_New (sm_curve s) (uint (ss_Id sh)),
                     the (s_SetBytes (sm_curve s) (ss_Value sh)))) shares)"
proof -
  have lim: "unat (sm_limit s) \<le> 255" using assms(2) by (simp add: word_le_nat_alt)
  have "ss_Id sh \<noteq> 0 \<and> ss_Id sh \<le> sm_limit s" if sh: "sh \<in> set shares" for sh
  proof -
    have "sh \<in> set (polyShares (sm_curve s) poly (unat (sm_limit s)))"
      using sh assms(1) by (auto simp: valid_shares_def)
    from polyShares_member [OF this lim] obtain i where
      i: "1 \<le> i" "i \<le> unat (sm_limit s)" "uint (ss_Id sh) = int i" by blast
    then have "unat (ss_Id sh) = i" by (simp only: unat_eq_nat_uint nat_int)
    with i(1,2) show ?thesis by (auto simp: word_le_nat_alt)
  qed
  then show ?thesis using assms(1) by (subst combine_loop_ok) (auto simp: valid_shares_def)
qed

section \<open>Commitments in the exponent\<close>

lemma commit_loop_sum:
  assumes "curve_field c v" "curve_group c v d"
    and "0 \<le> j" "j + int n \<le> int (length commits)" "v i * v x = v x ^ nat j"
  shows "\<exists>r. commit_loop c x commits [j..j + int n - 1] i rhs = Some r \<and>
    d r = d rhs + (\<Sum>t = nat j..<nat j + n. d (commits ! t) * v x ^ t)"
  using assms(3-)
proof (induction n arbitrary: j i rhs)
  case (Suc n)
  have list: "[j..j + int (Suc n) - 1] = j # [j + 1..(j + 1) + int n - 1]"
    by (subst upto.simps) (simp add: algebra_simps)
  have idx: "go_index commits j = Some (commits ! nat j)"
    using Suc.prems by (intro go_index_ok) auto
  let ?i = "s_Mul c i x" and ?rhs = "p_Add c rhs (p_Mul c (commits ! nat j) (s_Mul c i x))"
  have "v ?i * v x = v x ^ nat (j + 1)"
    using Suc.prems by (simp add: curve_field_simps [OF assms(1)] nat_add_distrib mult.commute)
  then obtain r where r: "commit_loop c x commits [j + 1..(j + 1) + int n - 1] ?i ?rhs = Some r"
    "d r = d ?rhs + (\<Sum>t = nat (j + 1)..<nat (j + 1) + n. d (commits ! t) * v x ^ t)"
    using Suc.IH [of "j + 1" ?i ?rhs] Suc.prems by auto
  have "(\<Sum>t = nat j..<nat j + Suc n. d (commits ! t) * v x ^ t) =
      d (commits ! nat j) * v x ^ nat j +
      (\<Sum>t = nat (j + 1)..<nat (j + 1) + n. d (commits ! t) * v x ^ t)"
    using Suc.prems(1) by (simp add: sum.atLeast_Suc_lessThan nat_add_distrib)
  moreover have "commit_loop c x commits [j..j + int (Suc n) - 1] i rhs = Some r"
    by (simp only: list commit_loop.simps idx go_bind_Some Let_def r(1))
  moreover have "d ?rhs = d rhs + d (commits ! nat j) * v x ^ nat j"
    using Suc.prems(3)
    by (simp add: curve_group_simps [OF assms(2)] curve_field_simps [OF assms(1)])
  ultimately show ?case using r(2) by (simp only: add.assoc) blast
qed simp

lemma commit_eval:
  assumes "curve_field c v" "curve_group c v d" "1 \<le> k" "k \<le> int (length commits)"
  shows "\<exists>r. commit_loop c x commits [1..k - 1] (s_One c) (commits ! 0) = Some r \<and>
    d r = poly_val d (take (nat k) commits) (v x)"
proof -
  obtain n where n: "k = int (Suc n)" using assms(3) by (metis Suc_pred' int_nat_eq
        less_le_trans not_one_le_zero of_nat_0_less_iff zero_less_one zero_less_imp_eq_int)
  have "(\<Sum>t<Suc n. d (commits ! t) * v x ^ t) =
      d (commits ! 0) + (\<Sum>t = 1..<1 + n. d (commits ! t) * v x ^ t)"
    by (simp only: lessThan_atLeast0 sum.atLeast_Suc_lessThan) (simp add: sum.atLeast_Suc_lessThan)
  moreover have "poly_val d (take (nat k) commits) (v x) = (\<Sum>t<Suc n. d (commits ! t) * v x ^ t)"
    using assms(4) unfolding poly_val_def n by (intro sum.cong) auto
  ultimately show ?thesis
    using commit_loop_sum [OF assms(1,2), of 1 n commits "s_One c" x "commits ! 0"] assms(4)
    by (simp add: n curve_field_simps [OF assms(1)] del: upto.simps)
qed

lemma Feldman_Verify_iff:
  assumes "curve_field c v" "curve_group c v d" "commits \<noteq> []"
    and "CurveParams L (c_Name c) = Some (g, h)"
  shows "Feldman_Verify L c commits share = Some (Inr ()) \<longleftrightarrow>
    ss_Id share \<noteq> 0 \<and> (\<exists>sc. s_SetBytes c (ss_Value share) = Some sc \<and> v sc \<noteq> 0 \<and>
      d g * v sc = poly_val d commits (of_int (uint (ss_Id share))))"
proof -
  let ?x = "s_New c (uint (ss_Id share))"
  have "1 \<le> int (length commits)" using assms(3) by (cases commits) auto
  then obtain r where r: "commit_loop c ?x commits [1..int (length commits) - 1] (s_One c)
      (commits ! 0) = Some r" "d r = poly_val d commits (v ?x)"
    using commit_eval [OF assms(1,2), of "int (length commits)" commits ?x] by auto
  have "go_index commits 0 = Some (commits ! 0)" using assms(3) by (simp add: go_index_def)
  with r assms(4) show ?thesis
    unfolding Feldman_Verify_def ShamirShare_Validate_def
    by (auto simp: curve_field_simps [OF assms(1)] curve_group_simps [OF assms(2)]
        simp del: upto.simps of_int_uint split: option.splits if_splits)
qed

lemma poly_val_commitPoly:
  assumes "curve_group c v d" "t = length poly"
  shows "poly_val d (commitPoly c base poly t) x = d base * poly_val v poly x"
  using assms(2) unfolding poly_val_def commitPoly_def
  by (simp add: curve_group_simps [OF assms(1)] sum_distrib_left mult.assoc)

lemma derive_dealer_ok:
  assumes "curve_field c v" "curve_group c v d"
    and "m_get commitment l = Some commits" "1 \<le> k" "k \<le> int (length commits)"
  shows "\<exists>r. derive_dealer c x k commitment l = Some r \<and>
    d r = poly_val d (take (nat k) commits) (v x)"
  using commit_eval [OF assms(1,2,4,5), of x] assms(3-)
  by (auto simp: derive_dealer_def m_zero_def go_index_def)

lemma derive_loop_ok:
  assumes "curve_field c v" "curve_group c v d" "1 \<le> k"
    and "\<forall>l \<in> set Tj. \<exists>cs. m_get commitment l = Some cs \<and> k \<le> int (length cs)"
    and "Tj \<noteq> [] \<or> gI \<noteq> None"
  shows "\<exists>r. derive_loop c x k commitment Tj gI = Some r \<and>
    d r = (case gI of None \<Rightarrow> 0 | Some g \<Rightarrow> d g) +
      (\<Sum>l\<leftarrow>Tj. poly_val d (take (nat k) (m_zero [] commitment l)) (v x))"
  using assms(4,5)
proof (induction Tj arbitrary: gI)
  case (Cons l Tj)
  then obtain cs where cs: "m_get commitment l = Some cs" "k \<le> int (length cs)" by auto
  then obtain r where r: "derive_dealer c x k commitment l = Some r"
    "d r = poly_val d (take (nat k) cs) (v x)"
    using derive_dealer_ok [OF assms(1,2) cs(1) assms(3) cs(2)] by blast
  have z: "m_zero [] commitment l = cs" using cs(1) by (simp add: m_zero_def)
  show ?case
    using Cons.IH [of "Some (case gI of None \<Rightarrow> r | Some g \<Rightarrow> p_Add c g r)"] Cons.prems r
    by (cases gI) (auto simp: z curve_group_simps [OF assms(2)] add.assoc)
qed auto

lemma DerivePublicKey_ok:
  assumes "curve_field c v" "curve_group c v d" "1 \<le> k" "Tj \<noteq> []"
    and "\<forall>l \<in> set Tj. \<exists>cs. m_get commitment l = Some cs \<and> k \<le> int (length cs)"
  shows "\<exists>r. DerivePublicKey nodeId k c Tj commitment = Some r \<and>
    d r = (\<Sum>l\<leftarrow>Tj. poly_val d (take (nat k) (m_zero [] commitment l)) (of_int nodeId))"
  using derive_loop_ok [OF assms(1,2,3,5), of None "s_New c nodeId"] assms(4)
  by (simp add: DerivePublicKey_def curve_field_simps [OF assms(1)])

text \<open>Without the laws of a curve: deriving a public key never panics on known dealers.\<close>

lemma commit_loop_total:
  "\<forall>j \<in> set js. 0 \<le> j \<and> j < int (length commits) \<Longrightarrow>
   \<exists>r. commit_loop c x commits js i rhs = Some r"
  by (induction js arbitrary: i rhs) (auto simp: go_index_def Let_def)

lemma derive_loop_total:
  assumes "\<forall>l \<in> set Tj. \<exists>cs. m_get commitment l = Some cs \<and> 0 < length cs \<and> k \<le> int (length cs)"
    and "Tj \<noteq> [] \<or> gI \<noteq> None"
  shows "\<exists>r. derive_loop c x k commitment Tj gI = Some r"
  using assms
proof (induction Tj arbitrary: gI)
  case (Cons l Tj)
  then obtain cs where "m_get commitment l = Some cs" "0 < length cs" "k \<le> int (length cs)" by auto
  then have "\<exists>r. derive_dealer c x k commitment l = Some r"
    using commit_loop_total [of "[1..k - 1]" cs c x "s_One c" "cs ! 0"]
    by (auto simp: derive_dealer_def m_zero_def go_index_def simp del: upto.simps)
  with Cons show ?case by auto
qed auto

lemma DerivePublicKey_total:
  "Tj \<noteq> [] \<Longrightarrow>
   \<forall>l \<in> set Tj. \<exists>cs. m_get commitment l = Some cs \<and> 0 < length cs \<and> k \<le> int (length cs) \<Longrightarrow>
   \<exists>r. DerivePublicKey nodeId k c Tj commitment = Some r"
  unfolding DerivePublicKey_def by (rule derive_loop_total) auto

lemma small_ints_inj:
  fixes v :: "'s \<Rightarrow> 'f::field"
  assumes "curve_field c v" "\<forall>i \<in> A. 0 \<le> i \<and> i < 256"
  shows "inj_on (of_int :: int \<Rightarrow> 'f) A"
proof (rule inj_onI)
  fix i j assume ij: "i \<in> A" "j \<in> A" "(of_int i :: 'f) = of_int j"
  then have "0 \<le> i" "i < 256" "0 \<le> j" "j < 256" using assms(2) by auto
  then have "\<bar>i - j\<bar> < 256" by linarith
  then show "i = j" using ij(3) by (simp only: curve_small_inject [OF assms(1)])
qed

lemma LagrangeCoeffs_ok:
  fixes v :: "'s \<Rightarrow> 'f::field"
  assumes "curve_field c v" "\<And>xs. set (ord xs) = set xs" "\<And>xs. distinct xs \<Longrightarrow> distinct (ord xs)"
    and "\<forall>i \<in> set ids. 0 \<le> i \<and> i < 256"
  shows "\<exists>r. LagrangeCoeffs ord ids c = Inr r \<and> distinct (m_keys r) \<and> set (m_keys r) = set ids \<and>
    (\<forall>i \<in> set ids. \<exists>s. m_get r i = Some s \<and> v s = lagrange0 (of_int ` set ids) (of_int i))"
proof -
  let ?xs = "map (\<lambda>xi. (xi, s_New c xi)) (ord (remdups ids))"
  have inj: "inj_on (of_int :: int \<Rightarrow> 'f) (set ids)"
    by (rule small_ints_inj [OF assms(1,4)])
  have good: "good_points v ?xs"
    using inj assms(2,3) unfolding good_points_def
    by (auto simp: comp_def curve_field_simps [OF assms(1)] distinct_map)
  have X: "v ` snd ` set ?xs = of_int ` set ids"
    using assms(2) by (auto simp: curve_field_simps [OF assms(1)] image_iff)
  have "distinct (map fst ?xs)" using assms(3) by (simp add: comp_def)
  from lagrange_loop_ok [OF assms(1) good order.refl this, of "[]"]
  show ?thesis using assms(2) unfolding LagrangeCoeffs_def X
    by (auto simp: curve_field_simps [OF assms(1)] image_image)
qed

end
