(* ===== verification/Gf257.thy ===== *)
theory Gf257
  imports Sharing
begin

text \<open>
  A concrete instance of the external packages, used by the witnesses: the field of 257
  elements as scalars and as points (a group of prime order with generator 1), a codec for
  scalars and points with the documented lengths, the replication code as erasure code and a
  transparent ECIES. It shows that the laws of the theory Externals can hold together.
\<close>

typedef gf = "{0..<257 :: int}"
  by (rule exI [of _ 0]) simp

setup_lifting type_definition_gf

text \<open>The inverse comes from the Bezout coefficients: 257 is prime.\<close>

lemma small_factor: "d * e = (257 :: nat) \<Longrightarrow> d \<le> 16 \<Longrightarrow> d = 1"
proof -
  assume de: "d * e = 257" and d: "d \<le> 16"
  then have "257 mod d = 0" by (metis mod_mult_self1_is_0)
  moreover have "d \<in> set [0..<17]" using d by simp
  then have "d = 0 \<or> d = 1 \<or> d = 2 \<or> d = 3 \<or> d = 4 \<or> d = 5 \<or> d = 6 \<or> d = 7 \<or> d = 8 \<or>
    d = 9 \<or> d = 10 \<or> d = 11 \<or> d = 12 \<or> d = 13 \<or> d = 14 \<or> d = 15 \<or> d = 16"
    using d by presburger
  ultimately show "d = 1" by (elim disjE) simp_all
qed

lemma dvd_257: "(d :: nat) dvd 257 \<Longrightarrow> d = 1 \<or> d = 257"
proof -
  assume "d dvd 257"
  then obtain e where de: "d * e = 257" by (metis dvdE)
  have "d \<le> 16 \<or> e \<le> 16"
  proof (rule ccontr)
    assume "\<not> ?thesis"
    then have "17 * 17 \<le> d * e" by (intro mult_le_mono) auto
    with de show False by simp
  qed
  then show ?thesis using small_factor [OF de] small_factor [of e d] de by (auto simp: mult.commute)
qed

definition inv257 :: "int \<Rightarrow> int" where
  "inv257 x = fst (bezw (nat x) 257)"

lemma inv257_pos: "0 < x \<Longrightarrow> x < 257 \<Longrightarrow> x * inv257 x mod 257 = 1"
proof -
  assume x: "0 < x" "x < 257"
  have "gcd (nat x) 257 dvd 257" by simp
  then have "gcd (nat x) 257 = 1 \<or> gcd (nat x) 257 = 257" by (rule dvd_257)
  moreover have "gcd (nat x) 257 \<le> nat x" using x by (intro gcd_le1_nat) auto
  ultimately have g: "gcd (nat x) 257 = 1" using x by linarith
  have "inv257 x * int (nat x) + snd (bezw (nat x) 257) * int 257 = int (gcd (nat x) 257)"
    unfolding inv257_def by (rule bezw_aux [symmetric])
  then have "x * inv257 x = 1 + (- snd (bezw (nat x) 257)) * 257"
    using x g by (simp add: mult.commute)
  then show ?thesis by (simp only: mod_mult_self1) simp
qed

lemma inv257: "0 \<le> x \<Longrightarrow> x < 257 \<Longrightarrow> x \<noteq> 0 \<Longrightarrow> x * inv257 x mod 257 = 1"
  by (rule inv257_pos) auto

lemma inv257_0: "inv257 0 = 0"
  by (simp add: inv257_def bezw.simps)

instantiation gf :: field
begin

lift_definition zero_gf :: gf is "0 :: int" by simp
lift_definition one_gf :: gf is "1 :: int" by simp
lift_definition plus_gf :: "gf \<Rightarrow> gf \<Rightarrow> gf" is "\<lambda>a b. (a + b) mod 257" by simp
lift_definition minus_gf :: "gf \<Rightarrow> gf \<Rightarrow> gf" is "\<lambda>a b. (a - b) mod 257" by simp
lift_definition uminus_gf :: "gf \<Rightarrow> gf" is "\<lambda>a. (- a) mod 257" by simp
lift_definition times_gf :: "gf \<Rightarrow> gf \<Rightarrow> gf" is "\<lambda>a b. a * b mod 257" by simp
lift_definition inverse_gf :: "gf \<Rightarrow> gf" is "\<lambda>a. inv257 a mod 257" by simp

definition divide_gf :: "gf \<Rightarrow> gf \<Rightarrow> gf" where
  "a div b = a * inverse (b :: gf)"

instance
proof
  fix a b c :: gf
  show "a + b + c = a + (b + c)" by transfer (simp add: mod_simps ac_simps)
  show "a + b = b + a" by transfer (simp add: ac_simps)
  show "0 + a = a" by transfer simp
  show "- a + a = 0" by transfer (simp add: mod_simps)
  show "a - b = a + - b" by transfer (simp add: mod_simps)
  show "a * b * c = a * (b * c)" by transfer (simp add: mod_simps ac_simps)
  show "a * b = b * a" by transfer (simp add: ac_simps)
  show "1 * a = a" by transfer simp
  show "(a + b) * c = a * c + b * c" by transfer (simp add: mod_simps distrib_right)
  show "(0 :: gf) \<noteq> 1" by transfer simp
  show "a div b = a * inverse b" by (rule divide_gf_def)
  show "inverse a * a = 1" if "a \<noteq> 0"
    using that by transfer (simp add: mod_simps inv257 mult.commute [of "inv257 _"])
  show "inverse (0 :: gf) = 0" by transfer (simp add: inv257_0)
qed

end

lemma of_nat_gf: "Rep_gf (of_nat n) = int n mod 257"
proof (induction n)
  case 0
  then show ?case by (simp add: zero_gf.rep_eq)
next
  case (Suc n)
  then show ?case by (simp add: plus_gf.rep_eq one_gf.rep_eq mod_simps add.commute)
qed

lemma of_int_gf: "Rep_gf (of_int i) = i mod 257"
proof (cases i)
  case (nonneg n)
  then show ?thesis by (simp add: of_nat_gf)
next
  case (neg n)
  then show ?thesis
    using of_nat_gf [of "Suc n"] by (simp add: uminus_gf.rep_eq mod_simps del: of_nat_Suc)
qed

text \<open>Equations between numerals of the field are decided on the integers.\<close>

lemma gf_of_int_eq: "(of_int i :: gf) = of_int j \<longleftrightarrow> i mod 257 = j mod 257"
  by (simp only: of_int_gf flip: Rep_gf_inject)

lemma gf_numeral_eq:
  "(numeral m :: gf) = numeral n \<longleftrightarrow> numeral m mod 257 = (numeral n mod 257 :: int)"
  "(numeral m :: gf) = 0 \<longleftrightarrow> numeral m mod 257 = (0 :: int)"
  "(numeral m :: gf) = 1 \<longleftrightarrow> numeral m mod 257 = (1 :: int)"
  using gf_of_int_eq [of "numeral m" "numeral n"] gf_of_int_eq [of "numeral m" 0]
    gf_of_int_eq [of "numeral m" 1] by simp_all

lemma Rep_gf_range: "0 \<le> Rep_gf a" "Rep_gf a < 257"
  using Rep_gf [of a] by auto

section \<open>The curve\<close>

definition gf_bytes :: "nat \<Rightarrow> gf \<Rightarrow> bytes" where
  "gf_bytes z a = replicate z 0 @ [word_of_int (Rep_gf a div 256), word_of_int (Rep_gf a mod 256)]"

definition gf_unbytes :: "nat \<Rightarrow> bytes \<Rightarrow> gf option" where
  "gf_unbytes l b = (if length b = l then Some (of_int (big_SetBytes b)) else None)"

lemma gf_unbytes_bytes [simp]: "l = z + 2 \<Longrightarrow> gf_unbytes l (gf_bytes z a) = Some a"
proof -
  assume l: "l = z + 2"
  have zeros: "foldl (\<lambda>acc x. acc * 256 + uint (x :: byte)) 0 (replicate n 0) = 0" for n
    by (induction n) simp_all
  have r: "0 \<le> Rep_gf a" "Rep_gf a < 257" by (rule Rep_gf_range)+
  have "uint (word_of_int (Rep_gf a div 256) :: byte) = Rep_gf a div 256"
    using r by (simp add: unsigned_of_int take_bit_eq_mod)
  moreover have "uint (word_of_int (Rep_gf a mod 256) :: byte) = Rep_gf a mod 256"
    by (simp add: unsigned_of_int take_bit_eq_mod)
  ultimately have "big_SetBytes (gf_bytes z a) = Rep_gf a"
    unfolding gf_bytes_def big_SetBytes_def by (simp add: zeros)
  moreover have "of_int (Rep_gf a) = a"
    using r by (simp add: of_int_gf flip: Rep_gf_inject)
  ultimately show ?thesis using l by (simp add: gf_unbytes_def gf_bytes_def)
qed

lemma length_gf_bytes [simp]: "length (gf_bytes z a) = z + 2"
  by (simp add: gf_bytes_def)

definition gf_poly_init :: "gf \<Rightarrow> nat \<Rightarrow> bytes \<Rightarrow> gf list" where
  "gf_poly_init s k r =
     s # map (\<lambda>i. if i < length r then of_nat (unat (r ! i)) else 1) [0..<k - 1]"

definition gf_curve :: "string \<Rightarrow> (gf, gf) curve" where
  "gf_curve nm = \<lparr>
     c_Name = nm, s_New = of_int, s_Zero = 0, s_One = 1, s_Add = (+), s_Sub = (-), s_Mul = (*),
     s_Div = (/), s_Neg = uminus, s_MulAdd = (\<lambda>a b c. a * b + c), s_IsZero = (\<lambda>a. a = 0),
     s_SetBytes = gf_unbytes 32, s_Bytes = gf_bytes 30, s_SetBigInt = (\<lambda>i. Some (of_int i)),
     s_BigInt = Rep_gf, s_Hash = (\<lambda>b. of_int (big_SetBytes b)),
     s_Random = (\<lambda>b. of_int (big_SetBytes b)),
     p_Generator = 1, p_Identity = 0, p_Add = (+), p_Sub = (-), p_Mul = (*), p_Equal = (=),
     p_Hash = (\<lambda>b. of_int (big_SetBytes b)), p_Set = (\<lambda>x y. Some (of_int x)),
     p_ToAffineCompressed = gf_bytes (if nm = ''ed25519'' then 30 else 31),
     p_ToAffineUncompressed = gf_bytes 63,
     p_FromAffineCompressed = gf_unbytes (if nm = ''ed25519'' then 32 else 33),
     poly_Init = gf_poly_init,
     poly_Evaluate = (\<lambda>cs x. \<Sum>i<length cs. cs ! i * x ^ i)\<rparr>"

lemma gf_curve_laws: "curve_laws (gf_curve nm) id id"
proof -
  have small: "(of_int i :: gf) \<noteq> 0" if "0 < \<bar>i\<bar>" "\<bar>i\<bar> < 256" for i
  proof -
    have "\<not> 257 dvd \<bar>i\<bar>" using that by (intro zdvd_not_zless) auto
    then have "i mod 257 \<noteq> 0" by (simp add: mod_eq_0_iff_dvd)
    then show ?thesis using of_int_gf [of i] by (metis zero_gf.rep_eq)
  qed
  have "curve_field (gf_curve nm) id"
    unfolding curve_field_def using small by (simp add: gf_curve_def)
  moreover have "curve_group (gf_curve nm) id id"
    unfolding curve_group_def by (simp add: gf_curve_def)
  moreover have "curve_codec (gf_curve nm)"
    unfolding curve_codec_def by (simp add: gf_curve_def)
  moreover have "curve_poly (gf_curve nm) id"
    unfolding curve_poly_def by (simp add: gf_curve_def gf_poly_init_def)
  ultimately show ?thesis by (simp add: curve_laws_def)
qed

lemmas gf_laws = curve_laws_parts [OF gf_curve_laws]

section \<open>The other packages\<close>

text \<open>
  A codec that is the identity on one message and fails on the others, for the witnesses that
  need what was marshalled back; the library of the instance marshals everything to nothing.
\<close>

definition gf_marshal :: "payload \<Rightarrow> bytes option" where
  "gf_marshal p =
     (case p of
        AcssShare r k c \<Rightarrow>
          if r = ''r'' \<and> k = ''acss_share'' \<and> c = SECP256K1 then Some [1] else None
      | _ \<Rightarrow> None)"

definition gf_unmarshal :: "string \<Rightarrow> bytes \<Rightarrow> payload option" where
  "gf_unmarshal k b =
     (if k = ''acss_share'' \<and> b = [1] then Some (AcssShare ''r'' ''acss_share'' SECP256K1) else None)"

definition gf_pk :: "bytes \<Rightarrow> (bool \<Rightarrow> bytes) option" where
  "gf_pk b = Some (\<lambda>compressed. if compressed then replicate 33 0 else replicate 65 0)"

definition gf_lib :: "(gf, gf) lib" where
  "gf_lib = \<lparr>
     lib_K256 = gf_curve ''secp256k1'', lib_ED25519 = gf_curve ''ed25519'',
     json_Marshal = (\<lambda>p. Some []), bijson_Unmarshal = gf_unmarshal,
     json_MarshalData = (\<lambda>m. Some (md_Commitments m)),
     json_UnmarshalData = (\<lambda>b. if b = [] then None else Some \<lparr>md_Commitments = b, md_ShareMap = []\<rparr>),
     fec_New = (\<lambda>k n. 0 < k \<and> k \<le> n),
     fec_Encode = (\<lambda>(k, n) m. Some (map (\<lambda>i. \<lparr>sh_Number = int i, sh_Data = m\<rparr>) [0..<nat n])),
     fec_Decode = (\<lambda>(k, n) ss. case ss of [] \<Rightarrow> None | s # _ \<Rightarrow> Some (sh_Data s)),
     tron_Encrypt = (\<lambda>pk m r. Some (hex_EncodeToString m,
        \<lparr>em_Mode = 1, em_Iv = hex_EncodeToString (replicate 16 0),
         em_EphemPublicKey = hex_EncodeToString (replicate 65 0),
         em_Mac = hex_EncodeToString (replicate 32 0)\<rparr>)),
     tron_Decrypt = (\<lambda>sk c m. case hex_DecodeString c of Inl _ \<Rightarrow> None | Inr b \<Rightarrow> Some b),
     tron_PublicKey = gf_pk, keccak256 = (\<lambda>b. b),
     range_int = (\<lambda>xs. xs), range_str = rev\<rparr>"

lemma gf_lib_simps [simp]:
  "lib_K256 gf_lib = gf_curve ''secp256k1''" "lib_ED25519 gf_lib = gf_curve ''ed25519''"
  "range_int gf_lib = (\<lambda>xs. xs)" "range_str gf_lib = rev" "json_Marshal gf_lib = (\<lambda>p. Some [])"
  by (simp_all add: gf_lib_def)

definition gf_codec_lib :: "(gf, gf) lib" where
  "gf_codec_lib = gf_lib\<lparr>json_Marshal := gf_marshal, json_MarshalData := (\<lambda>m. None)\<rparr>"

lemma gf_codec_laws: "codec_laws gf_codec_lib"
  by (auto simp: codec_laws_def gf_codec_lib_def gf_lib_def gf_marshal_def gf_unmarshal_def
      split: payload.splits if_splits)

lemma gf_range_laws: "range_laws gf_lib"
  by (simp add: range_laws_def)

lemma gf_fec_laws: "0 < k \<Longrightarrow> k \<le> n \<Longrightarrow> fec_laws gf_lib k n"
proof -
  assume k: "0 < k" "k \<le> n"
  have "\<exists>ss. fec_Encode gf_lib (k, n) m = Some ss \<and> map sh_Number ss = map int [0..<nat n] \<and>
      (\<forall>rs. distinct rs \<and> set rs \<subseteq> set ss \<and> k \<le> int (length rs) \<longrightarrow> fec_Decode gf_lib (k, n) rs = Some m)"
    for m
  proof (intro exI conjI allI impI)
    let ?ss = "map (\<lambda>i. \<lparr>sh_Number = int i, sh_Data = m\<rparr>) [0..<nat n]"
    show "fec_Encode gf_lib (k, n) m = Some ?ss" by (simp add: gf_lib_def)
    show "map sh_Number ?ss = map int [0..<nat n]" by simp
    fix rs assume rs: "distinct rs \<and> set rs \<subseteq> set ?ss \<and> k \<le> int (length rs)"
    with k obtain r rs' where "rs = r # rs'" by (cases rs) auto
    with rs show "fec_Decode gf_lib (k, n) rs = Some m" by (auto simp: gf_lib_def)
  qed
  then show ?thesis using k by (simp add: fec_laws_def gf_lib_def)
qed

lemma gf_ecies_laws: "ecies_laws gf_lib (gf_curve nm)"
  unfolding ecies_laws_def
  by (intro allI, rule exI, rule exI [of _ "replicate 16 0"], rule exI [of _ "replicate 65 0"],
      rule exI [of _ "replicate 32 0"],
      rule exI [of _ "\<lambda>compressed. if compressed then replicate 33 0 else replicate 65 0"], rule exI)
    (simp add: gf_lib_def gf_pk_def)

lemma k256Scalar_value: "big_SetString k256Scalar 16 = Some 48976959758604225915373729064276278876980479634324804671740520890438757644444"
  by (simp add: k256Scalar_def big_SetString_def parse_nat_def digit_val_def)

lemma CurveParams_gf: "CurveParams gf_lib ''secp256k1'' = Some (238, 1)"
proof -
  have "(of_int 48976959758604225915373729064276278876980479634324804671740520890438757644444 :: gf) = of_int 238"
    by (simp only: Rep_gf_inject [symmetric] of_int_gf) simp
  then show ?thesis
    by (simp add: CurveParams_def getFixedScalar_def gf_curve_def k256Scalar_value)
qed

end
