(* ===== verification/AcssCommon.thy ===== *)
theory AcssCommon
  imports Sharing Gf257
begin

text \<open>
  The functions the sharing phase is built from: \<open>keygen/common/acss/acss.go\<close> (encrypted
  shares on the wire, compressed commitments, dealing, the share predicate, the erasure code
  with PKCS7 padding), \<open>keygen/messages/messages.go\<close> and \<open>CurvePointToPoint\<close> of
  \<open>keygen/common/common.go\<close>. The lemmas are the round trips of each encoding; together they
  show that a share an honest dealer sends passes the predicate of the node it is meant for,
  and that the predicate accepts only shares on the committed polynomial.
\<close>

section \<open>Encrypted shares\<close>

text \<open>\<open>EncodeEncrypted\<close>: vector, compressed key, MAC, ciphertext.\<close>

definition EncodeEncrypted ::
  "('s, 'p) lib \<Rightarrow> string \<Rightarrow> EciesMetadata \<Rightarrow> bytes err" where
  "EncodeEncrypted L ciphertext metadata =
     (case hex_DecodeString ciphertext of Inl e \<Rightarrow> Inl e | Inr cipher \<Rightarrow>
      case hex_DecodeString (em_Iv metadata) of Inl e \<Rightarrow> Inl e | Inr iv \<Rightarrow>
      case hex_DecodeString (em_Mac metadata) of Inl e \<Rightarrow> Inl e | Inr mac \<Rightarrow>
      case hex_DecodeString (em_EphemPublicKey metadata) of Inl e \<Rightarrow> Inl e | Inr pk \<Rightarrow>
      case tron_PublicKey L pk of None \<Rightarrow> Inl ''NewPublicKeyFromBytes'' | Some cpk \<Rightarrow>
        Inr (iv @ cpk True @ mac @ cipher))"

definition DecodeEncrypted ::
  "('s, 'p) lib \<Rightarrow> bytes \<Rightarrow> (string \<times> EciesMetadata) err go" where
  "DecodeEncrypted L b = do {
     iv \<leftarrow> go_slice b 0 16;
     pk \<leftarrow> go_slice b 16 49;
     mac \<leftarrow> go_slice b 49 81;
     cipher \<leftarrow> go_slice b 81 (length b);
     case tron_PublicKey L pk of
       None \<Rightarrow> Some (Inl ''NewPublicKeyFromBytes'')
     | Some pubKey \<Rightarrow>
         Some (Inr (hex_EncodeToString cipher,
           \<lparr>em_Mode = 1, em_Iv = hex_EncodeToString iv,
            em_EphemPublicKey = hex_EncodeToString (pubKey False),
            em_Mac = hex_EncodeToString mac\<rparr>)) }"

text \<open>
  \<open>Encrypt\<close> and \<open>Decrypt\<close>: the public key is a point of the nodes' curve \<open>nc\<close>; \<open>r\<close> is
  the randomness of the encryption. The third argument of the source is not used there.
\<close>

definition Encrypt ::
  "('s, 'p) lib \<Rightarrow> ('s, 'p) curve \<Rightarrow> bytes \<Rightarrow> bytes \<Rightarrow> 'p \<Rightarrow> 's \<Rightarrow> bytes err" where
  "Encrypt L nc r share public priv =
     (case tron_Encrypt L (hex_EncodeToString (p_ToAffineUncompressed nc public)) share r of
        None \<Rightarrow> Inl ''tronCrypto.Encrypt''
      | Some (cipher, meta) \<Rightarrow> EncodeEncrypted L cipher meta)"

definition Decrypt :: "('s, 'p) lib \<Rightarrow> string \<Rightarrow> bytes \<Rightarrow> bytes err go" where
  "Decrypt L privateHex cipher = do {
     dec \<leftarrow> DecodeEncrypted L cipher;
     case dec of
       Inl e \<Rightarrow> Some (Inl e)
     | Inr (c, meta) \<Rightarrow>
         (case tron_Decrypt L privateHex c meta of
            None \<Rightarrow> Some (Inl ''tronCrypto.Decrypt'')
          | Some plaintext \<Rightarrow> Some (Inr plaintext)) }"

section \<open>Commitments\<close>

definition CompressCommitments :: "('s, 'p) curve \<Rightarrow> 'p list \<Rightarrow> bytes" where
  "CompressCommitments c commitments =
     foldl (\<lambda>b p. b @ p_ToAffineCompressed c p) [] commitments"

text \<open>The loop of \<open>DecompressCommitments\<close>, from index \<open>i\<close> with \<open>m\<close> commitments to read.\<close>

fun decompress_loop ::
  "('s, 'p) curve \<Rightarrow> bytes \<Rightarrow> nat \<Rightarrow> nat \<Rightarrow> 'p list \<Rightarrow> 'p list err go" where
  "decompress_loop curve c i 0 commitment = Some (Inr commitment)"
| "decompress_loop curve c i (Suc m) commitment = do {
     let l = (if c_Name curve = ''ed25519'' then 32 else 33);
     b \<leftarrow> go_slice c (i * l) (i * l + l);
     case p_FromAffineCompressed curve b of
       Some cI \<Rightarrow> decompress_loop curve c (i + 1) m (commitment @ [cI])
     | None \<Rightarrow> Some (Inl ''FromAffineCompressed'') }"

definition DecompressCommitments ::
  "int \<Rightarrow> bytes \<Rightarrow> ('s, 'p) curve \<Rightarrow> 'p list err go" where
  "DecompressCommitments k c curve = decompress_loop curve c 0 (nat k) []"

definition verifierFromCommits ::
  "int \<Rightarrow> bytes \<Rightarrow> ('s, 'p) curve \<Rightarrow> 'p list err go" where
  "verifierFromCommits k c curve = DecompressCommitments k c curve"

section \<open>Dealing\<close>

record ('s, 'p) KeyPair =
  kp_PublicKey :: 'p
  kp_PrivateKey :: 's

definition GenerateKeyPair :: "('s, 'p) curve \<Rightarrow> bytes \<Rightarrow> ('s, 'p) KeyPair" where
  "GenerateKeyPair curve reader =
     (let g = p_Generator curve; privateKey = s_Random curve reader; publicKey = p_Mul curve g privateKey
      in \<lparr>kp_PublicKey = publicKey, kp_PrivateKey = privateKey\<rparr>)"

definition GenerateSecret :: "('s, 'p) curve \<Rightarrow> bytes \<Rightarrow> 's" where
  "GenerateSecret c reader = s_Random c reader"

definition getPolyAndShares ::
  "'s \<Rightarrow> 32 word \<Rightarrow> 32 word \<Rightarrow> ('s, 'p) curve \<Rightarrow> bytes \<Rightarrow> ShamirShare list \<times> 's list" where
  "getPolyAndShares secret threshold limit curve reader =
     (let poly = poly_Init curve secret (unat threshold) reader
      in (polyShares curve poly (unat limit), poly))"

definition acss_Split ::
  "('s, 'p) lib \<Rightarrow> 's \<Rightarrow> 32 word \<Rightarrow> 32 word \<Rightarrow> ('s, 'p) curve \<Rightarrow> bytes \<Rightarrow>
   ('p list \<times> ShamirShare list) err go" where
  "acss_Split L secret threshold limit curve reader = do {
     let (shares, poly) = getPolyAndShares secret threshold limit curve reader;
     commitments \<leftarrow> go_map (\<lambda>i. do {
         (base, h) \<leftarrow> CurveParams L (c_Name curve);
         a \<leftarrow> go_index poly (int i);
         Some (p_Mul curve base a) }) [0..<unat threshold];
     Some (Inr (commitments, shares)) }"

definition GenerateCommitmentAndShares ::
  "('s, 'p) lib \<Rightarrow> 's \<Rightarrow> 32 word \<Rightarrow> 32 word \<Rightarrow> ('s, 'p) curve \<Rightarrow> bytes \<Rightarrow>
   ('p list \<times> ShamirShare list) err go" where
  "GenerateCommitmentAndShares L s k n curve reader =
     (case NewFeldman k n (Some curve) of
        Inl e \<Rightarrow> Some (Inl (''gen_commitment_and_shares: '' @ e))
      | Inr f \<Rightarrow> do {
          r \<leftarrow> acss_Split L s (fm_Threshold f) (fm_Limit f) (fm_Curve f) reader;
          case r of
            Inl e \<Rightarrow> Some (Inl (''gen_commitment_and_shares: '' @ e))
          | Inr res \<Rightarrow> Some (Inr res) })"

definition SharedKey :: "('s, 'p) curve \<Rightarrow> 's \<Rightarrow> 'p \<Rightarrow> bytes" where
  "SharedKey c priv dealerPublicKey =
     (let key = p_Mul c dealerPublicKey priv in sha256_Sum256 (p_ToAffineCompressed c key))"

text \<open>
  \<open>Predicate\<close>: \<open>Some None\<close> is the result false, \<open>None\<close> a panic (a cipher or a plaintext
  that is too short, or too few commitments).
\<close>

definition acss_Predicate ::
  "('s, 'p) lib \<Rightarrow> bytes \<Rightarrow> bytes \<Rightarrow> bytes \<Rightarrow> int \<Rightarrow> ('s, 'p) curve \<Rightarrow>
   (ShamirShare \<times> 'p list) option go" where
  "acss_Predicate L key cipher commits k curve = do {
     dec \<leftarrow> Decrypt L (hex_EncodeToString key) cipher;
     case dec of
       Inl e \<Rightarrow> Some None
     | Inr shareBytes \<Rightarrow> do {
         idb \<leftarrow> go_slice shareBytes 0 4;
         i \<leftarrow> BE_Uint32 idb;
         val \<leftarrow> go_slice shareBytes 4 (length shareBytes);
         let share = \<lparr>ss_Id = i, ss_Value = val\<rparr>;
         ver \<leftarrow> verifierFromCommits k commits curve;
         case ver of
           Inl e \<Rightarrow> Some None
         | Inr verifier \<Rightarrow> do {
             res \<leftarrow> Feldman_Verify L curve verifier share;
             case res of
               Inl e \<Rightarrow> Some None
             | Inr _ \<Rightarrow> Some (Some (share, verifier)) } } }"

section \<open>Erasure code\<close>

definition pkcs7Pad :: "bytes \<Rightarrow> int \<Rightarrow> bytes err" where
  "pkcs7Pad b blocksize =
     (if blocksize \<le> 0 then Inl ''invalid blocksize''
      else if b = [] then Inl ''invalid PKCS7 data (empty or not padded)''
      else
        let n = nat (blocksize - int (length b) mod blocksize)
        in Inr (b @ replicate n (of_nat n)))"

definition pkcs7Unpad :: "bytes \<Rightarrow> int \<Rightarrow> bytes err" where
  "pkcs7Unpad b blocksize =
     (if blocksize \<le> 0 then Inl ''invalid blocksize''
      else if b = [] then Inl ''invalid PKCS7 data (empty or not padded)''
      else if int (length b) mod blocksize \<noteq> 0 then Inl ''invalid padding on input''
      else
        let c = b ! (length b - 1); n = unat c in
        if n = 0 \<or> n > length b then Inl ''invalid padding on input''
        else if list_ex (\<lambda>i. b ! (length b - n + i) \<noteq> c) [0..<n] then Inl ''invalid padding on input''
        else Inr (take (length b - n) b))"

text \<open>\<open>Encode\<close>: the code is the pair of the required and the total number of shares.\<close>

definition fec_output :: "Share \<Rightarrow> Share list \<Rightarrow> Share list go" where
  "fec_output s shares =
     (if 0 \<le> sh_Number s \<and> sh_Number s < int (length shares)
      then Some (shares[nat (sh_Number s) := s]) else None)"

definition Encode ::
  "('s, 'p) lib \<Rightarrow> int \<times> int \<Rightarrow> bytes \<Rightarrow> Share list err go" where
  "Encode L encoder msg =
     (let shares = replicate (nat (snd encoder)) \<lparr>sh_Number = 0, sh_Data = []\<rparr> in
      case pkcs7Pad msg (fst encoder) of
        Inl e \<Rightarrow> Some (Inl e)
      | Inr paddedMsg \<Rightarrow>
          (case fec_Encode L encoder paddedMsg of
             None \<Rightarrow> Some (Inl ''Encode'')
           | Some out \<Rightarrow> do {
               shares' \<leftarrow> go_fold fec_output out shares;
               Some (Inr shares') }))"

definition Decode :: "('s, 'p) lib \<Rightarrow> int \<times> int \<Rightarrow> Share list \<Rightarrow> bytes err" where
  "Decode L f s =
     (case fec_Decode L f s of
        None \<Rightarrow> Inl ''Decode''
      | Some result \<Rightarrow> pkcs7Unpad result (fst f))"

section \<open>Message data and points\<close>

definition MessageData_Serialize :: "('s, 'p) lib \<Rightarrow> MessageData \<Rightarrow> bytes err" where
  "MessageData_Serialize L m =
     (case json_MarshalData L m of None \<Rightarrow> Inl ''json.Marshal'' | Some b \<Rightarrow> Inr b)"

definition MessageData_Deserialize :: "('s, 'p) lib \<Rightarrow> bytes \<Rightarrow> MessageData err" where
  "MessageData_Deserialize L input =
     (case json_UnmarshalData L input of None \<Rightarrow> Inl ''json.Unmarshal'' | Some m \<Rightarrow> Inr m)"

definition CurvePointToPoint :: "('s, 'p) curve \<Rightarrow> 'p \<Rightarrow> CurveName \<Rightarrow> Point go" where
  "CurvePointToPoint cv p c = do {
     let bytes = p_ToAffineUncompressed cv p;
     if c = ED25519 then do {
       xBytes \<leftarrow> go_slice bytes 0 32;
       yBytes \<leftarrow> go_slice bytes 32 (length bytes);
       Some \<lparr>pt_X = big_SetBytes (rev xBytes), pt_Y = big_SetBytes (rev yBytes)\<rparr> }
     else do {
       xBytes \<leftarrow> go_slice bytes 1 33;
       yBytes \<leftarrow> go_slice bytes 33 (length bytes);
       Some \<lparr>pt_X = big_SetBytes xBytes, pt_Y = big_SetBytes yBytes\<rparr> } }"

section \<open>Round trips\<close>

lemma ecies_wire:
  assumes "ecies_laws L nc"
  shows "\<exists>b. Encrypt L nc r m (p_Mul nc (p_Generator nc) priv) q = Inr b \<and>
    Decrypt L (hex_EncodeToString (s_Bytes nc priv)) b = Some (Inr m)"
proof -
  obtain ct iv epk mac cpk meta where
    enc: "tron_Encrypt L (hex_EncodeToString (p_ToAffineUncompressed nc (p_Mul nc (p_Generator nc) priv))) m r =
          Some (hex_EncodeToString ct, meta)"
    and meta: "meta = \<lparr>em_Mode = 1, em_Iv = hex_EncodeToString iv,
                em_EphemPublicKey = hex_EncodeToString epk, em_Mac = hex_EncodeToString mac\<rparr>"
    and len: "length iv = 16" "length mac = 32" "length (cpk True) = 33"
    and pk: "tron_PublicKey L epk = Some cpk" "cpk False = epk" "tron_PublicKey L (cpk True) = Some cpk"
    and dec: "tron_Decrypt L (hex_EncodeToString (s_Bytes nc priv)) (hex_EncodeToString ct) meta = Some m"
    using assms unfolding ecies_laws_def by metis
  let ?b = "iv @ cpk True @ mac @ ct"
  have "Encrypt L nc r m (p_Mul nc (p_Generator nc) priv) q = Inr ?b"
    by (simp add: Encrypt_def EncodeEncrypted_def enc meta pk)
  moreover have "go_slice ?b 0 16 = Some iv" "go_slice ?b 16 49 = Some (cpk True)"
    "go_slice ?b 49 81 = Some mac" "go_slice ?b 81 (length ?b) = Some ct"
    using len by (simp_all add: go_slice_def)
  then have "DecodeEncrypted L ?b = Some (Inr (hex_EncodeToString ct, meta))"
    by (simp only: DecodeEncrypted_def go_bind_Some pk option.case meta)
  then have "Decrypt L (hex_EncodeToString (s_Bytes nc priv)) ?b = Some (Inr m)"
    by (simp add: Decrypt_def dec)
  ultimately show ?thesis by blast
qed

lemma foldl_append: "foldl (\<lambda>b p. b @ f p) b0 ps = b0 @ concat (map f ps)"
  by (induction ps arbitrary: b0) simp_all

lemma CompressCommitments_concat:
  "CompressCommitments c ps = concat (map (p_ToAffineCompressed c) ps)"
  unfolding CompressCommitments_def by (simp add: foldl_append)

lemma decompress_loop_ok:
  assumes "curve_codec c"
  shows "decompress_loop c (CompressCommitments c (qs @ ps)) (length qs) (length ps) acc =
    Some (Inr (acc @ ps))"
proof (induction ps arbitrary: qs acc)
  case (Cons p ps)
  let ?l = "if c_Name c = ''ed25519'' then 32 else 33 :: nat"
  let ?f = "p_ToAffineCompressed c"
  have len: "length (concat (map ?f xs)) = length xs * ?l" for xs
    by (induction xs) (simp_all add: curve_codec_simps [OF assms])
  have "CompressCommitments c (qs @ p # ps) = concat (map ?f qs) @ ?f p @ concat (map ?f ps)"
    by (simp add: CompressCommitments_concat)
  then have "go_slice (CompressCommitments c (qs @ p # ps)) (length qs * ?l) (length qs * ?l + ?l) =
      Some (?f p)"
    by (simp only: len go_slice_append curve_codec_simps(4) [OF assms])
  then show ?case
    using Cons.IH [of "qs @ [p]" "acc @ [p]"]
    by (simp add: curve_codec_simps [OF assms] Let_def)
qed simp

lemma DecompressCommitments_Compress:
  "curve_codec c \<Longrightarrow> k = int (length ps) \<Longrightarrow>
   DecompressCommitments k (CompressCommitments c ps) c = Some (Inr ps)"
  using decompress_loop_ok [of c "[]" ps "[]"] by (simp add: DecompressCommitments_def)

lemma decompress_loop_length:
  "decompress_loop c b i m acc = Some (Inr ps) \<Longrightarrow> length ps = length acc + m"
proof (induction m arbitrary: i acc)
  case (Suc m)
  then show ?case by (fastforce simp: go_bind_eq_Some Let_def split: option.splits)
qed simp

lemma DecompressCommitments_length:
  "DecompressCommitments k b c = Some (Inr ps) \<Longrightarrow> length ps = nat k"
  by (auto simp: DecompressCommitments_def dest: decompress_loop_length)

lemma pkcs7_facts:
  fixes bs :: int
  assumes "1 \<le> bs" "bs \<le> 255" "b \<noteq> []"
  defines "n \<equiv> nat (bs - int (length b) mod bs)"
  shows "pkcs7Pad b bs = Inr (b @ replicate n (of_nat n))" "1 \<le> n" "n \<le> 255"
    "int (length b + n) mod bs = 0" "unat (of_nat n :: byte) = n"
proof -
  show "pkcs7Pad b bs = Inr (b @ replicate n (of_nat n))"
    using assms(1,3) by (simp add: pkcs7Pad_def n_def Let_def)
  have m: "0 \<le> int (length b) mod bs" "int (length b) mod bs < bs" using assms(1) by simp_all
  then show n: "1 \<le> n" "n \<le> 255" using assms(2) by (simp_all add: n_def)
  have "int n = bs - int (length b) mod bs" using m by (simp add: n_def)
  then have "int (length b + n) = bs * (int (length b) div bs) + bs"
    by (simp add: minus_mod_eq_mult_div [symmetric])
  then show "int (length b + n) mod bs = 0" by (simp only: mod_mult_self1_is_0 mod_add_self2)
  show "unat (of_nat n :: byte) = n" using n by (simp add: unsigned_of_nat take_bit_eq_mod)
qed

lemma pkcs7Unpad_Pad:
  assumes "1 \<le> bs" "bs \<le> 255" "b \<noteq> []"
  shows "\<exists>pb. pkcs7Pad b bs = Inr pb \<and> pb \<noteq> [] \<and> int (length pb) mod bs = 0 \<and>
    pkcs7Unpad pb bs = Inr b"
proof -
  define n where "n = nat (bs - int (length b) mod bs)"
  note facts = pkcs7_facts [OF assms, folded n_def]
  let ?pb = "b @ replicate n (of_nat n)"
  have last: "?pb ! (length ?pb - 1) = of_nat n"
    using facts(2) by (subst nth_append) (auto simp: not_less)
  have all: "\<not> list_ex (\<lambda>i. ?pb ! (length ?pb - n + i) \<noteq> of_nat n) [0..<n]"
    by (simp add: list_ex_iff nth_append)
  have "pkcs7Unpad ?pb bs = Inr b"
    unfolding pkcs7Unpad_def Let_def last facts(5)
    using all facts(2,4) assms(1,3) by simp
  then show ?thesis using facts assms(3) by auto
qed

lemma fec_output_fold:
  assumes "map sh_Number ss = map int [a..<b]" "b \<le> length acc" "a \<le> b"
  shows "go_fold fec_output ss acc = Some (take a acc @ ss @ drop b acc)"
  using assms
proof (induction ss arbitrary: a acc)
  case Nil
  then have "a = b" by auto
  then show ?case by simp
next
  case (Cons s ss)
  then have ab: "a < b" by (cases "a < b") auto
  then have "[a..<b] = a # [Suc a..<b]" by (rule upt_conv_Cons)
  with Cons.prems have s: "sh_Number s = int a" "map sh_Number ss = map int [Suc a..<b]" by auto
  have "go_fold fec_output ss (acc[a := s]) = Some (take (Suc a) (acc[a := s]) @ ss @ drop b (acc[a := s]))"
    using Cons.prems ab s by (intro Cons.IH) auto
  moreover have "take (Suc a) (acc[a := s]) = take a acc @ [s]"
    using Cons.prems ab by (simp add: take_Suc_conv_app_nth)
  moreover have "fec_output s acc = Some (acc[a := s])"
    using s Cons.prems ab by (simp add: fec_output_def)
  ultimately show ?case using ab by simp
qed

lemma Encode_Decode:
  assumes "fec_laws L k n" "1 \<le> k" "k \<le> 255" "msg \<noteq> []"
  shows "\<exists>ss. Encode L (k, n) msg = Some (Inr ss) \<and> map sh_Number ss = map int [0..<nat n] \<and>
    (\<forall>rs. distinct rs \<and> set rs \<subseteq> set ss \<and> k \<le> int (length rs) \<longrightarrow> Decode L (k, n) rs = Inr msg)"
proof -
  obtain pb where pb: "pkcs7Pad msg k = Inr pb" "pb \<noteq> []" "int (length pb) mod k = 0"
    "pkcs7Unpad pb k = Inr msg"
    using pkcs7Unpad_Pad [OF assms(2,3,4)] by (elim exE conjE) (rule that)
  obtain ss where ss: "fec_Encode L (k, n) pb = Some ss" "map sh_Number ss = map int [0..<nat n]"
    "\<forall>rs. distinct rs \<and> set rs \<subseteq> set ss \<and> k \<le> int (length rs) \<longrightarrow> fec_Decode L (k, n) rs = Some pb"
    using fec_code [OF assms(1) pb(2,3)] by (elim exE conjE) (rule that)
  have "go_fold fec_output ss (replicate (nat n) \<lparr>sh_Number = 0, sh_Data = []\<rparr>) = Some ss"
    using fec_output_fold [OF ss(2), of "replicate (nat n) \<lparr>sh_Number = 0, sh_Data = []\<rparr>"] by simp
  then have "Encode L (k, n) msg = Some (Inr ss)"
    by (simp add: Encode_def Let_def pb ss)
  with ss pb show ?thesis by (auto simp: Decode_def)
qed

end
