(* ===== verification/SharingTheorems.thy ===== *)
theory SharingTheorems
  imports AcssCommon
begin

text \<open>
  The properties of secret sharing and of the functions of the sharing phase: shares combine to
  the secret, Feldman verification is exact, Lagrange coefficients and derived public keys are
  those of the sum of the dealers' polynomials, and a dealing of an honest dealer survives
  encryption, compression and erasure coding.
\<close>

lemma NewShamir_Inr:
  "NewShamir t l (Some c) = Inr s \<Longrightarrow>
   s = \<lparr>sm_threshold = t, sm_limit = l, sm_curve = c\<rparr> \<and> t \<le> l \<and> 2 \<le> t \<and> l \<le> 255"
  by (auto simp: NewShamir_def not_less split: if_splits)

lemma NewFeldman_Inr:
  "NewFeldman t l (Some c) = Inr f \<Longrightarrow>
   f = \<lparr>fm_Threshold = t, fm_Limit = l, fm_Curve = c\<rparr> \<and> t \<le> l \<and> 2 \<le> t \<and> l \<le> 255"
  by (auto simp: NewFeldman_def not_less split: if_splits)

lemma threshold_positive: "2 \<le> t \<Longrightarrow> 0 < unat (t :: 32 word)"
  by (simp add: word_le_nat_alt)

lemma limit_nat: "l \<le> 255 \<Longrightarrow> unat (l :: 32 word) \<le> 255"
  by (simp add: word_le_nat_alt)

lemma shares_valid:
  assumes "set shares \<subseteq> set (fst (Shamir_getPolyAndShares s secret reader))"
    and "distinct (map ss_Id shares)" "\<forall>sh \<in> set shares. ShamirShare_Validate (sm_curve s) sh = Inr ()"
  shows "valid_shares s (snd (Shamir_getPolyAndShares s secret reader)) shares"
  using assms unfolding valid_shares_def Shamir_getPolyAndShares_def ShamirShare_Validate_def
  by (fastforce simp: Let_def split: if_splits option.splits)

text \<open>The points and values that \<open>combine_loop\<close> reads lie on the polynomial.\<close>

lemma shares_on_polynomial:
  fixes v :: "'s \<Rightarrow> 'f::field" and shares :: "ShamirShare list"
  assumes laws: "curve_laws c v d" and "valid_shares s poly shares" "sm_curve s = c" "sm_limit s \<le> 255"
  defines "xs \<equiv> map (\<lambda>sh. s_New c (uint (ss_Id sh))) shares"
    and "ys \<equiv> map (\<lambda>sh. the (s_SetBytes c (ss_Value sh))) shares"
  shows "distinct (map v xs)" "i < length xs \<Longrightarrow> v (ys ! i) = poly_val v poly (v (xs ! i))"
proof -
  note cl = curve_laws_parts [OF laws]
  have sub: "set shares \<subseteq> set (polyShares c poly (unat (sm_limit s)))" and
    dist: "distinct (map ss_Id shares)" using assms(2,3) by (auto simp: valid_shares_def)
  have lim: "unat (sm_limit s) \<le> 255" using assms(4) by (rule limit_nat)
  show "distinct (map v xs)"
    using share_points_distinct [OF cl(1) sub lim dist]
    by (simp add: xs_def comp_def curve_field_simps(9) [OF cl(1)] del: of_int_uint)
  assume "i < length xs"
  then have i: "shares ! i \<in> set shares" "i < length shares" by (simp_all add: xs_def)
  then obtain y where "s_SetBytes c (ss_Value (shares ! i)) = Some y"
    "v y = poly_val v poly (of_int (uint (ss_Id (shares ! i))))"
    using share_value [OF cl(1,3,4) subsetD [OF sub i(1)] lim] by blast
  with i show "v (ys ! i) = poly_val v poly (v (xs ! i))"
    by (simp add: xs_def ys_def curve_field_simps(9) [OF cl(1)] del: of_int_uint)
qed

lemma Combine_secret:
  assumes "curve_laws c v d" "NewShamir t l (Some c) = Inr s"
    and "valid_shares s poly shares" "poly \<noteq> []" "length poly \<le> length shares"
    and "int (length shares) \<ge> uint t"
  shows "Shamir_Combine s shares = Inr (poly ! 0) \<and>
    Shamir_CombinePoints s shares = Inr (p_Mul c (p_Generator c) (poly ! 0))"
proof -
  note s = NewShamir_Inr [OF assms(2)] and cl = curve_laws_parts [OF assms(1)]
  then have sc: "sm_curve s = c" "sm_limit s \<le> 255" "\<not> int (length shares) < uint (sm_threshold s)"
    using assms(6) by auto
  let ?xs = "map (\<lambda>sh. s_New c (uint (ss_Id sh))) shares"
  let ?ys = "map (\<lambda>sh. the (s_SetBytes c (ss_Value sh))) shares"
  let ?gs = "map (\<lambda>y. p_Mul c (p_Generator c) y) ?ys"
  note on = shares_on_polynomial [OF assms(1,3) sc(1,2)]
  have loop: "combine_loop s shares [] [] = Inr (zip ?xs ?ys)"
    using combine_loop_shares [OF assms(3) sc(2)] by (simp add: sc zip_map_map zip_same_conv_map)
  have len: "length poly \<le> length ?xs" using assms(5) by simp
  obtain r where r: "interpolate c ?xs ?ys = Inr r" "v r = v (poly ! 0)"
    using interpolate_correct [OF cl(1) on(1) _ poly_fn_poly_val len on(2)] poly_val_0 [OF assms(4), of v]
    by auto
  obtain q where q: "interpolatePoint c ?xs ?gs = Inr q" "d q = v (poly ! 0)"
    using interpolatePoint_correct [OF cl(1,2) on(1) _ poly_fn_poly_val [of poly v] len, of ?gs] on(2)
      poly_val_0 [OF assms(4), of v] by (auto simp: curve_group_simps [OF cl(2)])
  have "r = poly ! 0" using r(2) by (simp add: curve_value_inject [OF cl(1)])
  moreover have "q = p_Mul c (p_Generator c) (poly ! 0)"
    using q(2) by (simp add: curve_group_simps [OF cl(2)] flip: curve_log_inject [OF cl(2)])
  ultimately show ?thesis
    using r(1) q(1) by (simp add: Shamir_Combine_def Shamir_CombinePoints_def sc loop)
qed

text \<open>
  C20. Any set of at least \<open>threshold\<close> distinct, valid shares of a split combines to the secret,
  and \<open>CombinePoints\<close> on the same shares gives the generator times the secret: the result does
  not depend on which shares are used or on their order.
\<close>

theorem shamir_combine_recovers:
  assumes "curve_laws c v d" "NewShamir t l (Some c) = Inr s"
    and "Shamir_Split s secret reader = Inr all" "set shares \<subseteq> set all"
    and "distinct (map ss_Id shares)" "\<forall>sh \<in> set shares. ShamirShare_Validate c sh = Inr ()"
    and "unat t \<le> length shares"
  shows "Shamir_Combine s shares = Inr secret \<and>
    Shamir_CombinePoints s shares = Inr (p_Mul c (p_Generator c) secret)"
proof -
  note s = NewShamir_Inr [OF assms(2)] and cl = curve_laws_parts [OF assms(1)]
  let ?poly = "snd (Shamir_getPolyAndShares s secret reader)"
  have k: "0 < unat t" using s threshold_positive by blast
  have all: "all = fst (Shamir_getPolyAndShares s secret reader)"
    using assms(3) by (simp add: Shamir_Split_def split: if_splits)
  have poly: "length ?poly = unat t" "?poly ! 0 = secret"
    using s k by (simp_all add: Shamir_getPolyAndShares_def Let_def curve_poly_simps [OF cl(4)])
  have valid: "valid_shares s ?poly shares"
    using assms(4-6) s by (intro shares_valid) (simp_all add: all)
  have ne: "?poly \<noteq> []" using poly(1) k by (metis length_greater_0_conv)
  have len: "length ?poly \<le> length shares" using poly(1) assms(7) by simp
  have "uint t \<le> int (length shares)" using assms(7) by (metis of_nat_mono uint_nat)
  from Combine_secret [OF assms(1,2) valid ne len this] show ?thesis by (simp only: poly(2))
qed

definition gf_share :: "nat \<Rightarrow> gf \<Rightarrow> ShamirShare" where
  "gf_share i y = \<lparr>ss_Id = of_nat i, ss_Value = gf_bytes 30 y\<rparr>"

lemma upt_0_2: "[0..<2] = [0, 1 :: nat]"
  by (simp add: upt_rec)

lemma upt_0_3: "[0..<3] = [0, 1, 2 :: nat]"
  by (simp add: upt_rec)

lemma gf_split:
  "Shamir_Split \<lparr>sm_threshold = 2, sm_limit = 3, sm_curve = gf_curve ''secp256k1''\<rparr> 5 [10] =
   Inr [gf_share 1 15, gf_share 2 25, gf_share 3 35]"
  by (simp add: Shamir_Split_def Shamir_getPolyAndShares_def polyShares_def gf_curve_def
      gf_poly_init_def gf_share_def gf_numeral_eq upt_0_3)

theorem shamir_combine_recovers_witness:
  "Shamir_Combine \<lparr>sm_threshold = 2, sm_limit = 3, sm_curve = gf_curve ''secp256k1''\<rparr>
     [gf_share 3 35, gf_share 1 15] = Inr 5"
proof -
  have "ShamirShare_Validate (gf_curve ''secp256k1'') (gf_share 3 35) = Inr ()"
    "ShamirShare_Validate (gf_curve ''secp256k1'') (gf_share 1 15) = Inr ()"
    by (simp_all add: ShamirShare_Validate_def gf_share_def gf_curve_def gf_numeral_eq)
  then show ?thesis
    using shamir_combine_recovers [OF gf_curve_laws [of "''secp256k1''"] _ gf_split,
        of 2 3 "[gf_share 3 35, gf_share 1 15]"]
    by (simp add: NewShamir_def gf_share_def)
qed

section \<open>Feldman commitments\<close>

lemma Feldman_Split_Inr:
  assumes "NewFeldman t l (Some c) = Inr f" "CurveParams L (c_Name c) = Some (g, h)"
    and "Feldman_Split L f secret reader = Some (Inr (commits, shares))"
  shows "commits = commitPoly c g (poly_Init c secret (unat t) reader) (unat t) \<and>
    shares = polyShares c (poly_Init c secret (unat t) reader) (unat l)"
  using assms NewFeldman_Inr [OF assms(1)]
  by (auto simp: Feldman_Split_def Feldman_shamir_def Shamir_getPolyAndShares_def Let_def
      split: if_splits)

lemma Feldman_Verify_commitPoly:
  assumes "curve_laws c v d" "CurveParams L (c_Name c) = Some (g, h)"
    and "\<not> p_Equal c g (p_Identity c)" "poly \<noteq> []"
  shows "Feldman_Verify L c (commitPoly c g poly (length poly)) share = Some (Inr ()) \<longleftrightarrow>
    ss_Id share \<noteq> 0 \<and> (\<exists>sc. s_SetBytes c (ss_Value share) = Some sc \<and> \<not> s_IsZero c sc \<and>
      sc = poly_Evaluate c poly (s_New c (uint (ss_Id share))))"
proof -
  note cl = curve_laws_parts [OF assms(1)]
  have g: "d g \<noteq> 0" using assms(3) by (simp add: curve_group_simps [OF cl(2)])
  have ne: "commitPoly c g poly (length poly) \<noteq> []" using assms(4) by (simp add: commitPoly_def)
  have "v sc = poly_val v poly (of_int (uint (ss_Id share))) \<longleftrightarrow>
      sc = poly_Evaluate c poly (s_New c (uint (ss_Id share)))" for sc
    by (simp add: poly_val_def curve_poly_simps [OF cl(4)] curve_field_simps [OF cl(1)]
        flip: curve_value_inject [OF cl(1)] del: of_int_uint)
  then show ?thesis
    unfolding Feldman_Verify_iff [OF cl(1,2) ne assms(2)] poly_val_commitPoly [OF cl(2) refl]
    using g by (simp add: curve_field_simps [OF cl(1)] del: of_int_uint)
qed

text \<open>
  C4. Verification is exact: against the commitments of a split, \<open>FeldmanVerifier.Verify\<close>
  accepts a share if and only if its identifier is not zero and its value is the (nonzero)
  value of the dealer's polynomial at the identifier.
\<close>

theorem feldman_verify_exact:
  assumes "curve_laws c v d" "NewFeldman t l (Some c) = Inr f"
    and "CurveParams L (c_Name c) = Some (g, h)" "\<not> p_Equal c g (p_Identity c)"
    and "Feldman_Split L f secret reader = Some (Inr (commits, shares))"
  shows "Feldman_Verify L c commits share = Some (Inr ()) \<longleftrightarrow>
    ss_Id share \<noteq> 0 \<and> (\<exists>sc. s_SetBytes c (ss_Value share) = Some sc \<and> \<not> s_IsZero c sc \<and>
      sc = poly_Evaluate c (poly_Init c secret (unat t) reader) (s_New c (uint (ss_Id share))))"
proof -
  let ?poly = "poly_Init c secret (unat t) reader"
  have "0 < unat t" using NewFeldman_Inr [OF assms(2)] threshold_positive by blast
  then have len: "length ?poly = unat t"
    by (simp add: curve_poly_simps [OF curve_laws_parts(4) [OF assms(1)]])
  with \<open>0 < unat t\<close> have "?poly \<noteq> []" by (metis length_greater_0_conv)
  from Feldman_Verify_commitPoly [OF assms(1,3,4) this, of share]
  show ?thesis using Feldman_Split_Inr [OF assms(2,3,5)] by (simp only: len)
qed

lemma gf_params: "CurveParams gf_lib (c_Name (gf_curve ''secp256k1'')) = Some (238, 1)"
  by (simp add: gf_curve_def CurveParams_gf)

lemma gf_base: "\<not> p_Equal (gf_curve nm) 238 (p_Identity (gf_curve nm))"
  by (simp add: gf_curve_def gf_numeral_eq)

text \<open>Verification in the concrete field, for two commitments.\<close>

lemma gf_verify:
  "Feldman_Verify gf_lib (gf_curve ''secp256k1'') [a, b] (gf_share i y) =
   Some (if (of_nat i :: 32 word) = 0 then Inl ''invalid identifier''
         else if y = 0 then Inl ''invalid share''
         else if 238 * y = a + b * of_int (uint (of_nat i :: 32 word)) then Inr ()
         else Inl ''not equal'')"
  by (simp add: Feldman_Verify_def go_index_def ShamirShare_Validate_def gf_share_def CurveParams_gf
      gf_curve_def upto.simps)

lemma gf_feldman_split:
  "Feldman_Split gf_lib \<lparr>fm_Threshold = 2, fm_Limit = 3, fm_Curve = gf_curve ''secp256k1''\<rparr> 5 [10] =
   Some (Inr ([1190, 2380], [gf_share 1 15, gf_share 2 25, gf_share 3 35]))"
  using gf_split
  by (simp add: Feldman_Split_def Shamir_Split_def Feldman_shamir_def gf_params split: if_splits)
    (simp add: Shamir_getPolyAndShares_def gf_curve_def gf_poly_init_def commitPoly_def Let_def
      upt_0_2)

theorem feldman_verify_exact_witness:
  "Feldman_Verify gf_lib (gf_curve ''secp256k1'') [1190, 2380] (gf_share 2 25) = Some (Inr ()) \<and>
   Feldman_Verify gf_lib (gf_curve ''secp256k1'') [1190, 2380] (gf_share 2 26) \<noteq> Some (Inr ())"
  using feldman_verify_exact [OF gf_curve_laws [of "''secp256k1''"] _ gf_params gf_base gf_feldman_split,
      of 2 3 "gf_share 2 25"]
    feldman_verify_exact [OF gf_curve_laws [of "''secp256k1''"] _ gf_params gf_base gf_feldman_split,
      of 2 3 "gf_share 2 26"]
  by (simp add: NewFeldman_def gf_share_def gf_curve_def gf_poly_init_def gf_numeral_eq)

text \<open>
  C19. Verified shares bind the dealer: whatever commitments a dealer sends, any \<open>threshold\<close>
  or more shares with distinct identifiers that verify against them combine to one and the same
  secret, the one whose commitment is the first of the list.
\<close>

theorem feldman_binding:
  assumes "curve_laws c v d" "NewShamir t l (Some c) = Inr s"
    and "CurveParams L (c_Name c) = Some (g, h)" "\<not> p_Equal c g (p_Identity c)"
    and "length commits = unat t"
    and "\<forall>sh \<in> set shares. ss_Id sh \<le> l \<and> Feldman_Verify L c commits sh = Some (Inr ())"
    and "distinct (map ss_Id shares)" "unat t \<le> length shares"
  shows "\<exists>secret. Shamir_Combine s shares = Inr secret \<and> p_Mul c g secret = commits ! 0"
proof -
  note sn = NewShamir_Inr [OF assms(2)] and cl = curve_laws_parts [OF assms(1)]
  have g: "d g \<noteq> 0" using assms(4) by (simp add: curve_group_simps [OF cl(2)])
  have "0 < unat t" using sn threshold_positive by blast
  then have ne: "commits \<noteq> []" using assms(5) by auto
  let ?f = "\<lambda>x. poly_val d commits x / d g"
  let ?xs = "map (\<lambda>sh. s_New c (uint (ss_Id sh))) shares"
  let ?ys = "map (\<lambda>sh. the (s_SetBytes c (ss_Value sh))) shares"
  have ver: "ss_Id sh \<noteq> 0 \<and> (\<exists>sc. s_SetBytes c (ss_Value sh) = Some sc \<and> v sc \<noteq> 0 \<and>
      v sc = ?f (of_int (uint (ss_Id sh))))" if "sh \<in> set shares" for sh
    using assms(6) that g unfolding Feldman_Verify_iff [OF cl(1,2) ne assms(3)]
    by (fastforce simp: field_simps)
  have loop: "combine_loop s shares [] [] = Inr (zip ?xs ?ys)"
    using sn assms(6,7) ver
    by (subst combine_loop_ok)
      (fastforce simp: curve_field_simps [OF cl(1)] zip_map_map zip_same_conv_map)+
  have fn: "poly_fn (unat t) ?f"
    unfolding assms(5) [symmetric] poly_val_def sum_divide_distrib
    by (rule poly_fnI [where c = "\<lambda>i. d (commits ! i) / d g"]) simp
  have pts: "distinct (map v ?xs)"
    using limited_points_distinct [OF cl(1) _ assms(7), of l] sn assms(6)
    by (simp add: comp_def curve_field_simps [OF cl(1)] del: of_int_uint)
  have vals: "v (?ys ! i) = ?f (v (?xs ! i))" if "i < length ?xs" for i
    using ver [of "shares ! i"] that by (auto simp: curve_field_simps [OF cl(1)] simp del: of_int_uint)
  obtain r where r: "interpolate c ?xs ?ys = Inr r" "v r = ?f 0"
    using interpolate_correct [OF cl(1) pts _ fn _ vals] assms(8) by auto
  have "d (p_Mul c g r) = d (commits ! 0)"
    using r(2) g by (simp add: curve_group_simps [OF cl(2)] poly_val_0 [OF ne])
  then have "p_Mul c g r = commits ! 0" by (simp add: curve_log_inject [OF cl(2)])
  moreover have "\<not> int (length shares) < uint t" using assms(8) by (metis of_nat_mono uint_nat not_less)
  moreover have "sm_curve s = c" "sm_threshold s = t" using sn by simp_all
  ultimately show ?thesis
    using r(1) by (simp add: Shamir_Combine_def loop)
qed

theorem feldman_binding_witness:
  "\<exists>secret. Shamir_Combine \<lparr>sm_threshold = 2, sm_limit = 3, sm_curve = gf_curve ''secp256k1''\<rparr>
     [gf_share 3 35, gf_share 1 15] = Inr secret \<and>
     p_Mul (gf_curve ''secp256k1'') 238 secret = [1190, 2380] ! 0"
proof -
  have "Feldman_Verify gf_lib (gf_curve ''secp256k1'') [1190, 2380] (gf_share 3 35) = Some (Inr ())"
    "Feldman_Verify gf_lib (gf_curve ''secp256k1'') [1190, 2380] (gf_share 1 15) = Some (Inr ())"
    by (simp_all add: gf_verify gf_numeral_eq)
  then show ?thesis
    using feldman_binding [OF gf_curve_laws [of "''secp256k1''"] _ gf_params gf_base,
        of 2 3 "\<lparr>sm_threshold = 2, sm_limit = 3, sm_curve = gf_curve ''secp256k1''\<rparr>"
          "[1190, 2380]" "[gf_share 3 35, gf_share 1 15]"]
    by (simp add: NewShamir_def gf_share_def)
qed

section \<open>Coefficients and derived keys\<close>

text \<open>
  The coefficients \<open>aba.LagrangeCoeffs\<close> computes are those of interpolation at zero: for
  node identifiers up to 255 it never fails, whatever the order in which Go ranges over the
  map, and the sum of the coefficients times the values of a polynomial with at most as many
  coefficients as there are identifiers is its constant coefficient.
\<close>

lemma lagrange_coeffs_interpolate:
  fixes v :: "'s \<Rightarrow> 'f::field"
  assumes "curve_laws c v d" "range_laws L" "\<forall>i \<in> set ids. 0 \<le> i \<and> i < 256"
  shows "\<exists>r. LagrangeCoeffs (range_int L) ids c = Inr r \<and> set (m_keys r) = set ids \<and>
    (\<forall>poly. poly \<noteq> [] \<and> length poly \<le> card (set ids) \<longrightarrow>
      (\<Sum>i \<in> set ids. v (the (m_get r i)) * poly_val v poly (of_int i)) = v (poly ! 0))"
proof -
  note cl = curve_laws_parts [OF assms(1)]
  obtain r where r: "LagrangeCoeffs (range_int L) ids c = Inr r" "set (m_keys r) = set ids"
    "\<forall>i \<in> set ids. \<exists>s. m_get r i = Some s \<and> v s = lagrange0 (of_int ` set ids) (of_int i)"
    using LagrangeCoeffs_ok [OF cl(1) range_int_laws(1) range_int_laws(2) assms(3), OF assms(2,2)]
    by blast
  have inj: "inj_on (of_int :: int \<Rightarrow> 'f) (set ids)"
    by (rule small_ints_inj [OF cl(1) assms(3)])
  have "(\<Sum>i \<in> set ids. v (the (m_get r i)) * poly_val v poly (of_int i)) = v (poly ! 0)"
    if poly: "poly \<noteq> []" "length poly \<le> card (set ids)" for poly
  proof -
    let ?X = "of_int ` set ids :: 'f set"
    have "(\<Sum>i \<in> set ids. v (the (m_get r i)) * poly_val v poly (of_int i)) =
        (\<Sum>i \<in> set ids. poly_val v poly (of_int i) * lagrange0 ?X (of_int i))"
      using r(3) by (intro sum.cong) (auto simp: mult.commute)
    also have "\<dots> = (\<Sum>x \<in> ?X. poly_val v poly x * lagrange0 ?X x)"
      using inj by (simp add: sum.reindex)
    also have "\<dots> = poly_val v poly 0"
      using poly(2) inj by (intro lagrange_at_0 [OF poly_fn_poly_val]) (auto simp: card_image)
    finally show ?thesis by (simp add: poly_val_0 [OF poly(1)])
  qed
  with r show ?thesis by blast
qed

lemma lagrange_coeffs_interpolate_witness:
  "\<exists>r. LagrangeCoeffs (range_int gf_lib) [2, 3] (gf_curve ''secp256k1'') = Inr r \<and>
     set (m_keys r) = {2, 3} \<and>
     (\<Sum>i \<in> {2, 3}. the (m_get r i) * poly_val id [5, 10] (of_int i)) = 5"
  using lagrange_coeffs_interpolate [OF gf_curve_laws [of "''secp256k1''"] gf_range_laws, of "[2, 3]"]
  by (fastforce simp: card_insert_if)

text \<open>
  C25. The public key share derived for a node from the dealers' commitments is the base point
  times the sum, over the dealers, of the values of their polynomials at the node: the public
  key of the node's share of the combined secret. It never panics when every dealer has at
  least \<open>k\<close> commitments.
\<close>

theorem derive_public_key_correct:
  assumes "curve_laws c v d" "1 \<le> k" "Tj \<noteq> []"
    and "\<forall>l \<in> set Tj. length (poly l) = nat k \<and>
           m_get commitment l = Some (commitPoly c g (poly l) (nat k))"
  shows "\<exists>gI. DerivePublicKey nodeId k c Tj commitment = Some gI \<and>
    (\<forall>s. v s = (\<Sum>l\<leftarrow>Tj. v (poly_Evaluate c (poly l) (s_New c nodeId))) \<longrightarrow> gI = p_Mul c g s)"
proof -
  note cl = curve_laws_parts [OF assms(1)]
  have com: "m_zero [] commitment l = commitPoly c g (poly l) (nat k)" "length (poly l) = nat k"
    if "l \<in> set Tj" for l using assms(4) that by (simp_all add: m_zero_def)
  have "\<forall>l \<in> set Tj. \<exists>cs. m_get commitment l = Some cs \<and> k \<le> int (length cs)"
    using assms(2,4) by (auto simp: commitPoly_def)
  then obtain gI where gI: "DerivePublicKey nodeId k c Tj commitment = Some gI"
    "d gI = (\<Sum>l\<leftarrow>Tj. poly_val d (take (nat k) (m_zero [] commitment l)) (of_int nodeId))"
    using DerivePublicKey_ok [OF cl(1,2) assms(2,3)] by blast
  have "poly_val d (take (nat k) (m_zero [] commitment l)) (of_int nodeId) =
      d g * v (poly_Evaluate c (poly l) (s_New c nodeId))" if "l \<in> set Tj" for l
  proof -
    have "poly_val d (take (nat k) (m_zero [] commitment l)) (of_int nodeId) =
        poly_val d (commitPoly c g (poly l) (nat k)) (of_int nodeId)"
      by (simp add: com [OF that]) (simp add: commitPoly_def)
    also have "\<dots> = d g * poly_val v (poly l) (of_int nodeId)"
      by (rule poly_val_commitPoly [OF cl(2)]) (simp add: com [OF that])
    finally show ?thesis
      by (simp add: poly_val_def curve_poly_simps [OF cl(4)] curve_field_simps [OF cl(1)])
  qed
  then have "d gI = (\<Sum>l\<leftarrow>Tj. d g * v (poly_Evaluate c (poly l) (s_New c nodeId)))"
    unfolding gI(2) by (intro arg_cong [of _ _ sum_list] map_cong) auto
  then have "d gI = d g * (\<Sum>l\<leftarrow>Tj. v (poly_Evaluate c (poly l) (s_New c nodeId)))"
    by (simp add: sum_list_const_mult)
  then have "gI = p_Mul c g s"
    if "v s = (\<Sum>l\<leftarrow>Tj. v (poly_Evaluate c (poly l) (s_New c nodeId)))" for s
    using that by (simp add: curve_group_simps [OF cl(2)] flip: curve_log_inject [OF cl(2)])
  with gI(1) show ?thesis by blast
qed

theorem derive_public_key_correct_witness:
  "\<exists>gI. DerivePublicKey 2 2 (gf_curve ''secp256k1'') [1, 3] [(3, [1190, 2380]), (1, [238, 476])] =
     Some gI \<and> gI = p_Mul (gf_curve ''secp256k1'') 238 30"
proof -
  let ?c = "gf_curve ''secp256k1''" and ?poly = "\<lambda>l :: int. if l = 1 then [1, 2] else [5, 10]"
  have com: "commitPoly ?c 238 [1, 2] 2 = [238, 476]" "commitPoly ?c 238 [5, 10] 2 = [1190, 2380]"
    by (simp_all add: commitPoly_def gf_curve_def upt_0_2)
  have val: "poly_Evaluate ?c [1, 2] (s_New ?c 2) = 5" "poly_Evaluate ?c [5, 10] (s_New ?c 2) = 25"
    by (simp_all add: gf_curve_def)
  show ?thesis
    using derive_public_key_correct [OF gf_curve_laws [of "''secp256k1''"], of 2 "[1, 3]" ?poly
        "[(3, [1190, 2380]), (1, [238, 476])]" 238 2]
    by (auto simp: com val)
qed

section \<open>Dealing, encrypting and encoding\<close>

text \<open>
  The erasure code with PKCS7 padding is lossless: for 1 to 255 required shares, any
  required number of the distinct shares \<open>Encode\<close> produces for a message that is not empty
  decode to the message, and share \<open>i\<close> of the result has the number \<open>i\<close>.
\<close>

lemma erasure_roundtrip:
  assumes "fec_laws L k n" "1 \<le> k" "k \<le> 255" "msg \<noteq> []"
  shows "\<exists>ss. Encode L (k, n) msg = Some (Inr ss) \<and> map sh_Number ss = map int [0..<nat n] \<and>
    (\<forall>rs. distinct rs \<and> set rs \<subseteq> set ss \<and> k \<le> int (length rs) \<longrightarrow> Decode L (k, n) rs = Inr msg)"
  by (rule Encode_Decode [OF assms])

lemma erasure_roundtrip_witness:
  "\<exists>ss. Encode gf_lib (2, 3) [7, 8, 9] = Some (Inr ss) \<and> length ss = 3 \<and>
     Decode gf_lib (2, 3) [ss ! 2, ss ! 0] = Inr [7, 8, 9]"
proof -
  obtain ss where ss: "Encode gf_lib (2, 3) [7, 8, 9] = Some (Inr ss)"
    "map sh_Number ss = map int [0..<nat 3]"
    "\<forall>rs. distinct rs \<and> set rs \<subseteq> set ss \<and> 2 \<le> int (length rs) \<longrightarrow>
      Decode gf_lib (2, 3) rs = Inr [7, 8, 9]"
    using erasure_roundtrip [OF gf_fec_laws, of 2 3 "[7, 8, 9]"]
    by (elim meta_impE) (simp_all, metis)
  have len: "length ss = 3" using arg_cong [OF ss(2), of length] by simp
  have "sh_Number (ss ! 2) = 2" "sh_Number (ss ! 0) = 0"
    using arg_cong [OF ss(2), of "\<lambda>l. l ! 2"] arg_cong [OF ss(2), of "\<lambda>l. l ! 0"] len by simp_all
  then have "ss ! 2 \<noteq> ss ! 0" by auto
  then show ?thesis using ss(1,3) len by auto
qed

lemma acss_Split_ok:
  assumes "curve_poly c v" "CurveParams L (c_Name c) = Some (g, h)" "0 < unat t"
  shows "acss_Split L secret t l c reader =
    Some (Inr (commitPoly c g (poly_Init c secret (unat t) reader) (unat t),
               polyShares c (poly_Init c secret (unat t) reader) (unat l)))"
proof -
  let ?poly = "poly_Init c secret (unat t) reader"
  have "go_map (\<lambda>i. do { (base, h) \<leftarrow> CurveParams L (c_Name c); a \<leftarrow> go_index ?poly (int i);
      Some (p_Mul c base a) }) [0..<unat t] = Some (commitPoly c g ?poly (unat t))"
    unfolding commitPoly_def
    by (rule go_map_Some) (simp add: assms(2) go_index_def curve_poly_simps(1) [OF assms(1,3)] del: of_nat_unat)
  then show ?thesis by (simp add: acss_Split_def getPolyAndShares_def Let_def)
qed

lemma acss_Predicate_accepts:
  assumes "Decrypt L (hex_EncodeToString key) b = Some (Inr (ShamirShare_Bytes sh))"
    and "DecompressCommitments k commits c = Some (Inr ps)"
    and "Feldman_Verify L c ps sh = Some (Inr ())"
  shows "acss_Predicate L key b commits k c = Some (Some (sh, ps))"
proof -
  have "go_slice (ShamirShare_Bytes sh) 0 4 = Some (PutUint32 (ss_Id sh))"
    "go_slice (ShamirShare_Bytes sh) 4 (length (ShamirShare_Bytes sh)) = Some (ss_Value sh)"
    by (simp_all add: ShamirShare_Bytes_def go_slice_def)
  moreover have "BE_Uint32 (PutUint32 (ss_Id sh)) = Some (ss_Id sh)"
    using Uint32_Put [of "ss_Id sh" "[]"] by simp
  moreover have "\<lparr>ss_Id = ss_Id sh, ss_Value = ss_Value sh\<rparr> = sh" by simp
  ultimately show ?thesis
    using assms by (simp only: acss_Predicate_def verifierFromCommits_def Let_def go_bind_Some sum.case)
qed

text \<open>
  C26. An honest dealing is accepted: for \<open>2 \<le> k \<le> n \<le> 255\<close>,
  \<open>GenerateCommitmentAndShares\<close> succeeds with \<open>n\<close> shares and \<open>k\<close> commitments, and each share
  (whose value is not zero), encrypted to the public key of a node, passes \<open>Predicate\<close> at
  that node against the compressed commitments, which gives back the share and the commitments.
\<close>

theorem honest_dealing_accepted:
  assumes "curve_laws c v d" "ecies_laws L nc" "CurveParams L (c_Name c) = Some (g, h)"
    and "\<not> p_Equal c g (p_Identity c)" "2 \<le> k" "k \<le> n" "n \<le> 255"
  shows "\<exists>commits shares.
    GenerateCommitmentAndShares L secret k n c reader = Some (Inr (commits, shares)) \<and>
    length commits = unat k \<and> length shares = unat n \<and>
    (\<forall>sh \<in> set shares. ShamirShare_Validate c sh = Inr () \<longrightarrow>
      (\<forall>priv r q. \<exists>b. Encrypt L nc r (ShamirShare_Bytes sh) (p_Mul nc (p_Generator nc) priv) q = Inr b \<and>
        acss_Predicate L (s_Bytes nc priv) b (CompressCommitments c commits) (uint k) c =
          Some (Some (sh, commits))))"
proof -
  note cl = curve_laws_parts [OF assms(1)]
  have k: "0 < unat k" by (rule threshold_positive [OF assms(5)])
  define poly where "poly = poly_Init c secret (unat k) reader"
  define commits where "commits = commitPoly c g poly (unat k)"
  define shares where "shares = polyShares c poly (unat n)"
  have len: "length poly = unat k" "poly \<noteq> []"
    using k curve_poly_simps(1) [OF cl(4) k, of secret reader] by (auto simp: poly_def)
  have gen: "GenerateCommitmentAndShares L secret k n c reader = Some (Inr (commits, shares))"
    using assms(5-7) acss_Split_ok [OF cl(4) assms(3) k, of secret n reader]
    by (simp add: GenerateCommitmentAndShares_def NewFeldman_def not_less [symmetric]
        commits_def shares_def poly_def)
  have lc: "length commits = unat k" "length shares = unat n"
    by (simp_all add: commits_def commitPoly_def shares_def polyShares_def)
  have dec: "DecompressCommitments (uint k) (CompressCommitments c commits) c = Some (Inr commits)"
    using lc(1) by (intro DecompressCommitments_Compress [OF cl(3)]) simp
  have ver: "Feldman_Verify L c commits sh = Some (Inr ())"
    if sh: "sh \<in> set shares" "ShamirShare_Validate c sh = Inr ()" for sh
  proof -
    obtain i where i: "uint (ss_Id sh) = int i"
      "ss_Value sh = s_Bytes c (poly_Evaluate c poly (s_New c (int i)))"
      using polyShares_member [OF sh(1) [unfolded shares_def] limit_nat [OF assms(7)]] by blast
    have "s_SetBytes c (ss_Value sh) = Some (poly_Evaluate c poly (s_New c (uint (ss_Id sh))))"
      by (simp only: i curve_codec_simps [OF cl(3)])
    then show ?thesis
      using Feldman_Verify_commitPoly [OF assms(1,3,4) len(2), of sh] sh(2) len(1)
      by (simp add: commits_def ShamirShare_Validate_def split: if_splits option.splits)
  qed
  have "\<exists>b. Encrypt L nc r (ShamirShare_Bytes sh) (p_Mul nc (p_Generator nc) priv) q = Inr b \<and>
      acss_Predicate L (s_Bytes nc priv) b (CompressCommitments c commits) (uint k) c =
        Some (Some (sh, commits))"
    if "sh \<in> set shares" "ShamirShare_Validate c sh = Inr ()" for sh priv r q
    using ecies_wire [OF assms(2), of r "ShamirShare_Bytes sh" priv q]
      acss_Predicate_accepts [OF _ dec ver [OF that], of "s_Bytes nc priv"] by blast
  with gen lc show ?thesis by blast
qed

theorem honest_dealing_accepted_witness:
  "\<exists>commits shares.
    GenerateCommitmentAndShares gf_lib 5 2 3 (gf_curve ''secp256k1'') [10] = Some (Inr (commits, shares)) \<and>
    length commits = 2 \<and> length shares = 3"
  using honest_dealing_accepted [OF gf_curve_laws gf_ecies_laws gf_params gf_base,
      of 2 3 5 "[10]" "''secp256k1''"]
  by auto

text \<open>
  C27. \<open>Predicate\<close> is sound: when it accepts, the commitments are the \<open>k\<close> decompressed ones,
  the share is what the node decrypted, its identifier and value are not zero, and the value
  lies on the committed polynomial (in the exponent). With C10 this makes the accepted shares of
  a round shares of one secret.
\<close>

theorem predicate_sound:
  assumes "curve_laws c v d" "CurveParams L (c_Name c) = Some (g, h)" "1 \<le> k"
    and "acss_Predicate L key b commits k c = Some (Some (sh, ps))"
  shows "DecompressCommitments k commits c = Some (Inr ps) \<and> length ps = nat k \<and>
    (\<exists>plain. Decrypt L (hex_EncodeToString key) b = Some (Inr plain) \<and> ss_Value sh = drop 4 plain) \<and>
    ss_Id sh \<noteq> 0 \<and> (\<exists>sc. s_SetBytes c (ss_Value sh) = Some sc \<and> \<not> s_IsZero c sc \<and>
      d (p_Mul c g sc) = poly_val d ps (of_int (uint (ss_Id sh))))"
proof -
  note cl = curve_laws_parts [OF assms(1)]
  from assms(4) obtain plain where
    plain: "Decrypt L (hex_EncodeToString key) b = Some (Inr plain)" "ss_Value sh = drop 4 plain"
    and dec: "DecompressCommitments k commits c = Some (Inr ps)"
    and ver: "Feldman_Verify L c ps sh = Some (Inr ())"
    unfolding acss_Predicate_def verifierFromCommits_def
    by (auto simp: go_bind_eq_Some err_continue go_slice_def Let_def split: if_splits)
  have len: "length ps = nat k" using dec by (rule DecompressCommitments_length)
  then have "ps \<noteq> []" using assms(3) by auto
  from ver [unfolded Feldman_Verify_iff [OF cl(1,2) this assms(2)]] plain dec len
  show ?thesis by (auto simp: curve_field_simps [OF cl(1)] curve_group_simps [OF cl(2)] simp del: of_int_uint)
qed

definition gf_cipher :: "ShamirShare \<Rightarrow> bytes" where
  "gf_cipher sh = replicate 16 0 @ replicate 33 0 @ replicate 32 0 @ ShamirShare_Bytes sh"

lemma gf_decrypt: "Decrypt gf_lib key (gf_cipher sh) = Some (Inr (ShamirShare_Bytes sh))"
proof -
  have "go_slice (gf_cipher sh) 0 16 = Some (replicate 16 0)"
    "go_slice (gf_cipher sh) 16 49 = Some (replicate 33 0)"
    "go_slice (gf_cipher sh) 49 81 = Some (replicate 32 0)"
    "go_slice (gf_cipher sh) 81 (length (gf_cipher sh)) = Some (ShamirShare_Bytes sh)"
    by (simp_all add: gf_cipher_def go_slice_def)
  then show ?thesis by (simp add: Decrypt_def DecodeEncrypted_def gf_lib_def gf_pk_def)
qed

lemma gf_predicate:
  "acss_Predicate gf_lib key (gf_cipher (gf_share 1 15))
     (CompressCommitments (gf_curve ''secp256k1'') [1190, 2380]) 2 (gf_curve ''secp256k1'') =
   Some (Some (gf_share 1 15, [1190, 2380]))"
proof (rule acss_Predicate_accepts)
  show "DecompressCommitments 2 (CompressCommitments (gf_curve ''secp256k1'') [1190, 2380])
      (gf_curve ''secp256k1'') = Some (Inr [1190, 2380])"
    by (rule DecompressCommitments_Compress [OF gf_laws(3)]) simp
qed (simp_all add: gf_decrypt gf_verify gf_numeral_eq)

theorem predicate_sound_witness:
  "\<exists>sc. s_SetBytes (gf_curve ''secp256k1'') (ss_Value (gf_share 1 15)) = Some sc \<and>
     p_Mul (gf_curve ''secp256k1'') 238 sc = poly_val id [1190, 2380] 1"
  using predicate_sound [OF gf_curve_laws gf_params _ gf_predicate]
  by (auto simp: gf_share_def)

end
