(* ===== verification/Stores.thy ===== *)
theory Stores
  imports AcssCommon
begin

text \<open>
  The state of a node, \<open>common/adkg_common.go\<close>: the three stores (\<open>sync.Map\<close>s that hold a
  pointer per round or per key, or nil when the round is complete), the state of a reliable
  broadcast (\<open>SharingStore\<close>), of a key generation session (\<open>ADKGSession\<close>) and of a binary
  agreement (\<open>ABAState\<close>), with their operations.

  The stores share one contract, the locale \<open>completion_store\<close>, interpreted for each of them:
  a round that was completed stays complete, whatever is looked up in between, until it is
  deleted.
\<close>

section \<open>sync.Map\<close>

text \<open>
  An entry is a pointer: \<open>Some (Some v)\<close> is a live object, \<open>Some None\<close> the stored nil. The
  objects are owned by their entry, so that writing through the pointer is writing the entry.
\<close>

type_synonym ('k, 'v) syncmap = "('k, 'v option) gomap"

definition Load :: "('k, 'v) syncmap \<Rightarrow> 'k \<Rightarrow> 'v option \<times> bool" where
  "Load m r = (case m_get m r of None \<Rightarrow> (None, False) | Some x \<Rightarrow> (x, True))"

definition LoadOrStore ::
  "('k, 'v) syncmap \<Rightarrow> 'k \<Rightarrow> 'v \<Rightarrow> ('v option \<times> bool) \<times> ('k, 'v) syncmap" where
  "LoadOrStore m r input =
     (case m_get m r of
        Some x \<Rightarrow> ((x, True), m)
      | None \<Rightarrow> ((Some input, False), m_set m r (Some input)))"

definition Store :: "('k, 'v) syncmap \<Rightarrow> 'k \<Rightarrow> 'v option \<Rightarrow> ('k, 'v) syncmap" where
  "Store m r x = m_set m r x"

definition Delete :: "('k, 'v) syncmap \<Rightarrow> 'k \<Rightarrow> ('k, 'v) syncmap" where
  "Delete m r = m_del m r"

text \<open>The object of an entry, changed through the pointer.\<close>

definition put :: "('k, 'v) syncmap \<Rightarrow> 'k \<Rightarrow> 'v \<Rightarrow> ('k, 'v) syncmap" where
  "put m r v = m_set m r (Some v)"

section \<open>Reliable broadcast state\<close>

record EchoStore =
  es_Share :: Share
  es_Hash :: bytes
  es_Count :: int

record RBCState =
  rs_Phase :: phase
  rs_ReceivedEcho :: "(int, bool) gomap"
  rs_ReceivedReady :: "(int, bool) gomap"
  rs_ReadySent :: bool

record SharingStore =
  ks_RoundID :: RoundID
  ks_State :: RBCState
  ks_EchoStore :: "(string, EchoStore) gomap"
  ks_ReadyStore :: "Share list"
  ks_Started :: bool

text \<open>The empty state that every handler of the broadcast passes to the store.\<close>

definition defaultKeygen :: "RoundID \<Rightarrow> SharingStore" where
  "defaultKeygen r = \<lparr>
     ks_RoundID = r,
     ks_State = \<lparr>rs_Phase = Initial, rs_ReceivedEcho = [], rs_ReceivedReady = [],
                 rs_ReadySent = False\<rparr>,
     ks_EchoStore = [], ks_ReadyStore = [], ks_Started = False\<rparr>"

text \<open>
  \<open>FindThresholdEchoStore\<close> returns the first entry in range order with enough echoes; the
  order is the argument \<open>ord\<close>.
\<close>

fun find_threshold :: "(string, EchoStore) gomap \<Rightarrow> string list \<Rightarrow> int \<Rightarrow> EchoStore option" where
  "find_threshold es [] threshold = None"
| "find_threshold es (i # ids) threshold =
     (case m_get es i of
        None \<Rightarrow> find_threshold es ids threshold
      | Some v \<Rightarrow> if es_Count v \<ge> threshold then Some v else find_threshold es ids threshold)"

definition FindThresholdEchoStore ::
  "(string list \<Rightarrow> string list) \<Rightarrow> SharingStore \<Rightarrow> int \<Rightarrow> EchoStore option" where
  "FindThresholdEchoStore ord s threshold =
     find_threshold (ks_EchoStore s) (ord (m_keys (ks_EchoStore s))) threshold"

text \<open>\<open>GetEchoStore\<close> returns the entry of an identifier, which it creates if there is none.\<close>

definition GetEchoStore ::
  "SharingStore \<Rightarrow> string \<Rightarrow> Share \<Rightarrow> bytes \<Rightarrow> EchoStore \<times> SharingStore" where
  "GetEchoStore s i share hash =
     (case m_get (ks_EchoStore s) i of
        Some e \<Rightarrow> (e, s)
      | None \<Rightarrow>
          let e = \<lparr>es_Share = share, es_Hash = hash, es_Count = 0\<rparr>
          in (e, s\<lparr>ks_EchoStore := m_set (ks_EchoStore s) i e\<rparr>))"

section \<open>Session state\<close>

record PubKeyShare =
  pks_R :: bytes
  pks_S :: bytes
  pks_Share :: bytes

record 'p ADKGMetadata =
  meta_Commitments :: "(int, 'p list) gomap"
  meta_T :: "int list"

record 'p ADKGSession =
  ses_T :: "(int, goint) gomap"
  ses_TProposals :: "(int, goint) gomap"
  ses_TPrime :: goint
  ses_S :: "(int, ShamirShare) gomap"
  ses_C :: "(int, 'p list) gomap"
  ses_PubKeyShares :: "(int, 'p) gomap"
  ses_PubKeySharesUnverified :: "(int, PubKeyShare) gomap"
  ses_Over :: bool
  ses_BFTDecided :: bool
  ses_Share :: "int option"
  ses_Commitments :: "'p ADKGMetadata"
  ses_Decisions :: "(int, int) gomap"
  ses_ABAComplete :: bool
  ses_ABAStarted :: "int list"
  ses_KeyderivationStarted :: bool

definition DefaultADKGSession :: "'p ADKGSession" where
  "DefaultADKGSession = \<lparr>
     ses_T = [], ses_TProposals = [], ses_TPrime = 0, ses_S = [], ses_C = [],
     ses_PubKeyShares = [], ses_PubKeySharesUnverified = [], ses_Over = False,
     ses_BFTDecided = False, ses_Share = None,
     ses_Commitments = \<lparr>meta_Commitments = [], meta_T = []\<rparr>,
     ses_Decisions = [], ses_ABAComplete = False, ses_ABAStarted = [],
     ses_KeyderivationStarted = False\<rparr>"

section \<open>Agreement state\<close>

type_synonym votes = "(int, (int, int list) gomap) gomap"
type_synonym sents = "(int, (int, bool) gomap) gomap"

record 'p ABAState =
  aba_Started :: "(int, bool) gomap"
  aba_Round :: int
  aba_CoinShares :: "(int, 'p) gomap"
  aba_EstValues :: votes
  aba_AuxValues :: votes
  aba_EstValues2 :: votes
  aba_AuxValues2 :: votes
  aba_AuxsetValues :: votes
  aba_EstSent2 :: sents
  aba_EstSent :: sents
  aba_AuxsetSent :: "(int, bool) gomap"
  aba_BinValues :: "(int, int list) gomap"
  aba_BinValues2 :: "(int, int list) gomap"

definition DefaultABAStore :: "'p ABAState" where
  "DefaultABAStore = \<lparr>
     aba_Started = [], aba_Round = 0, aba_CoinShares = [], aba_EstValues = [], aba_AuxValues = [],
     aba_EstValues2 = [], aba_AuxValues2 = [], aba_AuxsetValues = [], aba_EstSent2 = [],
     aba_EstSent = [], aba_AuxsetSent = [], aba_BinValues = [], aba_BinValues2 = []\<rparr>"

definition GetCoinShares :: "'p ABAState \<Rightarrow> (int, 'p) gomap" where
  "GetCoinShares s = aba_CoinShares s"

definition SetCoinShare :: "'p ABAState \<Rightarrow> int \<Rightarrow> 'p \<Rightarrow> 'p ABAState" where
  "SetCoinShare s i p = s\<lparr>aba_CoinShares := m_set (aba_CoinShares s) i p\<rparr>"

definition IncrementRound :: "'p ABAState \<Rightarrow> 'p ABAState" where
  "IncrementRound s = s\<lparr>aba_Round := aba_Round s + 1\<rparr>"

definition GetRound :: "'p ABAState \<Rightarrow> int" where
  "GetRound s = aba_Round s"

definition SetStarted :: "'p ABAState \<Rightarrow> int \<Rightarrow> 'p ABAState" where
  "SetStarted s r = s\<lparr>aba_Started := m_set (aba_Started s) r True\<rparr>"

definition GetStarted :: "'p ABAState \<Rightarrow> int \<Rightarrow> bool" where
  "GetStarted s r = m_zero False (aba_Started s) r"

text \<open>Reading a nested map: a missing inner map reads as a nil map, which reads as zero.\<close>

definition nested :: "'a \<Rightarrow> ('k, ('j, 'a) gomap) gomap \<Rightarrow> 'k \<Rightarrow> 'j \<Rightarrow> 'a" where
  "nested z m r v = m_zero z (m_zero [] m r) v"

text \<open>Writing one: the inner map is created when it is nil.\<close>

definition nested_set ::
  "('k, ('j, 'a) gomap) gomap \<Rightarrow> 'k \<Rightarrow> 'j \<Rightarrow> 'a \<Rightarrow> ('k, ('j, 'a) gomap) gomap" where
  "nested_set m r v x = m_set m r (m_set (m_zero [] m r) v x)"

definition Sent :: "'p ABAState \<Rightarrow> string \<Rightarrow> int \<Rightarrow> int \<Rightarrow> bool go" where
  "Sent s kind r v =
     (if kind = ''est'' then Some (nested False (aba_EstSent s) r v)
      else if kind = ''est2'' then Some (nested False (aba_EstSent2 s) r v)
      else if kind = ''auxset'' then Some (m_zero False (aba_AuxsetSent s) r)
      else None)"

definition SetSent :: "'p ABAState \<Rightarrow> string \<Rightarrow> int \<Rightarrow> int \<Rightarrow> 'p ABAState go" where
  "SetSent s kind r v =
     (if kind = ''est'' then Some (s\<lparr>aba_EstSent := nested_set (aba_EstSent s) r v True\<rparr>)
      else if kind = ''est2'' then Some (s\<lparr>aba_EstSent2 := nested_set (aba_EstSent2 s) r v True\<rparr>)
      else if kind = ''auxset'' then Some (s\<lparr>aba_AuxsetSent := m_set (aba_AuxsetSent s) r True\<rparr>)
      else None)"

definition GetBin :: "'p ABAState \<Rightarrow> string \<Rightarrow> int \<Rightarrow> int list go" where
  "GetBin s kind r =
     (if kind = ''bin'' then Some (m_zero [] (aba_BinValues s) r)
      else if kind = ''bin2'' then Some (m_zero [] (aba_BinValues2 s) r)
      else None)"

text \<open>Unlike the other operations, \<open>SetBin\<close> ignores an unknown kind.\<close>

definition SetBin :: "'p ABAState \<Rightarrow> string \<Rightarrow> int \<Rightarrow> int \<Rightarrow> 'p ABAState" where
  "SetBin s kind r v =
     (if kind = ''bin'' then
        s\<lparr>aba_BinValues := m_set (aba_BinValues s) r (m_zero [] (aba_BinValues s) r @ [v])\<rparr>
      else if kind = ''bin2'' then
        s\<lparr>aba_BinValues2 := m_set (aba_BinValues2 s) r (m_zero [] (aba_BinValues2 s) r @ [v])\<rparr>
      else s)"

definition Values :: "'p ABAState \<Rightarrow> string \<Rightarrow> int \<Rightarrow> int \<Rightarrow> int list go" where
  "Values s kind r v =
     (if kind = ''est'' then Some (nested [] (aba_EstValues s) r v)
      else if kind = ''est2'' then Some (nested [] (aba_EstValues2 s) r v)
      else if kind = ''aux'' then Some (nested [] (aba_AuxValues s) r v)
      else if kind = ''aux2'' then Some (nested [] (aba_AuxValues2 s) r v)
      else if kind = ''auxset'' then Some (nested [] (aba_AuxsetValues s) r v)
      else None)"

text \<open>Appending a node to the votes for \<open>v\<close> in round \<open>r\<close>.\<close>

definition add_vote :: "votes \<Rightarrow> int \<Rightarrow> int \<Rightarrow> int \<Rightarrow> votes" where
  "add_vote m r v node = nested_set m r v (nested [] m r v @ [node])"

definition SetValues :: "'p ABAState \<Rightarrow> string \<Rightarrow> int \<Rightarrow> int \<Rightarrow> int \<Rightarrow> 'p ABAState go" where
  "SetValues s kind r v node =
     (if kind = ''est'' then Some (s\<lparr>aba_EstValues := add_vote (aba_EstValues s) r v node\<rparr>)
      else if kind = ''est2'' then Some (s\<lparr>aba_EstValues2 := add_vote (aba_EstValues2 s) r v node\<rparr>)
      else if kind = ''aux'' then Some (s\<lparr>aba_AuxValues := add_vote (aba_AuxValues s) r v node\<rparr>)
      else if kind = ''aux2'' then Some (s\<lparr>aba_AuxValues2 := add_vote (aba_AuxValues2 s) r v node\<rparr>)
      else if kind = ''auxset'' then Some (s\<lparr>aba_AuxsetValues := add_vote (aba_AuxsetValues s) r v node\<rparr>)
      else None)"

section \<open>The three stores\<close>

type_synonym SharingStoreMap = "(RoundID, SharingStore) syncmap"
type_synonym 'p ADKGSessionStore = "(ADKGID, 'p ADKGSession) syncmap"
type_synonym 'p ABAStoreMap = "(RoundID, 'p ABAState) syncmap"

definition SharingStoreMap_Get :: "SharingStoreMap \<Rightarrow> RoundID \<Rightarrow> SharingStore option \<times> bool" where
  "SharingStoreMap_Get m r = Load m r"

definition SharingStoreMap_GetOrSet ::
  "SharingStoreMap \<Rightarrow> RoundID \<Rightarrow> SharingStore \<Rightarrow> (SharingStore option \<times> bool) \<times> SharingStoreMap" where
  "SharingStoreMap_GetOrSet store r input = LoadOrStore store r input"

definition SharingStoreMap_GetOrSetIfNotComplete ::
  "SharingStoreMap \<Rightarrow> RoundID \<Rightarrow> SharingStore \<Rightarrow> (SharingStore option \<times> bool) \<times> SharingStoreMap" where
  "SharingStoreMap_GetOrSetIfNotComplete store r input =
     (let ((inter, found), store') = SharingStoreMap_GetOrSet store r input in
      if found \<and> inter = None then ((inter, True), store') else ((inter, False), store'))"

definition SharingStoreMap_Complete :: "SharingStoreMap \<Rightarrow> RoundID \<Rightarrow> SharingStoreMap" where
  "SharingStoreMap_Complete store r = Store store r None"

definition SharingStoreMap_Delete :: "SharingStoreMap \<Rightarrow> RoundID \<Rightarrow> SharingStoreMap" where
  "SharingStoreMap_Delete store r = Delete store r"

definition ADKGSessionStore_Get ::
  "'p ADKGSessionStore \<Rightarrow> ADKGID \<Rightarrow> 'p ADKGSession option \<times> bool" where
  "ADKGSessionStore_Get m r = Load m r"

definition ADKGSessionStore_GetOrSet ::
  "'p ADKGSessionStore \<Rightarrow> ADKGID \<Rightarrow> 'p ADKGSession \<Rightarrow>
   ('p ADKGSession option \<times> bool) \<times> 'p ADKGSessionStore" where
  "ADKGSessionStore_GetOrSet store r input = LoadOrStore store r input"

definition ADKGSessionStore_GetOrSetIfNotComplete ::
  "'p ADKGSessionStore \<Rightarrow> ADKGID \<Rightarrow> 'p ADKGSession \<Rightarrow>
   ('p ADKGSession option \<times> bool) \<times> 'p ADKGSessionStore" where
  "ADKGSessionStore_GetOrSetIfNotComplete store r input =
     (let ((inter, found), store') = ADKGSessionStore_GetOrSet store r input in
      if found \<and> inter = None then ((inter, True), store') else ((inter, False), store'))"

definition ADKGSessionStore_Complete :: "'p ADKGSessionStore \<Rightarrow> ADKGID \<Rightarrow> 'p ADKGSessionStore" where
  "ADKGSessionStore_Complete store r = Store store r None"

definition ADKGSessionStore_Delete :: "'p ADKGSessionStore \<Rightarrow> ADKGID \<Rightarrow> 'p ADKGSessionStore" where
  "ADKGSessionStore_Delete store r = Delete store r"

definition ABAStoreMap_Get :: "'p ABAStoreMap \<Rightarrow> RoundID \<Rightarrow> 'p ABAState option \<times> bool" where
  "ABAStoreMap_Get m r = Load m r"

definition ABAStoreMap_GetOrSet ::
  "'p ABAStoreMap \<Rightarrow> RoundID \<Rightarrow> 'p ABAState \<Rightarrow> ('p ABAState option \<times> bool) \<times> 'p ABAStoreMap" where
  "ABAStoreMap_GetOrSet store r input = LoadOrStore store r input"

definition ABAStoreMap_GetOrSetIfNotComplete ::
  "'p ABAStoreMap \<Rightarrow> RoundID \<Rightarrow> 'p ABAState \<Rightarrow> ('p ABAState option \<times> bool) \<times> 'p ABAStoreMap" where
  "ABAStoreMap_GetOrSetIfNotComplete store r input =
     (let ((inter, found), store') = ABAStoreMap_GetOrSet store r input in
      if found \<and> inter = None then ((inter, True), store') else ((inter, False), store'))"

definition ABAStoreMap_Complete :: "'p ABAStoreMap \<Rightarrow> RoundID \<Rightarrow> 'p ABAStoreMap" where
  "ABAStoreMap_Complete store r = Store store r None"

definition ABAStoreMap_Delete :: "'p ABAStoreMap \<Rightarrow> RoundID \<Rightarrow> 'p ABAStoreMap" where
  "ABAStoreMap_Delete store r = Delete store r"

record 'p NodeState =
  KeygenStore :: SharingStoreMap
  SessionStore :: "'p ADKGSessionStore"
  ABAStore :: "'p ABAStoreMap"

section \<open>The contract of a store\<close>

text \<open>
  What the handlers rely on: looking a key up creates it at most once, a completed key reports
  completion, and the operations on one key leave the others alone. \<open>val\<close> reads an entry.
\<close>

locale completion_store =
  fixes val :: "'m \<Rightarrow> 'k \<Rightarrow> 'v option option"
    and lookup :: "'m \<Rightarrow> 'k \<Rightarrow> 'v option \<times> bool"
    and obtain_entry :: "'m \<Rightarrow> 'k \<Rightarrow> 'v \<Rightarrow> ('v option \<times> bool) \<times> 'm"
    and update :: "'m \<Rightarrow> 'k \<Rightarrow> 'v \<Rightarrow> 'm"
    and finish :: "'m \<Rightarrow> 'k \<Rightarrow> 'm"
    and remove :: "'m \<Rightarrow> 'k \<Rightarrow> 'm"
  assumes lookup_val: "lookup m k = (case val m k of None \<Rightarrow> (None, False) | Some x \<Rightarrow> (x, True))"
    and obtain_absent: "val m k = None \<Longrightarrow> \<exists>m'. obtain_entry m k d = ((Some d, False), m') \<and>
      (\<forall>j. val m' j = (if j = k then Some (Some d) else val m j))"
    and obtain_live: "val m k = Some (Some v) \<Longrightarrow> obtain_entry m k d = ((Some v, False), m)"
    and obtain_complete: "val m k = Some None \<Longrightarrow> obtain_entry m k d = ((None, True), m)"
    and val_update: "val (update m k v) j = (if j = k then Some (Some v) else val m j)"
    and val_finish: "val (finish m k) j = (if j = k then Some None else val m j)"
    and val_remove: "val (remove m k) j = (if j = k then None else val m j)"
begin

text \<open>A lookup never hands out a nil pointer unless it reports completion.\<close>

lemma obtain_cases:
  obtains v m' where "obtain_entry m k d = ((Some v, False), m')" "val m' k = Some (Some v)"
      "v = d \<or> val m k = Some (Some v)" "\<And>j. j \<noteq> k \<Longrightarrow> val m' j = val m j"
    | "obtain_entry m k d = ((None, True), m)" "val m k = Some None"
proof (cases "val m k")
  case None
  then show thesis using obtain_absent [of m k d] that(1) by auto
next
  case (Some x)
  then show thesis using obtain_live [of m k _ d] obtain_complete [of m k d] that
    by (cases x) auto
qed

lemma obtain_open:
  assumes "val m k \<noteq> Some None"
  shows "\<exists>m'. obtain_entry m k d = ((Some (case val m k of Some (Some v) \<Rightarrow> v | _ \<Rightarrow> d), False), m') \<and>
    (\<forall>j. j \<noteq> k \<longrightarrow> val m' j = val m j)"
proof (cases "val m k")
  case None
  then show ?thesis using obtain_absent [OF None, of d] by auto
next
  case (Some x)
  with assms show ?thesis using obtain_live [of m k _ d] by (cases x) auto
qed

lemma obtain_result:
  assumes "obtain_entry m k d = ((x, fin), m')"
  shows "fin \<Longrightarrow> m' = m"
    and "\<not> fin \<Longrightarrow> x = Some (case val m k of Some (Some v) \<Rightarrow> v | _ \<Rightarrow> d) \<and> val m k \<noteq> Some None \<and>
      (\<forall>j. val m' j = (if j = k then Some x else val m j))"
proof -
  have "fin \<and> m' = m \<or> \<not> fin \<and> x = Some (case val m k of Some (Some v) \<Rightarrow> v | _ \<Rightarrow> d) \<and>
      val m k \<noteq> Some None \<and> (\<forall>j. val m' j = (if j = k then Some x else val m j))"
  proof (cases "val m k")
    case None
    then show ?thesis using obtain_absent [OF None, of d] assms by auto
  next
    case (Some y)
    then show ?thesis using obtain_live [of m k _ d] obtain_complete [of m k d] assms by (cases y) auto
  qed
  then show "fin \<Longrightarrow> m' = m" "\<not> fin \<Longrightarrow> x = Some (case val m k of Some (Some v) \<Rightarrow> v | _ \<Rightarrow> d) \<and>
      val m k \<noteq> Some None \<and> (\<forall>j. val m' j = (if j = k then Some x else val m j))" by blast+
qed

lemma obtain_other: "j \<noteq> k \<Longrightarrow> val (snd (obtain_entry m k d)) j = val m j"
  by (rule obtain_cases [of m k d]) auto

lemma obtain_finished: "obtain_entry (finish m k) k d = ((None, True), finish m k)"
  by (rule obtain_complete) (simp add: val_finish)

lemma obtain_removed: "\<exists>m'. obtain_entry (remove m k) k d = ((Some d, False), m')"
  using obtain_absent [of "remove m k" k d] by (auto simp: val_remove)

text \<open>Completion is kept by every operation but the deletion of the key.\<close>

lemma completion_kept:
  assumes "val m k = Some None"
  shows "val (snd (obtain_entry m j d)) k = Some None" "val (finish m j) k = Some None"
    "j \<noteq> k \<Longrightarrow> val (remove m j) k = Some None" "j \<noteq> k \<Longrightarrow> val (update m j v) k = Some None"
  using assms obtain_complete [OF assms, of d] obtain_other [of k j m d]
  by (cases "j = k"; simp add: val_finish val_remove val_update)+

end

lemma LoadOrStore_contract:
  "m_get m k = None \<Longrightarrow> LoadOrStore m k d = ((Some d, False), m_set m k (Some d))"
  "m_get m k = Some x \<Longrightarrow> LoadOrStore m k d = ((x, True), m)"
  by (simp_all add: LoadOrStore_def)

lemmas store_defs = Load_def Store_def Delete_def put_def

interpretation rounds: completion_store m_get SharingStoreMap_Get
  SharingStoreMap_GetOrSetIfNotComplete put SharingStoreMap_Complete SharingStoreMap_Delete
  by unfold_locales
    (auto simp: store_defs LoadOrStore_contract SharingStoreMap_Get_def SharingStoreMap_GetOrSet_def
      SharingStoreMap_GetOrSetIfNotComplete_def SharingStoreMap_Complete_def SharingStoreMap_Delete_def)

interpretation sessions: completion_store m_get ADKGSessionStore_Get
  ADKGSessionStore_GetOrSetIfNotComplete put ADKGSessionStore_Complete ADKGSessionStore_Delete
  by unfold_locales
    (auto simp: store_defs LoadOrStore_contract ADKGSessionStore_Get_def ADKGSessionStore_GetOrSet_def
      ADKGSessionStore_GetOrSetIfNotComplete_def ADKGSessionStore_Complete_def ADKGSessionStore_Delete_def)

interpretation agreements: completion_store m_get ABAStoreMap_Get
  ABAStoreMap_GetOrSetIfNotComplete put ABAStoreMap_Complete ABAStoreMap_Delete
  by unfold_locales
    (auto simp: store_defs LoadOrStore_contract ABAStoreMap_Get_def ABAStoreMap_GetOrSet_def
      ABAStoreMap_GetOrSetIfNotComplete_def ABAStoreMap_Complete_def ABAStoreMap_Delete_def)

section \<open>Facts of the agreement state\<close>

lemma nested_nested_set [simp]:
  "nested z (nested_set m r v x) r' v' = (if r' = r \<and> v' = v then x else nested z m r' v')"
  by (simp add: nested_def nested_set_def)

lemma nested_Nil [simp]: "nested z [] r v = z"
  by (simp add: nested_def)

lemma nested_add_vote [simp]:
  "nested [] (add_vote m r v node) r' v' =
   (if r' = r \<and> v' = v then nested [] m r v @ [node] else nested [] m r' v')"
  by (simp add: add_vote_def)

text \<open>
  The contract of a vote counter of the agreement, for the five kinds of votes: a vote is
  appended to the voters of its round and value and no other list changes.
\<close>

locale vote_counter =
  fixes kind :: string and count :: "'p ABAState \<Rightarrow> votes"
  assumes values_kind: "Values s kind r v = Some (nested [] (count s) r v)"
    and set_kind: "\<exists>s'. SetValues s kind r v node = Some s' \<and> count s' = add_vote (count s) r v node"
begin

lemma recorded:
  assumes "SetValues s kind r v node = Some s'"
  shows "Values s' kind r' v' = (if r' = r \<and> v' = v then Some (nested [] (count s) r v @ [node])
    else Values s kind r' v')"
  using set_kind [of s r v node] assms by (simp add: values_kind)

lemma voters_distinct:
  assumes "SetValues s kind r v node = Some s'" "node \<notin> set (nested [] (count s) r v)"
    and "distinct (nested [] (count s) r' v')"
  shows "distinct (nested [] (count s') r' v')"
  using set_kind [of s r v node] assms by auto

end

lemmas vote_defs = Values_def SetValues_def

interpretation est: vote_counter "''est''" aba_EstValues by unfold_locales (simp_all add: vote_defs)
interpretation est2: vote_counter "''est2''" aba_EstValues2 by unfold_locales (simp_all add: vote_defs)
interpretation aux: vote_counter "''aux''" aba_AuxValues by unfold_locales (simp_all add: vote_defs)
interpretation aux2: vote_counter "''aux2''" aba_AuxValues2 by unfold_locales (simp_all add: vote_defs)
interpretation auxset: vote_counter "''auxset''" aba_AuxsetValues
  by unfold_locales (simp_all add: vote_defs)

lemma find_threshold_Some:
  "find_threshold es ids threshold = Some e \<Longrightarrow>
   \<exists>i \<in> set ids. m_get es i = Some e \<and> threshold \<le> es_Count e"
  by (induction ids) (auto split: option.splits if_splits)

lemma find_threshold_None:
  "find_threshold es ids threshold = None \<Longrightarrow> i \<in> set ids \<Longrightarrow> m_get es i = Some e \<Longrightarrow>
   es_Count e < threshold"
  by (induction ids) (auto split: option.splits if_splits)

end
