(* ===== verification/Participant.thy ===== *)
theory Participant
  imports Stores
begin

text \<open>
  What the handlers see of a node: its details, the other nodes, its keys and the parameters
  \<open>n\<close>, \<open>k\<close>, \<open>t\<close> (\<open>common.DkgParticipant\<close> as \<open>keygen.KeygenNode\<close> implements it), the
  messages with one constructor function per message structure, and the actions a handler
  takes: sending, delivering to itself, handing a message to the chain, storing results.

  A handler is a function from the node's state to the new state and the list of its actions;
  \<open>None\<close> is a run-time panic, which ends the process. The combinators \<open>on_keygen\<close>,
  \<open>on_session\<close> and \<open>on_aba\<close> are the common beginning of the handlers: get the object of a
  round or create it, return if the round is complete, lock the object, work on it. A handler
  runs as one step: the lock it holds on the object excludes the others.
\<close>

section \<open>Nodes and messages\<close>

record KeygenNodeDetails =
  kn_Index :: int
  kn_PubKey :: Point

type_synonym NodeDetailsID = string

definition ToNodeDetailsID :: "KeygenNodeDetails \<Rightarrow> NodeDetailsID" where
  "ToNodeDetailsID n =
     Join [Itoa (kn_Index n), big_Text (pt_X (kn_PubKey n)) 16, big_Text (pt_Y (kn_PubKey n)) 16]
       Delimiter1"

record NodeNetwork =
  nn_Nodes :: "(NodeDetailsID, KeygenNodeDetails) gomap"
  nn_N :: int
  nn_T :: int
  nn_K :: int

record ('s, 'p) KeygenNode =
  node_details :: KeygenNodeDetails
  node_network :: NodeNetwork
  node_privateKey :: 's
  node_publicKey :: 'p

definition VERSION :: string where "VERSION = ''1''"

record DKGMessage =
  dm_Version :: string
  dm_RoundID :: RoundID
  dm_Method :: string
  dm_Data :: bytes

record DKGMessageRaw =
  raw_RoundID :: RoundID
  raw_Method :: string
  raw_Data :: bytes

definition CreateDKGMessage :: "DKGMessageRaw \<Rightarrow> DKGMessage" where
  "CreateDKGMessage r =
     \<lparr>dm_Version = VERSION, dm_RoundID = raw_RoundID r, dm_Method = raw_Method r, dm_Data = raw_Data r\<rparr>"

definition CreateMessage :: "RoundID \<Rightarrow> string \<Rightarrow> bytes \<Rightarrow> DKGMessage" where
  "CreateMessage i kind data =
     CreateDKGMessage \<lparr>raw_RoundID = i, raw_Method = kind, raw_Data = data\<rparr>"

section \<open>Actions\<close>

datatype 'p action =
    Send KeygenNodeDetails DKGMessage
  | Broadcast DKGMessage
  | ReceiveMessage KeygenNodeDetails DKGMessage
  | ReceiveBFTMessage DKGMessage
  | StoreCompletedShare int int CurveName
  | StoreCommitment int "'p ADKGMetadata" CurveName

type_synonym 'p outcome = "('p NodeState \<times> 'p action list) go"

section \<open>The participant\<close>

definition Params :: "('s, 'p) KeygenNode \<Rightarrow> int \<times> int \<times> int" where
  "Params node = (nn_N (node_network node), nn_K (node_network node), nn_T (node_network node))"

definition ID :: "('s, 'p) KeygenNode \<Rightarrow> int" where
  "ID node = kn_Index (node_details node)"

text \<open>The nodes in the order Go ranges over them.\<close>

definition Nodes :: "('s, 'p) lib \<Rightarrow> ('s, 'p) KeygenNode \<Rightarrow> KeygenNodeDetails list" where
  "Nodes L node =
     List.map_filter (m_get (nn_Nodes (node_network node)))
       (range_str L (m_keys (nn_Nodes (node_network node))))"

definition PublicKey :: "('s, 'p) lib \<Rightarrow> ('s, 'p) KeygenNode \<Rightarrow> int \<Rightarrow> 'p option" where
  "PublicKey L node index =
     (case filter (\<lambda>n. kn_Index n = index) (Nodes L node) of
        [] \<Rightarrow> None
      | n # _ \<Rightarrow> p_Set (lib_K256 L) (pt_X (kn_PubKey n)) (pt_Y (kn_PubKey n)))"

text \<open>\<open>big.Int.Int64\<close>: the low 64 bits, signed.\<close>

definition Int64 :: "int \<Rightarrow> int" where
  "Int64 x = sint (word_of_int x :: 64 word)"

lemma Int64_small: "0 \<le> x \<Longrightarrow> x < 2 ^ 63 \<Longrightarrow> Int64 x = x"
  by (simp add: Int64_def signed_of_int signed_take_bit_int_eq_self)

text \<open>Completing and removing the rounds of a key.\<close>

definition acss_round :: "ADKGID \<Rightarrow> KeygenNodeDetails \<Rightarrow> RoundID" where
  "acss_round i n = RoundDetails_ID \<lparr>rd_ADKGID = i, rd_Dealer = kn_Index n, rd_Kind = ''acss''\<rparr>"

definition keyset_round :: "ADKGID \<Rightarrow> KeygenNodeDetails \<Rightarrow> RoundID" where
  "keyset_round i n = RoundDetails_ID \<lparr>rd_ADKGID = i, rd_Dealer = kn_Index n, rd_Kind = ''keyset''\<rparr>"

definition cleanupKeygenStore ::
  "('s, 'p) lib \<Rightarrow> ('s, 'p) KeygenNode \<Rightarrow> ADKGID \<Rightarrow> 'p NodeState \<Rightarrow> 'p NodeState" where
  "cleanupKeygenStore L node i st =
     foldl (\<lambda>st n.
       st\<lparr>KeygenStore :=
            SharingStoreMap_Complete (SharingStoreMap_Complete (KeygenStore st) (acss_round i n))
              (keyset_round i n),
          ABAStore := ABAStoreMap_Complete (ABAStore st) (keyset_round i n)\<rparr>) st (Nodes L node)"

definition cleanupSessionStore :: "ADKGID \<Rightarrow> 'p NodeState \<Rightarrow> 'p NodeState" where
  "cleanupSessionStore i st = st\<lparr>SessionStore := ADKGSessionStore_Complete (SessionStore st) i\<rparr>"

definition cleanup ::
  "('s, 'p) lib \<Rightarrow> ('s, 'p) KeygenNode \<Rightarrow> ADKGID \<Rightarrow> 'p NodeState \<Rightarrow> 'p NodeState" where
  "cleanup L node i st = cleanupSessionStore i (cleanupKeygenStore L node i st)"

definition remove ::
  "('s, 'p) lib \<Rightarrow> ('s, 'p) KeygenNode \<Rightarrow> ADKGID \<Rightarrow> 'p NodeState \<Rightarrow> 'p NodeState" where
  "remove L node i st =
     (let st' = foldl (\<lambda>st n.
        st\<lparr>KeygenStore :=
             SharingStoreMap_Delete (SharingStoreMap_Delete (KeygenStore st) (acss_round i n))
               (keyset_round i n),
           ABAStore := ABAStoreMap_Delete (ABAStore st) (keyset_round i n)\<rparr>) st (Nodes L node)
      in st'\<lparr>SessionStore := ADKGSessionStore_Delete (SessionStore st') i\<rparr>)"

section \<open>Message constructors\<close>

text \<open>The common end of the constructors: marshal the structure and wrap it.\<close>

definition marshal_message ::
  "('s, 'p) lib \<Rightarrow> RoundID \<Rightarrow> string \<Rightarrow> payload \<Rightarrow> DKGMessage err" where
  "marshal_message L i kind p =
     (case json_Marshal L p of
        None \<Rightarrow> Inl ''json.Marshal''
      | Some b \<Rightarrow> Inr (CreateMessage i kind b))"

lemma marshal_message_Inr:
  "marshal_message L i kind p = Inr m \<Longrightarrow>
   dm_RoundID m = i \<and> dm_Method m = kind \<and> json_Marshal L p = Some (dm_Data m)"
  by (auto simp: marshal_message_def CreateMessage_def CreateDKGMessage_def split: option.splits)

definition acss_NewShareMessage where
  "acss_NewShareMessage L i curve = marshal_message L i ''acss_share'' (AcssShare i ''acss_share'' curve)"

definition NewAcssProposeMessage where
  "NewAcssProposeMessage L i d curve =
     marshal_message L i ''acss_propose'' (AcssPropose i ''acss_propose'' curve d)"

definition NewAcssEchoMessage where
  "NewAcssEchoMessage L i s hash curve =
     marshal_message L i ''acss_echo'' (AcssEcho i ''acss_echo'' curve s hash)"

definition acss_NewReadyMessage where
  "acss_NewReadyMessage L i s hash curve =
     marshal_message L i ''acss_ready'' (AcssReady i ''acss_ready'' curve s hash)"

definition acss_NewOutputMessage where
  "acss_NewOutputMessage L i data curve =
     marshal_message L i ''acss_output'' (AcssOutput i ''acss_output'' curve data)"

definition keyset_NewInitMessage where
  "keyset_NewInitMessage L i data curve =
     marshal_message L i ''keyset_init'' (KeysetInit i ''keyset_init'' data curve)"

definition keyset_NewProposeMessage where
  "keyset_NewProposeMessage L i d curve =
     marshal_message L i ''keyset_propose'' (KeysetPropose i ''keyset_propose'' curve d)"

definition keyset_NewEchoMessage where
  "keyset_NewEchoMessage L i s hash curve =
     marshal_message L i ''keyset_echo'' (KeysetEcho i ''keyset_echo'' curve s hash)"

definition keyset_NewReadyMessage where
  "keyset_NewReadyMessage L i s hash curve =
     marshal_message L i ''keyset_ready'' (KeysetReady i ''keyset_ready'' curve s hash)"

definition keyset_NewOutputMessage where
  "keyset_NewOutputMessage L i data curve =
     marshal_message L i ''keyset_output'' (KeysetOutput i ''keyset_output'' curve data)"

definition aba_NewInitMessage where
  "aba_NewInitMessage L i v r curve = marshal_message L i ''aba_init'' (AbaInit i ''aba_init'' curve v r)"

definition NewEst1Message where
  "NewEst1Message L i v r curve = marshal_message L i ''aba_est1'' (AbaEst1 i ''aba_est1'' curve v r)"

definition NewAux1Message where
  "NewAux1Message L i v r curve = marshal_message L i ''aba_aux1'' (AbaAux1 i ''aba_aux1'' curve v r)"

definition NewAuxsetMessage where
  "NewAuxsetMessage L i v r curve =
     marshal_message L i ''aba_auxset'' (AbaAuxset i ''aba_auxset'' curve v r)"

definition NewEst2Message where
  "NewEst2Message L i v r curve = marshal_message L i ''aba_est2'' (AbaEst2 i ''aba_est2'' curve v r)"

definition NewAux2Message where
  "NewAux2Message L i v r curve = marshal_message L i ''aba_aux2'' (AbaAux2 i ''aba_aux2'' curve v r)"

definition NewCoinInitMessage where
  "NewCoinInitMessage L i coinID curve =
     marshal_message L i ''aba_coin_init'' (AbaCoinInit i ''aba_coin_init'' curve coinID)"

definition NewCoinMessage where
  "NewCoinMessage L i data curve = marshal_message L i ''aba_coin'' (AbaCoin i ''aba_coin'' curve data)"

definition keyderivation_NewInitMessage where
  "keyderivation_NewInitMessage L i curve =
     marshal_message L i ''key_derivation_init'' (KeyderivationInit i ''key_derivation_init'' curve)"

definition keyderivation_NewShareMessage where
  "keyderivation_NewShareMessage L i curve share r s =
     marshal_message L i ''key_derivation_pk_share''
       (KeyderivationShare i ''key_derivation_pk_share'' curve share r s)"

text \<open>The public key message reads the coordinates of the point, which may panic.\<close>

definition NewPubKeygenMessage ::
  "('s, 'p) lib \<Rightarrow> ('s, 'p) curve \<Rightarrow> RoundID \<Rightarrow> CurveName \<Rightarrow> 'p \<Rightarrow> DKGMessage err go" where
  "NewPubKeygenMessage L cv i curve publicKey = do {
     pk \<leftarrow> CurvePointToPoint cv publicKey curve;
     Some (marshal_message L i ''key_derivation_pubkey_gen''
       (PubKeygen i ''key_derivation_pubkey_gen'' curve pk)) }"

lemmas message_defs =
  acss_NewShareMessage_def NewAcssProposeMessage_def NewAcssEchoMessage_def acss_NewReadyMessage_def
  acss_NewOutputMessage_def keyset_NewInitMessage_def keyset_NewProposeMessage_def
  keyset_NewEchoMessage_def keyset_NewReadyMessage_def keyset_NewOutputMessage_def
  aba_NewInitMessage_def NewEst1Message_def NewAux1Message_def NewAuxsetMessage_def
  NewEst2Message_def NewAux2Message_def NewCoinInitMessage_def NewCoinMessage_def
  keyderivation_NewInitMessage_def keyderivation_NewShareMessage_def

text \<open>The fingerprint of an echo: Keccak of hash, share data and share number.\<close>

definition Fingerprint :: "('s, 'p) lib \<Rightarrow> Share \<Rightarrow> bytes \<Rightarrow> string" where
  "Fingerprint L share hash =
     (let delimiter = [word_of_nat (of_char Delimiter2)] :: bytes;
          bytes = hash @ delimiter @ sh_Data share @ delimiter @ [word_of_int (sh_Number share)] @ delimiter
      in hex_EncodeToString (keccak256 L bytes))"

section \<open>Working on an object of a store\<close>

definition on_keygen ::
  "'p NodeState \<Rightarrow> RoundID \<Rightarrow> (SharingStore \<Rightarrow> (SharingStore \<times> 'p action list) go) \<Rightarrow> 'p outcome" where
  "on_keygen st r body =
     (let ((keygen, complete), m) =
        SharingStoreMap_GetOrSetIfNotComplete (KeygenStore st) r (defaultKeygen r) in
      if complete then Some (st\<lparr>KeygenStore := m\<rparr>, [])
      else do {
        kg \<leftarrow> keygen;
        (kg', acts) \<leftarrow> body kg;
        Some (st\<lparr>KeygenStore := put m r kg'\<rparr>, acts) })"

definition on_session ::
  "'p NodeState \<Rightarrow> ADKGID \<Rightarrow> ('p ADKGSession \<Rightarrow> ('p ADKGSession \<times> 'p action list) go) \<Rightarrow> 'p outcome" where
  "on_session st i body =
     (let ((session, complete), m) =
        ADKGSessionStore_GetOrSetIfNotComplete (SessionStore st) i DefaultADKGSession in
      if complete then Some (st\<lparr>SessionStore := m\<rparr>, [])
      else do {
        s \<leftarrow> session;
        (s', acts) \<leftarrow> body s;
        Some (st\<lparr>SessionStore := put m i s'\<rparr>, acts) })"

definition on_aba ::
  "'p NodeState \<Rightarrow> RoundID \<Rightarrow> ('p ABAState \<Rightarrow> ('p ABAState \<times> 'p action list) go) \<Rightarrow> 'p outcome" where
  "on_aba st r body =
     (let ((aba, complete), m) =
        ABAStoreMap_GetOrSetIfNotComplete (ABAStore st) r DefaultABAStore in
      if complete then Some (st\<lparr>ABAStore := m\<rparr>, [])
      else do {
        s \<leftarrow> aba;
        (s', acts) \<leftarrow> body s;
        Some (st\<lparr>ABAStore := put m r s'\<rparr>, acts) })"

text \<open>
  The object a handler works on: the live one or the default one. Every step on a store either
  finds the round complete and changes nothing, or runs the body on that object and writes it.
\<close>

definition current :: "('k, 'v) syncmap \<Rightarrow> 'k \<Rightarrow> 'v \<Rightarrow> 'v" where
  "current m r d = (case m_get m r of Some (Some v) \<Rightarrow> v | _ \<Rightarrow> d)"

lemma on_keygen_cases:
  assumes "on_keygen st r body = Some (st', acts)"
  obtains "m_get (KeygenStore st) r = Some None" "st' = st" "acts = []"
  | kg' where "body (current (KeygenStore st) r (defaultKeygen r)) = Some (kg', acts)"
      "m_get (KeygenStore st) r \<noteq> Some None"
      "SessionStore st' = SessionStore st" "ABAStore st' = ABAStore st"
      "\<And>j. m_get (KeygenStore st') j = (if j = r then Some (Some kg') else m_get (KeygenStore st) j)"
proof (cases "m_get (KeygenStore st) r = Some None")
  case True
  then have "st' = st \<and> acts = []"
    using assms by (simp add: on_keygen_def rounds.obtain_complete [OF True])
  then show thesis using that(1) [OF True] by (elim conjE)
next
  case False
  obtain m where m: "SharingStoreMap_GetOrSetIfNotComplete (KeygenStore st) r (defaultKeygen r) =
      ((Some (current (KeygenStore st) r (defaultKeygen r)), False), m)"
    "\<And>j. j \<noteq> r \<Longrightarrow> m_get m j = m_get (KeygenStore st) j"
    using rounds.obtain_open [OF False, of "defaultKeygen r"] unfolding current_def by blast
  obtain s' where "body (current (KeygenStore st) r (defaultKeygen r)) = Some (s', acts)" "st' = st\<lparr>KeygenStore := put m r s'\<rparr>"
    using assms by (auto simp: on_keygen_def m(1) go_bind_eq_Some)
  then show thesis using that(2) [OF _ False] m(2) by (simp add: put_def)
qed

lemma on_keygen_step:
  assumes "m_get (KeygenStore st) r \<noteq> Some None"
    and "body (current (KeygenStore st) r (defaultKeygen r)) = Some (kg', acts)"
  shows "\<exists>st'. on_keygen st r body = Some (st', acts) \<and>
    m_get (KeygenStore st') r = Some (Some kg')"
proof -
  obtain m where "SharingStoreMap_GetOrSetIfNotComplete (KeygenStore st) r (defaultKeygen r) =
      ((Some (current (KeygenStore st) r (defaultKeygen r)), False), m)"
    using rounds.obtain_open [OF assms(1), of "defaultKeygen r"] unfolding current_def by blast
  then show ?thesis by (simp add: on_keygen_def assms(2) put_def)
qed

lemma on_session_cases:
  assumes "on_session st i body = Some (st', acts)"
  obtains "m_get (SessionStore st) i = Some None" "st' = st" "acts = []"
  | s' where "body (current (SessionStore st) i DefaultADKGSession) = Some (s', acts)"
      "m_get (SessionStore st) i \<noteq> Some None"
      "KeygenStore st' = KeygenStore st" "ABAStore st' = ABAStore st"
      "\<And>j. m_get (SessionStore st') j = (if j = i then Some (Some s') else m_get (SessionStore st) j)"
proof (cases "m_get (SessionStore st) i = Some None")
  case True
  then have "st' = st \<and> acts = []"
    using assms by (simp add: on_session_def sessions.obtain_complete [OF True])
  then show thesis using that(1) [OF True] by (elim conjE)
next
  case False
  obtain m where m: "ADKGSessionStore_GetOrSetIfNotComplete (SessionStore st) i DefaultADKGSession =
      ((Some (current (SessionStore st) i DefaultADKGSession), False), m)"
    "\<And>j. j \<noteq> i \<Longrightarrow> m_get m j = m_get (SessionStore st) j"
    using sessions.obtain_open [OF False, of DefaultADKGSession] unfolding current_def by blast
  obtain s' where "body (current (SessionStore st) i DefaultADKGSession) = Some (s', acts)" "st' = st\<lparr>SessionStore := put m i s'\<rparr>"
    using assms by (auto simp: on_session_def m(1) go_bind_eq_Some)
  then show thesis using that(2) [OF _ False] m(2) by (simp add: put_def)
qed

lemma on_aba_cases:
  assumes "on_aba st r body = Some (st', acts)"
  obtains "m_get (ABAStore st) r = Some None" "st' = st" "acts = []"
  | s' where "body (current (ABAStore st) r DefaultABAStore) = Some (s', acts)"
      "m_get (ABAStore st) r \<noteq> Some None"
      "KeygenStore st' = KeygenStore st" "SessionStore st' = SessionStore st"
      "\<And>j. m_get (ABAStore st') j = (if j = r then Some (Some s') else m_get (ABAStore st) j)"
proof (cases "m_get (ABAStore st) r = Some None")
  case True
  then have "st' = st \<and> acts = []"
    using assms by (simp add: on_aba_def agreements.obtain_complete [OF True])
  then show thesis using that(1) [OF True] by (elim conjE)
next
  case False
  obtain m where m: "ABAStoreMap_GetOrSetIfNotComplete (ABAStore st) r DefaultABAStore =
      ((Some (current (ABAStore st) r DefaultABAStore), False), m)"
    "\<And>j. j \<noteq> r \<Longrightarrow> m_get m j = m_get (ABAStore st) j"
    using agreements.obtain_open [OF False, of DefaultABAStore] unfolding current_def by blast
  obtain s' where "body (current (ABAStore st) r DefaultABAStore) = Some (s', acts)" "st' = st\<lparr>ABAStore := put m r s'\<rparr>"
    using assms by (auto simp: on_aba_def m(1) go_bind_eq_Some)
  then show thesis using that(2) [OF _ False] m(2) by (simp add: put_def)
qed

section \<open>Sequences of steps\<close>

fun run_handler ::
  "('e \<Rightarrow> 'p NodeState \<Rightarrow> 'p outcome) \<Rightarrow> 'e list \<Rightarrow> 'p NodeState \<Rightarrow> 'p outcome" where
  "run_handler h [] st = Some (st, [])"
| "run_handler h (e # es) st = do {
     (st1, acts1) \<leftarrow> h e st;
     (st2, acts2) \<leftarrow> run_handler h es st1;
     Some (st2, acts1 @ acts2) }"

lemma run_handler_append:
  "run_handler h (es @ es') st = do {
     (st1, acts1) \<leftarrow> run_handler h es st;
     (st2, acts2) \<leftarrow> run_handler h es' st1;
     Some (st2, acts1 @ acts2) }"
proof (induction es arbitrary: st)
  case (Cons e es)
  then show ?case by (cases "h e st") (auto split: Option.bind_splits)
qed (auto split: Option.bind_splits)

text \<open>An invariant of a run, indexed by the events so far.\<close>

lemma run_handler_induct:
  assumes "P [] st []"
    and "\<And>es st1 acts1 e. P es st1 acts1 \<Longrightarrow> \<exists>st2 acts2. h e st1 = Some (st2, acts2) \<and>
      P (es @ [e]) st2 (acts1 @ acts2)"
  shows "\<exists>st' acts. run_handler h es st = Some (st', acts) \<and> P es st' acts"
proof (induction es rule: rev_induct)
  case Nil
  then show ?case using assms(1) by simp
next
  case (snoc e es)
  then obtain st1 acts1 where 1: "run_handler h es st = Some (st1, acts1)" "P es st1 acts1" by blast
  then obtain st2 acts2 where 2: "h e st1 = Some (st2, acts2)" "P (es @ [e]) st2 (acts1 @ acts2)"
    using assms(2) by blast
  then show ?case using 1 by (simp add: run_handler_append)
qed

end
