(* ===== verification/Rbc.thy ===== *)
theory Rbc
  imports Participant
begin

text \<open>
  The reliable broadcast that both the sharing of a secret (\<open>message_handlers/acss\<close>) and the
  proposal of a key set (\<open>message_handlers/keyset\<close>) run: the echo and ready handlers. The two
  packages have the same code up to the messages they create, so that the work on the
  \<open>SharingStore\<close> is one definition per handler with the message constructors as arguments.

  The locale \<open>rbc_messages\<close> is the interface the handlers use of the constructors; it is
  interpreted for both packages. The lemmas follow the state over the events of a round: an
  echo is counted once per sender, a ready message is broadcast at most once and only with a
  quorum, the output is delivered at most once and only for a message whose hash was announced.
\<close>

section \<open>Echo\<close>

definition set_ReadySent :: "SharingStore \<Rightarrow> SharingStore" where
  "set_ReadySent kg = kg\<lparr>ks_State := (ks_State kg)\<lparr>rs_ReadySent := True\<rparr>\<rparr>"

definition ReadySent :: "SharingStore \<Rightarrow> bool" where
  "ReadySent kg = rs_ReadySent (ks_State kg)"

text \<open>
  The amplification that ends the echo handler and is part of the ready handler: with \<open>f + 1\<close>
  ready messages and an entry with \<open>f + 1\<close> echoes, broadcast ready. The last component is
  false when the handler returns because the message could not be created.
\<close>

definition rbc_amplify ::
  "('s, 'p) lib \<Rightarrow> (Share \<Rightarrow> bytes \<Rightarrow> DKGMessage err) \<Rightarrow> int \<Rightarrow> SharingStore \<Rightarrow>
   SharingStore \<times> 'p action list \<times> bool" where
  "rbc_amplify L newReady f kg =
     (if int (length (ks_ReadyStore kg)) \<ge> f + 1 \<and> \<not> ReadySent kg then
        (case FindThresholdEchoStore (range_str L) kg (f + 1) of
           None \<Rightarrow> (kg, [], True)
         | Some es \<Rightarrow>
             (case newReady (es_Share es) (es_Hash es) of
                Inl e \<Rightarrow> (kg, [], False)
              | Inr readyMsg \<Rightarrow> (set_ReadySent kg, [Broadcast readyMsg], True)))
      else (kg, [], True))"

text \<open>Recording an echo of a sender: the flag, the entry of the fingerprint and its count.\<close>

definition rbc_count_echo :: "int \<Rightarrow> string \<Rightarrow> Share \<Rightarrow> bytes \<Rightarrow> SharingStore \<Rightarrow> EchoStore \<times> SharingStore" where
  "rbc_count_echo sender cid share hash kg =
     (let kg1 = kg\<lparr>ks_State := (ks_State kg)\<lparr>rs_ReceivedEcho :=
                   m_set (rs_ReceivedEcho (ks_State kg)) sender True\<rparr>\<rparr>;
          (echoStore, kg2) = GetEchoStore kg1 cid share hash;
          echoStore' = echoStore\<lparr>es_Count := es_Count echoStore + 1\<rparr>
      in (echoStore', kg2\<lparr>ks_EchoStore := m_set (ks_EchoStore kg2) cid echoStore'\<rparr>))"

definition rbc_echo ::
  "('s, 'p) lib \<Rightarrow> (Share \<Rightarrow> bytes \<Rightarrow> DKGMessage err) \<Rightarrow> int \<Rightarrow> int \<Rightarrow> Share \<Rightarrow> bytes \<Rightarrow>
   SharingStore \<Rightarrow> SharingStore \<times> 'p action list" where
  "rbc_echo L newReady f sender share hash kg =
     (if m_zero False (rs_ReceivedEcho (ks_State kg)) sender then (kg, [])
      else
        let (echoStore, kg1) = rbc_count_echo sender (Fingerprint L share hash) share hash kg in
        if es_Count echoStore \<ge> 2 * f + 1 \<and> \<not> ReadySent kg1 then
          (case newReady (es_Share echoStore) (es_Hash echoStore) of
             Inl e \<Rightarrow> (kg1, [])
           | Inr readyMsg \<Rightarrow>
               let (kg2, acts, ok) = rbc_amplify L newReady f (set_ReadySent kg1)
               in (kg2, Broadcast readyMsg # acts))
        else
          let (kg2, acts, ok) = rbc_amplify L newReady f kg1 in (kg2, acts))"

section \<open>Ready\<close>

text \<open>The loop that decodes the message and delivers it when its hash is the announced one.\<close>

fun rbc_decode_loop ::
  "('s, 'p) lib \<Rightarrow> (bytes \<Rightarrow> DKGMessage err) \<Rightarrow> KeygenNodeDetails \<Rightarrow> int \<Rightarrow> int \<Rightarrow> bytes \<Rightarrow>
   int list \<Rightarrow> SharingStore \<Rightarrow> SharingStore \<times> 'p action list" where
  "rbc_decode_loop L newOutput self n f hash [] kg = (kg, [])"
| "rbc_decode_loop L newOutput self n f hash (i # is) kg =
     (if int (length (ks_ReadyStore kg)) \<ge> 2 * f + 1 + i then
        if \<not> fec_New L (f + 1) n then (kg, [])
        else
          (case Decode L (f + 1, n) (ks_ReadyStore kg) of
             Inl e \<Rightarrow> (kg, [])
           | Inr M \<Rightarrow>
               if HashByte M = hash then
                 let kg' = kg\<lparr>ks_State := (ks_State kg)\<lparr>rs_Phase := Ended\<rparr>\<rparr> in
                 (case newOutput M of
                    Inl e \<Rightarrow> (kg', [])
                  | Inr outputMsg \<Rightarrow> (kg', [ReceiveMessage self outputMsg]))
               else rbc_decode_loop L newOutput self n f hash is kg)
      else rbc_decode_loop L newOutput self n f hash is kg)"

definition rbc_record_ready :: "int \<Rightarrow> Share \<Rightarrow> SharingStore \<Rightarrow> SharingStore" where
  "rbc_record_ready sender share kg =
     kg\<lparr>ks_State := (ks_State kg)\<lparr>rs_ReceivedReady :=
          m_set (rs_ReceivedReady (ks_State kg)) sender True\<rparr>,
        ks_ReadyStore := ks_ReadyStore kg @ [share]\<rparr>"

definition rbc_ready ::
  "('s, 'p) lib \<Rightarrow> (Share \<Rightarrow> bytes \<Rightarrow> DKGMessage err) \<Rightarrow> (bytes \<Rightarrow> DKGMessage err) \<Rightarrow>
   KeygenNodeDetails \<Rightarrow> int \<Rightarrow> int \<Rightarrow> int \<Rightarrow> Share \<Rightarrow> bytes \<Rightarrow>
   SharingStore \<Rightarrow> SharingStore \<times> 'p action list" where
  "rbc_ready L newReady newOutput self n f sender share hash kg =
     (if m_zero False (rs_ReceivedReady (ks_State kg)) sender then (kg, [])
      else
        let (kg1, acts, ok) = rbc_amplify L newReady f (rbc_record_ready sender share kg) in
        if \<not> ok then (kg1, acts)
        else if rs_Phase (ks_State kg1) = Ended then (kg1, acts)
        else
          let (kg2, acts2) = rbc_decode_loop L newOutput self n f hash [0..f] kg1
          in (kg2, acts @ acts2))"

section \<open>The handlers of the two packages\<close>

definition acss_EchoMessage_Process ::
  "('s, 'p) lib \<Rightarrow> ('s, 'p) KeygenNode \<Rightarrow> KeygenNodeDetails \<Rightarrow>
   RoundID \<Rightarrow> CurveName \<Rightarrow> Share \<Rightarrow> bytes \<Rightarrow> 'p NodeState \<Rightarrow> 'p outcome" where
  "acss_EchoMessage_Process L self sender roundID curve share hash st =
     on_keygen st roundID (\<lambda>keygen.
       let (n, k, f) = Params self in
       Some (rbc_echo L (\<lambda>s h. acss_NewReadyMessage L roundID s h curve) f (kn_Index sender) share hash
         keygen))"

definition acss_ReadyMessage_Process ::
  "('s, 'p) lib \<Rightarrow> ('s, 'p) KeygenNode \<Rightarrow> KeygenNodeDetails \<Rightarrow>
   RoundID \<Rightarrow> CurveName \<Rightarrow> Share \<Rightarrow> bytes \<Rightarrow> 'p NodeState \<Rightarrow> 'p outcome" where
  "acss_ReadyMessage_Process L self sender roundID curve share hash st =
     on_keygen st roundID (\<lambda>keygen.
       let (n, k, f) = Params self in
       Some (rbc_ready L (\<lambda>s h. acss_NewReadyMessage L roundID s h curve)
         (\<lambda>M. acss_NewOutputMessage L roundID M curve) (node_details self) n f (kn_Index sender)
         share hash keygen))"

definition keyset_EchoMessage_Process ::
  "('s, 'p) lib \<Rightarrow> ('s, 'p) KeygenNode \<Rightarrow> KeygenNodeDetails \<Rightarrow>
   RoundID \<Rightarrow> CurveName \<Rightarrow> Share \<Rightarrow> bytes \<Rightarrow> 'p NodeState \<Rightarrow> 'p outcome" where
  "keyset_EchoMessage_Process L self sender roundID curve share hash st =
     on_keygen st roundID (\<lambda>keygen.
       let (n, k, f) = Params self in
       Some (rbc_echo L (\<lambda>s h. keyset_NewReadyMessage L roundID s h curve) f (kn_Index sender) share hash
         keygen))"

definition keyset_ReadyMessage_Process ::
  "('s, 'p) lib \<Rightarrow> ('s, 'p) KeygenNode \<Rightarrow> KeygenNodeDetails \<Rightarrow>
   RoundID \<Rightarrow> CurveName \<Rightarrow> Share \<Rightarrow> bytes \<Rightarrow> 'p NodeState \<Rightarrow> 'p outcome" where
  "keyset_ReadyMessage_Process L self sender roundID curve share hash st =
     on_keygen st roundID (\<lambda>keygen.
       let (n, k, f) = Params self in
       Some (rbc_ready L (\<lambda>s h. keyset_NewReadyMessage L roundID s h curve)
         (\<lambda>M. keyset_NewOutputMessage L roundID M curve) (node_details self) n f (kn_Index sender)
         share hash keygen))"

section \<open>What the parts of a handler change\<close>

definition core :: "SharingStore \<Rightarrow>
   (int, bool) gomap \<times> (string, EchoStore) gomap \<times> (int, bool) gomap \<times> Share list" where
  "core kg = (rs_ReceivedEcho (ks_State kg), ks_EchoStore kg, rs_ReceivedReady (ks_State kg),
              ks_ReadyStore kg)"

lemma set_ReadySent_simps [simp]:
  "core (set_ReadySent kg) = core kg" "ReadySent (set_ReadySent kg)"
  "rs_Phase (ks_State (set_ReadySent kg)) = rs_Phase (ks_State kg)"
  "ks_ReadyStore (set_ReadySent kg) = ks_ReadyStore kg"
  by (simp_all add: core_def set_ReadySent_def ReadySent_def)

lemma rbc_amplify_cases:
  assumes "rbc_amplify L newReady f kg = (kg', acts, ok)"
  obtains "kg' = kg" "acts = []"
  | m es where "\<not> ReadySent kg" "kg' = set_ReadySent kg" "acts = [Broadcast m]" "ok"
      "newReady (es_Share es) (es_Hash es) = Inr m" "f + 1 \<le> int (length (ks_ReadyStore kg))"
      "\<exists>cid. m_get (ks_EchoStore kg) cid = Some es \<and> f + 1 \<le> es_Count es"
proof (cases "acts = []")
  case True
  then have "kg' = kg" using assms
    by (auto simp: rbc_amplify_def split: if_splits option.splits sum.splits)
  then show thesis using True that(1) by blast
next
  case False
  then obtain es m where es: "FindThresholdEchoStore (range_str L) kg (f + 1) = Some es"
    and rest: "\<not> ReadySent kg" "kg' = set_ReadySent kg" "acts = [Broadcast m]" "ok"
      "newReady (es_Share es) (es_Hash es) = Inr m" "f + 1 \<le> int (length (ks_ReadyStore kg))"
    using assms by (auto simp: rbc_amplify_def split: if_splits option.splits sum.splits)
  from es have "\<exists>cid. m_get (ks_EchoStore kg) cid = Some es \<and> f + 1 \<le> es_Count es"
    unfolding FindThresholdEchoStore_def by (blast dest: find_threshold_Some)
  with rest show thesis by (rule that(2))
qed

lemma rbc_decode_loop_cases:
  assumes "rbc_decode_loop L newOutput self n f hash is kg = (kg', acts)" "\<forall>i \<in> set is. 0 \<le> i"
  shows "core kg' = core kg \<and> ReadySent kg' = ReadySent kg \<and>
    (acts = [] \<or> rs_Phase (ks_State kg') = Ended \<and> (\<exists>M m. acts = [ReceiveMessage self m] \<and>
      newOutput M = Inr m \<and> HashByte M = hash \<and> 2 * f + 1 \<le> int (length (ks_ReadyStore kg)) \<and>
      Decode L (f + 1, n) (ks_ReadyStore kg) = Inr M))"
  using assms
  by (induction "is")
    (auto simp: core_def ReadySent_def Let_def split: if_splits sum.splits)

text \<open>A node that is ready stays ready.\<close>

lemma amplify_sent:
  "rbc_amplify L newReady f kg = (kg', acts, ok) \<Longrightarrow> ReadySent kg \<Longrightarrow> ReadySent kg'"
  by (erule rbc_amplify_cases) simp_all

lemma ready_sent:
  assumes "rbc_ready L newReady newOutput self n f sender sh h kg = (kg', acts)" "ReadySent kg"
  shows "ReadySent kg'"
proof -
  have r: "ReadySent (rbc_record_ready sender sh kg)"
    using assms(2) by (simp add: rbc_record_ready_def ReadySent_def)
  obtain kg1 a1 ok where am: "rbc_amplify L newReady f (rbc_record_ready sender sh kg) = (kg1, a1, ok)"
    by (cases "rbc_amplify L newReady f (rbc_record_ready sender sh kg)")
  obtain kg2 a2 where dec: "rbc_decode_loop L newOutput self n f h [0..f] kg1 = (kg2, a2)" by fastforce
  show ?thesis
    using assms amplify_sent [OF am r] rbc_decode_loop_cases [OF dec]
    by (auto simp: rbc_ready_def am dec split: if_splits)
qed

section \<open>The events of a round\<close>

datatype rbc_event =
    EchoEv KeygenNodeDetails CurveName Share bytes
  | ReadyEv KeygenNodeDetails CurveName Share bytes

text \<open>The fingerprint that each sender echoed first, and the senders of ready messages.\<close>

fun echoes :: "('s, 'p) lib \<Rightarrow> rbc_event list \<Rightarrow> (int \<times> string) list" where
  "echoes L [] = []"
| "echoes L (EchoEv s c sh h # es) = (kn_Index s, Fingerprint L sh h) # echoes L es"
| "echoes L (ReadyEv s c sh h # es) = echoes L es"

fun ready_senders :: "rbc_event list \<Rightarrow> int set" where
  "ready_senders [] = {}"
| "ready_senders (EchoEv s c sh h # es) = ready_senders es"
| "ready_senders (ReadyEv s c sh h # es) = insert (kn_Index s) (ready_senders es)"

definition echo_senders :: "('s, 'p) lib \<Rightarrow> rbc_event list \<Rightarrow> string \<Rightarrow> int set" where
  "echo_senders L es cid = {s. map_of (echoes L es) s = Some cid}"

lemma echoes_append: "echoes L (es @ es') = echoes L es @ echoes L es'"
  by (induction L es rule: echoes.induct) simp_all

lemma ready_senders_append: "ready_senders (es @ es') = ready_senders es \<union> ready_senders es'"
  by (induction es rule: ready_senders.induct) simp_all

lemma finite_ready_senders [simp]: "finite (ready_senders es)"
  by (induction es rule: ready_senders.induct) simp_all

lemma finite_echo_senders [simp]: "finite (echo_senders L es cid)"
proof (rule finite_subset)
  show "echo_senders L es cid \<subseteq> dom (map_of (echoes L es))" by (auto simp: echo_senders_def)
  show "finite (dom (map_of (echoes L es)))" by (rule finite_dom_map_of)
qed

lemma echo_senders_mono: "echo_senders L es cid \<subseteq> echo_senders L (es @ es') cid"
  by (auto simp: echo_senders_def echoes_append map_add_Some_iff)

lemma ready_senders_mono: "ready_senders es \<subseteq> ready_senders (es @ es')"
  by (simp add: ready_senders_append)

text \<open>The quorums that allow a ready message.\<close>

definition ready_quorum :: "('s, 'p) lib \<Rightarrow> int \<Rightarrow> rbc_event list \<Rightarrow> bool" where
  "ready_quorum L f es \<longleftrightarrow>
     (\<exists>cid. 2 * f + 1 \<le> int (card (echo_senders L es cid))) \<or>
     f + 1 \<le> int (card (ready_senders es)) \<and> (\<exists>cid. f + 1 \<le> int (card (echo_senders L es cid)))"

lemma ready_quorum_mono: "ready_quorum L f es \<Longrightarrow> ready_quorum L f (es @ es')"
proof -
  have "card (echo_senders L es cid) \<le> card (echo_senders L (es @ es') cid)" for cid
    by (rule card_mono) (simp_all add: echo_senders_mono)
  moreover have "card (ready_senders es) \<le> card (ready_senders (es @ es'))"
    by (rule card_mono) (simp_all add: ready_senders_append)
  ultimately show "ready_quorum L f es \<Longrightarrow> ready_quorum L f (es @ es')"
    unfolding ready_quorum_def by (meson of_nat_le_iff order_trans)
qed

section \<open>Counting\<close>

definition counts :: "('s, 'p) lib \<Rightarrow> rbc_event list \<Rightarrow> SharingStore \<Rightarrow> bool" where
  "counts L es kg \<longleftrightarrow>
     (\<forall>s. m_zero False (rs_ReceivedEcho (ks_State kg)) s \<longleftrightarrow> map_of (echoes L es) s \<noteq> None) \<and>
     (\<forall>cid. (case m_get (ks_EchoStore kg) cid of None \<Rightarrow> 0 | Some e \<Rightarrow> es_Count e) =
            int (card (echo_senders L es cid))) \<and>
     (\<forall>s. m_zero False (rs_ReceivedReady (ks_State kg)) s \<longleftrightarrow> s \<in> ready_senders es) \<and>
     length (ks_ReadyStore kg) = card (ready_senders es)"

lemma counts_core: "core kg = core kg' \<Longrightarrow> counts L es kg \<longleftrightarrow> counts L es kg'"
  by (simp add: counts_def core_def)

lemma counts_default: "counts L [] (defaultKeygen r)"
  by (simp add: counts_def defaultKeygen_def echo_senders_def)

lemma counts_entry:
  "counts L es kg \<Longrightarrow> m_get (ks_EchoStore kg) cid = Some e \<Longrightarrow>
   es_Count e = int (card (echo_senders L es cid))"
  unfolding counts_def by (metis option.simps(5))

lemma rbc_count_echo_core:
  assumes "rbc_count_echo sender cid share hash kg = (e, kg')"
  shows "core kg' = (m_set (rs_ReceivedEcho (ks_State kg)) sender True,
      ks_EchoStore kg', rs_ReceivedReady (ks_State kg), ks_ReadyStore kg)"
    "ReadySent kg' = ReadySent kg" "rs_Phase (ks_State kg') = rs_Phase (ks_State kg)"
    "m_get (ks_EchoStore kg') j = (if j = cid then Some e else m_get (ks_EchoStore kg) j)"
    "es_Count e = (case m_get (ks_EchoStore kg) cid of None \<Rightarrow> 0 | Some e \<Rightarrow> es_Count e) + 1"
  using assms
  by (auto simp: rbc_count_echo_def GetEchoStore_def core_def ReadySent_def Let_def
      split: option.splits)

lemma echo_senders_new:
  assumes "map_of (echoes L es) (kn_Index n) = None"
  shows "echo_senders L (es @ [EchoEv n c sh h]) cid =
    (if cid = Fingerprint L sh h then insert (kn_Index n) (echo_senders L es cid)
     else echo_senders L es cid)"
  using assms by (auto simp: echo_senders_def echoes_append map_add_def split: option.splits)

lemma echo_senders_old:
  "map_of (echoes L es) (kn_Index n) \<noteq> None \<Longrightarrow>
   echo_senders L (es @ [EchoEv n c sh h]) cid = echo_senders L es cid"
  by (auto simp: echo_senders_def echoes_append map_add_def split: option.splits if_splits)

lemma echo_senders_ready: "echo_senders L (es @ [ReadyEv n c sh h]) cid = echo_senders L es cid"
  by (simp add: echo_senders_def echoes_append)

lemma counts_echo:
  assumes "counts L es kg" "map_of (echoes L es) (kn_Index n) = None"
    and "rbc_count_echo (kn_Index n) (Fingerprint L sh h) sh h kg = (e, kg')"
  shows "counts L (es @ [EchoEv n c sh h]) kg'"
    and "es_Count e = int (card (echo_senders L (es @ [EchoEv n c sh h]) (Fingerprint L sh h)))"
proof -
  let ?cid = "Fingerprint L sh h"
  note cc = rbc_count_echo_core [OF assms(3)]
  have "kn_Index n \<notin> echo_senders L es ?cid" using assms(2) by (simp add: echo_senders_def)
  then have card: "card (echo_senders L (es @ [EchoEv n c sh h]) ?cid) =
      Suc (card (echo_senders L es ?cid))"
    by (simp add: echo_senders_new [OF assms(2)])
  with assms(1) cc(5) show cnt: "es_Count e = int (card (echo_senders L (es @ [EchoEv n c sh h]) ?cid))"
    by (simp add: counts_def)
  show "counts L (es @ [EchoEv n c sh h]) kg'"
    using assms(1,2) cc(1,4) cnt
    by (auto simp: counts_def core_def echo_senders_new echoes_append ready_senders_append
        map_add_def split: option.splits)
qed

lemma counts_echo_old:
  assumes "counts L es kg" "map_of (echoes L es) (kn_Index n) \<noteq> None"
  shows "counts L (es @ [EchoEv n c sh h]) kg"
  using assms by (auto simp: counts_def echo_senders_old echoes_append ready_senders_append
      map_add_def split: option.splits)

lemma counts_ready:
  assumes "counts L es kg" "kn_Index n \<notin> ready_senders es"
  shows "counts L (es @ [ReadyEv n c sh h]) (rbc_record_ready (kn_Index n) sh kg)"
  using assms
  by (auto simp: counts_def echo_senders_ready echoes_append ready_senders_append rbc_record_ready_def)

lemma counts_ready_old:
  assumes "counts L es kg" "kn_Index n \<in> ready_senders es"
  shows "counts L (es @ [ReadyEv n c sh h]) kg"
  using assms
  by (auto simp: counts_def echo_senders_ready echoes_append ready_senders_append insert_absorb)

section \<open>The interface of the messages\<close>

text \<open>
  \<open>handler\<close> is the pair of the echo and ready handlers of a round; \<open>newReady\<close> and \<open>newOutput\<close>
  the constructors they use, whose messages carry two different methods.
\<close>

locale rbc_messages =
  fixes L :: "('s, 'p) lib" and self :: "('s, 'p) KeygenNode" and roundID :: RoundID
    and handler :: "rbc_event \<Rightarrow> 'p NodeState \<Rightarrow> 'p outcome"
    and newReady :: "CurveName \<Rightarrow> Share \<Rightarrow> bytes \<Rightarrow> DKGMessage err"
    and newOutput :: "CurveName \<Rightarrow> bytes \<Rightarrow> DKGMessage err"
    and readyKind outputKind :: string
  assumes handler_echo: "handler (EchoEv sender c sh h) st =
      on_keygen st roundID (\<lambda>kg. let (n, k, f) = Params self in
        Some (rbc_echo L (newReady c) f (kn_Index sender) sh h kg))"
    and handler_ready: "handler (ReadyEv sender c sh h) st =
      on_keygen st roundID (\<lambda>kg. let (n, k, f) = Params self in
        Some (rbc_ready L (newReady c) (newOutput c) (node_details self) n f (kn_Index sender) sh h kg))"
    and ready_kind: "newReady c sh h = Inr m \<Longrightarrow> dm_Method m = readyKind"
    and output_kind: "newOutput c M = Inr m \<Longrightarrow> dm_Method m = outputKind"
begin

definition f_max :: int where "f_max = nn_T (node_network self)"

definition is_ready :: "'p action \<Rightarrow> bool" where
  "is_ready a \<longleftrightarrow> (\<exists>m. a = Broadcast m \<and> dm_Method m = readyKind)"

definition is_output :: "'p action \<Rightarrow> bool" where
  "is_output a \<longleftrightarrow> (\<exists>d m. a = ReceiveMessage d m)"

text \<open>What an output rests on.\<close>

definition justified :: "rbc_event list \<Rightarrow> 'p action \<Rightarrow> bool" where
  "justified es a \<longleftrightarrow>
     (\<exists>s c sh h M m. a = ReceiveMessage (node_details self) m \<and> ReadyEv s c sh h \<in> set es \<and>
        newOutput c M = Inr m \<and> HashByte M = h \<and> 2 * f_max + 1 \<le> int (card (ready_senders es)))"

lemma justifiedI:
  "newOutput c M = Inr m \<Longrightarrow> HashByte M = h \<Longrightarrow> ReadyEv s c sh h \<in> set es \<Longrightarrow>
   2 * f_max + 1 \<le> int (card (ready_senders es)) \<Longrightarrow>
   justified es (ReceiveMessage (node_details self) m)"
  unfolding justified_def by blast

lemma justified_mono: "justified es a \<Longrightarrow> justified (es @ es') a"
proof -
  have "card (ready_senders es) \<le> card (ready_senders (es @ es'))"
    by (rule card_mono) (simp_all add: ready_senders_append)
  then have "2 * f_max + 1 \<le> int (card (ready_senders (es @ es')))"
    if "2 * f_max + 1 \<le> int (card (ready_senders es))" using that by linarith
  moreover have "set es \<subseteq> set (es @ es')" by auto
  ultimately show "justified es a \<Longrightarrow> justified (es @ es') a"
    unfolding justified_def by (elim exE conjE) (intro exI conjI, assumption, blast+)
qed

definition inv :: "rbc_event list \<Rightarrow> SharingStore \<Rightarrow> 'p action list \<Rightarrow> bool" where
  "inv es kg acts \<longleftrightarrow>
     counts L es kg \<and>
     length (filter is_ready acts) = (if ReadySent kg then 1 else 0) \<and>
     (ReadySent kg \<longrightarrow> ready_quorum L f_max es) \<and>
     length (filter is_output acts) \<le> (if rs_Phase (ks_State kg) = Ended then 1 else 0) \<and>
     (\<forall>a \<in> set acts. is_output a \<longrightarrow> justified es a)"

lemma action_kinds [simp]:
  "newReady c sh h = Inr m \<Longrightarrow> is_ready (Broadcast m)" "\<not> is_output (Broadcast m)"
  "\<not> is_ready (ReceiveMessage d m)" "is_output (ReceiveMessage d m)"
  by (auto simp: is_ready_def is_output_def dest: ready_kind)

text \<open>The amplification keeps the invariant, for events that are counted already.\<close>

lemma inv_amplify:
  assumes "inv es kg acts" "rbc_amplify L (newReady c) f_max kg = (kg', acts', ok)"
  shows "inv es kg' (acts @ acts') \<and> core kg' = core kg \<and>
    rs_Phase (ks_State kg') = rs_Phase (ks_State kg) \<and> (ReadySent kg \<longrightarrow> ReadySent kg')"
  using assms(2)
proof (cases rule: rbc_amplify_cases)
  case 1
  with assms(1) show ?thesis by simp
next
  case (2 m e)
  then obtain cid where cid: "m_get (ks_EchoStore kg) cid = Some e" "f_max + 1 \<le> es_Count e" by blast
  have cnt: "counts L es kg" using assms(1) by (simp add: inv_def)
  have "f_max + 1 \<le> int (card (echo_senders L es cid))"
    using counts_entry [OF cnt cid(1)] cid(2) by simp
  moreover have "f_max + 1 \<le> int (card (ready_senders es))"
    using cnt 2 by (simp add: counts_def)
  ultimately have "ready_quorum L f_max es" unfolding ready_quorum_def by blast
  with 2 assms(1) cnt show ?thesis
    by (auto simp: inv_def counts_core [of "set_ReadySent kg" kg])
qed

lemma inv_extend:
  "inv es kg acts \<Longrightarrow> counts L (es @ [e]) kg' \<Longrightarrow> ReadySent kg' = ReadySent kg \<Longrightarrow>
   rs_Phase (ks_State kg') = rs_Phase (ks_State kg) \<Longrightarrow> inv (es @ [e]) kg' acts"
  by (auto simp: inv_def intro: ready_quorum_mono justified_mono)

lemma inv_echo:
  assumes "inv es kg acts" "rbc_echo L (newReady c) f_max (kn_Index n) sh h kg = (kg', acts')"
  shows "inv (es @ [EchoEv n c sh h]) kg' (acts @ acts')"
proof (cases "map_of (echoes L es) (kn_Index n)")
  case (Some x)
  then have "kg' = kg \<and> acts' = []" using assms by (auto simp: inv_def counts_def rbc_echo_def)
  moreover have "counts L (es @ [EchoEv n c sh h]) kg"
    using assms(1) Some by (intro counts_echo_old) (simp_all add: inv_def)
  ultimately show ?thesis using inv_extend [OF assms(1)] by simp
next
  case None
  have cnt: "counts L es kg" using assms(1) by (simp add: inv_def)
  let ?es = "es @ [EchoEv n c sh h]"
  obtain e kg1 where e: "rbc_count_echo (kn_Index n) (Fingerprint L sh h) sh h kg = (e, kg1)"
    by fastforce
  note ce = counts_echo [OF cnt None e] and cc = rbc_count_echo_core [OF e]
  have inv1: "inv ?es kg1 acts" using inv_extend [OF assms(1) ce(1)] cc(2,3) by simp
  have rcv: "\<not> m_zero False (rs_ReceivedEcho (ks_State kg)) (kn_Index n)"
    using cnt None by (simp add: counts_def)
  obtain kg2 a2 ok where am: "rbc_amplify L (newReady c) f_max kg1 = (kg2, a2, ok)"
    by (cases "rbc_amplify L (newReady c) f_max kg1")
  show ?thesis
  proof (cases "2 * f_max + 1 \<le> es_Count e \<and> \<not> ReadySent kg1")
    case False
    then show ?thesis using assms(2) inv_amplify [OF inv1 am]
      by (auto simp: rbc_echo_def rcv e am)
  next
    case True
    then have quorum: "ready_quorum L f_max ?es" unfolding ready_quorum_def using ce(2) [of c] by auto
    have send: "inv ?es (set_ReadySent kg1) (acts @ [Broadcast m])"
      if "newReady c (es_Share e) (es_Hash e) = Inr m" for m
      using inv1 True quorum that
      by (auto simp: inv_def counts_core [of "set_ReadySent kg1" kg1])
    obtain kg3 a3 ok3 where am3: "rbc_amplify L (newReady c) f_max (set_ReadySent kg1) = (kg3, a3, ok3)"
      by (cases "rbc_amplify L (newReady c) f_max (set_ReadySent kg1)")
    show ?thesis
      using assms(2) True inv1 inv_amplify [OF send am3]
      by (auto simp: rbc_echo_def rcv e am3 split: sum.splits)
  qed
qed

lemma inv_ready:
  assumes "inv es kg acts"
    and "rbc_ready L (newReady c) (newOutput c) (node_details self) n f_max (kn_Index s) sh h kg =
      (kg', acts')"
  shows "inv (es @ [ReadyEv s c sh h]) kg' (acts @ acts')"
proof (cases "kn_Index s \<in> ready_senders es")
  case True
  then have "kg' = kg \<and> acts' = []" using assms by (auto simp: inv_def counts_def rbc_ready_def)
  moreover have "counts L (es @ [ReadyEv s c sh h]) kg"
    using assms(1) True by (intro counts_ready_old) (simp_all add: inv_def)
  ultimately show ?thesis using inv_extend [OF assms(1)] by simp
next
  case False
  have cnt: "counts L es kg" using assms(1) by (simp add: inv_def)
  let ?es = "es @ [ReadyEv s c sh h]" and ?kg = "rbc_record_ready (kn_Index s) sh kg"
  have inv1: "inv ?es ?kg acts"
    using inv_extend [OF assms(1) counts_ready [OF cnt False]]
    by (simp add: rbc_record_ready_def ReadySent_def)
  obtain kg1 a1 ok where am: "rbc_amplify L (newReady c) f_max ?kg = (kg1, a1, ok)"
    by (cases "rbc_amplify L (newReady c) f_max ?kg")
  note inv2 = inv_amplify [OF inv1 am]
  obtain kg2 a2 where dec: "rbc_decode_loop L (newOutput c) (node_details self) n f_max h [0..f_max] kg1 =
      (kg2, a2)" by fastforce
  note dl = rbc_decode_loop_cases [OF dec]
  have rcv: "\<not> m_zero False (rs_ReceivedReady (ks_State kg)) (kn_Index s)"
    using cnt False by (simp add: counts_def)
  have "inv ?es kg2 ((acts @ a1) @ a2)" if ph: "rs_Phase (ks_State kg1) \<noteq> Ended"
  proof -
    have cnt2: "counts L ?es kg1" using inv2 by (simp add: inv_def)
    have len: "length (ks_ReadyStore kg1) = card (ready_senders ?es)"
      using cnt2 by (simp add: counts_def)
    have just: "justified ?es a" if a: "a \<in> set a2" for a
    proof -
      obtain M m where "a = ReceiveMessage (node_details self) m" "newOutput c M = Inr m" "HashByte M = h"
        "2 * f_max + 1 \<le> int (card (ready_senders ?es))"
        using dl a len by fastforce
      then show ?thesis using justifiedI [of c M m h s sh ?es] by simp
    qed
    have "counts L ?es kg2" using cnt2 dl counts_core [of kg2 kg1] by auto
    moreover have "filter is_ready a2 = []" "length (filter is_output a2) \<le> 1"
      "a2 \<noteq> [] \<longrightarrow> rs_Phase (ks_State kg2) = Ended"
      using dl by auto
    ultimately show ?thesis
      using inv2 ph dl just by (auto simp: inv_def)
  qed
  then show ?thesis
    using assms(2) inv2 by (auto simp: rbc_ready_def rcv am dec split: if_splits)
qed

text \<open>The runs of the handlers on a round that has not started.\<close>

definition reached :: "rbc_event list \<Rightarrow> 'p NodeState \<Rightarrow> 'p action list \<Rightarrow> bool" where
  "reached es st acts \<longleftrightarrow>
     m_get (KeygenStore st) roundID \<noteq> Some None \<and>
     inv es (current (KeygenStore st) roundID (defaultKeygen roundID)) acts"

lemma reached_Nil: "m_get (KeygenStore st) roundID = None \<Longrightarrow> reached [] st []"
  using counts_default [of L roundID]
  by (simp add: reached_def current_def inv_def ReadySent_def defaultKeygen_def)

text \<open>The work of the handler on the object of the round.\<close>

definition step :: "rbc_event \<Rightarrow> SharingStore \<Rightarrow> SharingStore \<times> 'p action list" where
  "step e kg = (case e of
     EchoEv s c sh h \<Rightarrow> rbc_echo L (newReady c) f_max (kn_Index s) sh h kg
   | ReadyEv s c sh h \<Rightarrow> rbc_ready L (newReady c) (newOutput c) (node_details self)
       (nn_N (node_network self)) f_max (kn_Index s) sh h kg)"

lemma handler_step: "handler e st = on_keygen st roundID (\<lambda>kg. Some (step e kg))"
  by (cases e) (simp_all add: handler_echo handler_ready step_def Params_def f_max_def)

lemma inv_step: "inv es kg acts \<Longrightarrow> step e kg = (kg', acts') \<Longrightarrow> inv (es @ [e]) kg' (acts @ acts')"
  using inv_echo inv_ready by (cases e) (auto simp: step_def)

lemma reached_step:
  assumes "reached es st1 acts1"
  shows "\<exists>st2 acts2 kg'. handler e st1 = Some (st2, acts2) \<and> reached (es @ [e]) st2 (acts1 @ acts2) \<and>
    current (KeygenStore st2) roundID (defaultKeygen roundID) = kg' \<and>
    step e (current (KeygenStore st1) roundID (defaultKeygen roundID)) = (kg', acts2)"
proof -
  let ?kg = "current (KeygenStore st1) roundID (defaultKeygen roundID)"
  obtain kg' a where k: "step e ?kg = (kg', a)" by fastforce
  have live: "m_get (KeygenStore st1) roundID \<noteq> Some None" and inv: "inv es ?kg acts1"
    using assms by (simp_all add: reached_def)
  obtain st2 where "handler e st1 = Some (st2, a)" "m_get (KeygenStore st2) roundID = Some (Some kg')"
    using on_keygen_step [OF live, of "\<lambda>kg. Some (step e kg)"] k by (auto simp: handler_step)
  then show ?thesis using inv_step [OF inv k] k by (auto simp: reached_def current_def)
qed

lemma run_reached:
  assumes "m_get (KeygenStore st) roundID = None"
  shows "\<exists>st' acts. run_handler handler es st = Some (st', acts) \<and> reached es st' acts"
proof (rule run_handler_induct)
  show "reached [] st []" by (rule reached_Nil [OF assms])
  show "\<exists>st2 acts2. handler e st1 = Some (st2, acts2) \<and> reached (es @ [e]) st2 (acts1 @ acts2)"
    if "reached es st1 acts1" for es st1 acts1 e
    using reached_step [OF that] by blast
qed

text \<open>Progress: when ready messages can be created, a quorum of echoes makes the node ready.\<close>

definition echo_live :: "rbc_event list \<Rightarrow> SharingStore \<Rightarrow> bool" where
  "echo_live es kg \<longleftrightarrow> (\<forall>cid. 2 * f_max + 1 \<le> int (card (echo_senders L es cid)) \<longrightarrow> ReadySent kg)"

lemma echo_live_step:
  assumes "\<And>c sh h. \<exists>m. newReady c sh h = Inr m" "counts L es kg" "echo_live es kg"
    and "rbc_echo L (newReady c) f_max (kn_Index n) sh h kg = (kg', acts)"
  shows "echo_live (es @ [EchoEv n c sh h]) kg'"
proof (cases "map_of (echoes L es) (kn_Index n)")
  case (Some x)
  then have "kg' = kg" using assms(2,4) by (auto simp: counts_def rbc_echo_def)
  with Some assms(3) show ?thesis by (simp add: echo_live_def echo_senders_old)
next
  case None
  obtain e kg1 where e: "rbc_count_echo (kn_Index n) (Fingerprint L sh h) sh h kg = (e, kg1)"
    by fastforce
  note ce = counts_echo [OF assms(2) None e, of c] and cc = rbc_count_echo_core [OF e]
  obtain m where m: "newReady c (es_Share e) (es_Hash e) = Inr m" using assms(1) by blast
  have rcv: "\<not> m_zero False (rs_ReceivedEcho (ks_State kg)) (kn_Index n)"
    using assms(2) None by (simp add: counts_def)
  have "ReadySent kg'" if "ReadySent kg1 \<or> 2 * f_max + 1 \<le> es_Count e"
    using assms(4) that amplify_sent [of L "newReady c" f_max]
    by (auto simp: rbc_echo_def rcv e m split: if_splits prod.splits)
  moreover have "ReadySent kg1 \<or> 2 * f_max + 1 \<le> es_Count e"
    if "2 * f_max + 1 \<le> int (card (echo_senders L (es @ [EchoEv n c sh h]) cid))" for cid
    using that assms(3) ce(2) cc(2) echo_senders_new [OF None, of c sh h cid]
    by (auto simp: echo_live_def split: if_splits)
  ultimately show ?thesis unfolding echo_live_def by blast
qed

lemma echo_live_ready:
  assumes "echo_live es kg"
    and "rbc_ready L (newReady c) (newOutput c) (node_details self) n f_max (kn_Index s) sh h kg =
      (kg', acts)"
  shows "echo_live (es @ [ReadyEv s c sh h]) kg'"
proof -
  have "ReadySent kg'" if "ReadySent kg" using assms(2) that by (rule ready_sent)
  with assms(1) show ?thesis by (auto simp: echo_live_def echo_senders_ready)
qed

lemma run_live:
  assumes "m_get (KeygenStore st) roundID = None" "0 \<le> f_max"
    and "\<And>c sh h. \<exists>m. newReady c sh h = Inr m"
  shows "\<exists>st' acts. run_handler handler es st = Some (st', acts) \<and> reached es st' acts \<and>
    echo_live es (current (KeygenStore st') roundID (defaultKeygen roundID))"
proof (rule run_handler_induct)
  show "reached [] st [] \<and> echo_live [] (current (KeygenStore st) roundID (defaultKeygen roundID))"
    using assms(1,2) reached_Nil by (simp add: echo_live_def echo_senders_def)
  fix es acts1 e and st1 :: "'p NodeState"
  let ?kg = "current (KeygenStore st1) roundID (defaultKeygen roundID)"
  assume r: "reached es st1 acts1 \<and> echo_live es ?kg"
  then have live: "echo_live es ?kg" and cnt: "counts L es ?kg" by (simp_all add: reached_def inv_def)
  from r obtain st2 acts2 kg' where st2: "handler e st1 = Some (st2, acts2)"
    "reached (es @ [e]) st2 (acts1 @ acts2)"
    "current (KeygenStore st2) roundID (defaultKeygen roundID) = kg'" "step e ?kg = (kg', acts2)"
    using reached_step by blast
  have "echo_live (es @ [e]) kg'"
    using echo_live_step [OF assms(3) cnt live] echo_live_ready [OF live] st2(4)
    by (cases e) (auto simp: step_def)
  with st2 show "\<exists>st2 acts2. handler e st1 = Some (st2, acts2) \<and>
      reached (es @ [e]) st2 (acts1 @ acts2) \<and>
      echo_live (es @ [e]) (current (KeygenStore st2) roundID (defaultKeygen roundID))"
    by blast
qed

text \<open>The results in terms of the actions and the events.\<close>

lemma run_once:
  assumes "m_get (KeygenStore st) roundID = None"
  shows "\<exists>st' acts. run_handler handler es st = Some (st', acts) \<and>
    length (filter (\<lambda>a. \<exists>m. a = Broadcast m \<and> dm_Method m = readyKind) acts) \<le> 1 \<and>
    length (filter (\<lambda>a. \<exists>d m. a = ReceiveMessage d m) acts) \<le> 1"
proof -
  obtain st' acts where "run_handler handler es st = Some (st', acts)" "reached es st' acts"
    using run_reached [OF assms] by blast
  moreover have "is_ready = (\<lambda>a. \<exists>m. a = Broadcast m \<and> dm_Method m = readyKind)"
    "is_output = (\<lambda>a. \<exists>d m. a = ReceiveMessage d m)"
    by (simp_all add: fun_eq_iff is_ready_def is_output_def)
  ultimately show ?thesis unfolding reached_def inv_def by (auto split: if_splits)
qed

lemma sent_iff:
  assumes "inv es kg acts"
  shows "ReadySent kg \<longleftrightarrow> (\<exists>m. Broadcast m \<in> set acts \<and> dm_Method m = readyKind)"
proof -
  have "ReadySent kg \<longleftrightarrow> filter is_ready acts \<noteq> []"
    using assms by (auto simp: inv_def split: if_splits)
  also have "\<dots> \<longleftrightarrow> (\<exists>m. Broadcast m \<in> set acts \<and> dm_Method m = readyKind)"
    by (auto simp: filter_empty_conv is_ready_def)
  finally show ?thesis .
qed

lemma run_justified:
  assumes "m_get (KeygenStore st) roundID = None" "run_handler handler es st = Some (st', acts)"
  shows "Broadcast m \<in> set acts \<Longrightarrow> dm_Method m = readyKind \<Longrightarrow>
      ready_quorum L (nn_T (node_network self)) es"
    and "ReceiveMessage d m \<in> set acts \<Longrightarrow> d = node_details self \<and>
      2 * nn_T (node_network self) + 1 \<le> int (card (ready_senders es)) \<and>
      (\<exists>s c sh M. ReadyEv s c sh (HashByte M) \<in> set es \<and> newOutput c M = Inr m)"
proof -
  let ?kg = "current (KeygenStore st') roundID (defaultKeygen roundID)"
  have inv: "inv es ?kg acts" using run_reached [OF assms(1), of es] assms(2) by (auto simp: reached_def)
  show "ready_quorum L (nn_T (node_network self)) es"
    if "Broadcast m \<in> set acts" "dm_Method m = readyKind"
    using inv sent_iff [OF inv] that by (auto simp: inv_def f_max_def)
  assume "ReceiveMessage d m \<in> set acts"
  then have "justified es (ReceiveMessage d m)" using inv by (simp add: inv_def)
  then show "d = node_details self \<and> 2 * nn_T (node_network self) + 1 \<le> int (card (ready_senders es)) \<and>
      (\<exists>s c sh M. ReadyEv s c sh (HashByte M) \<in> set es \<and> newOutput c M = Inr m)"
    unfolding justified_def f_max_def by blast
qed

lemma run_progress:
  assumes "m_get (KeygenStore st) roundID = None" "0 \<le> nn_T (node_network self)"
    and "\<And>c sh h. \<exists>m. newReady c sh h = Inr m"
    and "2 * nn_T (node_network self) + 1 \<le> int (card (echo_senders L es cid))"
  shows "\<exists>st' acts m. run_handler handler es st = Some (st', acts) \<and>
    Broadcast m \<in> set acts \<and> dm_Method m = readyKind"
proof -
  have f0: "0 \<le> f_max" using assms(2) by (simp add: f_max_def)
  obtain st' acts where run: "run_handler handler es st = Some (st', acts)" "reached es st' acts"
    "echo_live es (current (KeygenStore st') roundID (defaultKeygen roundID))"
    using run_live [OF assms(1) f0 assms(3)] by blast
  then have "ReadySent (current (KeygenStore st') roundID (defaultKeygen roundID))"
    using assms(4) by (auto simp: echo_live_def f_max_def)
  then show ?thesis using run(1,2) sent_iff unfolding reached_def by blast
qed

lemma run_counts:
  assumes "m_get (KeygenStore st) roundID = None" "run_handler handler es st = Some (st', acts)"
    and "m_get (KeygenStore st') roundID = Some (Some kg)"
  shows "\<forall>cid e. m_get (ks_EchoStore kg) cid = Some e \<longrightarrow>
      es_Count e = int (card (echo_senders L es cid))"
    and "length (ks_ReadyStore kg) = card (ready_senders es)"
proof -
  have "reached es st' acts" using run_reached [OF assms(1), of es] assms(2) by auto
  then have c: "counts L es kg" using assms(3) by (simp add: reached_def current_def inv_def)
  then show "\<forall>cid e. m_get (ks_EchoStore kg) cid = Some e \<longrightarrow>
      es_Count e = int (card (echo_senders L es cid))" by (blast dest: counts_entry)
  show "length (ks_ReadyStore kg) = card (ready_senders es)" using c by (simp add: counts_def)
qed

end

section \<open>The two broadcasts\<close>

definition acss_rbc ::
  "('s, 'p) lib \<Rightarrow> ('s, 'p) KeygenNode \<Rightarrow> RoundID \<Rightarrow> rbc_event \<Rightarrow> 'p NodeState \<Rightarrow> 'p outcome" where
  "acss_rbc L self roundID ev =
     (case ev of
        EchoEv s c sh h \<Rightarrow> acss_EchoMessage_Process L self s roundID c sh h
      | ReadyEv s c sh h \<Rightarrow> acss_ReadyMessage_Process L self s roundID c sh h)"

definition keyset_rbc ::
  "('s, 'p) lib \<Rightarrow> ('s, 'p) KeygenNode \<Rightarrow> RoundID \<Rightarrow> rbc_event \<Rightarrow> 'p NodeState \<Rightarrow> 'p outcome" where
  "keyset_rbc L self roundID ev =
     (case ev of
        EchoEv s c sh h \<Rightarrow> keyset_EchoMessage_Process L self s roundID c sh h
      | ReadyEv s c sh h \<Rightarrow> keyset_ReadyMessage_Process L self s roundID c sh h)"

interpretation acss: rbc_messages L self roundID "acss_rbc L self roundID"
  "\<lambda>c s h. acss_NewReadyMessage L roundID s h c" "\<lambda>c M. acss_NewOutputMessage L roundID M c"
  "''acss_ready''" "''acss_output''" for L self roundID
  by unfold_locales
    (auto simp: acss_rbc_def acss_EchoMessage_Process_def acss_ReadyMessage_Process_def
      message_defs dest: marshal_message_Inr)

interpretation keyset: rbc_messages L self roundID "keyset_rbc L self roundID"
  "\<lambda>c s h. keyset_NewReadyMessage L roundID s h c" "\<lambda>c M. keyset_NewOutputMessage L roundID M c"
  "''keyset_ready''" "''keyset_output''" for L self roundID
  by unfold_locales
    (auto simp: keyset_rbc_def keyset_EchoMessage_Process_def keyset_ReadyMessage_Process_def
      message_defs dest: marshal_message_Inr)

section \<open>Properties of the broadcasts\<close>

text \<open>Four nodes of which one may be faulty, in the concrete field.\<close>

definition gf_node :: "int \<Rightarrow> KeygenNodeDetails" where
  "gf_node i = \<lparr>kn_Index = i, kn_PubKey = \<lparr>pt_X = i, pt_Y = i\<rparr>\<rparr>"

definition gf_self :: "(gf, gf) KeygenNode" where
  "gf_self = \<lparr>
     node_details = gf_node 1,
     node_network = \<lparr>nn_Nodes = map (\<lambda>i. (ToNodeDetailsID (gf_node i), gf_node i)) [1, 2, 3, 4],
                     nn_N = 4, nn_T = 1, nn_K = 2\<rparr>,
     node_privateKey = 1, node_publicKey = 1\<rparr>"

definition empty_state :: "'p NodeState" where
  "empty_state = \<lparr>KeygenStore = [], SessionStore = [], ABAStore = []\<rparr>"

definition gf_echo :: "int \<Rightarrow> rbc_event" where
  "gf_echo i = EchoEv (gf_node i) SECP256K1 \<lparr>sh_Number = 0, sh_Data = [5]\<rparr> [9]"

lemma gf_marshal_message [simp]: "marshal_message gf_lib i kind p = Inr (CreateMessage i kind [])"
  by (simp add: marshal_message_def)

text \<open>
  C3. In the sharing of a secret, the echo and ready handlers never panic, in whatever order
  and number echo and ready messages arrive at a round that has not started, a node broadcasts
  its ready message at most once and delivers the output of the round to itself at most once.
\<close>

theorem acss_ready_and_output_once:
  assumes "m_get (KeygenStore st) roundID = None"
  shows "\<exists>st' acts. run_handler (acss_rbc L self roundID) es st = Some (st', acts) \<and>
    length (filter (\<lambda>a. \<exists>m. a = Broadcast m \<and> dm_Method m = ''acss_ready'') acts) \<le> 1 \<and>
    length (filter (\<lambda>a. \<exists>d m. a = ReceiveMessage d m) acts) \<le> 1"
  by (rule acss.run_once [OF assms])

theorem acss_ready_and_output_once_witness:
  "\<exists>st' acts. run_handler (acss_rbc gf_lib gf_self ''r'') [gf_echo 2, gf_echo 3, gf_echo 4, gf_echo 1]
       (empty_state :: gf NodeState) = Some (st', acts) \<and>
     length (filter (\<lambda>a. \<exists>m. a = Broadcast m \<and> dm_Method m = ''acss_ready'') acts) \<le> 1"
  using acss_ready_and_output_once [of "empty_state :: gf NodeState" "''r''" gf_lib gf_self
      "[gf_echo 2, gf_echo 3, gf_echo 4, gf_echo 1]"]
  by (elim meta_impE) (simp add: empty_state_def, blast)

text \<open>
  C21. A ready message rests on a quorum and an output on a decoded message: a node broadcasts
  ready only after \<open>2f + 1\<close> distinct nodes echoed the same share and hash, or after \<open>f + 1\<close>
  distinct nodes were ready and \<open>f + 1\<close> distinct nodes echoed the same share and hash; it
  delivers \<open>M\<close> only to itself, after \<open>2f + 1\<close> distinct nodes were ready, and \<open>M\<close> has the
  hash that a ready message announced.
\<close>

theorem acss_ready_and_output_justified:
  assumes "m_get (KeygenStore st) roundID = None"
    and "run_handler (acss_rbc L self roundID) es st = Some (st', acts)"
  shows "(Broadcast m \<in> set acts \<and> dm_Method m = ''acss_ready'' \<longrightarrow>
      ready_quorum L (nn_T (node_network self)) es) \<and>
    (ReceiveMessage d m \<in> set acts \<longrightarrow> d = node_details self \<and>
      2 * nn_T (node_network self) + 1 \<le> int (card (ready_senders es)) \<and>
      (\<exists>s c sh M. ReadyEv s c sh (HashByte M) \<in> set es \<and> acss_NewOutputMessage L roundID M c = Inr m))"
  using acss.run_justified(1) [OF assms] acss.run_justified(2) [OF assms] by blast

theorem acss_ready_and_output_justified_witness:
  "\<exists>acts st'. run_handler (acss_rbc gf_lib gf_self ''r'') [gf_echo 2, gf_echo 3, gf_echo 4]
       (empty_state :: gf NodeState) = Some (st', acts) \<and>
     acts = [Broadcast (CreateMessage ''r'' ''acss_ready'' [])] \<and>
     ready_quorum gf_lib 1 [gf_echo 2, gf_echo 3, gf_echo 4]"
proof -
  obtain st' acts where run: "run_handler (acss_rbc gf_lib gf_self ''r'') [gf_echo 2, gf_echo 3, gf_echo 4]
      (empty_state :: gf NodeState) = Some (st', acts)"
    and acts: "acts = [Broadcast (CreateMessage ''r'' ''acss_ready'' [])]"
    by (simp add: empty_state_def gf_echo_def gf_node_def gf_self_def acss_rbc_def
        acss_EchoMessage_Process_def on_keygen_def SharingStoreMap_GetOrSetIfNotComplete_def
        SharingStoreMap_GetOrSet_def LoadOrStore_def defaultKeygen_def Params_def rbc_echo_def
        rbc_count_echo_def GetEchoStore_def put_def ReadySent_def set_ReadySent_def rbc_amplify_def
        message_defs Let_def m_zero_def)
  have "ready_quorum gf_lib 1 [gf_echo 2, gf_echo 3, gf_echo 4]"
    using acss_ready_and_output_justified [OF _ run, of "CreateMessage ''r'' ''acss_ready'' []"]
    by (simp add: acts empty_state_def gf_self_def CreateMessage_def CreateDKGMessage_def)
  with run acts show ?thesis by blast
qed

lemma gf_echo_senders:
  "echo_senders gf_lib [gf_echo 2, gf_echo 3, gf_echo 4] (Fingerprint gf_lib \<lparr>sh_Number = 0, sh_Data = [5]\<rparr> [9]) =
   {2, 3, 4}"
  by (auto simp: echo_senders_def gf_echo_def gf_node_def split: if_splits)

text \<open>
  The counter of an echo is exact: it is the number of distinct nodes whose first echo of
  the round had this share and hash, so that neither repeated nor changed echoes of a node are
  counted; the ready shares kept are one per node.
\<close>

lemma acss_echo_count_exact:
  assumes "m_get (KeygenStore st) roundID = None"
    and "run_handler (acss_rbc L self roundID) es st = Some (st', acts)"
    and "m_get (KeygenStore st') roundID = Some (Some kg)"
  shows "(m_get (ks_EchoStore kg) cid = Some e \<longrightarrow> es_Count e = int (card (echo_senders L es cid))) \<and>
    length (ks_ReadyStore kg) = card (ready_senders es)"
  using acss.run_counts [OF assms] by blast

lemma acss_echo_count_exact_witness:
  "\<exists>st' acts kg. run_handler (acss_rbc gf_lib gf_self ''r'') [gf_echo 2, gf_echo 2]
       (empty_state :: gf NodeState) = Some (st', acts) \<and>
     m_get (KeygenStore st') ''r'' = Some (Some kg) \<and> length (ks_ReadyStore kg) = 0"
proof -
  obtain st' acts kg where run: "run_handler (acss_rbc gf_lib gf_self ''r'') [gf_echo 2, gf_echo 2]
      (empty_state :: gf NodeState) = Some (st', acts)"
    and kg: "m_get (KeygenStore st') ''r'' = Some (Some kg)"
    by (simp add: empty_state_def gf_echo_def gf_node_def gf_self_def acss_rbc_def
        acss_EchoMessage_Process_def on_keygen_def SharingStoreMap_GetOrSetIfNotComplete_def
        SharingStoreMap_GetOrSet_def LoadOrStore_def defaultKeygen_def Params_def rbc_echo_def
        rbc_count_echo_def GetEchoStore_def put_def ReadySent_def set_ReadySent_def rbc_amplify_def
        message_defs Let_def m_zero_def)
  have "length (ks_ReadyStore kg) = card (ready_senders [gf_echo 2, gf_echo 2])"
    using acss_echo_count_exact [OF _ run kg] by (simp add: empty_state_def)
  also have "\<dots> = 0" by (simp add: gf_echo_def)
  finally show ?thesis using run kg by blast
qed

text \<open>
  C22. Progress of the broadcast: when messages can be marshalled, a node that received echoes
  of one share and hash from \<open>2f + 1\<close> distinct nodes has broadcast its ready message, whatever
  else arrived before, between and after them.
\<close>

theorem acss_echo_quorum_sends_ready:
  assumes "m_get (KeygenStore st) roundID = None" "0 \<le> nn_T (node_network self)"
    and "\<forall>p. \<exists>b. json_Marshal L p = Some b"
    and "2 * nn_T (node_network self) + 1 \<le> int (card (echo_senders L es cid))"
  shows "\<exists>st' acts m. run_handler (acss_rbc L self roundID) es st = Some (st', acts) \<and>
    Broadcast m \<in> set acts \<and> dm_Method m = ''acss_ready''"
proof -
  have "\<exists>m. acss_NewReadyMessage L roundID sh h c = Inr m" for sh h c
    using assms(3) unfolding message_defs marshal_message_def by (metis option.simps(5))
  then show ?thesis using acss.run_progress [OF assms(1,2) _ assms(4)] by blast
qed

theorem acss_echo_quorum_sends_ready_witness:
  "\<exists>st' acts m. run_handler (acss_rbc gf_lib gf_self ''r'') [gf_echo 2, gf_echo 3, gf_echo 4]
       (empty_state :: gf NodeState) = Some (st', acts) \<and>
     Broadcast m \<in> set acts \<and> dm_Method m = ''acss_ready''"
  by (rule acss_echo_quorum_sends_ready [where
        cid = "Fingerprint gf_lib \<lparr>sh_Number = 0, sh_Data = [5]\<rparr> [9]"])
    (simp_all add: gf_echo_senders empty_state_def gf_self_def)

text \<open>
  C29. The broadcast of a key set proposal has the same guarantees: no panic, one ready message
  with a quorum, one output, delivered to the node itself for a message with an announced hash.
\<close>

theorem keyset_broadcast_safe:
  assumes "m_get (KeygenStore st) roundID = None"
  shows "\<exists>st' acts. run_handler (keyset_rbc L self roundID) es st = Some (st', acts) \<and>
    length (filter (\<lambda>a. \<exists>m. a = Broadcast m \<and> dm_Method m = ''keyset_ready'') acts) \<le> 1 \<and>
    length (filter (\<lambda>a. \<exists>d m. a = ReceiveMessage d m) acts) \<le> 1 \<and>
    (\<forall>m. Broadcast m \<in> set acts \<and> dm_Method m = ''keyset_ready'' \<longrightarrow>
      ready_quorum L (nn_T (node_network self)) es) \<and>
    (\<forall>d m. ReceiveMessage d m \<in> set acts \<longrightarrow> d = node_details self \<and>
      2 * nn_T (node_network self) + 1 \<le> int (card (ready_senders es)) \<and>
      (\<exists>s c sh M. ReadyEv s c sh (HashByte M) \<in> set es \<and> keyset_NewOutputMessage L roundID M c = Inr m))"
proof -
  obtain st' acts where run: "run_handler (keyset_rbc L self roundID) es st = Some (st', acts)"
    and once: "length (filter (\<lambda>a. \<exists>m. a = Broadcast m \<and> dm_Method m = ''keyset_ready'') acts) \<le> 1"
      "length (filter (\<lambda>a. \<exists>d m. a = ReceiveMessage d m) acts) \<le> 1"
    using keyset.run_once [OF assms] by blast
  show ?thesis
    using run once keyset.run_justified(1) [OF assms run] keyset.run_justified(2) [OF assms run]
    by blast
qed

theorem keyset_broadcast_safe_witness:
  "\<exists>st' acts. run_handler (keyset_rbc gf_lib gf_self ''r'') [gf_echo 2, gf_echo 3, gf_echo 4]
       (empty_state :: gf NodeState) = Some (st', acts) \<and>
     length (filter (\<lambda>a. \<exists>m. a = Broadcast m \<and> dm_Method m = ''keyset_ready'') acts) \<le> 1"
  using keyset_broadcast_safe [of "empty_state :: gf NodeState" "''r''" gf_lib gf_self
      "[gf_echo 2, gf_echo 3, gf_echo 4]"]
  by (elim meta_impE) (simp add: empty_state_def, blast)

end
