(* ===== verification/Handlers.thy ===== *)
theory Handlers
  imports Rbc
begin

text \<open>
  The handlers of the sharing phase and of the key set phase besides the broadcasts:
  \<open>message_handlers/acss\<close> (share, propose, output) and \<open>message_handlers/keyset\<close> (init,
  propose, output, \<open>OnKeysetVerified\<close>). The dealer's randomness is the argument \<open>rnd\<close>, one
  string of bytes per read of \<open>crypto/rand\<close>.

  The lemmas give the invariant of a session, \<open>session_inv\<close>: the dealers in the bit mask
  \<open>TPrime\<close> are dealers whose share and \<open>k\<close> commitments are stored, and every accepted key set
  is a subset of \<open>TPrime\<close>.
\<close>

section \<open>Sharing\<close>

text \<open>The loop of the share handler that encrypts one share per node.\<close>

fun encrypt_shares ::
  "('s, 'p) lib \<Rightarrow> ('s, 'p) KeygenNode \<Rightarrow> (nat \<Rightarrow> bytes) \<Rightarrow> ShamirShare list \<Rightarrow>
   (32 word, bytes) gomap \<Rightarrow> (32 word, bytes) gomap err go" where
  "encrypt_shares L self rnd [] shareMap = Some (Inr shareMap)"
| "encrypt_shares L self rnd (share # shares) shareMap = do {
     nodePublicKey \<leftarrow> PublicKey L self (uint (ss_Id share));
     case Encrypt L (lib_K256 L) (rnd (2 + unat (ss_Id share))) (ShamirShare_Bytes share)
            nodePublicKey (node_privateKey self) of
       Inl e \<Rightarrow> Some (Inl e)
     | Inr cipherShare \<Rightarrow>
         encrypt_shares L self rnd shares (m_set shareMap (ss_Id share) cipherShare) }"

text \<open>Generating, encrypting and broadcasting a dealing.\<close>

definition acss_deal ::
  "('s, 'p) lib \<Rightarrow> ('s, 'p) KeygenNode \<Rightarrow> (nat \<Rightarrow> bytes) \<Rightarrow> RoundID \<Rightarrow> CurveName \<Rightarrow> 'p action list go" where
  "acss_deal L self rnd roundID curveName = do {
     let curve = CurveFromName L curveName;
     let secret = GenerateSecret curve (rnd 0);
     let (n, k, f) = Params self;
     gen \<leftarrow> GenerateCommitmentAndShares L secret (word_of_int k) (word_of_int n) curve (rnd 1);
     case gen of
       Inl e \<Rightarrow> Some []
     | Inr (commitments, shares) \<Rightarrow> do {
         let compressedCommitments = CompressCommitments curve commitments;
         enc \<leftarrow> encrypt_shares L self rnd shares [];
         case enc of
           Inl e \<Rightarrow> Some []
         | Inr shareMap \<Rightarrow>
             (case MessageData_Serialize L
                     \<lparr>md_Commitments = compressedCommitments, md_ShareMap = shareMap\<rparr> of
                Inl e \<Rightarrow> Some []
              | Inr data \<Rightarrow>
                  (case NewAcssProposeMessage L roundID data curveName of
                     Inl e \<Rightarrow> Some []
                   | Inr msg \<Rightarrow> Some [Broadcast msg])) } }"

definition acss_ShareMessage_Process ::
  "('s, 'p) lib \<Rightarrow> ('s, 'p) KeygenNode \<Rightarrow> (nat \<Rightarrow> bytes) \<Rightarrow> KeygenNodeDetails \<Rightarrow>
   RoundID \<Rightarrow> CurveName \<Rightarrow> 'p NodeState \<Rightarrow> 'p outcome" where
  "acss_ShareMessage_Process L self rnd sender roundID curve st =
     (if kn_Index sender \<noteq> ID self then Some (st, [])
      else on_keygen st roundID (\<lambda>keygen.
        if ks_Started keygen then Some (keygen, [])
        else do {
          acts \<leftarrow> acss_deal L self rnd roundID curve;
          Some (keygen\<lparr>ks_Started := True\<rparr>, acts) }))"

text \<open>
  The propose handler keeps no state. A message that cannot be created is a nil pointer there,
  whose use panics; so does an index of a node beyond the shares.
\<close>

definition acss_send_echoes ::
  "('s, 'p) lib \<Rightarrow> ('s, 'p) KeygenNode \<Rightarrow> RoundID \<Rightarrow> CurveName \<Rightarrow> Share list \<Rightarrow> bytes \<Rightarrow>
   'p action list go" where
  "acss_send_echoes L self roundID curve shares hash =
     go_map (\<lambda>node. do {
       share \<leftarrow> go_index shares (kn_Index node - 1);
       case NewAcssEchoMessage L roundID share hash curve of
         Inl e \<Rightarrow> None
       | Inr msg \<Rightarrow> Some (Send node msg) }) (Nodes L self)"

definition acss_ProposeMessage_Process ::
  "('s, 'p) lib \<Rightarrow> ('s, 'p) KeygenNode \<Rightarrow> KeygenNodeDetails \<Rightarrow>
   RoundID \<Rightarrow> CurveName \<Rightarrow> bytes \<Rightarrow> 'p NodeState \<Rightarrow> 'p outcome" where
  "acss_ProposeMessage_Process L self sender roundID curveName data st =
     (case Leader roundID of
        Inl e \<Rightarrow> Some (st, [])
      | Inr leader \<Rightarrow>
          if leader \<noteq> kn_Index sender then Some (st, [])
          else
            let (n, k, f) = Params self; curve = CurveFromName L curveName in
            (case MessageData_Deserialize L data of
               Inl e \<Rightarrow> Some (st, [])
             | Inr d \<Rightarrow> do {
                 verified \<leftarrow> acss_Predicate L (s_Bytes (lib_K256 L) (node_privateKey self))
                   (m_zero [] (md_ShareMap d) (word_of_int (ID self))) (md_Commitments d) k curve;
                 case verified of
                   None \<Rightarrow> Some (st, [])
                 | Some _ \<Rightarrow>
                     if \<not> fec_New L k n then Some (st, [])
                     else do {
                       enc \<leftarrow> Encode L (k, n) data;
                       case enc of
                         Inl e \<Rightarrow> Some (st, [])
                       | Inr shares \<Rightarrow> do {
                           acts \<leftarrow> acss_send_echoes L self roundID curveName shares (HashByte data);
                           Some (st, acts) } } }))"

section \<open>Key sets\<close>

definition keyset_InitMessage_Process ::
  "('s, 'p) lib \<Rightarrow> ('s, 'p) KeygenNode \<Rightarrow> KeygenNodeDetails \<Rightarrow>
   RoundID \<Rightarrow> bytes \<Rightarrow> CurveName \<Rightarrow> 'p NodeState \<Rightarrow> 'p outcome" where
  "keyset_InitMessage_Process L self sender roundID data curve st =
     (if kn_Index sender \<noteq> ID self then Some (st, [])
      else
        case keyset_NewProposeMessage L roundID data curve of
          Inl e \<Rightarrow> Some (st, [])
        | Inr proposeMsg \<Rightarrow> Some (st, [Broadcast proposeMsg]))"

definition keyset_send_echoes ::
  "('s, 'p) lib \<Rightarrow> ('s, 'p) KeygenNode \<Rightarrow> RoundID \<Rightarrow> CurveName \<Rightarrow> Share list \<Rightarrow> bytes \<Rightarrow>
   'p action list go" where
  "keyset_send_echoes L self roundID curve shares hash = do {
     acts \<leftarrow> go_map (\<lambda>node. do {
       share \<leftarrow> go_index shares (kn_Index node - 1);
       case keyset_NewEchoMessage L roundID share hash curve of
         Inl e \<Rightarrow> Some []
       | Inr echoMsg \<Rightarrow> Some [Send node echoMsg] }) (Nodes L self);
     Some (concat acts) }"

definition OnKeysetVerified ::
  "('s, 'p) lib \<Rightarrow> ('s, 'p) KeygenNode \<Rightarrow> RoundID \<Rightarrow> CurveName \<Rightarrow> bytes \<Rightarrow> int \<Rightarrow>
   'p ADKGSession \<Rightarrow> ('p ADKGSession \<times> 'p action list) go" where
  "OnKeysetVerified L self roundID curve keyset leader session = do {
     session' \<leftarrow>
       (if leader \<noteq> ID self then do {
          data \<leftarrow> ByteToIntValue keyset;
          Some (session\<lparr>ses_T := m_set (ses_T session) leader data\<rparr>) }
        else Some session);
     let (n, k, f) = Params self;
     if \<not> fec_New L k n then Some (session', [])
     else do {
       enc \<leftarrow> Encode L (k, n) keyset;
       case enc of
         Inl e \<Rightarrow> Some (session', [])
       | Inr shares \<Rightarrow> do {
           acts \<leftarrow> keyset_send_echoes L self roundID curve shares (HashByte keyset);
           Some (session', acts) } } }"

definition keyset_ProposeMessage_Process ::
  "('s, 'p) lib \<Rightarrow> ('s, 'p) KeygenNode \<Rightarrow> KeygenNodeDetails \<Rightarrow>
   RoundID \<Rightarrow> CurveName \<Rightarrow> bytes \<Rightarrow> 'p NodeState \<Rightarrow> 'p outcome" where
  "keyset_ProposeMessage_Process L self sender roundID curve data st =
     (case Leader roundID of
        Inl e \<Rightarrow> Some (st, [])
      | Inr leader \<Rightarrow>
          if leader \<noteq> kn_Index sender then Some (st, [])
          else
            (case ADKGIDFromRoundID roundID of
               Inl e \<Rightarrow> Some (st, [])
             | Inr adkgid \<Rightarrow>
                 on_session st adkgid (\<lambda>session. do {
                   verified \<leftarrow> keyset_Predicate (IntToByteValue (ses_TPrime session)) data;
                   if verified then OnKeysetVerified L self roundID curve data (Int64 leader) session
                   else do {
                     v \<leftarrow> ByteToIntValue data;
                     Some (session\<lparr>ses_TProposals :=
                             m_set (ses_TProposals session) (kn_Index sender) v\<rparr>, []) } })))"

definition keyset_OutputMessage_Process ::
  "('s, 'p) lib \<Rightarrow> ('s, 'p) KeygenNode \<Rightarrow> KeygenNodeDetails \<Rightarrow>
   RoundID \<Rightarrow> CurveName \<Rightarrow> bytes \<Rightarrow> 'p NodeState \<Rightarrow> 'p outcome" where
  "keyset_OutputMessage_Process L self sender roundID curve M st =
     (if kn_Index sender \<noteq> ID self then Some (st, [])
      else
        (case ADKGIDFromRoundID roundID of
           Inl e \<Rightarrow> Some (st, [])
         | Inr adkgid \<Rightarrow>
             (case Leader roundID of
                Inl e \<Rightarrow> Some (st, [])
              | Inr leader \<Rightarrow>
                  on_session st adkgid (\<lambda>session.
                    if Contains (ses_ABAStarted session) (Int64 leader) then Some (session, [])
                    else do {
                      a \<leftarrow> BE_Uint64 M;
                      let b = ses_TPrime session;
                      let vote = (if b AND a = a \<and> \<not> ses_ABAComplete session then 1 else 0);
                      let session' = session\<lparr>ses_ABAStarted := ses_ABAStarted session @ [Int64 leader]\<rparr>;
                      case aba_NewInitMessage L roundID vote 0 curve of
                        Inl e \<Rightarrow> Some (session', [])
                      | Inr msg \<Rightarrow> Some (session', [ReceiveMessage (node_details self) msg]) }))))"

section \<open>Output of the sharing\<close>

text \<open>Proposals that were waiting for the dealer: they are echoed and dropped.\<close>

definition emit_proposal ::
  "('s, 'p) lib \<Rightarrow> ('s, 'p) KeygenNode \<Rightarrow> ADKGID \<Rightarrow> CurveName \<Rightarrow> int \<Rightarrow>
   'p ADKGSession \<times> 'p action list \<Rightarrow> ('p ADKGSession \<times> 'p action list) go" where
  "emit_proposal L self adkgid curve key sa =
     (case sa of (session, acts) \<Rightarrow>
        (case m_get (ses_TProposals session) key of
           None \<Rightarrow> Some (session, acts)
         | Some v \<Rightarrow> do {
             p \<leftarrow> keyset_Predicate (IntToByteValue (ses_TPrime session)) (IntToByteValue v);
             if p then do {
               let roundID = CreateRound adkgid key ''keyset'';
               (session1, acts1) \<leftarrow>
                 OnKeysetVerified L self roundID curve (IntToByteValue v) key session;
               Some (session1\<lparr>ses_TProposals := m_del (ses_TProposals session1) key\<rparr>, acts @ acts1) }
             else Some (session, acts) }))"

definition acss_accept ::
  "('s, 'p) lib \<Rightarrow> ('s, 'p) KeygenNode \<Rightarrow> ADKGID \<Rightarrow> CurveName \<Rightarrow> int \<Rightarrow> ShamirShare \<Rightarrow> 'p list \<Rightarrow>
   'p ADKGSession \<Rightarrow> ('p ADKGSession \<times> 'p action list) go" where
  "acss_accept L self adkgid curve dealer share commitments session = do {
     tprime \<leftarrow> SetBit (ses_TPrime session) dealer;
     let session' = session\<lparr>ses_S := m_set (ses_S session) dealer share,
                            ses_TPrime := tprime,
                            ses_C := m_set (ses_C session) dealer commitments\<rparr>;
     go_fold (emit_proposal L self adkgid curve) (range_int L (m_keys (ses_TProposals session')))
       (session', []) }"

text \<open>With \<open>f + 1\<close> dealings the node proposes its own key set.\<close>

definition acss_propose_keyset ::
  "('s, 'p) lib \<Rightarrow> ('s, 'p) KeygenNode \<Rightarrow> RoundID \<Rightarrow> CurveName \<Rightarrow>
   'p ADKGSession \<times> 'p action list \<Rightarrow> 'p ADKGSession \<times> 'p action list" where
  "acss_propose_keyset L self roundID curve sa =
     (case sa of (session, acts) \<Rightarrow>
        let (n, k, f) = Params self in
        if CountBit (ses_TPrime session) = f + 1 then
          (case ADKGIDFromRoundID roundID of
             Inl e \<Rightarrow> (session, acts)
           | Inr adkgid \<Rightarrow>
               let round = CreateRound adkgid (ID self) ''keyset'';
                   session' = session\<lparr>ses_T := m_set (ses_T session) (ID self) (ses_TPrime session)\<rparr>;
                   output = IntToByteValue (m_zero 0 (ses_T session') (ID self)) in
               (case keyset_NewInitMessage L round output curve of
                  Inl e \<Rightarrow> (session', acts)
                | Inr msg \<Rightarrow> (session', acts @ [ReceiveMessage (node_details self) msg])))
        else (session, acts))"

definition acss_output_body ::
  "('s, 'p) lib \<Rightarrow> ('s, 'p) KeygenNode \<Rightarrow> RoundID \<Rightarrow> ADKGID \<Rightarrow> CurveName \<Rightarrow> bytes \<Rightarrow>
   'p ADKGSession \<Rightarrow> ('p ADKGSession \<times> 'p action list) go" where
  "acss_output_body L self roundID adkgid curveName M session =
     (case Leader roundID of
        Inl e \<Rightarrow> Some (session, [])
      | Inr dealer \<Rightarrow> do {
          has \<leftarrow> HasBit (ses_TPrime session) (Int64 dealer);
          if has then Some (session, [])
          else
            (case MessageData_Deserialize L M of
               Inl e \<Rightarrow> Some (session, [])
             | Inr msg \<Rightarrow> do {
                 let (n, k, f) = Params self;
                 let curve = CurveFromName L curveName;
                 verified \<leftarrow> acss_Predicate L (s_Bytes (lib_K256 L) (node_privateKey self))
                   (m_zero [] (md_ShareMap msg) (word_of_int (ID self))) (md_Commitments msg) k curve;
                 sa \<leftarrow>
                   (case verified of
                      Some (share, commitments) \<Rightarrow>
                        acss_accept L self adkgid curveName (Int64 dealer) share commitments session
                    | None \<Rightarrow> Some (session, []));
                 Some (acss_propose_keyset L self roundID curveName sa) }) })"

definition acss_OutputMessage_Process ::
  "('s, 'p) lib \<Rightarrow> ('s, 'p) KeygenNode \<Rightarrow> KeygenNodeDetails \<Rightarrow>
   RoundID \<Rightarrow> CurveName \<Rightarrow> bytes \<Rightarrow> 'p NodeState \<Rightarrow> 'p outcome" where
  "acss_OutputMessage_Process L self sender roundID curve M st =
     (if kn_Index sender \<noteq> ID self then Some (st, [])
      else
        case ADKGIDFromRoundID roundID of
          Inl e \<Rightarrow> Some (st, [])
        | Inr adkgid \<Rightarrow> on_session st adkgid (acss_output_body L self roundID adkgid curve M))"

section \<open>The invariant of a session\<close>

definition session_keys :: "'p ADKGSession \<Rightarrow> bool" where
  "session_keys s \<longleftrightarrow>
     distinct (m_keys (ses_Decisions s)) \<and> distinct (m_keys (ses_PubKeyShares s)) \<and>
     distinct (m_keys (ses_C s)) \<and> distinct (m_keys (ses_TProposals s))"

definition session_inv :: "int \<Rightarrow> 'p ADKGSession \<Rightarrow> bool" where
  "session_inv k s \<longleftrightarrow>
     (\<forall>i \<in> bitset (ses_TPrime s). (\<exists>sh. m_get (ses_S s) i = Some sh) \<and>
        (\<exists>cs. m_get (ses_C s) i = Some cs \<and> length cs = nat k)) \<and>
     (\<forall>j w. m_get (ses_T s) j = Some w \<longrightarrow> w AND ses_TPrime s = w) \<and>
     session_keys s"

lemma session_keys_update [simp]:
  "session_keys s \<Longrightarrow> session_keys (s\<lparr>ses_TProposals := m_del (ses_TProposals s) key\<rparr>)"
  "session_keys s \<Longrightarrow> session_keys (s\<lparr>ses_TProposals := m_set (ses_TProposals s) key v\<rparr>)"
  "session_keys s \<Longrightarrow> session_keys (s\<lparr>ses_T := x\<rparr>)"
  "session_keys s \<Longrightarrow>
   session_keys (s\<lparr>ses_S := sh, ses_TPrime := y, ses_C := m_set (ses_C s) dealer commitments\<rparr>)"
  by (simp_all add: session_keys_def)

lemma session_inv_default: "session_inv k DefaultADKGSession"
  by (simp add: session_inv_def session_keys_def DefaultADKGSession_def)

lemma keyset_Predicate_Some:
  "keyset_Predicate (IntToByteValue a) data = Some p \<Longrightarrow>
   \<exists>w. ByteToIntValue data = Some w \<and> p = (w AND a = w)"
  using Uint64_Put [of a "[]"]
  by (auto simp: keyset_Predicate_def IntToByteValue_def ByteToIntValue_def go_bind_eq_Some)

lemma OnKeysetVerified_session:
  assumes "OnKeysetVerified L self roundID curve keyset leader s = Some (s', acts)"
  shows "s' = s \<or> (\<exists>w. ByteToIntValue keyset = Some w \<and> s' = s\<lparr>ses_T := m_set (ses_T s) leader w\<rparr>)"
  using assms unfolding OnKeysetVerified_def
  by (auto simp: Let_def split: Option.bind_splits if_splits sum.splits prod.splits)

lemma session_inv_T:
  "session_inv k s \<Longrightarrow> w AND ses_TPrime s = w \<Longrightarrow> session_inv k (s\<lparr>ses_T := m_set (ses_T s) j w\<rparr>)"
  by (auto simp: session_inv_def)

lemma and_or_subset: "w AND a = w \<Longrightarrow> w AND (a OR b) = (w :: goint)"
  by (simp only: word_subset_bits bit_or_iff) auto

lemma HasBit_nonneg: "HasBit w i = Some b \<Longrightarrow> 0 \<le> i"
  using HasBit_negative [of i w] by (cases "0 \<le> i") auto

end
