(* ===== verification/Aba.thy ===== *)
theory Aba
  imports Handlers
begin

text \<open>
  The binary agreement on a dealer's key set, \<open>message_handlers/aba\<close>: the handlers of the
  init, est1, aux1, auxset, est2, aux2, coin init and coin messages with their helpers
  (\<open>generateProof\<close>, \<open>unpack\<close>, \<open>verify\<close>).

  A handler of the coin polls until the key set of the dealer is known or twenty seconds have
  passed. The model takes the step at the end of the polling: with no key set it returns, as
  the source does after the timeout.
\<close>

section \<open>Init and the first estimate\<close>

definition aba_init_body ::
  "('s, 'p) lib \<Rightarrow> RoundID \<Rightarrow> CurveName \<Rightarrow> int \<Rightarrow> int \<Rightarrow> 'p ABAState \<Rightarrow>
   ('p ABAState \<times> 'p action list) go" where
  "aba_init_body L roundID curve v r s =
     (if GetStarted s r then Some (s, [])
      else do {
        let s1 = SetStarted s r;
        sent \<leftarrow> Sent s1 ''est'' r v;
        if \<not> sent then do {
          s2 \<leftarrow> SetSent s1 ''est'' r v;
          case NewEst1Message L roundID v r curve of
            Inl e \<Rightarrow> Some (s2, [])
          | Inr msg \<Rightarrow> Some (s2, [Broadcast msg]) }
        else Some (s1, []) })"

definition aba_InitMessage_Process ::
  "('s, 'p) lib \<Rightarrow> ('s, 'p) KeygenNode \<Rightarrow> KeygenNodeDetails \<Rightarrow>
   RoundID \<Rightarrow> CurveName \<Rightarrow> int \<Rightarrow> int \<Rightarrow> 'p NodeState \<Rightarrow> 'p outcome" where
  "aba_InitMessage_Process L self sender roundID curve v r st =
     (if kn_Index sender \<noteq> ID self then Some (st, [])
      else on_aba st roundID (aba_init_body L roundID curve v r))"

text \<open>With \<open>2f + 1\<close> votes for \<open>v\<close>: \<open>v\<close> joins \<open>bin\<close>, and the first of \<open>bin\<close> is announced.\<close>

definition est1_bin ::
  "('s, 'p) lib \<Rightarrow> int \<Rightarrow> RoundID \<Rightarrow> CurveName \<Rightarrow> int \<Rightarrow> int \<Rightarrow> int \<Rightarrow>
   'p ABAState \<Rightarrow> 'p action list \<Rightarrow> ('p ABAState \<times> 'p action list) go" where
  "est1_bin L f roundID curve v r estLength s acts =
     (if estLength = 2 * f + 1 then do {
        let s' = SetBin s ''bin'' r v;
        bin \<leftarrow> GetBin s' ''bin'' r;
        w \<leftarrow> go_index bin 0;
        case NewAux1Message L roundID w r curve of
          Inl e \<Rightarrow> Some (s', acts)
        | Inr msg \<Rightarrow> Some (s', acts @ [Broadcast msg]) }
      else Some (s, acts))"

definition aba_est1_body ::
  "('s, 'p) lib \<Rightarrow> int \<Rightarrow> RoundID \<Rightarrow> CurveName \<Rightarrow> int \<Rightarrow> int \<Rightarrow> int \<Rightarrow>
   'p ABAState \<Rightarrow> ('p ABAState \<times> 'p action list) go" where
  "aba_est1_body L f roundID curve sender v r s = do {
     vals \<leftarrow> Values s ''est'' r v;
     if Contains vals sender then Some (s, [])
     else do {
       s1 \<leftarrow> SetValues s ''est'' r v sender;
       vals1 \<leftarrow> Values s1 ''est'' r v;
       let estLength = int (length vals1);
       sent \<leftarrow> Sent s1 ''est'' r v;
       if estLength \<ge> f + 1 \<and> \<not> sent then
         (case NewEst1Message L roundID v r curve of
            Inl e \<Rightarrow> Some (s1, [])
          | Inr msg \<Rightarrow> do {
              s2 \<leftarrow> SetSent s1 ''est'' r v;
              est1_bin L f roundID curve v r estLength s2 [Broadcast msg] })
       else est1_bin L f roundID curve v r estLength s1 [] } }"

definition Est1Message_Process ::
  "('s, 'p) lib \<Rightarrow> ('s, 'p) KeygenNode \<Rightarrow> KeygenNodeDetails \<Rightarrow>
   RoundID \<Rightarrow> CurveName \<Rightarrow> int \<Rightarrow> int \<Rightarrow> 'p NodeState \<Rightarrow> 'p outcome" where
  "Est1Message_Process L self sender roundID curve v r st =
     on_aba st roundID (\<lambda>s. let (n, k, f) = Params self in
       aba_est1_body L f roundID curve (kn_Index sender) v r s)"

section \<open>Auxiliary messages\<close>

text \<open>The value to send, if any: a decided value or 2 for both.\<close>

definition aux1_value :: "int \<Rightarrow> int list \<Rightarrow> int \<Rightarrow> int \<Rightarrow> int option" where
  "aux1_value nf bin aux0Len aux1Len =
     (if Contains bin 1 \<and> aux1Len \<ge> nf then Some 1
      else if Contains bin 0 \<and> aux0Len \<ge> nf then Some 0
      else if aux0Len + aux1Len \<ge> nf \<and> Contains bin 1 \<and> Contains bin 0 then Some 2
      else None)"

definition aba_aux1_body ::
  "('s, 'p) lib \<Rightarrow> int \<Rightarrow> int \<Rightarrow> RoundID \<Rightarrow> CurveName \<Rightarrow> int \<Rightarrow> int \<Rightarrow> int \<Rightarrow>
   'p ABAState \<Rightarrow> ('p ABAState \<times> 'p action list) go" where
  "aba_aux1_body L n f roundID curve sender v r s = do {
     vals \<leftarrow> Values s ''aux'' r v;
     if Contains vals sender then Some (s, [])
     else do {
       s1 \<leftarrow> SetValues s ''aux'' r v sender;
       bin \<leftarrow> GetBin s1 ''bin'' r;
       aux0 \<leftarrow> Values s1 ''aux'' r 0;
       aux1 \<leftarrow> Values s1 ''aux'' r 1;
       let shouldSend = aux1_value (n - f) bin (int (length aux0)) (int (length aux1));
       let auxsetVal = (case shouldSend of None \<Rightarrow> 0 | Some w \<Rightarrow> w);
       sent \<leftarrow> Sent s1 ''auxset'' r auxsetVal;
       if \<not> sent \<and> shouldSend \<noteq> None then
         (case NewAuxsetMessage L roundID auxsetVal r curve of
            Inl e \<Rightarrow> Some (s1, [])
          | Inr msg \<Rightarrow> do {
              s2 \<leftarrow> SetSent s1 ''auxset'' r auxsetVal;
              Some (s2, [Broadcast msg]) })
       else Some (s1, []) } }"

definition Aux1Message_Process ::
  "('s, 'p) lib \<Rightarrow> ('s, 'p) KeygenNode \<Rightarrow> KeygenNodeDetails \<Rightarrow>
   RoundID \<Rightarrow> CurveName \<Rightarrow> int \<Rightarrow> int \<Rightarrow> 'p NodeState \<Rightarrow> 'p outcome" where
  "Aux1Message_Process L self sender roundID curve v r st =
     on_aba st roundID (\<lambda>s. let (n, k, f) = Params self in
       aba_aux1_body L n f roundID curve (kn_Index sender) v r s)"

definition auxset_value :: "int \<Rightarrow> int list \<Rightarrow> int \<Rightarrow> int \<Rightarrow> int \<Rightarrow> int option" where
  "auxset_value nf bin auxsetLen0 auxsetLen1 auxsetLen2 =
     (if Contains bin 1 \<and> auxsetLen1 \<ge> nf then Some 1
      else if Contains bin 0 \<and> auxsetLen0 \<ge> nf then Some 0
      else if auxsetLen0 + auxsetLen1 + auxsetLen2 \<ge> nf \<and> Contains bin 0 \<and> Contains bin 1 then Some 2
      else None)"

definition aba_auxset_body ::
  "('s, 'p) lib \<Rightarrow> int \<Rightarrow> int \<Rightarrow> RoundID \<Rightarrow> CurveName \<Rightarrow> int \<Rightarrow> int \<Rightarrow> int \<Rightarrow>
   'p ABAState \<Rightarrow> ('p ABAState \<times> 'p action list) go" where
  "aba_auxset_body L n f roundID curve sender v r s = do {
     vals \<leftarrow> Values s ''auxset'' r v;
     if Contains vals sender then Some (s, [])
     else do {
       s1 \<leftarrow> SetValues s ''auxset'' r v sender;
       bin \<leftarrow> GetBin s1 ''bin'' r;
       set0 \<leftarrow> Values s1 ''auxset'' r 0;
       set1 \<leftarrow> Values s1 ''auxset'' r 1;
       set2 \<leftarrow> Values s1 ''auxset'' r 2;
       let shouldSend = auxset_value (n - f) bin (int (length set0)) (int (length set1)) (int (length set2));
       let est2 = (case shouldSend of None \<Rightarrow> 0 | Some w \<Rightarrow> w);
       sent \<leftarrow> Sent s1 ''est2'' r est2;
       if \<not> sent \<and> shouldSend \<noteq> None then do {
         s2 \<leftarrow> SetSent s1 ''est2'' r est2;
         case NewEst2Message L roundID est2 r curve of
           Inl e \<Rightarrow> Some (s2, [])
         | Inr msg \<Rightarrow> Some (s2, [Broadcast msg]) }
       else Some (s1, []) } }"

definition AuxsetMessage_Process ::
  "('s, 'p) lib \<Rightarrow> ('s, 'p) KeygenNode \<Rightarrow> KeygenNodeDetails \<Rightarrow>
   RoundID \<Rightarrow> CurveName \<Rightarrow> int \<Rightarrow> int \<Rightarrow> 'p NodeState \<Rightarrow> 'p outcome" where
  "AuxsetMessage_Process L self sender roundID curve v r st =
     on_aba st roundID (\<lambda>s. let (n, k, f) = Params self in
       aba_auxset_body L n f roundID curve (kn_Index sender) v r s)"

section \<open>The second estimate\<close>

definition est2_bin ::
  "('s, 'p) lib \<Rightarrow> int \<Rightarrow> RoundID \<Rightarrow> CurveName \<Rightarrow> int \<Rightarrow> int \<Rightarrow> int \<Rightarrow>
   'p ABAState \<Rightarrow> 'p action list \<Rightarrow> ('p ABAState \<times> 'p action list) go" where
  "est2_bin L f roundID curve v r est2Len s acts =
     (if est2Len = 2 * f + 1 then do {
        let s' = SetBin s ''bin2'' r v;
        bin2 \<leftarrow> GetBin s' ''bin2'' r;
        w \<leftarrow> go_index bin2 0;
        case NewAux2Message L roundID w r curve of
          Inl e \<Rightarrow> Some (s', acts)
        | Inr msg \<Rightarrow> Some (s', acts @ [Broadcast msg]) }
      else Some (s, acts))"

definition aba_est2_body ::
  "('s, 'p) lib \<Rightarrow> int \<Rightarrow> RoundID \<Rightarrow> CurveName \<Rightarrow> int \<Rightarrow> int \<Rightarrow> int \<Rightarrow>
   'p ABAState \<Rightarrow> ('p ABAState \<times> 'p action list) go" where
  "aba_est2_body L f roundID curve sender v r s = do {
     vals \<leftarrow> Values s ''est2'' r v;
     if Contains vals sender then Some (s, [])
     else do {
       s1 \<leftarrow> SetValues s ''est2'' r v sender;
       vals1 \<leftarrow> Values s1 ''est2'' r v;
       let est2Len = int (length vals1);
       sent \<leftarrow> Sent s1 ''est2'' r v;
       if est2Len \<ge> f + 1 \<and> \<not> sent then do {
         s2 \<leftarrow> SetSent s1 ''est2'' r v;
         case NewEst2Message L roundID v r curve of
           Inl e \<Rightarrow> Some (s2, [])
         | Inr msg \<Rightarrow> est2_bin L f roundID curve v r est2Len s2 [Broadcast msg] }
       else est2_bin L f roundID curve v r est2Len s1 [] } }"

definition Est2Message_Process ::
  "('s, 'p) lib \<Rightarrow> ('s, 'p) KeygenNode \<Rightarrow> KeygenNodeDetails \<Rightarrow>
   RoundID \<Rightarrow> CurveName \<Rightarrow> int \<Rightarrow> int \<Rightarrow> 'p NodeState \<Rightarrow> 'p outcome" where
  "Est2Message_Process L self sender roundID curve v r st =
     on_aba st roundID (\<lambda>s. let (n, k, f) = Params self in
       aba_est2_body L f roundID curve (kn_Index sender) v r s)"

section \<open>The decision\<close>

text \<open>The values the second auxiliary votes leave: one value, or a bit and 2, or none yet.\<close>

definition aux2_values :: "int \<Rightarrow> int list \<Rightarrow> int \<Rightarrow> int \<Rightarrow> int \<Rightarrow> int list" where
  "aux2_values nf bin2 aux2Len0 aux2Len1 aux2Len2 =
     (if Contains bin2 1 \<and> aux2Len1 \<ge> nf then [1]
      else if Contains bin2 0 \<and> aux2Len0 \<ge> nf then [0]
      else if Contains bin2 2 \<and> aux2Len2 \<ge> nf then [2]
      else if aux2Len2 + aux2Len0 \<ge> nf \<and> Contains bin2 0 \<and> Contains bin2 2 then [0, 2]
      else if aux2Len2 + aux2Len1 \<ge> nf \<and> Contains bin2 1 \<and> Contains bin2 2 then [1, 2]
      else [])"

text \<open>Recording the vote; \<open>None\<close> inside when it is a repeated one.\<close>

definition aux2_record ::
  "int \<Rightarrow> int \<Rightarrow> int \<Rightarrow> int \<Rightarrow> int \<Rightarrow> 'p ABAState \<Rightarrow> ('p ABAState \<times> int list) option go" where
  "aux2_record n f sender v r s = do {
     vals \<leftarrow> Values s ''aux2'' r v;
     if Contains vals sender then Some None
     else do {
       s1 \<leftarrow> SetValues s ''aux2'' r v sender;
       aux0 \<leftarrow> Values s1 ''aux2'' r 0;
       aux1 \<leftarrow> Values s1 ''aux2'' r 1;
       aux2 \<leftarrow> Values s1 ''aux2'' r 2;
       bin2 \<leftarrow> GetBin s1 ''bin2'' r;
       Some (Some (s1, aux2_values (n - f) bin2 (int (length aux0)) (int (length aux1))
                         (int (length aux2)))) } }"

text \<open>
  The loop that votes 0 in the agreements that have not started. In the aux2 handler a message
  that cannot be created ends the handler (the flag is then false), in the coin handler it
  ends the goroutine of that agreement only.
\<close>

fun start_remaining ::
  "('s, 'p) lib \<Rightarrow> ('s, 'p) KeygenNode \<Rightarrow> ADKGID \<Rightarrow> CurveName \<Rightarrow> int list \<Rightarrow> int list \<Rightarrow>
   'p action list \<times> bool" where
  "start_remaining L self adkgid curve abaStarted [] = ([], True)"
| "start_remaining L self adkgid curve abaStarted (i # is) =
     (if \<not> Contains abaStarted i then
        (case aba_NewInitMessage L (CreateRound adkgid i ''keyset'') 0 0 curve of
           Inl e \<Rightarrow> ([], False)
         | Inr msg \<Rightarrow>
             (let (acts, ok) = start_remaining L self adkgid curve abaStarted is
              in (ReceiveMessage (node_details self) msg # acts, ok)))
      else start_remaining L self adkgid curve abaStarted is)"

definition start_remaining_coin ::
  "('s, 'p) lib \<Rightarrow> ('s, 'p) KeygenNode \<Rightarrow> ADKGID \<Rightarrow> CurveName \<Rightarrow> int list \<Rightarrow> int list \<Rightarrow>
   'p action list" where
  "start_remaining_coin L self adkgid curve abaStarted is =
     concat (map (\<lambda>i.
       case aba_NewInitMessage L (CreateRound adkgid i ''keyset'') 0 0 curve of
         Inl e \<Rightarrow> []
       | Inr msg \<Rightarrow> [ReceiveMessage (node_details self) msg])
       (filter (\<lambda>i. \<not> Contains abaStarted i) is))"

text \<open>When all agreements are decided the key derivation starts, once.\<close>

definition aux2_start_derivation ::
  "('s, 'p) lib \<Rightarrow> ('s, 'p) KeygenNode \<Rightarrow> RoundID \<Rightarrow> CurveName \<Rightarrow> 'p ADKGSession \<Rightarrow> 'p action list \<Rightarrow>
   'p ADKGSession \<times> 'p action list" where
  "aux2_start_derivation L self roundID curve session acts =
     (let (n, k, f) = Params self in
      if n = m_len (ses_Decisions session) \<and> \<not> ses_KeyderivationStarted session then
        (case keyderivation_NewInitMessage L roundID curve of
           Inl e \<Rightarrow> (session, acts)
         | Inr msg \<Rightarrow>
             (session\<lparr>ses_KeyderivationStarted := True\<rparr>,
              acts @ [ReceiveMessage (node_details self) msg]))
      else (session, acts))"

definition aux2_decide ::
  "('s, 'p) lib \<Rightarrow> ('s, 'p) KeygenNode \<Rightarrow> RoundID \<Rightarrow> CurveName \<Rightarrow> int \<Rightarrow> int \<Rightarrow>
   'p ADKGSession \<Rightarrow> 'p ADKGSession \<times> 'p action list" where
  "aux2_decide L self roundID curve dealer w session =
     (if m_get (ses_Decisions session) dealer \<noteq> None then (session, [])
      else
        let (n, k, f) = Params self;
            s1 = session\<lparr>ses_Decisions := m_set (ses_Decisions session) dealer w\<rparr> in
        if w = 1 \<and> \<not> ses_ABAComplete s1 then
          let s2 = s1\<lparr>ses_ABAComplete := True\<rparr> in
          (case ADKGIDFromRoundID roundID of
             Inl e \<Rightarrow> (s2, [])
           | Inr adkgid \<Rightarrow>
               let (acts, ok) = start_remaining L self adkgid curve (ses_ABAStarted s2) [1..n] in
               if \<not> ok then (s2, acts)
               else aux2_start_derivation L self roundID curve s2 acts)
        else aux2_start_derivation L self roundID curve s1 [])"

text \<open>What follows from the values: a coin, a decision, or another round.\<close>

definition aux2_act ::
  "('s, 'p) lib \<Rightarrow> ('s, 'p) KeygenNode \<Rightarrow> RoundID \<Rightarrow> CurveName \<Rightarrow> int \<Rightarrow> int \<Rightarrow> int list \<Rightarrow>
   'p NodeState \<Rightarrow> 'p outcome" where
  "aux2_act L self roundID curve r current_round values2 st =
     (case values2 of
        [] \<Rightarrow> Some (st, [])
      | [w] \<Rightarrow>
          if w = 2 then
            (case NewCoinInitMessage L roundID (roundID @ Itoa r) curve of
               Inl e \<Rightarrow> Some (st, [])
             | Inr msg \<Rightarrow> Some (st, [ReceiveMessage (node_details self) msg]))
          else
            (case FromID roundID of
               Inl e \<Rightarrow> Some (st, [])
             | Inr rd \<Rightarrow>
                 on_session st (rd_ADKGID rd) (\<lambda>session.
                   Some (aux2_decide L self roundID curve (rd_Dealer rd) w session)))
      | w # _ \<Rightarrow>
          (case aba_NewInitMessage L roundID w (current_round + 1) curve of
             Inl e \<Rightarrow> Some (st, [])
           | Inr msg \<Rightarrow> Some (st, [ReceiveMessage (node_details self) msg])))"

definition Aux2Message_Process ::
  "('s, 'p) lib \<Rightarrow> ('s, 'p) KeygenNode \<Rightarrow> KeygenNodeDetails \<Rightarrow>
   RoundID \<Rightarrow> CurveName \<Rightarrow> int \<Rightarrow> int \<Rightarrow> 'p NodeState \<Rightarrow> 'p outcome" where
  "Aux2Message_Process L self sender roundID curve v r st =
     (let ((aba, complete), m) =
        ABAStoreMap_GetOrSetIfNotComplete (ABAStore st) roundID DefaultABAStore in
      if complete then Some (st\<lparr>ABAStore := m\<rparr>, [])
      else do {
        s \<leftarrow> aba;
        let (n, k, f) = Params self;
        rec \<leftarrow> aux2_record n f (kn_Index sender) v r s;
        case rec of
          None \<Rightarrow> Some (st\<lparr>ABAStore := m\<rparr>, [])
        | Some (s1, values2) \<Rightarrow>
            aux2_act L self roundID curve r (GetRound s1) values2
              (st\<lparr>ABAStore := put m roundID s1\<rparr>) })"

definition GetDecisionsCount :: "(int, int) gomap \<Rightarrow> int \<Rightarrow> int" where
  "GetDecisionsCount m vote = int (length (filter (\<lambda>(k, v). v = vote) m))"

section \<open>The coin\<close>

definition generateProof ::
  "('s, 'p) lib \<Rightarrow> ('s, 'p) curve \<Rightarrow> bytes \<Rightarrow> 'p \<Rightarrow> 's \<Rightarrow> bytes go" where
  "generateProof L curve reader gTilde xI = do {
     let s = s_Random curve reader;
     (g, _) \<leftarrow> CurveParams L (c_Name curve);
     let h = p_Mul curve g s;
     let hTilde = p_Mul curve gTilde s;
     let gI = p_Mul curve g xI;
     let gITilde = p_Mul curve gTilde xI;
     let c = aba_Hash g h gTilde hTilde gI gITilde curve;
     let z = s_MulAdd curve xI c s;
     Some (s_Bytes curve z @ p_ToAffineCompressed curve h @ p_ToAffineCompressed curve hTilde) }"

text \<open>The node's share of the sum of the secrets: values that do not decode are left out.\<close>

fun sum_shares :: "('s, 'p) curve \<Rightarrow> (int, ShamirShare) gomap \<Rightarrow> int list \<Rightarrow> 's \<Rightarrow> 's" where
  "sum_shares c S [] acc = acc"
| "sum_shares c S (i # is) acc =
     (case s_SetBytes c (ss_Value (m_zero \<lparr>ss_Id = 0, ss_Value = []\<rparr> S i)) of
        None \<Rightarrow> sum_shares c S is acc
      | Some share \<Rightarrow> sum_shares c S is (s_Add c acc share))"

definition coin_init_body ::
  "('s, 'p) lib \<Rightarrow> ('s, 'p) KeygenNode \<Rightarrow> bytes \<Rightarrow> RoundID \<Rightarrow> CurveName \<Rightarrow> string \<Rightarrow> int \<Rightarrow>
   'p ADKGSession \<Rightarrow> ('p ADKGSession \<times> 'p action list) go" where
  "coin_init_body L self reader roundID curveName coinID leader session = do {
     let curve = CurveFromName L curveName;
     let (n, k, f) = Params self;
     let TiSet = GetSetBits n (m_zero 0 (ses_T session) leader);
     if TiSet = [] then Some (session, [])
     else do {
       let gTilde = p_Hash curve (string_bytes coinID);
       let uJi = sum_shares curve (ses_S session) TiSet (s_Zero curve);
       proof \<leftarrow> generateProof L curve reader gTilde uJi;
       let gITilde = p_Mul curve gTilde uJi;
       let data = proof @ p_ToAffineCompressed curve gITilde;
       case NewCoinMessage L roundID data curveName of
         Inl e \<Rightarrow> Some (session, [])
       | Inr msg \<Rightarrow> Some (session, [Broadcast msg]) } }"

definition CoinInitMessage_Process ::
  "('s, 'p) lib \<Rightarrow> ('s, 'p) KeygenNode \<Rightarrow> (nat \<Rightarrow> bytes) \<Rightarrow> KeygenNodeDetails \<Rightarrow>
   RoundID \<Rightarrow> CurveName \<Rightarrow> string \<Rightarrow> 'p NodeState \<Rightarrow> 'p outcome" where
  "CoinInitMessage_Process L self rnd sender roundID curve coinID st =
     (case Leader roundID of
        Inl e \<Rightarrow> Some (st, [])
      | Inr roundLeader \<Rightarrow>
          (case ADKGIDFromRoundID roundID of
             Inl e \<Rightarrow> Some (st, [])
           | Inr adkgid \<Rightarrow>
               on_session st adkgid
                 (coin_init_body L self (rnd 0) roundID curve coinID (Int64 roundLeader))))"

record ('s, 'p) Unpack =
  u_Z :: 's
  u_H :: 'p
  u_HTilde :: 'p
  u_GiTilde :: 'p

definition unpack :: "('s, 'p) curve \<Rightarrow> bytes \<Rightarrow> ('s, 'p) Unpack err go" where
  "unpack curve msg = do {
     bz \<leftarrow> go_slice msg 0 32;
     case s_SetBytes curve bz of
       None \<Rightarrow> Some (Inl ''SetBytes'')
     | Some z \<Rightarrow> do {
         bh \<leftarrow> go_slice msg 32 65;
         case p_FromAffineCompressed curve bh of
           None \<Rightarrow> Some (Inl ''FromAffineCompressed'')
         | Some h \<Rightarrow> do {
             bt \<leftarrow> go_slice msg 65 98;
             case p_FromAffineCompressed curve bt of
               None \<Rightarrow> Some (Inl ''FromAffineCompressed'')
             | Some hTilde \<Rightarrow> do {
                 bg \<leftarrow> go_slice msg 98 (length msg);
                 case p_FromAffineCompressed curve bg of
                   None \<Rightarrow> Some (Inl ''FromAffineCompressed'')
                 | Some giTilde \<Rightarrow>
                     Some (Inr \<lparr>u_Z = z, u_H = h, u_HTilde = hTilde, u_GiTilde = giTilde\<rparr>) } } } }"

definition verify ::
  "('s, 'p) lib \<Rightarrow> ('s, 'p) Unpack \<Rightarrow> 'p \<Rightarrow> 'p \<Rightarrow> ('s, 'p) curve \<Rightarrow> bool go" where
  "verify L u gTilde gI curve = do {
     (g, _) \<leftarrow> CurveParams L (c_Name curve);
     let cBar = aba_Hash g (u_H u) gTilde (u_HTilde u) gI (u_GiTilde u) curve;
     let hBar = p_Sub curve (p_Mul curve g (u_Z u)) (p_Mul curve gI cBar);
     let hTildeBar = p_Sub curve (p_Mul curve gTilde (u_Z u)) (p_Mul curve (u_GiTilde u) cBar);
     Some (p_Equal curve (u_H u) hBar \<and> p_Equal curve (u_HTilde u) hTildeBar) }"

text \<open>The sum of the coin shares times their coefficients; missing shares are left out.\<close>

fun combine_points :: "('s, 'p) curve \<Rightarrow> (int, 'p) gomap \<Rightarrow> (int, 's) gomap \<Rightarrow> int list \<Rightarrow> 'p \<Rightarrow> 'p" where
  "combine_points c shares coeff [] acc = acc"
| "combine_points c shares coeff (i # is) acc =
     (case m_get shares i of
        None \<Rightarrow> combine_points c shares coeff is acc
      | Some share \<Rightarrow>
          combine_points c shares coeff is
            (p_Add c acc (p_Mul c share (m_zero (s_Zero c) coeff i))))"

text \<open>The bit of the coin, from the last byte of the hash.\<close>

definition coin_bit :: "('s, 'p) curve \<Rightarrow> 'p \<Rightarrow> int go" where
  "coin_bit c g0Tilde = do {
     b \<leftarrow> go_index (sha256_Sum256 (p_ToAffineCompressed c g0Tilde)) 31;
     Some (uint b mod 2) }"

definition coin_start_derivation ::
  "('s, 'p) lib \<Rightarrow> ('s, 'p) KeygenNode \<Rightarrow> RoundID \<Rightarrow> CurveName \<Rightarrow> 'p ADKGSession \<Rightarrow> 'p action list \<Rightarrow>
   'p ADKGSession \<times> 'p action list" where
  "coin_start_derivation L self roundID curve session acts =
     (let (n, k, f) = Params self in
      if n = m_len (ses_Decisions session) \<and> \<not> ses_KeyderivationStarted session then
        let session' = session\<lparr>ses_KeyderivationStarted := True\<rparr> in
        (case keyderivation_NewInitMessage L roundID curve of
           Inl e \<Rightarrow> (session', acts)
         | Inr msg \<Rightarrow> (session', acts @ [ReceiveMessage (node_details self) msg]))
      else (session, acts))"

definition coin_decide ::
  "('s, 'p) lib \<Rightarrow> ('s, 'p) KeygenNode \<Rightarrow> RoundID \<Rightarrow> CurveName \<Rightarrow> int \<Rightarrow> int \<Rightarrow>
   'p ADKGSession \<Rightarrow> 'p ADKGSession \<times> 'p action list" where
  "coin_decide L self roundID curve leader b session =
     (let (n, k, f) = Params self in
      if b = 1 then
        let s1 = session\<lparr>ses_Decisions := m_set (ses_Decisions session) leader 1\<rparr> in
        if \<not> ses_ABAComplete s1 then
          let s2 = s1\<lparr>ses_ABAComplete := True\<rparr> in
          (case ADKGIDFromRoundID roundID of
             Inl e \<Rightarrow> (s2, [])
           | Inr adkgid \<Rightarrow>
               coin_start_derivation L self roundID curve s2
                 (start_remaining_coin L self adkgid curve (ses_ABAStarted s2) [1..n]))
        else coin_start_derivation L self roundID curve s1 []
      else
        coin_start_derivation L self roundID curve
          (session\<lparr>ses_Decisions := m_set (ses_Decisions session) leader 0\<rparr>) [])"

text \<open>With \<open>f + 1\<close> coin shares and no decision yet, the coin decides.\<close>

definition coin_flip ::
  "('s, 'p) lib \<Rightarrow> ('s, 'p) KeygenNode \<Rightarrow> RoundID \<Rightarrow> CurveName \<Rightarrow> int \<Rightarrow> (int, 'p) gomap \<Rightarrow>
   'p ADKGSession \<Rightarrow> ('p ADKGSession \<times> 'p action list) go" where
  "coin_flip L self roundID curveName leader coinShares session =
     (let (n, k, f) = Params self; curve = CurveFromName L curveName in
      if m_len coinShares = f + 1 \<and> m_get (ses_Decisions session) leader = None then do {
        let identities = range_int L (m_keys coinShares);
        ids \<leftarrow> go_slice identities 0 (nat k);
        case LagrangeCoeffs (range_int L) ids curve of
          Inl e \<Rightarrow> Some (session, [])
        | Inr coeff \<Rightarrow> do {
            let g0Tilde = combine_points curve coinShares coeff (range_int L (m_keys coeff))
                            (p_Identity curve);
            bit \<leftarrow> coin_bit curve g0Tilde;
            Some (coin_decide L self roundID curveName leader bit session) } }
      else Some (session, []))"

definition CoinMessage_Process ::
  "('s, 'p) lib \<Rightarrow> ('s, 'p) KeygenNode \<Rightarrow> KeygenNodeDetails \<Rightarrow>
   RoundID \<Rightarrow> CurveName \<Rightarrow> bytes \<Rightarrow> 'p NodeState \<Rightarrow> 'p outcome" where
  "CoinMessage_Process L self sender roundID curveName data st = do {
     let curve = CurveFromName L curveName;
     let (n, k, f) = Params self;
     up \<leftarrow> unpack curve data;
     case up of
       Inl e \<Rightarrow> Some (st, [])
     | Inr u \<Rightarrow>
         (case Leader roundID of
            Inl e \<Rightarrow> Some (st, [])
          | Inr roundLeader \<Rightarrow> do {
              let ((aba, complete), m) =
                ABAStoreMap_GetOrSetIfNotComplete (ABAStore st) roundID DefaultABAStore;
              if complete then Some (st\<lparr>ABAStore := m\<rparr>, [])
              else do {
                store \<leftarrow> aba;
                let st1 = st\<lparr>ABAStore := m\<rparr>;
                let gTilde = p_Hash curve (string_bytes (roundID @ Itoa (GetRound store)));
                case ADKGIDFromRoundID roundID of
                  Inl e \<Rightarrow> Some (st1, [])
                | Inr adkgid \<Rightarrow> do {
                    let ((session, complete2), sm) =
                      ADKGSessionStore_GetOrSetIfNotComplete (SessionStore st1) adkgid DefaultADKGSession;
                    if complete2 then Some (st1\<lparr>SessionStore := sm\<rparr>, [])
                    else do {
                      ses \<leftarrow> session;
                      let st2 = st1\<lparr>SessionStore := sm\<rparr>;
                      let TiSet = GetSetBits n (m_zero 0 (ses_T ses) (Int64 roundLeader));
                      if TiSet = [] then Some (st2, [])
                      else do {
                        gI \<leftarrow> DerivePublicKey (kn_Index sender) k curve TiSet (ses_C ses);
                        ok \<leftarrow> verify L u gTilde gI curve;
                        if \<not> ok then Some (st2, [])
                        else do {
                          let store' = SetCoinShare store (kn_Index sender) (u_GiTilde u);
                          let st3 = st2\<lparr>ABAStore := put m roundID store'\<rparr>;
                          (ses', acts) \<leftarrow> coin_flip L self roundID curveName (Int64 roundLeader)
                            (GetCoinShares store') ses;
                          Some (st3\<lparr>SessionStore := put sm adkgid ses'\<rparr>, acts) } } } } } }) }"

end
