(* ===== verification/KeyDerivation.thy ===== *)
theory KeyDerivation
  imports Aba
begin

text \<open>
  The key derivation, \<open>message_handlers/keyderivation\<close>: a node publishes the public key of
  its share of the combined secret with a proof, verifies the others' and combines them to the
  public key; and the decision of the chain, \<open>KeygenNode.BFTDecided\<close>. The share is stored when
  both the key is derived and the chain has decided, in whichever order they come.
\<close>

section \<open>Publishing a share\<close>

text \<open>The key sets of the dealers decided with 1, in the order Go ranges over the decisions.\<close>

definition decided_keysets :: "('s, 'p) lib \<Rightarrow> int \<Rightarrow> 'p ADKGSession \<Rightarrow> int list list" where
  "decided_keysets L n session =
     map (\<lambda>i. GetSetBits n (m_zero 0 (ses_T session) i))
       (filter (\<lambda>i. m_get (ses_Decisions session) i = Some 1)
         (range_int L (m_keys (ses_Decisions session))))"

definition keyderivation_init_body ::
  "('s, 'p) lib \<Rightarrow> ('s, 'p) KeygenNode \<Rightarrow> bytes \<Rightarrow> RoundID \<Rightarrow> CurveName \<Rightarrow>
   'p ADKGSession \<Rightarrow> ('p ADKGSession \<times> 'p action list) go" where
  "keyderivation_init_body L self reader roundID curveName session = do {
     let (n, k, f) = Params self;
     let curve = CurveFromName L curveName;
     let T = Union (decided_keysets L n session);
     if T = [] then Some (session, [])
     else do {
       let zI = sum_shares curve (ses_S session) T (s_Zero curve);
       (g, h) \<leftarrow> CurveParams L (c_Name curve);
       let gZi = p_Mul curve g zI;
       let hZi = p_Mul curve h zI;
       let kRand = s_Random curve reader;
       let A = p_Mul curve g kRand;
       let B = p_Mul curve h kRand;
       let C = aba_Hash g gZi h hZi A B curve;
       let S = s_Neg curve (s_Sub curve (s_Mul curve C zI) kRand);
       let r = p_ToAffineCompressed curve A @ p_ToAffineCompressed curve B;
       case keyderivation_NewShareMessage L roundID curveName (p_ToAffineCompressed curve hZi) r
              (s_Bytes curve S) of
         Inl e \<Rightarrow> Some (session, [])
       | Inr msg \<Rightarrow> Some (session, [Broadcast msg]) } }"

definition keyderivation_InitMessage_Process ::
  "('s, 'p) lib \<Rightarrow> ('s, 'p) KeygenNode \<Rightarrow> (nat \<Rightarrow> bytes) \<Rightarrow> KeygenNodeDetails \<Rightarrow>
   RoundID \<Rightarrow> CurveName \<Rightarrow> 'p NodeState \<Rightarrow> 'p outcome" where
  "keyderivation_InitMessage_Process L self rnd sender roundID curve st =
     (if kn_Index sender \<noteq> ID self then Some (st, [])
      else
        case ADKGIDFromRoundID roundID of
          Inl e \<Rightarrow> Some (st, [])
        | Inr adkgid \<Rightarrow> on_session st adkgid (keyderivation_init_body L self (rnd 0) roundID curve))"

section \<open>Verifying shares\<close>

definition VerifyShare ::
  "('s, 'p) lib \<Rightarrow> PubKeyShare \<Rightarrow> ('s, 'p) curve \<Rightarrow> 'p \<Rightarrow> 'p option go" where
  "VerifyShare L s curve gZj = do {
     let l = (if c_Name curve = ''ed25519'' then 32 else 33);
     case s_SetBytes curve (pks_S s) of
       None \<Rightarrow> Some None
     | Some sBar \<Rightarrow> do {
         ba \<leftarrow> go_slice (pks_R s) 0 l;
         case p_FromAffineCompressed curve ba of
           None \<Rightarrow> Some None
         | Some aBar \<Rightarrow> do {
             bb \<leftarrow> go_slice (pks_R s) l (length (pks_R s));
             case p_FromAffineCompressed curve bb of
               None \<Rightarrow> Some None
             | Some bBar \<Rightarrow>
                 (case p_FromAffineCompressed curve (pks_Share s) of
                    None \<Rightarrow> Some None
                  | Some hZj \<Rightarrow> do {
                      (g, h) \<leftarrow> CurveParams L (c_Name curve);
                      let cBar = aba_Hash g gZj h hZj aBar bBar curve;
                      let aDash = p_Add curve (p_Mul curve g sBar) (p_Mul curve gZj cBar);
                      let bDash = p_Add curve (p_Mul curve h sBar) (p_Mul curve hZj cBar);
                      Some (if p_Equal curve aBar aDash \<and> p_Equal curve bBar bDash
                            then Some hZj else None) }) } } }"

text \<open>On encoded points and scalars the function is its last comparison.\<close>

lemma VerifyShare_encoded:
  assumes "curve_codec c" "CurveParams L (c_Name c) = Some (g, h)"
  shows "VerifyShare L \<lparr>pks_R = p_ToAffineCompressed c A @ p_ToAffineCompressed c B,
                        pks_S = s_Bytes c S, pks_Share = p_ToAffineCompressed c hZ\<rparr> c gZ =
    Some (let cBar = aba_Hash g gZ h hZ A B c in
      if p_Equal c A (p_Add c (p_Mul c g S) (p_Mul c gZ cBar)) \<and>
         p_Equal c B (p_Add c (p_Mul c h S) (p_Mul c hZ cBar)) then Some hZ else None)"
proof -
  let ?l = "if c_Name c = ''ed25519'' then 32 else 33"
  have len: "length (p_ToAffineCompressed c p) = ?l" for p using assms(1) by (simp add: curve_codec_def)
  have "go_slice (p_ToAffineCompressed c A @ p_ToAffineCompressed c B) 0 ?l = Some (p_ToAffineCompressed c A)"
    "go_slice (p_ToAffineCompressed c A @ p_ToAffineCompressed c B) ?l
       (length (p_ToAffineCompressed c A @ p_ToAffineCompressed c B)) = Some (p_ToAffineCompressed c B)"
    using len [of A] len [of B] by (simp_all add: go_slice_def)
  then show ?thesis using assms by (simp add: VerifyShare_def curve_codec_def Let_def del: length_append)
qed

text \<open>The shares that came before the agreements ended, in range order.\<close>

definition process_unverified ::
  "('s, 'p) lib \<Rightarrow> ('s, 'p) curve \<Rightarrow> int \<Rightarrow> int list \<Rightarrow> int \<Rightarrow> 'p ADKGSession \<Rightarrow> 'p ADKGSession go" where
  "process_unverified L curve k T nodeIndex session =
     (case m_get (ses_PubKeySharesUnverified session) nodeIndex of
        None \<Rightarrow> Some session
      | Some share \<Rightarrow> do {
          gZj \<leftarrow> DerivePublicKey nodeIndex k curve T (ses_C session);
          verified \<leftarrow> VerifyShare L share curve gZj;
          case verified of
            None \<Rightarrow> Some session
          | Some hZj \<Rightarrow>
              Some (session\<lparr>ses_PubKeySharesUnverified :=
                              m_del (ses_PubKeySharesUnverified session) nodeIndex,
                            ses_PubKeyShares := m_set (ses_PubKeyShares session) nodeIndex hZj\<rparr>) })"

definition ProcessUnverifiedShares ::
  "('s, 'p) lib \<Rightarrow> ('s, 'p) curve \<Rightarrow> int \<Rightarrow> int list \<Rightarrow> 'p ADKGSession \<Rightarrow> 'p ADKGSession go" where
  "ProcessUnverifiedShares L curve k T session =
     go_fold (process_unverified L curve k T)
       (range_int L (m_keys (ses_PubKeySharesUnverified session))) session"

section \<open>Combining\<close>

text \<open>
  The end of the handler: combine the public key shares, store the node's share or keep it
  until the chain has decided, and announce the public key. The last component says that the
  key's rounds are cleaned up.
\<close>

definition derive_key ::
  "('s, 'p) lib \<Rightarrow> ('s, 'p) curve \<Rightarrow> 'p ADKGSession \<Rightarrow> 'p err" where
  "derive_key L curve session =
     (case LagrangeCoeffs (range_int L) (range_int L (m_keys (ses_PubKeyShares session))) curve of
        Inl e \<Rightarrow> Inl e
      | Inr coeff \<Rightarrow>
          Inr (combine_points curve (ses_PubKeyShares session) coeff (range_int L (m_keys coeff))
                (p_Identity curve)))"

definition finish_key ::
  "('s, 'p) lib \<Rightarrow> RoundID \<Rightarrow> ADKGID \<Rightarrow> CurveName \<Rightarrow> int list \<Rightarrow> 'p \<Rightarrow>
   'p ADKGSession \<Rightarrow> ('p ADKGSession \<times> 'p action list \<times> bool) go" where
  "finish_key L roundID adkgid curveName T hZ session =
     (let curve = CurveFromName L curveName in
      case GetIndex adkgid of
        Inl e \<Rightarrow> Some (session, [], False)
      | Inr keyIndex \<Rightarrow>
          (let zI = sum_shares curve (ses_S session) T (s_Zero curve);
               metadata = \<lparr>meta_Commitments = ses_C session, meta_T = T\<rparr> in
           if ses_BFTDecided session then
             (case GetCurve adkgid of
                Inl e \<Rightarrow> Some (session, [], False)
              | Inr c \<Rightarrow> do {
                  msg \<leftarrow> NewPubKeygenMessage L curve roundID curveName hZ;
                  Some (session,
                    [StoreCompletedShare keyIndex (s_BigInt curve zI) c, StoreCommitment keyIndex metadata c]
                      @ (case msg of Inl e \<Rightarrow> [] | Inr m \<Rightarrow> [ReceiveBFTMessage m]), True) })
           else do {
             msg \<leftarrow> NewPubKeygenMessage L curve roundID curveName hZ;
             Some (session\<lparr>ses_Share := Some (s_BigInt curve zI), ses_Commitments := metadata,
                           ses_Over := True\<rparr>,
               (case msg of Inl e \<Rightarrow> [] | Inr m \<Rightarrow> [ReceiveBFTMessage m]), False) }))"

definition keyderivation_share_body ::
  "('s, 'p) lib \<Rightarrow> ('s, 'p) KeygenNode \<Rightarrow> int \<Rightarrow> RoundID \<Rightarrow> ADKGID \<Rightarrow> CurveName \<Rightarrow> PubKeyShare \<Rightarrow>
   'p ADKGSession \<Rightarrow> ('p ADKGSession \<times> 'p action list \<times> bool) go" where
  "keyderivation_share_body L self sender roundID adkgid curveName share session =
     (let (n, k, f) = Params self; curve = CurveFromName L curveName in
      if \<not> (n = m_len (ses_Decisions session) \<and> ses_ABAComplete session) then
        Some (session\<lparr>ses_PubKeySharesUnverified :=
                m_set (ses_PubKeySharesUnverified session) sender share\<rparr>, [], False)
      else
        let T = Union (decided_keysets L n session) in
        if T = [] then Some (session, [], False)
        else do {
          gZj \<leftarrow> DerivePublicKey sender k curve T (ses_C session);
          verified \<leftarrow> VerifyShare L share curve gZj;
          case verified of
            None \<Rightarrow> Some (session, [], False)
          | Some hZj \<Rightarrow> do {
              let s1 = session\<lparr>ses_PubKeyShares := m_set (ses_PubKeyShares session) sender hZj\<rparr>;
              s2 \<leftarrow> ProcessUnverifiedShares L curve k T s1;
              if m_len (ses_PubKeyShares s2) \<ge> k \<and> \<not> ses_Over s2 then
                (case derive_key L curve s2 of
                   Inl e \<Rightarrow> Some (s2, [], False)
                 | Inr hZ \<Rightarrow> finish_key L roundID adkgid curveName T hZ s2)
              else Some (s2, [], False) } })"

definition keyderivation_ShareMessage_Process ::
  "('s, 'p) lib \<Rightarrow> ('s, 'p) KeygenNode \<Rightarrow> KeygenNodeDetails \<Rightarrow>
   RoundID \<Rightarrow> CurveName \<Rightarrow> bytes \<Rightarrow> bytes \<Rightarrow> bytes \<Rightarrow> 'p NodeState \<Rightarrow> 'p outcome" where
  "keyderivation_ShareMessage_Process L self sender roundID curve share r s st =
     (case ADKGIDFromRoundID roundID of
        Inl e \<Rightarrow> Some (st, [])
      | Inr adkgid \<Rightarrow>
          (let ((session, complete), m) =
             ADKGSessionStore_GetOrSetIfNotComplete (SessionStore st) adkgid DefaultADKGSession in
           if complete then Some (st\<lparr>SessionStore := m\<rparr>, [])
           else do {
             ses \<leftarrow> session;
             (ses', acts, fin) \<leftarrow> keyderivation_share_body L self (kn_Index sender) roundID adkgid curve
               \<lparr>pks_R = r, pks_S = s, pks_Share = share\<rparr> ses;
             let st' = st\<lparr>SessionStore := put m adkgid ses'\<rparr>;
             Some (if fin then cleanup L self adkgid st' else st', acts) }))"

section \<open>The decision of the chain\<close>

definition BFTDecided ::
  "('s, 'p) lib \<Rightarrow> ('s, 'p) KeygenNode \<Rightarrow> ADKGID \<Rightarrow> 'p NodeState \<Rightarrow> 'p outcome" where
  "BFTDecided L node i st =
     (let ((session, complete), m) =
        ADKGSessionStore_GetOrSetIfNotComplete (SessionStore st) i DefaultADKGSession in
      if complete then Some (st\<lparr>SessionStore := m\<rparr>, [])
      else do {
        store \<leftarrow> session;
        let st' = st\<lparr>SessionStore := m\<rparr>;
        if ses_Over store then
          (case GetIndex i of
             Inl e \<Rightarrow> Some (st', [])
           | Inr keyIndex \<Rightarrow>
               (case GetCurve i of
                  Inl e \<Rightarrow> Some (st', [])
                | Inr curve \<Rightarrow> do {
                    share \<leftarrow> ses_Share store;
                    Some (cleanup L node i st',
                      [StoreCompletedShare keyIndex share curve,
                       StoreCommitment keyIndex (ses_Commitments store) curve]) }))
        else Some (st\<lparr>SessionStore := put m i (store\<lparr>ses_BFTDecided := True\<rparr>)\<rparr>, []) })"

end
