(* ===== verification/Node.thy ===== *)
theory Node
  imports KeyDerivation
begin

text \<open>
  The node around the handlers, \<open>keygen/keygen_node.go\<close>: its construction, and the dispatch of a
  message to its handler by kind. What becomes of the actions of the handlers is in the theory
  \<open>KeygenService\<close>, the runs of a node and their invariants in \<open>Sessions\<close> and \<open>SessionTheorems\<close>.
\<close>

section \<open>Construction\<close>

definition mapFromNodeList ::
  "KeygenNodeDetails list \<Rightarrow> (NodeDetailsID, KeygenNodeDetails) gomap" where
  "mapFromNodeList nodeList = foldl (\<lambda>res node. m_set res (ToNodeDetailsID node) node) [] nodeList"

definition GetKeygenProtocolPrefix :: "int \<Rightarrow> string" where
  "GetKeygenProtocolPrefix currEpoch = ''keygen'' @ ''-'' @ Itoa currEpoch @ ''/''"

definition NewKeygenNode ::
  "('s, 'p) lib \<Rightarrow> KeygenNodeDetails \<Rightarrow> KeygenNodeDetails list \<Rightarrow> int \<Rightarrow> int \<Rightarrow> 's \<Rightarrow>
   ('s, 'p) KeygenNode \<times> 'p NodeState" where
  "NewKeygenNode L nodeDetails nodeList T K priv =
     (\<lparr>node_details = nodeDetails,
       node_network = \<lparr>nn_Nodes = mapFromNodeList nodeList, nn_N = int (length nodeList),
                       nn_T = T, nn_K = K\<rparr>,
       node_privateKey = priv,
       node_publicKey = p_Mul (lib_K256 L) (p_Generator (lib_K256 L)) priv\<rparr>,
      \<lparr>KeygenStore = [], SessionStore = [], ABAStore = []\<rparr>)"

text \<open>A node reference of the chain service; only what \<open>getCommonNodesFromNodeRefArray\<close> reads.\<close>

definition getCommonNodesFromNodeRefArray :: "(int \<times> int \<times> int) list \<Rightarrow> KeygenNodeDetails list" where
  "getCommonNodesFromNodeRefArray nodeRefs =
     map (\<lambda>(index, x, y). \<lparr>kn_Index = Int64 index, kn_PubKey = \<lparr>pt_X = x, pt_Y = y\<rparr>\<rparr>) nodeRefs"

section \<open>Dispatch\<close>

text \<open>
  Each family of messages has its own switch on the method. The data is unmarshalled into the
  structure of that method; data that does not unmarshal is logged and dropped, and a method
  that has the prefix of a family but no case is ignored.
\<close>

type_synonym ('s, 'p) dispatcher =
  "('s, 'p) lib \<Rightarrow> ('s, 'p) KeygenNode \<Rightarrow> (nat \<Rightarrow> bytes) \<Rightarrow> KeygenNodeDetails \<Rightarrow> DKGMessage \<Rightarrow>
   'p NodeState \<Rightarrow> 'p outcome"

definition processKeysetMessages :: "('s, 'p) dispatcher" where
  "processKeysetMessages L node rnd sender msg st =
     (let data = bijson_Unmarshal L (dm_Method msg) (dm_Data msg) in
      if dm_Method msg = ''keyset_init'' then
        (case data of Some (KeysetInit r k d c) \<Rightarrow> keyset_InitMessage_Process L node sender r d c st
         | _ \<Rightarrow> Some (st, []))
      else if dm_Method msg = ''keyset_propose'' then
        (case data of Some (KeysetPropose r k c d) \<Rightarrow> keyset_ProposeMessage_Process L node sender r c d st
         | _ \<Rightarrow> Some (st, []))
      else if dm_Method msg = ''keyset_echo'' then
        (case data of Some (KeysetEcho r k c s h) \<Rightarrow> keyset_EchoMessage_Process L node sender r c s h st
         | _ \<Rightarrow> Some (st, []))
      else if dm_Method msg = ''keyset_ready'' then
        (case data of Some (KeysetReady r k c s h) \<Rightarrow> keyset_ReadyMessage_Process L node sender r c s h st
         | _ \<Rightarrow> Some (st, []))
      else if dm_Method msg = ''keyset_output'' then
        (case data of Some (KeysetOutput r k c m) \<Rightarrow> keyset_OutputMessage_Process L node sender r c m st
         | _ \<Rightarrow> Some (st, []))
      else Some (st, []))"

definition processABAMessages :: "('s, 'p) dispatcher" where
  "processABAMessages L node rnd sender msg st =
     (let data = bijson_Unmarshal L (dm_Method msg) (dm_Data msg) in
      if dm_Method msg = ''aba_init'' then
        (case data of Some (AbaInit r k c v rd) \<Rightarrow> aba_InitMessage_Process L node sender r c v rd st
         | _ \<Rightarrow> Some (st, []))
      else if dm_Method msg = ''aba_est1'' then
        (case data of Some (AbaEst1 r k c v rd) \<Rightarrow> Est1Message_Process L node sender r c v rd st
         | _ \<Rightarrow> Some (st, []))
      else if dm_Method msg = ''aba_aux1'' then
        (case data of Some (AbaAux1 r k c v rd) \<Rightarrow> Aux1Message_Process L node sender r c v rd st
         | _ \<Rightarrow> Some (st, []))
      else if dm_Method msg = ''aba_auxset'' then
        (case data of Some (AbaAuxset r k c v rd) \<Rightarrow> AuxsetMessage_Process L node sender r c v rd st
         | _ \<Rightarrow> Some (st, []))
      else if dm_Method msg = ''aba_est2'' then
        (case data of Some (AbaEst2 r k c v rd) \<Rightarrow> Est2Message_Process L node sender r c v rd st
         | _ \<Rightarrow> Some (st, []))
      else if dm_Method msg = ''aba_aux2'' then
        (case data of Some (AbaAux2 r k c v rd) \<Rightarrow> Aux2Message_Process L node sender r c v rd st
         | _ \<Rightarrow> Some (st, []))
      else if dm_Method msg = ''aba_coin_init'' then
        (case data of Some (AbaCoinInit r k c i) \<Rightarrow> CoinInitMessage_Process L node rnd sender r c i st
         | _ \<Rightarrow> Some (st, []))
      else if dm_Method msg = ''aba_coin'' then
        (case data of Some (AbaCoin r k c d) \<Rightarrow> CoinMessage_Process L node sender r c d st
         | _ \<Rightarrow> Some (st, []))
      else Some (st, []))"

definition processKeyDerivationMessages :: "('s, 'p) dispatcher" where
  "processKeyDerivationMessages L node rnd sender msg st =
     (let data = bijson_Unmarshal L (dm_Method msg) (dm_Data msg) in
      if dm_Method msg = ''key_derivation_init'' then
        (case data of Some (KeyderivationInit r k c) \<Rightarrow>
           keyderivation_InitMessage_Process L node rnd sender r c st
         | _ \<Rightarrow> Some (st, []))
      else if dm_Method msg = ''key_derivation_pk_share'' then
        (case data of Some (KeyderivationShare r k c share rr s) \<Rightarrow>
           keyderivation_ShareMessage_Process L node sender r c share rr s st
         | _ \<Rightarrow> Some (st, []))
      else Some (st, []))"

definition processACSSMessages :: "('s, 'p) dispatcher" where
  "processACSSMessages L node rnd sender msg st =
     (let data = bijson_Unmarshal L (dm_Method msg) (dm_Data msg) in
      if dm_Method msg = ''acss_share'' then
        (case data of Some (AcssShare r k c) \<Rightarrow> acss_ShareMessage_Process L node rnd sender r c st
         | _ \<Rightarrow> Some (st, []))
      else if dm_Method msg = ''acss_propose'' then
        (case data of Some (AcssPropose r k c d) \<Rightarrow> acss_ProposeMessage_Process L node sender r c d st
         | _ \<Rightarrow> Some (st, []))
      else if dm_Method msg = ''acss_echo'' then
        (case data of Some (AcssEcho r k c s h) \<Rightarrow> acss_EchoMessage_Process L node sender r c s h st
         | _ \<Rightarrow> Some (st, []))
      else if dm_Method msg = ''acss_ready'' then
        (case data of Some (AcssReady r k c s h) \<Rightarrow> acss_ReadyMessage_Process L node sender r c s h st
         | _ \<Rightarrow> Some (st, []))
      else if dm_Method msg = ''acss_output'' then
        (case data of Some (AcssOutput r k c m) \<Rightarrow> acss_OutputMessage_Process L node sender r c m st
         | _ \<Rightarrow> Some (st, []))
      else Some (st, []))"

text \<open>The error of \<open>ProcessMessage\<close> is the last component.\<close>

definition ProcessMessage ::
  "('s, 'p) lib \<Rightarrow> ('s, 'p) KeygenNode \<Rightarrow> (nat \<Rightarrow> bytes) \<Rightarrow> KeygenNodeDetails \<Rightarrow> DKGMessage \<Rightarrow>
   'p NodeState \<Rightarrow> ('p NodeState \<times> 'p action list \<times> string option) go" where
  "ProcessMessage L node rnd sender msg st =
     (let ok = map_option (\<lambda>(st', acts). (st', acts, None)) in
      if HasPrefix (dm_Method msg) ''acss'' then ok (processACSSMessages L node rnd sender msg st)
      else if HasPrefix (dm_Method msg) ''keyset'' then ok (processKeysetMessages L node rnd sender msg st)
      else if HasPrefix (dm_Method msg) ''aba'' then ok (processABAMessages L node rnd sender msg st)
      else if HasPrefix (dm_Method msg) ''key_derivation'' then
        ok (processKeyDerivationMessages L node rnd sender msg st)
      else Some (st, [], Some (''KeygenMessage method '' @ dm_Method msg @ '' not found'')))"

end
