(* ===== verification/Sessions.thy ===== *)
theory Sessions
  imports Node
begin

text \<open>
  The life of a key generation session. \<open>session_step\<close> is an abstract transition system on
  \<open>ADKGSession\<close>: the changes the protocol allows, each with its guard. Every handler refines
  it: what a handler does to a session is a sequence of such steps. The invariants of sessions
  are then invariants of the transition system.
\<close>

section \<open>The abstract session\<close>

inductive session_step :: "int \<Rightarrow> int \<Rightarrow> 'p ADKGSession \<Rightarrow> 'p ADKGSession \<Rightarrow> bool" for n k where
  accept_dealing:
    "0 \<le> dealer \<Longrightarrow> dealer \<notin> bitset (ses_TPrime s) \<Longrightarrow> SetBit (ses_TPrime s) dealer = Some tp \<Longrightarrow>
     length cs = nat k \<Longrightarrow>
     session_step n k s (s\<lparr>ses_S := m_set (ses_S s) dealer share, ses_TPrime := tp,
                           ses_C := m_set (ses_C s) dealer cs\<rparr>)"
| choose_keyset:
    "w AND ses_TPrime s = w \<Longrightarrow> session_step n k s (s\<lparr>ses_T := m_set (ses_T s) j w\<rparr>)"
| delay_proposal: "session_step n k s (s\<lparr>ses_TProposals := m_set (ses_TProposals s) j w\<rparr>)"
| drop_proposal: "session_step n k s (s\<lparr>ses_TProposals := m_del (ses_TProposals s) j\<rparr>)"
| start_agreement:
    "j \<notin> set (ses_ABAStarted s) \<Longrightarrow>
     session_step n k s (s\<lparr>ses_ABAStarted := ses_ABAStarted s @ [j]\<rparr>)"
| decide:
    "m_get (ses_Decisions s) j = None \<Longrightarrow> b \<in> {0, 1} \<Longrightarrow>
     session_step n k s (s\<lparr>ses_Decisions := m_set (ses_Decisions s) j b\<rparr>)"
| complete_agreements:
    "m_get (ses_Decisions s) j = Some 1 \<Longrightarrow> session_step n k s (s\<lparr>ses_ABAComplete := True\<rparr>)"
| start_derivation:
    "n = m_len (ses_Decisions s) \<Longrightarrow> \<not> ses_KeyderivationStarted s \<Longrightarrow>
     session_step n k s (s\<lparr>ses_KeyderivationStarted := True\<rparr>)"
| delay_share:
    "\<not> (n = m_len (ses_Decisions s) \<and> ses_ABAComplete s) \<Longrightarrow>
     session_step n k s (s\<lparr>ses_PubKeySharesUnverified := m_set (ses_PubKeySharesUnverified s) j ps\<rparr>)"
| verify_share:
    "n = m_len (ses_Decisions s) \<Longrightarrow> ses_ABAComplete s \<Longrightarrow>
     session_step n k s (s\<lparr>ses_PubKeyShares := m_set (ses_PubKeyShares s) j h\<rparr>)"
| drop_delayed: "session_step n k s (s\<lparr>ses_PubKeySharesUnverified := m_del (ses_PubKeySharesUnverified s) j\<rparr>)"
| finish:
    "n = m_len (ses_Decisions s) \<Longrightarrow> ses_ABAComplete s \<Longrightarrow> k \<le> m_len (ses_PubKeyShares s) \<Longrightarrow>
     \<not> ses_Over s \<Longrightarrow> \<not> ses_BFTDecided s \<Longrightarrow>
     session_step n k s (s\<lparr>ses_Share := Some z, ses_Commitments := \<lparr>meta_Commitments = ses_C s, meta_T = T\<rparr>,
                           ses_Over := True\<rparr>)"
| chain_decides:
    "\<not> ses_Over s \<Longrightarrow> session_step n k s (s\<lparr>ses_BFTDecided := True\<rparr>)"

abbreviation session_steps :: "int \<Rightarrow> int \<Rightarrow> 'p ADKGSession \<Rightarrow> 'p ADKGSession \<Rightarrow> bool" where
  "session_steps n k \<equiv> (session_step n k)\<^sup>*\<^sup>*"

lemma session_steps_two:
  "session_steps n k s s1 \<Longrightarrow> session_step n k s1 s2 \<Longrightarrow> session_steps n k s s2"
  by (rule rtranclp.rtrancl_into_rtrancl)

section \<open>The handlers' work on a session\<close>

lemma OnKeysetVerified_steps:
  assumes "OnKeysetVerified L self roundID curve keyset leader s = Some (s', acts)"
    and "ByteToIntValue keyset = Some w" "w AND ses_TPrime s = w"
  shows "session_steps n k s s'"
  using OnKeysetVerified_session [OF assms(1)] assms(2,3) choose_keyset by fastforce

lemma emit_proposal_steps:
  assumes "emit_proposal L self adkgid curve key (s, acts) = Some sa'"
  shows "session_steps n k s (fst sa')"
proof (cases "m_get (ses_TProposals s) key")
  case None
  then show ?thesis using assms by (auto simp: emit_proposal_def)
next
  case (Some v)
  show ?thesis
  proof (cases "v AND ses_TPrime s = v")
    case False
    then show ?thesis using assms Some by (auto simp: emit_proposal_def keyset_Predicate_words)
  next
    case True
    then obtain s1 acts1 where
      on: "OnKeysetVerified L self (CreateRound adkgid key ''keyset'') curve (IntToByteValue v) key s =
        Some (s1, acts1)" and
      sa': "sa' = (s1\<lparr>ses_TProposals := m_del (ses_TProposals s1) key\<rparr>, acts @ acts1)"
      using assms Some
      by (auto simp: emit_proposal_def keyset_Predicate_words go_bind_eq_Some Let_def)
    have "session_steps n k s s1" using OnKeysetVerified_steps [OF on _ True] by simp
    then show ?thesis unfolding sa' fst_conv by (rule session_steps_two) (rule drop_proposal)
  qed
qed

lemma acss_accept_steps:
  fixes s :: "'p ADKGSession"
  assumes "length commitments = nat k" "0 \<le> dealer" "dealer \<notin> bitset (ses_TPrime s)"
    and "acss_accept L self adkgid curve dealer share commitments s = Some sa"
  shows "session_steps n k s (fst sa)"
proof -
  obtain tp where tp: "SetBit (ses_TPrime s) dealer = Some tp"
    using SetBit_total [OF assms(2)] by blast
  let ?s = "s\<lparr>ses_S := m_set (ses_S s) dealer share, ses_TPrime := tp,
              ses_C := m_set (ses_C s) dealer commitments\<rparr>"
  have "go_fold (emit_proposal L self adkgid curve) (range_int L (m_keys (ses_TProposals s))) (?s, []) = Some sa"
    using assms(4) by (simp add: acss_accept_def tp Let_def)
  then show ?thesis
  proof (rule go_fold_invariant [where P = "\<lambda>sa. session_steps n k s (fst sa)"])
    show "session_steps n k s (fst (?s, []))"
      unfolding fst_conv by (rule r_into_rtranclp) (rule accept_dealing [OF assms(2,3) tp assms(1)])
  next
    fix x and sa1 sa2 :: "'p ADKGSession \<times> 'p action list"
    assume *: "session_steps n k s (fst sa1)" "emit_proposal L self adkgid curve x sa1 = Some sa2"
    have "session_steps n k (fst sa1) (fst sa2)"
      by (rule emit_proposal_steps [of L self adkgid curve x _ "snd sa1"]) (simp add: *(2))
    with *(1) show "session_steps n k s (fst sa2)" by (rule rtranclp_trans)
  qed
qed

lemma acss_propose_keyset_steps:
  fixes sa :: "'p ADKGSession \<times> 'p action list"
  shows "session_steps n k (fst sa) (fst (acss_propose_keyset L self roundID curve sa))"
proof -
  have "session_steps n k s (s\<lparr>ses_T := m_set (ses_T s) j (ses_TPrime s)\<rparr>)" for s :: "'p ADKGSession" and j
    by (rule r_into_rtranclp) (rule choose_keyset, simp)
  then show ?thesis
    unfolding acss_propose_keyset_def by (auto simp: Let_def split: prod.splits sum.splits)
qed

lemma acss_Predicate_length:
  "acss_Predicate L key cipher commits k curve = Some (Some (share, cs)) \<Longrightarrow> length cs = nat k"
  unfolding acss_Predicate_def verifierFromCommits_def
  by (auto simp: go_bind_eq_Some err_continue Let_def dest: DecompressCommitments_length)

lemma acss_output_body_cases:
  assumes "acss_output_body L self roundID adkgid curveName M s = Some (s', acts)"
    and "Params self = (n, k, f)"
  obtains "s' = s" "acts = []"
  | dealer verified sa cipher commits where "HasBit (ses_TPrime s) (Int64 dealer) = Some False"
      "acss_Predicate L (s_Bytes (lib_K256 L) (node_privateKey self)) cipher commits k
         (CurveFromName L curveName) = Some verified"
      "(case verified of
          Some (share, cs) \<Rightarrow> acss_accept L self adkgid curveName (Int64 dealer) share cs s
        | None \<Rightarrow> Some (s, [])) = Some sa"
      "acss_propose_keyset L self roundID curveName sa = (s', acts)"
proof (cases "Leader roundID")
  case (Inl e)
  then show thesis using assms(1) that(1) by (simp add: acss_output_body_def)
next
  case (Inr dealer)
  then obtain has where has: "HasBit (ses_TPrime s) (Int64 dealer) = Some has"
    using assms(1) by (auto simp: acss_output_body_def go_bind_eq_Some)
  show thesis
  proof (cases "has \<or> (\<exists>e. MessageData_Deserialize L M = Inl e)")
    case True
    then show thesis using assms(1) Inr has that(1) by (auto simp: acss_output_body_def split: if_splits)
  next
    case False
    then show thesis using assms(1) Inr has that(2) [of dealer]
      by (auto simp: acss_output_body_def assms(2) Let_def split: Option.bind_splits sum.splits)
  qed
qed

lemma acss_output_body_steps:
  assumes "acss_output_body L self roundID adkgid curveName M s = Some (s', acts)"
    and "Params self = (n, k, f)"
  shows "session_steps n k s s'"
  using assms
proof (cases rule: acss_output_body_cases)
  case (2 dealer verified sa cipher commits)
  have d: "0 \<le> Int64 dealer" by (rule HasBit_nonneg [OF 2(1)])
  have fresh: "Int64 dealer \<notin> bitset (ses_TPrime s)"
    using 2(1) HasBit_iff [OF d, of "ses_TPrime s"] by (auto simp: bitset_def)
  have "session_steps n k s (fst sa)"
  proof (cases verified)
    case None
    then show ?thesis using 2(3) by auto
  next
    case (Some p)
    obtain share cs where p: "p = (share, cs)" by fastforce
    have "length cs = nat k" using acss_Predicate_length 2(2) by (simp add: Some p)
    then show ?thesis using acss_accept_steps [OF _ d fresh] 2(3) by (simp add: Some p)
  qed
  moreover have "session_steps n k (fst sa) s'"
    using acss_propose_keyset_steps [of n k sa L self roundID curveName] 2(4) by simp
  ultimately show ?thesis by (rule rtranclp_trans)
qed simp

text \<open>The decisions.\<close>

lemma aux2_start_derivation_steps:
  assumes "Params self = (n, k, f)"
  shows "session_steps n k s (fst (aux2_start_derivation L self roundID curve s acts))"
  using start_derivation [of n s k]
  by (auto simp: aux2_start_derivation_def assms split: sum.splits)

lemma coin_start_derivation_steps:
  assumes "Params self = (n, k, f)"
  shows "session_steps n k s (fst (coin_start_derivation L self roundID curve s acts))"
  using start_derivation [of n s k]
  by (auto simp: coin_start_derivation_def assms Let_def split: sum.splits)

lemma decide_and_complete:
  assumes "m_get (ses_Decisions s) j = None"
  shows "session_steps n k s (s\<lparr>ses_Decisions := m_set (ses_Decisions s) j 1, ses_ABAComplete := True\<rparr>)"
proof -
  let ?s1 = "s\<lparr>ses_Decisions := m_set (ses_Decisions s) j 1\<rparr>"
  have "session_steps n k s ?s1" using decide [OF assms, of 1] by auto
  moreover have "session_step n k ?s1 (?s1\<lparr>ses_ABAComplete := True\<rparr>)"
    by (rule complete_agreements [where j = j]) simp
  ultimately show ?thesis using session_steps_two by fastforce
qed

lemma aux2_decide_steps:
  assumes "Params self = (n, k, f)" "w \<in> {0, 1}"
  shows "session_steps n k s (fst (aux2_decide L self roundID curve dealer w s))"
proof (cases "m_get (ses_Decisions s) dealer")
  case None
  let ?s1 = "s\<lparr>ses_Decisions := m_set (ses_Decisions s) dealer w\<rparr>"
  note derive = aux2_start_derivation_steps [OF assms(1), of _ L roundID curve]
  show ?thesis
  proof (cases "w = 1 \<and> \<not> ses_ABAComplete ?s1")
    case True
    let ?s2 = "?s1\<lparr>ses_ABAComplete := True\<rparr>"
    have s2: "session_steps n k s ?s2" using decide_and_complete [OF None, of n k] True by auto
    have "session_steps n k s (fst (aux2_start_derivation L self roundID curve ?s2 a))" for a
      using s2 derive by (rule rtranclp_trans)
    then show ?thesis using True None s2
      by (auto simp: aux2_decide_def assms(1) Let_def split: sum.splits prod.splits)
  next
    case False
    have "session_steps n k s ?s1" using decide [OF None assms(2)] by auto
    then have "session_steps n k s (fst (aux2_start_derivation L self roundID curve ?s1 a))" for a
      using derive by (rule rtranclp_trans)
    then show ?thesis using False None by (auto simp: aux2_decide_def assms(1) Let_def)
  qed
qed (simp add: aux2_decide_def)

lemma coin_decide_steps:
  assumes "Params self = (n, k, f)" "m_get (ses_Decisions s) leader = None"
  shows "session_steps n k s (fst (coin_decide L self roundID curve leader b s))"
proof -
  note derive = coin_start_derivation_steps [OF assms(1), of _ L roundID curve]
  let ?s1 = "\<lambda>w. s\<lparr>ses_Decisions := m_set (ses_Decisions s) leader w\<rparr>"
  let ?s2 = "(?s1 1)\<lparr>ses_ABAComplete := True\<rparr>"
  have d: "session_steps n k s (fst (coin_start_derivation L self roundID curve (?s1 w) a))"
    if "w \<in> {0, 1}" for w a
    using r_into_rtranclp [of "session_step n k", OF decide [OF assms(2) that]] derive
    by (rule rtranclp_trans)
  have s2: "session_steps n k s ?s2" using decide_and_complete [OF assms(2), of n k] by simp
  have "session_steps n k s (fst (coin_start_derivation L self roundID curve ?s2 a))" for a
    using s2 derive by (rule rtranclp_trans)
  then show ?thesis using s2 d [of 1] d [of 0]
    by (auto simp: coin_decide_def assms(1) Let_def split: sum.splits)
qed

lemma coin_flip_steps:
  assumes "Params self = (n, k, f)"
    and "coin_flip L self roundID curve leader shares s = Some (s', acts)"
  shows "session_steps n k s s'"
proof (cases "m_get (ses_Decisions s) leader")
  case None
  note d = coin_decide_steps [OF assms(1) None, of L roundID curve]
  then have "session_steps n k s s1" if "coin_decide L self roundID curve leader b s = (s1, a)" for b s1 a
    using d [of b] unfolding that by simp
  then show ?thesis using assms(2)
    by (auto simp: coin_flip_def assms(1) Let_def split: Option.bind_splits if_splits sum.splits)
qed (use assms in \<open>auto simp: coin_flip_def Let_def\<close>)

text \<open>The derivation of the key.\<close>

lemma process_unverified_steps:
  assumes "n = m_len (ses_Decisions s)" "ses_ABAComplete s"
    and "process_unverified L curve k T i s = Some s'"
  shows "session_steps n k s s' \<and> ses_Decisions s' = ses_Decisions s \<and> ses_ABAComplete s' = ses_ABAComplete s"
proof -
  let ?s1 = "s\<lparr>ses_PubKeySharesUnverified := m_del (ses_PubKeySharesUnverified s) i\<rparr>"
  have "session_steps n k s (?s1\<lparr>ses_PubKeyShares := m_set (ses_PubKeyShares ?s1) i h\<rparr>)" for h
  proof (rule session_steps_two)
    show "session_steps n k s ?s1" using drop_delayed by (rule r_into_rtranclp)
    show "session_step n k ?s1 (?s1\<lparr>ses_PubKeyShares := m_set (ses_PubKeyShares ?s1) i h\<rparr>)"
      by (rule verify_share) (use assms in simp_all)
  qed
  then show ?thesis using assms(3)
    by (auto simp: process_unverified_def split: option.splits Option.bind_splits)
qed

lemma ProcessUnverifiedShares_steps:
  assumes "n = m_len (ses_Decisions s)" "ses_ABAComplete s"
    and "ProcessUnverifiedShares L curve k T s = Some s'"
  shows "session_steps n k s s' \<and> ses_Decisions s' = ses_Decisions s \<and> ses_ABAComplete s'"
  using assms(3) unfolding ProcessUnverifiedShares_def
proof (rule go_fold_invariant [where P = "\<lambda>t. session_steps n k s t \<and> ses_Decisions t = ses_Decisions s \<and> ses_ABAComplete t"])
  show "session_steps n k s s \<and> ses_Decisions s = ses_Decisions s \<and> ses_ABAComplete s"
    using assms(2) by simp
next
  fix x s1 s2
  assume *: "session_steps n k s s1 \<and> ses_Decisions s1 = ses_Decisions s \<and> ses_ABAComplete s1"
    "process_unverified L curve k T x s1 = Some s2"
  then have "session_steps n k s1 s2 \<and> ses_Decisions s2 = ses_Decisions s1 \<and> ses_ABAComplete s2 = ses_ABAComplete s1"
    using process_unverified_steps [of n s1] assms(1) by simp
  with *(1) show "session_steps n k s s2 \<and> ses_Decisions s2 = ses_Decisions s \<and> ses_ABAComplete s2"
    by auto
qed

lemma finish_key_steps:
  assumes "n = m_len (ses_Decisions s)" "ses_ABAComplete s" "k \<le> m_len (ses_PubKeyShares s)" "\<not> ses_Over s"
    and "finish_key L roundID adkgid curveName T hZ s = Some (s', acts, fin)"
  shows "session_steps n k s s'"
proof (cases "ses_BFTDecided s")
  case True
  then show ?thesis using assms(5)
    by (auto simp: finish_key_def Let_def split: sum.splits Option.bind_splits)
next
  case False
  note finish [OF assms(1-4) False]
  then show ?thesis using assms(5) False
    by (auto simp: finish_key_def Let_def split: sum.splits Option.bind_splits)
qed

lemma keyderivation_share_body_steps:
  assumes "Params self = (n, k, f)"
    and "keyderivation_share_body L self sender roundID adkgid curveName share s = Some (s', acts, fin)"
  shows "session_steps n k s s'"
proof (cases "n = m_len (ses_Decisions s) \<and> ses_ABAComplete s")
  case False
  then have "s' = s\<lparr>ses_PubKeySharesUnverified := m_set (ses_PubKeySharesUnverified s) sender share\<rparr>"
    using assms by (simp add: keyderivation_share_body_def Let_def)
  then show ?thesis using delay_share [OF False] by (simp add: r_into_rtranclp)
next
  case True
  let ?T = "Union (decided_keysets L n s)"
  let ?c = "CurveFromName L curveName"
  show ?thesis
  proof (cases "s' = s")
    case False
    obtain h s2 where
      s2: "ProcessUnverifiedShares L ?c k ?T (s\<lparr>ses_PubKeyShares := m_set (ses_PubKeyShares s) sender h\<rparr>) = Some s2" and
      rest: "(if k \<le> m_len (ses_PubKeyShares s2) \<and> \<not> ses_Over s2 then
        (case derive_key L ?c s2 of Inl e \<Rightarrow> Some (s2, [], False)
         | Inr hZ \<Rightarrow> finish_key L roundID adkgid curveName ?T hZ s2)
       else Some (s2, [], False)) = Some (s', acts, fin)"
      using assms True False
      by (auto simp: keyderivation_share_body_def Let_def split: if_splits Option.bind_splits option.splits)
    let ?s1 = "s\<lparr>ses_PubKeyShares := m_set (ses_PubKeyShares s) sender h\<rparr>"
    have "session_steps n k s ?s1"
      by (rule r_into_rtranclp) (rule verify_share, use True in simp_all)
    moreover have s12: "session_steps n k ?s1 s2 \<and> ses_Decisions s2 = ses_Decisions s \<and> ses_ABAComplete s2"
      using ProcessUnverifiedShares_steps [OF _ _ s2, of n] True by simp
    moreover have "session_steps n k s2 s'"
      using rest finish_key_steps [of n s2 k L roundID adkgid curveName ?T _ s' acts fin] s12 True
      by (auto split: if_splits sum.splits)
    ultimately show ?thesis by (meson rtranclp_trans)
  qed simp
qed

section \<open>The session store\<close>

text \<open>
  What a handler may do to the session store: leave an entry, advance a session that is live or
  not yet there, or complete it.
\<close>

definition session_moves ::
  "int \<Rightarrow> int \<Rightarrow> (ADKGID, 'p ADKGSession) syncmap \<Rightarrow> (ADKGID, 'p ADKGSession) syncmap \<Rightarrow> bool" where
  "session_moves n k m m' \<longleftrightarrow>
     (\<forall>i. m_get m' i = m_get m i \<or> m_get m' i = Some None \<or>
          m_get m i \<noteq> Some None \<and>
          (\<exists>s'. m_get m' i = Some (Some s') \<and> session_steps n k (current m i DefaultADKGSession) s'))"

lemma session_moves_refl [simp]: "session_moves n k m m"
  by (simp add: session_moves_def)

lemma session_moves_one:
  assumes "m_get m i \<noteq> Some None" "session_steps n k (current m i DefaultADKGSession) s'"
    and "\<And>j. m_get m' j = (if j = i then Some (Some s') else m_get m j)"
  shows "session_moves n k m m'"
  using assms by (auto simp: session_moves_def)

lemma session_moves_complete:
  "session_moves n k m m' \<Longrightarrow> session_moves n k m (ADKGSessionStore_Complete m' i)"
  by (auto simp: session_moves_def ADKGSessionStore_Complete_def Store_def)

lemma on_session_moves:
  assumes "on_session st i body = Some (st', acts)"
    and "\<And>s s' acts. body s = Some (s', acts) \<Longrightarrow> session_steps n k s s'"
  shows "session_moves n k (SessionStore st) (SessionStore st')"
  using assms(1)
proof (cases rule: on_session_cases)
  case (2 s')
  then show ?thesis using session_moves_one [OF 2(2) assms(2) [OF 2(1)] 2(5)] by simp
qed simp

lemma on_keygen_moves:
  "on_keygen st r body = Some (st', acts) \<Longrightarrow> session_moves n k (SessionStore st) (SessionStore st')"
  by (erule on_keygen_cases) simp_all

lemma on_aba_moves:
  "on_aba st r body = Some (st', acts) \<Longrightarrow> session_moves n k (SessionStore st) (SessionStore st')"
  by (erule on_aba_cases) simp_all

lemma SessionStore_cleanup:
  fixes st :: "'p NodeState"
  shows "SessionStore (cleanup L node i st) = ADKGSessionStore_Complete (SessionStore st) i"
proof -
  have "SessionStore (foldl (\<lambda>st n.
       st\<lparr>KeygenStore :=
            SharingStoreMap_Complete (SharingStoreMap_Complete (KeygenStore st) (acss_round i n))
              (keyset_round i n),
          ABAStore := ABAStoreMap_Complete (ABAStore st) (keyset_round i n)\<rparr>) st ns) = SessionStore st"
    for ns and st :: "'p NodeState"
    by (induction ns arbitrary: st) simp_all
  then show ?thesis by (simp add: cleanup_def cleanupSessionStore_def cleanupKeygenStore_def)
qed

section \<open>The handlers refine the abstract session\<close>

text \<open>A message leaves the state unchanged or goes to the handler of its kind.\<close>

lemma processACSSMessages_cases:
  assumes "processACSSMessages L self rnd sender msg st = Some (st', acts)"
  shows "st' = st \<and> acts = [] \<or>
    (\<exists>r c. acss_ShareMessage_Process L self rnd sender r c st = Some (st', acts)) \<or>
    (\<exists>r c d. acss_ProposeMessage_Process L self sender r c d st = Some (st', acts)) \<or>
    (\<exists>r c s h. acss_EchoMessage_Process L self sender r c s h st = Some (st', acts)) \<or>
    (\<exists>r c s h. acss_ReadyMessage_Process L self sender r c s h st = Some (st', acts)) \<or>
    (\<exists>r c m. acss_OutputMessage_Process L self sender r c m st = Some (st', acts))"
proof (cases "bijson_Unmarshal L (dm_Method msg) (dm_Data msg)")
  case None
  then show ?thesis using assms by (simp add: processACSSMessages_def Let_def split: if_splits)
next
  case (Some p)
  then show ?thesis using assms by (cases p) (auto simp: processACSSMessages_def Let_def split: if_splits)
qed

lemma processKeysetMessages_cases:
  assumes "processKeysetMessages L self rnd sender msg st = Some (st', acts)"
  shows "st' = st \<and> acts = [] \<or>
    (\<exists>r d c. keyset_InitMessage_Process L self sender r d c st = Some (st', acts)) \<or>
    (\<exists>r c d. keyset_ProposeMessage_Process L self sender r c d st = Some (st', acts)) \<or>
    (\<exists>r c s h. keyset_EchoMessage_Process L self sender r c s h st = Some (st', acts)) \<or>
    (\<exists>r c s h. keyset_ReadyMessage_Process L self sender r c s h st = Some (st', acts)) \<or>
    (\<exists>r c m. keyset_OutputMessage_Process L self sender r c m st = Some (st', acts))"
proof (cases "bijson_Unmarshal L (dm_Method msg) (dm_Data msg)")
  case None
  then show ?thesis using assms by (simp add: processKeysetMessages_def Let_def split: if_splits)
next
  case (Some p)
  then show ?thesis using assms by (cases p) (auto simp: processKeysetMessages_def Let_def split: if_splits)
qed

lemma processABAMessages_cases:
  assumes "processABAMessages L self rnd sender msg st = Some (st', acts)"
  shows "st' = st \<and> acts = [] \<or>
    (\<exists>r c v rd. aba_InitMessage_Process L self sender r c v rd st = Some (st', acts)) \<or>
    (\<exists>r c v rd. Est1Message_Process L self sender r c v rd st = Some (st', acts)) \<or>
    (\<exists>r c v rd. Aux1Message_Process L self sender r c v rd st = Some (st', acts)) \<or>
    (\<exists>r c v rd. AuxsetMessage_Process L self sender r c v rd st = Some (st', acts)) \<or>
    (\<exists>r c v rd. Est2Message_Process L self sender r c v rd st = Some (st', acts)) \<or>
    (\<exists>r k c v rd. dm_Method msg = ''aba_aux2'' \<and>
       bijson_Unmarshal L ''aba_aux2'' (dm_Data msg) = Some (AbaAux2 r k c v rd) \<and>
       Aux2Message_Process L self sender r c v rd st = Some (st', acts)) \<or>
    (\<exists>r c i. CoinInitMessage_Process L self rnd sender r c i st = Some (st', acts)) \<or>
    (\<exists>r c d. CoinMessage_Process L self sender r c d st = Some (st', acts))"
proof (cases "bijson_Unmarshal L (dm_Method msg) (dm_Data msg)")
  case None
  then show ?thesis using assms by (simp add: processABAMessages_def Let_def split: if_splits)
next
  case (Some p)
  then show ?thesis using assms by (cases p) (auto simp: processABAMessages_def Let_def split: if_splits)
qed

lemma processKeyDerivationMessages_cases:
  assumes "processKeyDerivationMessages L self rnd sender msg st = Some (st', acts)"
  shows "st' = st \<and> acts = [] \<or>
    (\<exists>r c. keyderivation_InitMessage_Process L self rnd sender r c st = Some (st', acts)) \<or>
    (\<exists>r c sh rr s. keyderivation_ShareMessage_Process L self sender r c sh rr s st = Some (st', acts))"
proof (cases "bijson_Unmarshal L (dm_Method msg) (dm_Data msg)")
  case None
  then show ?thesis using assms by (simp add: processKeyDerivationMessages_def Let_def split: if_splits)
next
  case (Some p)
  then show ?thesis using assms
    by (cases p) (auto simp: processKeyDerivationMessages_def Let_def split: if_splits)
qed

lemma acss_ProposeMessage_state:
  "acss_ProposeMessage_Process L self sender r c d st = Some (st', acts) \<Longrightarrow> st' = st"
  unfolding acss_ProposeMessage_Process_def
  by (auto simp: Let_def split: if_splits sum.splits Option.bind_splits option.splits prod.splits)

lemma acss_OutputMessage_moves:
  assumes "acss_OutputMessage_Process L self sender r c m st = Some (st', acts)" "Params self = (n, k, f)"
  shows "session_moves n k (SessionStore st) (SessionStore st')"
proof -
  have "session_moves n k (SessionStore st) (SessionStore st')"
    if "on_session st i (acss_output_body L self r i c m) = Some (st', acts)" for i
    using that by (rule on_session_moves) (rule acss_output_body_steps [OF _ assms(2)])
  then show ?thesis using assms(1) unfolding acss_OutputMessage_Process_def
    by (auto split: if_splits sum.splits)
qed

lemma acss_moves:
  assumes "processACSSMessages L self rnd sender msg st = Some (st', acts)" "Params self = (n, k, f)"
  shows "session_moves n k (SessionStore st) (SessionStore st')"
proof -
  have "session_moves n k (SessionStore st) (SessionStore st')"
    if "acss_ShareMessage_Process L self rnd sender r c st = Some (st', acts)" for r c
    using that unfolding acss_ShareMessage_Process_def
    by (auto split: if_splits sum.splits dest: on_keygen_moves)
  moreover have "session_moves n k (SessionStore st) (SessionStore st')"
    if "acss_EchoMessage_Process L self sender r c s h st = Some (st', acts)" for r c s h
    using that unfolding acss_EchoMessage_Process_def by (rule on_keygen_moves)
  moreover have "session_moves n k (SessionStore st) (SessionStore st')"
    if "acss_ReadyMessage_Process L self sender r c s h st = Some (st', acts)" for r c s h
    using that unfolding acss_ReadyMessage_Process_def by (rule on_keygen_moves)
  ultimately show ?thesis
    using processACSSMessages_cases [OF assms(1)] acss_ProposeMessage_state
      acss_OutputMessage_moves [OF _ assms(2)] by fastforce
qed

lemma keyset_ProposeMessage_moves:
  assumes "keyset_ProposeMessage_Process L self sender r c d st = Some (st', acts)"
  shows "session_moves n k (SessionStore st) (SessionStore st')"
proof -
  let ?body = "\<lambda>leader session. do {
                   verified \<leftarrow> keyset_Predicate (IntToByteValue (ses_TPrime session)) d;
                   if verified then OnKeysetVerified L self r c d (Int64 leader) session
                   else do {
                     v \<leftarrow> ByteToIntValue d;
                     Some (session\<lparr>ses_TProposals :=
                             m_set (ses_TProposals session) (kn_Index sender) v\<rparr>, []) } }"
  have body: "session_steps n k s s'" if b: "?body leader s = Some (s', a)" for leader s s' a
  proof -
    from b obtain p where p: "keyset_Predicate (IntToByteValue (ses_TPrime s)) d = Some p"
      by (auto simp: go_bind_eq_Some)
    from keyset_Predicate_Some [OF p] obtain w where
      w: "ByteToIntValue d = Some w" "p = (w AND ses_TPrime s = w)" by (elim exE conjE) (rule that)
    show ?thesis
    proof (cases p)
      case True
      then show ?thesis using b p w OnKeysetVerified_steps [of L self r c d "Int64 leader" s s' a w] by simp
    next
      case False
      then have "s' = s\<lparr>ses_TProposals := m_set (ses_TProposals s) (kn_Index sender) w\<rparr>"
        using b p w by simp
      then show ?thesis by (simp add: r_into_rtranclp delay_proposal)
    qed
  qed
  have "session_moves n k (SessionStore st) (SessionStore st')"
    if "on_session st i (?body leader) = Some (st', acts)" for i leader
    using that by (rule on_session_moves) (rule body)
  then show ?thesis using assms unfolding keyset_ProposeMessage_Process_def
    by (auto split: if_splits sum.splits)
qed

lemma keyset_OutputMessage_moves:
  assumes "keyset_OutputMessage_Process L self sender r c m st = Some (st', acts)"
  shows "session_moves n k (SessionStore st) (SessionStore st')"
proof -
  let ?body = "\<lambda>leader session.
                    if Contains (ses_ABAStarted session) (Int64 leader) then Some (session, [])
                    else do {
                      a \<leftarrow> BE_Uint64 m;
                      let b = ses_TPrime session;
                      let vote = (if b AND a = a \<and> \<not> ses_ABAComplete session then 1 else 0);
                      let session' = session\<lparr>ses_ABAStarted := ses_ABAStarted session @ [Int64 leader]\<rparr>;
                      case aba_NewInitMessage L r vote 0 c of
                        Inl e \<Rightarrow> Some (session', [])
                      | Inr msg \<Rightarrow> Some (session', [ReceiveMessage (node_details self) msg]) }"
  have "session_steps n k s s'" if "?body leader s = Some (s', a)" for leader s s' a
    using that start_agreement [of "Int64 leader" s n k]
    by (auto simp: Let_def split: if_splits Option.bind_splits sum.splits)
  then have "session_moves n k (SessionStore st) (SessionStore st')"
    if "on_session st i (?body leader) = Some (st', acts)" for i leader
    using that by (rule on_session_moves [rotated])
  then show ?thesis using assms unfolding keyset_OutputMessage_Process_def
    by (auto split: if_splits sum.splits)
qed

lemma keyset_moves:
  assumes "processKeysetMessages L self rnd sender msg st = Some (st', acts)"
  shows "session_moves n k (SessionStore st) (SessionStore st')"
proof -
  have "st' = st"
    if "keyset_InitMessage_Process L self sender r d c st = Some (st', acts)" for r d c
    using that unfolding keyset_InitMessage_Process_def by (auto split: if_splits sum.splits)
  moreover have "session_moves n k (SessionStore st) (SessionStore st')"
    if "keyset_EchoMessage_Process L self sender r c s h st = Some (st', acts)" for r c s h
    using that unfolding keyset_EchoMessage_Process_def by (rule on_keygen_moves)
  moreover have "session_moves n k (SessionStore st) (SessionStore st')"
    if "keyset_ReadyMessage_Process L self sender r c s h st = Some (st', acts)" for r c s h
    using that unfolding keyset_ReadyMessage_Process_def by (rule on_keygen_moves)
  ultimately show ?thesis
    using processKeysetMessages_cases [OF assms] keyset_ProposeMessage_moves [of L self sender _ _ _ st st' acts n k]
      keyset_OutputMessage_moves [of L self sender _ _ _ st st' acts n k] by fastforce
qed

lemma aux2_values_single: "aux2_values nf bin2 l0 l1 l2 = [w] \<Longrightarrow> w \<in> {0, 1, 2}"
  by (auto simp: aux2_values_def split: if_splits)

lemma aux2_act_moves:
  assumes "Params self = (n, k, f)" "\<And>w. values2 = [w] \<Longrightarrow> w \<in> {0, 1, 2}"
    and "aux2_act L self r c rd cur values2 st = Some (st', acts)"
  shows "session_moves n k (SessionStore st) (SessionStore st')"
proof (cases "\<exists>w. values2 = [w] \<and> w \<noteq> 2")
  case True
  then obtain w where w: "values2 = [w]" "w \<in> {0, 1}" using assms(2) by auto
  have body: "session_steps n k s s'"
    if "Some (aux2_decide L self r c d w s) = Some (s', a)" for d s s' a
    using aux2_decide_steps [OF assms(1) w(2), of s L r c d] that by simp
  have "session_moves n k (SessionStore st) (SessionStore st')"
    if "on_session st i (\<lambda>s. Some (aux2_decide L self r c d w s)) = Some (st', acts)" for i d
    using that by (rule on_session_moves) (rule body)
  then show ?thesis using assms(3) w by (auto simp: aux2_act_def split: sum.splits)
next
  case False
  then have "st' = st" using assms(3) by (auto simp: aux2_act_def split: list.splits sum.splits)
  then show ?thesis by simp
qed

lemma Aux2Message_moves:
  assumes "Aux2Message_Process L self sender r c v rd st = Some (st', acts)" "Params self = (n, k, f)"
  shows "session_moves n k (SessionStore st) (SessionStore st')"
proof -
  have v2: "values2 = [w] \<Longrightarrow> w \<in> {0, 1, 2}"
    if "aux2_record n f i v rd s = Some (Some (s1, values2))" for i s s1 values2 w
    using that aux2_values_single by (auto simp: aux2_record_def split: Option.bind_splits if_splits)
  obtain aba complete m where m:
    "ABAStoreMap_GetOrSetIfNotComplete (ABAStore st) r DefaultABAStore = ((aba, complete), m)"
    by (metis prod.exhaust)
  show ?thesis
  proof (cases "SessionStore st' = SessionStore st")
    case False
    then obtain s s1 values2 where
      rec: "aux2_record n f (kn_Index sender) v rd s = Some (Some (s1, values2))" and
      act: "aux2_act L self r c rd (GetRound s1) values2 (st\<lparr>ABAStore := put m r s1\<rparr>) = Some (st', acts)"
      using assms m
      by (auto simp: Aux2Message_Process_def Let_def split: if_splits Option.bind_splits option.splits)
    show ?thesis using aux2_act_moves [OF assms(2) v2 [OF rec] act] by simp
  qed simp
qed

text \<open>Looking a session up, for the handlers that do more than work on one session.\<close>

lemma session_lookup:
  assumes "ADKGSessionStore_GetOrSetIfNotComplete m i DefaultADKGSession = ((session, fin), m')"
  shows "fin \<Longrightarrow> m' = m"
    and "\<not> fin \<Longrightarrow> session = Some (current m i DefaultADKGSession)"
    and "\<not> fin \<Longrightarrow> session_steps n k (current m i DefaultADKGSession) s' \<Longrightarrow>
      session_moves n k m (put m' i s')"
    and "session_moves n k m m'"
proof -
  note result = sessions.obtain_result [OF assms, folded current_def]
  show "fin \<Longrightarrow> m' = m" by (rule result(1))
  show "\<not> fin \<Longrightarrow> session = Some (current m i DefaultADKGSession)" using result(2) by blast
  show "session_moves n k m (put m' i s')"
    if "\<not> fin" "session_steps n k (current m i DefaultADKGSession) s'"
    using result(2) [OF that(1)] that(2) by (intro session_moves_one) (auto simp: put_def)
  show "session_moves n k m m'"
    using result by (cases fin) (auto simp: session_moves_def)
qed

lemma CoinMessage_moves:
  assumes "CoinMessage_Process L self sender r c d st = Some (st', acts)" "Params self = (n, k, f)"
  shows "session_moves n k (SessionStore st) (SessionStore st')"
proof -
  obtain aba complete m where m:
    "ABAStoreMap_GetOrSetIfNotComplete (ABAStore st) r DefaultABAStore = ((aba, complete), m)"
    by (metis prod.exhaust)
  show ?thesis
  proof (cases "ADKGIDFromRoundID r")
    case (Inl e)
    then show ?thesis using assms m
      by (auto simp: CoinMessage_Process_def Let_def split: if_splits Option.bind_splits sum.splits)
  next
    case (Inr i)
    obtain session complete2 sm where sm:
      "ADKGSessionStore_GetOrSetIfNotComplete (SessionStore st) i DefaultADKGSession =
        ((session, complete2), sm)" by (metis prod.exhaust)
    note look = session_lookup [OF sm]
    show ?thesis
    proof (cases "SessionStore st' = SessionStore st \<or> SessionStore st' = sm")
      case True
      then show ?thesis using look(4) by auto
    next
      case False
      then obtain leader shares s' where c2: "\<not> complete2" and
        flip: "coin_flip L self r c leader shares (current (SessionStore st) i DefaultADKGSession) = Some (s', acts)" and
        st': "SessionStore st' = put sm i s'"
        using assms m sm Inr look(2)
        by (auto simp: CoinMessage_Process_def Let_def split: if_splits Option.bind_splits sum.splits)
      show ?thesis unfolding st' by (rule look(3) [OF c2 coin_flip_steps [OF assms(2) flip]])
    qed
  qed
qed

lemma keyderivation_ShareMessage_moves:
  assumes "keyderivation_ShareMessage_Process L self sender r c share rr s st = Some (st', acts)"
    and "Params self = (n, k, f)"
  shows "session_moves n k (SessionStore st) (SessionStore st')"
proof (cases "ADKGIDFromRoundID r")
  case (Inl e)
  then show ?thesis using assms by (simp add: keyderivation_ShareMessage_Process_def)
next
  case (Inr i)
  obtain session complete sm where sm:
    "ADKGSessionStore_GetOrSetIfNotComplete (SessionStore st) i DefaultADKGSession =
      ((session, complete), sm)" by (metis prod.exhaust)
  note look = session_lookup [OF sm]
  show ?thesis
  proof (cases complete)
    case True
    then show ?thesis using assms Inr sm look(4) by (auto simp: keyderivation_ShareMessage_Process_def)
  next
    case False
    then obtain s' fin where
      body: "keyderivation_share_body L self (kn_Index sender) r i c
          \<lparr>pks_R = rr, pks_S = s, pks_Share = share\<rparr> (current (SessionStore st) i DefaultADKGSession) =
        Some (s', acts, fin)" and
      st': "st' = (if fin then cleanup L self i (st\<lparr>SessionStore := put sm i s'\<rparr>)
                   else st\<lparr>SessionStore := put sm i s'\<rparr>)"
      using assms(1) Inr sm look(2)
      by (auto simp: keyderivation_ShareMessage_Process_def Let_def split: Option.bind_splits)
    have "session_moves n k (SessionStore st) (put sm i s')"
      by (rule look(3) [OF False keyderivation_share_body_steps [OF assms(2) body]])
    then show ?thesis by (simp add: st' SessionStore_cleanup session_moves_complete)
  qed
qed

lemma BFTDecided_moves:
  assumes "BFTDecided L self i st = Some (st', acts)"
  shows "session_moves n k (SessionStore st) (SessionStore st')"
proof -
  obtain session complete sm where sm:
    "ADKGSessionStore_GetOrSetIfNotComplete (SessionStore st) i DefaultADKGSession =
      ((session, complete), sm)" by (metis prod.exhaust)
  note look = session_lookup [OF sm]
  let ?s = "current (SessionStore st) i DefaultADKGSession"
  show ?thesis
  proof (cases "complete \<or> ses_Over ?s")
    case True
    then have "SessionStore st' = sm \<or> SessionStore st' = ADKGSessionStore_Complete sm i"
      using assms sm look(2)
      by (auto simp: BFTDecided_def Let_def SessionStore_cleanup
        split: if_splits sum.splits Option.bind_splits)
    then show ?thesis using look(4) [of n k] session_moves_complete [OF look(4), of n k i] by auto
  next
    case False
    then have st': "SessionStore st' = put sm i (?s\<lparr>ses_BFTDecided := True\<rparr>)"
      using assms sm look(2) by (auto simp: BFTDecided_def Let_def)
    show ?thesis unfolding st'
      by (rule look(3)) (use False in \<open>auto intro: chain_decides r_into_rtranclp\<close>)
  qed
qed

lemma on_session_same:
  assumes "on_session st i body = Some (st', acts)" "\<And>s s' acts. body s = Some (s', acts) \<Longrightarrow> s' = s"
  shows "session_moves n k (SessionStore st) (SessionStore st')"
  using assms(1) by (rule on_session_moves) (use assms(2) in fastforce)

lemma coin_init_body_state:
  "coin_init_body L self reader r c coinID leader s = Some (s', acts) \<Longrightarrow> s' = s"
  by (auto simp: coin_init_body_def Let_def split: prod.splits if_splits Option.bind_splits sum.splits)

lemma keyderivation_init_body_state:
  "keyderivation_init_body L self reader r c s = Some (s', acts) \<Longrightarrow> s' = s"
  by (auto simp: keyderivation_init_body_def Let_def split: prod.splits if_splits Option.bind_splits sum.splits)

lemma aba_moves:
  assumes "processABAMessages L self rnd sender msg st = Some (st', acts)" "Params self = (n, k, f)"
  shows "session_moves n k (SessionStore st) (SessionStore st')"
proof -
  have "session_moves n k (SessionStore st) (SessionStore st')"
    if "aba_InitMessage_Process L self sender r c v rd st = Some (st', acts)" for r c v rd
    using that unfolding aba_InitMessage_Process_def by (auto split: if_splits dest: on_aba_moves)
  moreover have "session_moves n k (SessionStore st) (SessionStore st')"
    if "Est1Message_Process L self sender r c v rd st = Some (st', acts)" for r c v rd
    using that unfolding Est1Message_Process_def by (rule on_aba_moves)
  moreover have "session_moves n k (SessionStore st) (SessionStore st')"
    if "Aux1Message_Process L self sender r c v rd st = Some (st', acts)" for r c v rd
    using that unfolding Aux1Message_Process_def by (rule on_aba_moves)
  moreover have "session_moves n k (SessionStore st) (SessionStore st')"
    if "AuxsetMessage_Process L self sender r c v rd st = Some (st', acts)" for r c v rd
    using that unfolding AuxsetMessage_Process_def by (rule on_aba_moves)
  moreover have "session_moves n k (SessionStore st) (SessionStore st')"
    if "Est2Message_Process L self sender r c v rd st = Some (st', acts)" for r c v rd
    using that unfolding Est2Message_Process_def by (rule on_aba_moves)
  moreover have "session_moves n k (SessionStore st) (SessionStore st')"
    if "CoinInitMessage_Process L self rnd sender r c i st = Some (st', acts)" for r c i
  proof -
    have "session_moves n k (SessionStore st) (SessionStore st')"
      if "on_session st j (coin_init_body L self x r c i l) = Some (st', acts)" for j l x
      using that by (rule on_session_same) (rule coin_init_body_state)
    with that show ?thesis unfolding CoinInitMessage_Process_def by (auto split: sum.splits)
  qed
  ultimately show ?thesis
    using processABAMessages_cases [OF assms(1)] Aux2Message_moves [OF _ assms(2)]
      CoinMessage_moves [OF _ assms(2)] session_moves_refl [of n k "SessionStore st"]
    by (elim disjE exE conjE) (simp, assumption | simp)+
qed

lemma derivation_moves:
  assumes "processKeyDerivationMessages L self rnd sender msg st = Some (st', acts)" "Params self = (n, k, f)"
  shows "session_moves n k (SessionStore st) (SessionStore st')"
proof -
  have "session_moves n k (SessionStore st) (SessionStore st')"
    if "keyderivation_InitMessage_Process L self rnd sender r c st = Some (st', acts)" for r c
  proof -
    have "session_moves n k (SessionStore st) (SessionStore st')"
      if "on_session st j (keyderivation_init_body L self x r c) = Some (st', acts)" for j x
      using that by (rule on_session_same) (rule keyderivation_init_body_state)
    with that show ?thesis unfolding keyderivation_InitMessage_Process_def
      by (auto split: sum.splits if_splits)
  qed
  then show ?thesis
    using processKeyDerivationMessages_cases [OF assms(1)]
      keyderivation_ShareMessage_moves [OF _ assms(2)] session_moves_refl [of n k "SessionStore st"]
    by (elim disjE exE) (simp, assumption | simp)+
qed

lemma ProcessMessage_moves:
  assumes "ProcessMessage L self rnd sender msg st = Some (st', acts, err)" "Params self = (n, k, f)"
  shows "session_moves n k (SessionStore st) (SessionStore st')"
  using assms(1) acss_moves [OF _ assms(2)] keyset_moves aba_moves [OF _ assms(2)]
    derivation_moves [OF _ assms(2)]
  unfolding ProcessMessage_def Let_def by (fastforce split: if_splits)

section \<open>Runs of a node\<close>

text \<open>
  Go ranges over a map in another order every time. A run fixes everything of the library but
  these orders, which each step chooses anew.
\<close>

definition reorder :: "('s, 'p) lib \<Rightarrow> (int list \<Rightarrow> int list) \<Rightarrow> (string list \<Rightarrow> string list) \<Rightarrow> ('s, 'p) lib" where
  "reorder L ord ord' = L\<lparr>range_int := ord, range_str := ord'\<rparr>"

lemma reorder_simps [simp]:
  "reorder L (range_int L) (range_str L) = L"
  "bijson_Unmarshal (reorder L ord ord') = bijson_Unmarshal L"
  "codec_laws (reorder L ord ord') \<longleftrightarrow> codec_laws L"
  by (simp_all add: reorder_def codec_laws_def)

text \<open>
  A node starts with empty stores; it processes a message, learns a decision of the chain, or
  drops a key that has expired.
\<close>

inductive reachable :: "('s, 'p) lib \<Rightarrow> ('s, 'p) KeygenNode \<Rightarrow> 'p NodeState \<Rightarrow> bool" for L self where
  start: "reachable L self \<lparr>KeygenStore = [], SessionStore = [], ABAStore = []\<rparr>"
| message:
    "reachable L self st \<Longrightarrow>
     ProcessMessage (reorder L ord ord') self rnd sender msg st = Some (st', acts, err) \<Longrightarrow>
     reachable L self st'"
| decided:
    "reachable L self st \<Longrightarrow> BFTDecided (reorder L ord ord') self i st = Some (st', acts) \<Longrightarrow>
     reachable L self st'"
| expired: "reachable L self st \<Longrightarrow> reachable L self (remove (reorder L ord ord') self i st)"

lemma SessionStore_remove:
  fixes st :: "'p NodeState"
  shows "SessionStore (remove L node i st) = ADKGSessionStore_Delete (SessionStore st) i"
proof -
  have "SessionStore (foldl (\<lambda>st n.
        st\<lparr>KeygenStore :=
             SharingStoreMap_Delete (SharingStoreMap_Delete (KeygenStore st) (acss_round i n))
               (keyset_round i n),
           ABAStore := ABAStoreMap_Delete (ABAStore st) (keyset_round i n)\<rparr>) st ns) = SessionStore st"
    for ns and st :: "'p NodeState"
    by (induction ns arbitrary: st) simp_all
  then show ?thesis by (simp add: remove_def Let_def)
qed

text \<open>An invariant of the abstract session is an invariant of every session of a reachable node.\<close>

definition every_session :: "('p ADKGSession \<Rightarrow> bool) \<Rightarrow> 'p NodeState \<Rightarrow> bool" where
  "every_session P st \<longleftrightarrow> (\<forall>i s. m_get (SessionStore st) i = Some (Some s) \<longrightarrow> P s)"

lemma steps_invariant:
  assumes "session_steps n k s s'" "P s" "\<And>s s'. session_step n k s s' \<Longrightarrow> P s \<Longrightarrow> P s'"
  shows "P s'"
  using assms(1,2) by (induction rule: rtranclp_induct) (auto intro: assms(3))

lemma every_session_moves:
  assumes "session_moves n k (SessionStore st) (SessionStore st')" "every_session P st"
    and "P DefaultADKGSession" "\<And>s s'. session_step n k s s' \<Longrightarrow> P s \<Longrightarrow> P s'"
  shows "every_session P st'"
  unfolding every_session_def
proof (intro allI impI)
  fix i s'
  assume s': "m_get (SessionStore st') i = Some (Some s')"
  let ?s = "current (SessionStore st) i DefaultADKGSession"
  have "P ?s" using assms(2,3) by (auto simp: every_session_def current_def split: option.splits)
  moreover have "m_get (SessionStore st) i = Some (Some s') \<or> session_steps n k ?s s'"
    using assms(1) s' unfolding session_moves_def by (metis option.distinct(1) option.inject)
  ultimately show "P s'"
    using assms(2) steps_invariant [of n k ?s s' P] assms(4) by (auto simp: every_session_def)
qed

lemma reachable_invariant:
  assumes "reachable L self st" "Params self = (n, k, f)"
    and "P DefaultADKGSession" "\<And>s s'. session_step n k s s' \<Longrightarrow> P s \<Longrightarrow> P s'"
  shows "every_session P st"
  using assms(1)
proof induction
  case start
  then show ?case by (simp add: every_session_def)
next
  case (message st ord ord' rnd sender msg st' acts err)
  show ?case
    by (rule every_session_moves [OF ProcessMessage_moves [OF message.hyps(2) assms(2)] message.IH assms(3,4)])
next
  case (decided st ord ord' i st' acts)
  show ?case
    by (rule every_session_moves [OF BFTDecided_moves [OF decided.hyps(2)] decided.IH assms(3,4)])
next
  case (expired st ord ord' i)
  then show ?case
    by (auto simp: every_session_def SessionStore_remove ADKGSessionStore_Delete_def Delete_def split: if_splits)
qed

section \<open>Invariants of a session\<close>

text \<open>
  Beside \<open>session_inv\<close>: decisions are bits; the agreements are complete only after a decision
  1; the derivation starts when \<open>n\<close> agreements are decided; public key shares are verified
  only after that; a finished session has its share, and has not been told the decision of the
  chain.
\<close>

definition session_ok :: "int \<Rightarrow> int \<Rightarrow> 'p ADKGSession \<Rightarrow> bool" where
  "session_ok n k s \<longleftrightarrow>
     session_inv k s \<and>
     (\<forall>j b. m_get (ses_Decisions s) j = Some b \<longrightarrow> b \<in> {0, 1}) \<and>
     (ses_ABAComplete s \<longrightarrow> (\<exists>j. m_get (ses_Decisions s) j = Some 1)) \<and>
     distinct (ses_ABAStarted s) \<and>
     (ses_KeyderivationStarted s \<longrightarrow> n \<le> m_len (ses_Decisions s)) \<and>
     (ses_PubKeyShares s \<noteq> [] \<longrightarrow> n \<le> m_len (ses_Decisions s) \<and> ses_ABAComplete s) \<and>
     (ses_Over s \<longrightarrow> ses_Share s \<noteq> None \<and> k \<le> m_len (ses_PubKeyShares s) \<and> \<not> ses_BFTDecided s)"

lemma session_ok_default: "session_ok n k DefaultADKGSession"
  using session_inv_default [of k] by (simp add: session_ok_def DefaultADKGSession_def)

lemma session_inv_accept:
  assumes "session_inv k s" "0 \<le> dealer" "SetBit (ses_TPrime s) dealer = Some tp" "length cs = nat k"
  shows "session_inv k (s\<lparr>ses_S := m_set (ses_S s) dealer share, ses_TPrime := tp,
                          ses_C := m_set (ses_C s) dealer cs\<rparr>)"
proof -
  have "bitset tp \<subseteq> insert dealer (bitset (ses_TPrime s))"
    using bitset_SetBit [OF assms(2,3)] by (auto split: if_splits)
  moreover have "w AND tp = w" if "w AND ses_TPrime s = w" for w
    using assms(3) that by (auto simp: SetBit_def go_bind_eq_Some intro: and_or_subset)
  ultimately show ?thesis using assms(1,4) by (auto simp: session_inv_def)
qed

lemma session_keys_step: "session_step n k s s' \<Longrightarrow> session_keys s \<Longrightarrow> session_keys s'"
  by (induction rule: session_step.induct) (simp_all add: session_keys_def)

lemma session_inv_step:
  assumes "session_step n k s s'" "session_inv k s"
  shows "session_inv k s'"
proof -
  have "session_keys s'" using session_keys_step [OF assms(1)] assms(2) by (simp add: session_inv_def)
  with assms show ?thesis
  proof (induction rule: session_step.induct)
    case (accept_dealing dealer s tp cs share)
    then show ?case by (intro session_inv_accept)
  next
    case (choose_keyset w s j)
    then show ?case by (intro session_inv_T)
  qed (simp_all add: session_inv_def)
qed

lemma session_ok_step:
  assumes "session_step n k s s'" "session_ok n k s"
  shows "session_ok n k s'"
proof -
  have "session_inv k s'" using session_inv_step [OF assms(1)] assms(2) by (simp add: session_ok_def)
  with assms show ?thesis
  proof (induction rule: session_step.induct)
    case (complete_agreements s j)
    then show ?case by (auto simp: session_ok_def)
  next
    case (decide s j b)
    let ?D = "m_set (ses_Decisions s) j b"
    have "\<forall>i c. m_get ?D i = Some c \<longrightarrow> c \<in> {0, 1}" using decide by (auto simp: session_ok_def)
    moreover have "\<exists>i. m_get ?D i = Some 1" if complete: "ses_ABAComplete s"
    proof -
      obtain i where "m_get (ses_Decisions s) i = Some 1" using complete decide.prems by (auto simp: session_ok_def)
      then have "m_get ?D i = Some 1" using decide.hyps(1) by auto
      then show ?thesis ..
    qed
    moreover have "m_len ?D = m_len (ses_Decisions s) + 1" using decide.hyps(1) by (simp add: m_len_set)
    ultimately show ?case using decide.prems
      unfolding session_ok_def by (simp del: m_get_set) (metis add.commute zle_add1_eq_le order_less_imp_le zless_add1_eq)
  qed (auto simp: session_ok_def m_len_set split: if_splits)
qed

lemma reachable_session_ok:
  assumes "reachable L self st" "Params self = (n, k, f)" "m_get (SessionStore st) i = Some (Some s)"
  shows "session_ok n k s"
  using reachable_invariant [where P = "session_ok n k", OF assms(1,2) session_ok_default session_ok_step]
    assms(3) by (simp add: every_session_def)

text \<open>What a session keeps for ever.\<close>

definition session_keeps :: "'p ADKGSession \<Rightarrow> 'p ADKGSession \<Rightarrow> bool" where
  "session_keeps s s' \<longleftrightarrow>
     (\<forall>j b. m_get (ses_Decisions s) j = Some b \<longrightarrow> m_get (ses_Decisions s') j = Some b) \<and>
     (\<forall>j \<in> bitset (ses_TPrime s). j \<in> bitset (ses_TPrime s') \<and>
        m_get (ses_S s') j = m_get (ses_S s) j \<and> m_get (ses_C s') j = m_get (ses_C s) j) \<and>
     set (ses_ABAStarted s) \<subseteq> set (ses_ABAStarted s') \<and>
     (ses_ABAComplete s \<longrightarrow> ses_ABAComplete s') \<and>
     (ses_KeyderivationStarted s \<longrightarrow> ses_KeyderivationStarted s') \<and>
     (ses_BFTDecided s \<longrightarrow> ses_BFTDecided s') \<and>
     (ses_Over s \<longrightarrow> ses_Over s' \<and> ses_Share s' = ses_Share s \<and> ses_Commitments s' = ses_Commitments s)"

lemma session_keeps_refl: "session_keeps s s"
  by (simp add: session_keeps_def)

lemma session_keeps_trans: "session_keeps s1 s2 \<Longrightarrow> session_keeps s2 s3 \<Longrightarrow> session_keeps s1 s3"
  by (auto simp: session_keeps_def)

lemma session_keeps_step: "session_step n k s s' \<Longrightarrow> session_keeps s s'"
proof (induction rule: session_step.induct)
  case (accept_dealing dealer s tp cs share)
  then show ?case using bitset_SetBit [OF accept_dealing(1,3)]
    by (auto simp: session_keeps_def split: if_splits)
qed (auto simp: session_keeps_def)

lemma session_keeps_steps: "session_steps n k s s' \<Longrightarrow> session_keeps s s'"
  by (induction rule: rtranclp_induct)
    (auto intro: session_keeps_refl session_keeps_trans session_keeps_step)

lemma session_moves_keeps:
  assumes "session_moves n k m m'" "m_get m i = Some (Some s)" "m_get m' i = Some (Some s')"
  shows "session_keeps s s'"
proof -
  have "s' = s \<or> session_steps n k s s'"
    using assms unfolding session_moves_def current_def
    by (metis (no_types, lifting) option.case(2) option.distinct(1) option.inject)
  then show ?thesis using session_keeps_refl session_keeps_steps by auto
qed

end
