(* ===== verification/Agreement.thy ===== *)
theory Agreement
  imports Sessions
begin

text \<open>
  Agreement of the nodes on the second auxiliary values. Every message a node processes is
  related to what it does to the agreements of the node (\<open>agree_rel\<close>): the set \<open>bin2\<close> only
  grows at its end, a vote is recorded for the sender of the message that carries it, and every
  \<open>aux2\<close> message that is sent carries the first value of \<open>bin2\<close>. A network of nodes, some of
  which are honest, is then a transition system, and quorum intersection gives that no two
  honest nodes see a quorum for different values.
\<close>

section \<open>Messages a step sends\<close>

fun action_message :: "'p action \<Rightarrow> DKGMessage option" where
  "action_message (Send d m) = Some m"
| "action_message (Broadcast m) = Some m"
| "action_message (ReceiveMessage d m) = Some m"
| "action_message _ = None"

definition sent_messages :: "'p action list \<Rightarrow> DKGMessage set" where
  "sent_messages acts = {m. \<exists>a \<in> set acts. action_message a = Some m}"

lemma sent_messages_simps [simp]:
  "sent_messages [] = {}"
  "sent_messages (a # acts) = (case action_message a of None \<Rightarrow> {} | Some m \<Rightarrow> {m}) \<union> sent_messages acts"
  "sent_messages (acts @ acts') = sent_messages acts \<union> sent_messages acts'"
  by (auto simp: sent_messages_def split: option.splits)

text \<open>The actions without an \<open>aux2\<close> message.\<close>

definition quiet :: "'p action list \<Rightarrow> bool" where
  "quiet acts \<longleftrightarrow> (\<forall>m \<in> sent_messages acts. dm_Method m \<noteq> ''aba_aux2'')"

lemma quiet_simps [simp]:
  "quiet []"
  "quiet (a # acts) \<longleftrightarrow> (\<forall>m. action_message a = Some m \<longrightarrow> dm_Method m \<noteq> ''aba_aux2'') \<and> quiet acts"
  "quiet (acts @ acts') \<longleftrightarrow> quiet acts \<and> quiet acts'"
  by (auto simp: quiet_def split: option.splits)

lemma quiet_concat: "(\<And>acts. acts \<in> set actss \<Longrightarrow> quiet acts) \<Longrightarrow> quiet (concat actss)"
  by (induction actss) auto

lemma new_message_quiet:
  "acss_NewShareMessage L i c = Inr m \<Longrightarrow> dm_Method m \<noteq> ''aba_aux2''"
  "NewAcssProposeMessage L i d c = Inr m \<Longrightarrow> dm_Method m \<noteq> ''aba_aux2''"
  "NewAcssEchoMessage L i sh h c = Inr m \<Longrightarrow> dm_Method m \<noteq> ''aba_aux2''"
  "acss_NewReadyMessage L i sh h c = Inr m \<Longrightarrow> dm_Method m \<noteq> ''aba_aux2''"
  "acss_NewOutputMessage L i d c = Inr m \<Longrightarrow> dm_Method m \<noteq> ''aba_aux2''"
  "keyset_NewInitMessage L i d c = Inr m \<Longrightarrow> dm_Method m \<noteq> ''aba_aux2''"
  "keyset_NewProposeMessage L i d c = Inr m \<Longrightarrow> dm_Method m \<noteq> ''aba_aux2''"
  "keyset_NewEchoMessage L i sh h c = Inr m \<Longrightarrow> dm_Method m \<noteq> ''aba_aux2''"
  "keyset_NewReadyMessage L i sh h c = Inr m \<Longrightarrow> dm_Method m \<noteq> ''aba_aux2''"
  "keyset_NewOutputMessage L i d c = Inr m \<Longrightarrow> dm_Method m \<noteq> ''aba_aux2''"
  "aba_NewInitMessage L i v r c = Inr m \<Longrightarrow> dm_Method m \<noteq> ''aba_aux2''"
  "NewEst1Message L i v r c = Inr m \<Longrightarrow> dm_Method m \<noteq> ''aba_aux2''"
  "NewAux1Message L i v r c = Inr m \<Longrightarrow> dm_Method m \<noteq> ''aba_aux2''"
  "NewAuxsetMessage L i v r c = Inr m \<Longrightarrow> dm_Method m \<noteq> ''aba_aux2''"
  "NewEst2Message L i v r c = Inr m \<Longrightarrow> dm_Method m \<noteq> ''aba_aux2''"
  "NewCoinInitMessage L i coin c = Inr m \<Longrightarrow> dm_Method m \<noteq> ''aba_aux2''"
  "NewCoinMessage L i d c = Inr m \<Longrightarrow> dm_Method m \<noteq> ''aba_aux2''"
  "keyderivation_NewInitMessage L i c = Inr m \<Longrightarrow> dm_Method m \<noteq> ''aba_aux2''"
  "keyderivation_NewShareMessage L i c pk rr ss = Inr m \<Longrightarrow> dm_Method m \<noteq> ''aba_aux2''"
  by (auto simp: message_defs dest: marshal_message_Inr)

section \<open>Steps that leave the agreements alone\<close>

definition aba_idle :: "'p NodeState \<Rightarrow> 'p NodeState \<Rightarrow> 'p action list \<Rightarrow> bool" where
  "aba_idle st st' acts \<longleftrightarrow> ABAStore st' = ABAStore st \<and> quiet acts"

lemma on_keygen_idle:
  assumes "on_keygen st r body = Some (st', acts)" "\<And>s s' acts. body s = Some (s', acts) \<Longrightarrow> quiet acts"
  shows "aba_idle st st' acts"
  using assms(1) by (rule on_keygen_cases) (use assms(2) in \<open>auto simp: aba_idle_def\<close>)

lemma on_session_idle:
  assumes "on_session st r body = Some (st', acts)" "\<And>s s' acts. body s = Some (s', acts) \<Longrightarrow> quiet acts"
  shows "aba_idle st st' acts"
  using assms(1) by (rule on_session_cases) (use assms(2) in \<open>auto simp: aba_idle_def\<close>)

lemma rbc_amplify_quiet:
  assumes "\<forall>s h m. newReady s h = Inr m \<longrightarrow> dm_Method m \<noteq> ''aba_aux2''"
    and "rbc_amplify L newReady f kg = (kg', acts, ok)"
  shows "quiet acts"
  using assms by (auto simp: rbc_amplify_def split: if_splits option.splits sum.splits)

lemma rbc_echo_quiet:
  assumes "\<forall>s h m. newReady s h = Inr m \<longrightarrow> dm_Method m \<noteq> ''aba_aux2''"
    and "rbc_echo L newReady f j share hash kg = (kg', acts)"
  shows "quiet acts"
  using assms rbc_amplify_quiet [OF assms(1)]
  by (auto simp: rbc_echo_def Let_def split: if_splits sum.splits prod.splits)

lemma rbc_decode_loop_quiet:
  assumes "\<forall>M m. newOutput M = Inr m \<longrightarrow> dm_Method m \<noteq> ''aba_aux2''"
  shows "quiet (snd (rbc_decode_loop L newOutput d n f hash is kg))"
  by (induction "is") (use assms in \<open>auto simp: Let_def split: sum.splits\<close>)

lemma rbc_ready_quiet:
  assumes "\<forall>s h m. newReady s h = Inr m \<longrightarrow> dm_Method m \<noteq> ''aba_aux2''"
    and "\<forall>M m. newOutput M = Inr m \<longrightarrow> dm_Method m \<noteq> ''aba_aux2''"
    and "rbc_ready L newReady newOutput d n f j share hash kg = (kg', acts)"
  shows "quiet acts"
proof -
  have "quiet a" if "rbc_decode_loop L newOutput d n f hash is k1 = (k2, a)" for "is" k1 k2 a
  proof -
    have "quiet (snd (rbc_decode_loop L newOutput d n f hash is k1))"
      by (rule rbc_decode_loop_quiet) (rule assms(2))
    then show ?thesis unfolding that by simp
  qed
  then show ?thesis
    using assms(3) rbc_amplify_quiet [OF assms(1)]
    by (auto simp: rbc_ready_def Let_def split: if_splits prod.splits)
qed

lemma go_map_mem:
  assumes "go_map f xs = Some ys" "y \<in> set ys"
  shows "\<exists>x \<in> set xs. f x = Some y"
  using assms by (induction xs arbitrary: ys) (auto simp: go_bind_eq_Some)

lemma acss_deal_quiet: "acss_deal L self rnd r c = Some acts \<Longrightarrow> quiet acts"
  by (auto simp: acss_deal_def Let_def split: prod.splits Option.bind_splits sum.splits
    dest: new_message_quiet)

lemma acss_send_echoes_quiet:
  assumes "acss_send_echoes L self r c shares h = Some acts"
  shows "quiet acts"
proof -
  have "\<exists>node m share. a = Send node m \<and> NewAcssEchoMessage L r share h c = Inr m" if "a \<in> set acts" for a
    using go_map_mem [OF assms [unfolded acss_send_echoes_def] that]
    by (auto simp: go_bind_eq_Some) (auto split: sum.split_asm)
  then show ?thesis unfolding quiet_def sent_messages_def by (fastforce dest: new_message_quiet)
qed

lemma keyset_send_echoes_quiet:
  assumes "keyset_send_echoes L self r c shares h = Some acts"
  shows "quiet acts"
proof -
  obtain actss where actss: "go_map (\<lambda>node. do {
       share \<leftarrow> go_index shares (kn_Index node - 1);
       case keyset_NewEchoMessage L r share h c of
         Inl e \<Rightarrow> Some []
       | Inr echoMsg \<Rightarrow> Some [Send node echoMsg] }) (Nodes L self) = Some actss" "acts = concat actss"
    using assms by (auto simp: keyset_send_echoes_def go_bind_eq_Some)
  show ?thesis unfolding actss(2)
    by (rule quiet_concat, drule go_map_mem [OF actss(1)])
      (clarsimp simp: go_bind_eq_Some, auto split: sum.split_asm dest: new_message_quiet)
qed

lemma OnKeysetVerified_quiet:
  "OnKeysetVerified L self r c keyset leader s = Some (s', acts) \<Longrightarrow> quiet acts"
  by (auto simp: OnKeysetVerified_def Let_def split: prod.splits Option.bind_splits if_splits sum.splits
    dest: keyset_send_echoes_quiet)

lemma emit_proposal_quiet:
  "emit_proposal L self i c key sa = Some sa' \<Longrightarrow> quiet (snd sa) \<Longrightarrow> quiet (snd sa')"
  by (auto simp: emit_proposal_def Let_def split: prod.splits option.splits Option.bind_splits if_splits
    dest: OnKeysetVerified_quiet)

lemma acss_accept_quiet:
  assumes "acss_accept L self i c dealer share cs s = Some sa"
  shows "quiet (snd sa)"
proof -
  obtain tp where tp: "SetBit (ses_TPrime s) dealer = Some tp"
    using assms by (auto simp: acss_accept_def go_bind_eq_Some)
  let ?s = "s\<lparr>ses_S := m_set (ses_S s) dealer share, ses_TPrime := tp, ses_C := m_set (ses_C s) dealer cs\<rparr>"
  have "go_fold (emit_proposal L self i c) (range_int L (m_keys (ses_TProposals s))) (?s, []) = Some sa"
    using assms by (simp add: acss_accept_def tp Let_def)
  then show ?thesis
    by (rule go_fold_invariant [where P = "\<lambda>sa. quiet (snd sa)"]) (auto dest: emit_proposal_quiet)
qed

lemma acss_propose_keyset_quiet:
  "quiet (snd sa) \<Longrightarrow> quiet (snd (acss_propose_keyset L self r c sa))"
  by (auto simp: acss_propose_keyset_def Let_def split: prod.splits sum.splits dest: new_message_quiet)

lemma acss_output_body_quiet:
  assumes "acss_output_body L self r i c M s = Some (s', acts)"
  shows "quiet acts"
proof -
  obtain n k f where "Params self = (n, k, f)" by (cases "Params self")
  from assms this show ?thesis
  proof (cases rule: acss_output_body_cases)
    case (2 dealer verified sa cipher commits)
    have "quiet (snd sa)" using 2(3) by (cases verified) (auto dest: acss_accept_quiet)
    then have "quiet (snd (s', acts))" unfolding 2(4) [symmetric] by (rule acss_propose_keyset_quiet)
    then show ?thesis by simp
  qed simp
qed

lemma aba_idle_refl [simp]: "aba_idle st st []"
  by (simp add: aba_idle_def)

lemma acss_idle:
  assumes "processACSSMessages L self rnd sender msg st = Some (st', acts)"
  shows "aba_idle st st' acts"
proof -
  have "aba_idle st st' acts"
    if "acss_ShareMessage_Process L self rnd sender r c st = Some (st', acts)" for r c
    using that unfolding acss_ShareMessage_Process_def
    by (auto split: if_splits elim!: on_keygen_idle)
      (auto split: if_splits Option.bind_splits dest: acss_deal_quiet)
  moreover have "aba_idle st st' acts"
    if "acss_ProposeMessage_Process L self sender r c d st = Some (st', acts)" for r c d
    using that unfolding acss_ProposeMessage_Process_def
    by (auto simp: Let_def aba_idle_def split: if_splits sum.splits Option.bind_splits option.splits prod.splits
      dest: acss_send_echoes_quiet)
  moreover have "aba_idle st st' acts"
    if "acss_EchoMessage_Process L self sender r c s h st = Some (st', acts)" for r c s h
    using that unfolding acss_EchoMessage_Process_def
    by (rule on_keygen_idle) (auto split: prod.splits dest: rbc_echo_quiet [rotated] new_message_quiet)
  moreover have "aba_idle st st' acts"
    if "acss_ReadyMessage_Process L self sender r c s h st = Some (st', acts)" for r c s h
    using that unfolding acss_ReadyMessage_Process_def
    by (rule on_keygen_idle) (auto split: prod.splits dest: rbc_ready_quiet [rotated 2] new_message_quiet)
  moreover have "aba_idle st st' acts"
    if "acss_OutputMessage_Process L self sender r c m st = Some (st', acts)" for r c m
    using that unfolding acss_OutputMessage_Process_def
    by (auto split: if_splits sum.splits dest: on_session_idle [OF _ acss_output_body_quiet])
  ultimately show ?thesis using processACSSMessages_cases [OF assms]
    by (elim disjE exE) (assumption | simp)+
qed

lemma keyset_idle:
  assumes "processKeysetMessages L self rnd sender msg st = Some (st', acts)"
  shows "aba_idle st st' acts"
proof -
  have "aba_idle st st' acts"
    if "keyset_InitMessage_Process L self sender r d c st = Some (st', acts)" for r d c
    using that unfolding keyset_InitMessage_Process_def
    by (auto simp: aba_idle_def split: if_splits sum.splits dest: new_message_quiet)
  moreover have "aba_idle st st' acts"
    if "keyset_ProposeMessage_Process L self sender r c d st = Some (st', acts)" for r c d
    using that unfolding keyset_ProposeMessage_Process_def
    by (auto split: if_splits sum.splits elim!: on_session_idle)
      (auto split: if_splits Option.bind_splits dest: OnKeysetVerified_quiet)
  moreover have "aba_idle st st' acts"
    if "keyset_EchoMessage_Process L self sender r c s h st = Some (st', acts)" for r c s h
    using that unfolding keyset_EchoMessage_Process_def
    by (rule on_keygen_idle) (auto split: prod.splits dest: rbc_echo_quiet [rotated] new_message_quiet)
  moreover have "aba_idle st st' acts"
    if "keyset_ReadyMessage_Process L self sender r c s h st = Some (st', acts)" for r c s h
    using that unfolding keyset_ReadyMessage_Process_def
    by (rule on_keygen_idle) (auto split: prod.splits dest: rbc_ready_quiet [rotated 2] new_message_quiet)
  moreover have "aba_idle st st' acts"
    if "keyset_OutputMessage_Process L self sender r c m st = Some (st', acts)" for r c m
    using that unfolding keyset_OutputMessage_Process_def
    by (auto split: if_splits sum.splits elim!: on_session_idle)
      (auto simp: Let_def split: if_splits Option.bind_splits sum.splits dest: new_message_quiet)
  ultimately show ?thesis using processKeysetMessages_cases [OF assms]
    by (elim disjE exE) (assumption | simp)+
qed

section \<open>What a message does to the agreements\<close>

abbreviation bin2 :: "'p ABAState \<Rightarrow> int \<Rightarrow> int list" where
  "bin2 s r \<equiv> m_zero [] (aba_BinValues2 s) r"

abbreviation aux2_votes :: "'p ABAState \<Rightarrow> int \<Rightarrow> int \<Rightarrow> int list" where
  "aux2_votes s r v \<equiv> nested [] (aba_AuxValues2 s) r v"

text \<open>\<open>p\<close> is the value and round of an \<open>aux2\<close> message, \<open>None\<close> for another message.\<close>

definition agree_step :: "int \<Rightarrow> (int \<times> int) option \<Rightarrow> 'p ABAState \<Rightarrow> 'p ABAState \<Rightarrow> bool" where
  "agree_step j p s s' \<longleftrightarrow>
     (\<forall>r. \<exists>zs. bin2 s' r = bin2 s r @ zs) \<and>
     (\<forall>r v. aux2_votes s' r v = aux2_votes s r v \<or>
        p = Some (v, r) \<and> j \<notin> set (aux2_votes s r v) \<and> aux2_votes s' r v = aux2_votes s r v @ [j])"

lemma agree_step_same:
  "aba_BinValues2 s' = aba_BinValues2 s \<Longrightarrow> aba_AuxValues2 s' = aba_AuxValues2 s \<Longrightarrow> agree_step j p s s'"
  by (simp add: agree_step_def)

lemmas aba_ops = Sent_def SetSent_def GetBin_def SetBin_def Values_def SetValues_def SetStarted_def
  SetCoinShare_def

lemma aba_init_body_agree:
  assumes "aba_init_body L r c v rd s = Some (s', acts)"
  shows "agree_step j p s s'" "quiet acts"
  using assms
  by (auto simp: aba_init_body_def aba_ops Let_def intro!: agree_step_same split: if_splits sum.splits
    dest: new_message_quiet)

lemma aba_est1_body_agree:
  assumes "aba_est1_body L f r c j v rd s = Some (s', acts)"
  shows "agree_step j p s s'" "quiet acts"
  using assms
  by (auto simp: aba_est1_body_def est1_bin_def aba_ops Let_def intro!: agree_step_same
    split: if_splits sum.splits Option.bind_splits dest: new_message_quiet)

lemma aba_aux1_body_agree:
  assumes "aba_aux1_body L n f r c j v rd s = Some (s', acts)"
  shows "agree_step j p s s'" "quiet acts"
  using assms
  by (auto simp: aba_aux1_body_def aba_ops Let_def intro!: agree_step_same
    split: if_splits sum.splits Option.bind_splits dest: new_message_quiet)

lemma aba_auxset_body_agree:
  assumes "aba_auxset_body L n f r c j v rd s = Some (s', acts)"
  shows "agree_step j p s s'" "quiet acts"
  using assms
  by (auto simp: aba_auxset_body_def aba_ops Let_def intro!: agree_step_same
    split: if_splits sum.splits Option.bind_splits dest: new_message_quiet)

text \<open>The second estimate: what is announced is the first value of \<open>bin2\<close>.\<close>

lemma est2_bin_agree:
  assumes "est2_bin L f rid c v rd len s acts0 = Some (s', acts)" "quiet acts0"
  shows "\<exists>zs. bin2 s' r = bin2 s r @ zs" "aba_AuxValues2 s' = aba_AuxValues2 s"
    and "m \<in> sent_messages acts \<Longrightarrow> dm_Method m = ''aba_aux2'' \<Longrightarrow>
      \<exists>w zs. NewAux2Message L rid w rd c = Inr m \<and> bin2 s' rd = w # zs"
proof -
  have "m_zero [] (m_set (aba_BinValues2 s) rd x) r = (if r = rd then x else bin2 s r)" for x by simp
  then show "\<exists>zs. bin2 s' r = bin2 s r @ zs" "aba_AuxValues2 s' = aba_AuxValues2 s"
    using assms
    by (auto simp: est2_bin_def aba_ops Let_def split: if_splits sum.splits Option.bind_splits)
  assume m: "m \<in> sent_messages acts" "dm_Method m = ''aba_aux2''"
  then have "len = 2 * f + 1" using assms by (auto simp: est2_bin_def quiet_def split: if_splits)
  let ?b = "bin2 s rd @ [v]"
  obtain w zs where b: "?b = w # zs" by (cases ?b) auto
  then have "go_index ?b 0 = Some w" by (simp add: go_index_def)
  then show "\<exists>w zs. NewAux2Message L rid w rd c = Inr m \<and> bin2 s' rd = w # zs"
    using assms m b \<open>len = 2 * f + 1\<close>
    by (auto simp: est2_bin_def aba_ops Let_def quiet_def split: sum.splits)
qed

lemma aba_est2_body_cases:
  assumes "aba_est2_body L f rid c j v rd s = Some (s', acts)"
  obtains "aba_BinValues2 s' = aba_BinValues2 s" "aba_AuxValues2 s' = aba_AuxValues2 s" "acts = []"
  | s1 len acts0 where "aba_BinValues2 s1 = aba_BinValues2 s" "aba_AuxValues2 s1 = aba_AuxValues2 s"
      "quiet acts0" "est2_bin L f rid c v rd len s1 acts0 = Some (s', acts)"
proof (cases "Contains (nested [] (aba_EstValues2 s) rd v) j")
  case True
  then show thesis using assms that(1) by (simp add: aba_est2_body_def aba_ops)
next
  case False
  let ?s1 = "s\<lparr>aba_EstValues2 := add_vote (aba_EstValues2 s) rd v j\<rparr>"
  let ?len = "int (length (nested [] (aba_EstValues2 ?s1) rd v))"
  let ?s2 = "?s1\<lparr>aba_EstSent2 := nested_set (aba_EstSent2 ?s1) rd v True\<rparr>"
  show thesis
  proof (cases "f + 1 \<le> ?len \<and> \<not> nested False (aba_EstSent2 s) rd v")
    case True
    show thesis
    proof (cases "NewEst2Message L rid v rd c")
      case (Inl e)
      then show thesis using assms False True that(1) by (auto simp: aba_est2_body_def aba_ops Let_def)
    next
      case (Inr m)
      show thesis
        by (rule that(2) [of ?s2 "[Broadcast m]" ?len])
          (use assms False True Inr in \<open>simp_all add: aba_est2_body_def aba_ops Let_def new_message_quiet\<close>)
    qed
  next
    case no: False
    show thesis
      by (rule that(2) [of ?s1 "[]" ?len])
        (use assms False no in \<open>auto simp add: aba_est2_body_def aba_ops Let_def\<close>)
  qed
qed

lemma aba_est2_body_agree:
  assumes "aba_est2_body L f rid c j v rd s = Some (s', acts)"
  shows "agree_step i p s s'"
    and "m \<in> sent_messages acts \<Longrightarrow> dm_Method m = ''aba_aux2'' \<Longrightarrow>
      \<exists>w zs. NewAux2Message L rid w rd c = Inr m \<and> bin2 s' rd = w # zs"
  using assms
  by (rule aba_est2_body_cases; use est2_bin_agree in \<open>fastforce simp: agree_step_def\<close>)+

definition agree_entry ::
  "('s, 'p) lib \<Rightarrow> int \<Rightarrow> DKGMessage \<Rightarrow> RoundID \<Rightarrow> 'p ABAState \<Rightarrow> 'p ABAState \<Rightarrow> bool" where
  "agree_entry L j msg rid s s' \<longleftrightarrow>
     (\<exists>p. agree_step j p s s' \<and>
        (\<forall>v r. p = Some (v, r) \<longrightarrow> dm_Method msg = ''aba_aux2'' \<and>
           (\<exists>k c. bijson_Unmarshal L ''aba_aux2'' (dm_Data msg) = Some (AbaAux2 rid k c v r))))"

definition announced :: "('s, 'p) lib \<Rightarrow> (RoundID, 'p ABAState) syncmap \<Rightarrow> DKGMessage \<Rightarrow> bool" where
  "announced L m' m \<longleftrightarrow>
     (\<exists>rid c w r s' zs. bijson_Unmarshal L ''aba_aux2'' (dm_Data m) = Some (AbaAux2 rid ''aba_aux2'' c w r) \<and>
        m_get m' rid = Some (Some s') \<and> bin2 s' r = w # zs)"

definition agree_rel ::
  "('s, 'p) lib \<Rightarrow> int \<Rightarrow> DKGMessage \<Rightarrow> 'p NodeState \<Rightarrow> 'p NodeState \<Rightarrow> 'p action list \<Rightarrow> bool" where
  "agree_rel L j msg st st' acts \<longleftrightarrow>
     (\<forall>rid. m_get (ABAStore st') rid = m_get (ABAStore st) rid \<or> m_get (ABAStore st') rid = Some None \<or>
        m_get (ABAStore st) rid \<noteq> Some None \<and>
        (\<exists>s'. m_get (ABAStore st') rid = Some (Some s') \<and>
           agree_entry L j msg rid (current (ABAStore st) rid DefaultABAStore) s')) \<and>
     (\<forall>m \<in> sent_messages acts. dm_Method m = ''aba_aux2'' \<longrightarrow> announced L (ABAStore st') m)"

lemma agree_rel_idle: "aba_idle st st' acts \<Longrightarrow> agree_rel L j msg st st' acts"
  by (simp add: aba_idle_def agree_rel_def quiet_def)

lemma agree_rel_quiet:
  assumes "m_get (ABAStore st) rid \<noteq> Some None"
    and "\<And>i. m_get (ABAStore st') i = (if i = rid then Some (Some s') else m_get (ABAStore st) i)"
    and "agree_entry L j msg rid (current (ABAStore st) rid DefaultABAStore) s'" "quiet acts"
  shows "agree_rel L j msg st st' acts"
  using assms by (auto simp: agree_rel_def quiet_def)

lemma on_aba_agree:
  assumes "on_aba st rid body = Some (st', acts)"
    and "\<And>s s' acts. body s = Some (s', acts) \<Longrightarrow> agree_step j None s s' \<and> quiet acts"
  shows "agree_rel L j msg st st' acts"
  using assms(1)
proof (cases rule: on_aba_cases)
  case 1
  then show ?thesis by (simp add: agree_rel_def)
next
  case (2 s')
  have "agree_entry L j msg rid (current (ABAStore st) rid DefaultABAStore) s'" "quiet acts"
    using assms(2) [OF 2(1)] by (auto simp: agree_entry_def)
  then show ?thesis by (rule agree_rel_quiet [OF 2(2) 2(5)])
qed

lemma NewAux2Message_decodes:
  assumes "codec_laws L" "NewAux2Message L rid w r c = Inr m"
  shows "bijson_Unmarshal L ''aba_aux2'' (dm_Data m) = Some (AbaAux2 rid ''aba_aux2'' c w r)"
  using assms codec_unmarshal [OF assms(1), of "AbaAux2 rid ''aba_aux2'' c w r"]
  by (auto simp: message_defs dest: marshal_message_Inr)

lemma Est2_agree:
  assumes "codec_laws L" "Est2Message_Process L self sender rid c v rd st = Some (st', acts)"
  shows "agree_rel L j msg st st' acts"
proof -
  obtain n k f where par: "Params self = (n, k, f)" by (cases "Params self")
  have "on_aba st rid (\<lambda>s. aba_est2_body L f rid c (kn_Index sender) v rd s) = Some (st', acts)"
    using assms(2) by (simp add: Est2Message_Process_def par)
  then show ?thesis
  proof (cases rule: on_aba_cases)
    case 1
    then show ?thesis by (simp add: agree_rel_def)
  next
    case (2 s')
    have "agree_entry L j msg rid (current (ABAStore st) rid DefaultABAStore) s'"
      using aba_est2_body_agree(1) [OF 2(1), of j None] by (auto simp: agree_entry_def)
    moreover have "announced L (ABAStore st') m"
      if "m \<in> sent_messages acts" "dm_Method m = ''aba_aux2''" for m
      using aba_est2_body_agree(2) [OF 2(1) that] NewAux2Message_decodes [OF assms(1)] 2(5) [of rid]
      unfolding announced_def by fastforce
    ultimately show ?thesis using 2(2,5) by (auto simp: agree_rel_def)
  qed
qed

text \<open>The decisions send no \<open>aux2\<close> message and leave the agreements alone.\<close>

lemma start_remaining_quiet: "quiet (fst (start_remaining L self i c started js))"
  by (induction js) (auto simp: Let_def split: sum.splits prod.splits dest: new_message_quiet)

lemma start_remaining_coin_quiet: "quiet (start_remaining_coin L self i c started js)"
  unfolding start_remaining_coin_def
  by (auto intro!: quiet_concat split: if_splits sum.splits) (drule new_message_quiet, simp)

lemma aux2_decide_quiet: "quiet (snd (aux2_decide L self r c dealer w s))"
proof -
  have d: "quiet acts \<Longrightarrow> quiet (snd (aux2_start_derivation L self r c s acts))" for s acts
    by (auto simp: aux2_start_derivation_def split: prod.splits sum.splits dest: new_message_quiet)
  have "quiet acts" if "start_remaining L self i c started js = (acts, ok)" for i started js acts ok
    using start_remaining_quiet [of L self i c started js] that by simp
  then show ?thesis
    by (auto simp: aux2_decide_def Let_def intro: d split: prod.splits sum.splits)
qed

lemma coin_decide_quiet: "quiet (snd (coin_decide L self r c leader b s))"
proof -
  have "quiet acts \<Longrightarrow> quiet (snd (coin_start_derivation L self r c s acts))" for s acts
    by (auto simp: coin_start_derivation_def Let_def split: prod.splits sum.splits dest: new_message_quiet)
  then show ?thesis
    by (auto simp: coin_decide_def Let_def start_remaining_coin_quiet split: prod.splits sum.splits)
qed

lemma coin_flip_quiet: "coin_flip L self r c leader shares s = Some (s', acts) \<Longrightarrow> quiet acts"
proof -
  have "quiet a" if "coin_decide L self r c leader b s = (s1, a)" for b s1 a
    using coin_decide_quiet [of L self r c leader b s] that by simp
  then show "coin_flip L self r c leader shares s = Some (s', acts) \<Longrightarrow> quiet acts"
    by (auto simp: coin_flip_def Let_def split: prod.splits Option.bind_splits if_splits sum.splits)
qed

lemma aux2_act_idle:
  assumes "aux2_act L self rid c rd cur values2 st = Some (st', acts)"
  shows "aba_idle st st' acts"
proof -
  have "aba_idle st st' acts"
    if "on_session st i (\<lambda>session. Some (aux2_decide L self rid c d w session)) = Some (st', acts)" for i d w
    using that
  proof (rule on_session_idle)
    show "quiet acts" if "Some (aux2_decide L self rid c d w s) = Some (s', acts)" for s s' acts
      using aux2_decide_quiet [of L self rid c d w s] that by simp
  qed
  then show ?thesis using assms
    by (auto simp: aux2_act_def aba_idle_def split: list.splits if_splits sum.splits dest: new_message_quiet)
qed

lemma Aux2_agree:
  assumes "Aux2Message_Process L self sender rid c v rd st = Some (st', acts)"
    and "dm_Method msg = ''aba_aux2''"
      "bijson_Unmarshal L ''aba_aux2'' (dm_Data msg) = Some (AbaAux2 rid k c v rd)"
  shows "agree_rel L (kn_Index sender) msg st st' acts"
proof -
  obtain n k f where par: "Params self = (n, k, f)" by (cases "Params self")
  obtain aba fin m where m: "ABAStoreMap_GetOrSetIfNotComplete (ABAStore st) rid DefaultABAStore = ((aba, fin), m)"
    by (metis prod.exhaust)
  note look = agreements.obtain_result [OF m, folded current_def]
  let ?s = "current (ABAStore st) rid DefaultABAStore" and ?j = "kn_Index sender"
  show ?thesis
  proof (cases fin)
    case True
    then show ?thesis using assms(1) m look(1) by (auto simp: Aux2Message_Process_def agree_rel_def)
  next
    case False
    note open_entry = look(2) [OF False]
    show ?thesis
    proof (cases "Contains (aux2_votes ?s rd v) ?j")
      case True
      then have "acts = []" "ABAStore st' = m"
        using assms(1) m open_entry False
        by (auto simp: Aux2Message_Process_def par aux2_record_def aba_ops)
      moreover have "agree_entry L ?j msg rid ?s ?s"
        by (auto simp: agree_entry_def intro!: exI [of _ None] agree_step_same)
      ultimately show ?thesis using open_entry by (intro agree_rel_quiet) auto
    next
      case new: False
      let ?s1 = "?s\<lparr>aba_AuxValues2 := add_vote (aba_AuxValues2 ?s) rd v ?j\<rparr>"
      obtain values2 where "aux2_act L self rid c rd (GetRound ?s1) values2 (st\<lparr>ABAStore := put m rid ?s1\<rparr>) = Some (st', acts)"
        using assms(1) m open_entry False new
        by (auto simp: Aux2Message_Process_def par aux2_record_def aba_ops)
      then have "ABAStore st' = put m rid ?s1" "quiet acts"
        using aux2_act_idle by (fastforce simp: aba_idle_def)+
      moreover have "agree_entry L ?j msg rid ?s ?s1"
        using new assms(2,3) by (auto simp: agree_entry_def agree_step_def intro!: exI [of _ "Some (v, rd)"])
      ultimately show ?thesis using open_entry by (intro agree_rel_quiet) (auto simp: put_def)
    qed
  qed
qed

lemma Coin_agree:
  assumes "CoinMessage_Process L self sender rid c d st = Some (st', acts)"
  shows "agree_rel L j msg st st' acts"
proof -
  obtain aba fin m where m: "ABAStoreMap_GetOrSetIfNotComplete (ABAStore st) rid DefaultABAStore = ((aba, fin), m)"
    by (metis prod.exhaust)
  note look = agreements.obtain_result [OF m, folded current_def]
  let ?s = "current (ABAStore st) rid DefaultABAStore"
  have rel: "agree_rel L j msg st st1 acts"
    if "\<not> fin" "quiet acts" "ABAStore st1 = m \<or> ABAStore st1 = put m rid (SetCoinShare ?s i x)" for st1 i x
  proof -
    have "\<exists>s'. (\<forall>i. m_get (ABAStore st1) i = (if i = rid then Some (Some s') else m_get (ABAStore st) i)) \<and>
        agree_entry L j msg rid ?s s'"
      using that(3)
    proof
      assume "ABAStore st1 = m"
      then show ?thesis using look(2) [OF that(1)]
        by (auto simp: agree_entry_def intro!: exI [of _ ?s] exI [of _ None] agree_step_same)
    next
      assume "ABAStore st1 = put m rid (SetCoinShare ?s i x)"
      then show ?thesis using look(2) [OF that(1)]
        by (intro exI [of _ "SetCoinShare ?s i x"])
          (auto simp: put_def agree_entry_def SetCoinShare_def intro!: exI [of _ None] agree_step_same)
    qed
    then show ?thesis using look(2) [OF that(1)] that(2) by (auto intro: agree_rel_quiet)
  qed
  have "quiet acts \<and> (ABAStore st' = ABAStore st \<or> \<not> fin \<and>
      (ABAStore st' = m \<or> (\<exists>i x. ABAStore st' = put m rid (SetCoinShare ?s i x))))"
    using assms m look
    by (auto simp: CoinMessage_Process_def Let_def dest: coin_flip_quiet
      split: prod.splits if_splits Option.bind_splits sum.splits) blast
  then show ?thesis using rel agree_rel_idle [of st st' acts L j msg] by (auto simp: aba_idle_def)
qed

lemma ABAStore_cleanup:
  fixes st :: "'p NodeState"
  shows "m_get (ABAStore (cleanup L node i st)) rid = m_get (ABAStore st) rid \<or>
    m_get (ABAStore (cleanup L node i st)) rid = Some None"
proof -
  have "m_get (ABAStore (foldl (\<lambda>st n.
       st\<lparr>KeygenStore :=
            SharingStoreMap_Complete (SharingStoreMap_Complete (KeygenStore st) (acss_round i n))
              (keyset_round i n),
          ABAStore := ABAStoreMap_Complete (ABAStore st) (keyset_round i n)\<rparr>) st ns)) rid \<in>
      {m_get (ABAStore st) rid, Some None}" for ns and st :: "'p NodeState"
  proof (induction ns arbitrary: st)
    case (Cons n ns)
    show ?case using Cons.IH [of "st\<lparr>KeygenStore :=
            SharingStoreMap_Complete (SharingStoreMap_Complete (KeygenStore st) (acss_round i n))
              (keyset_round i n),
          ABAStore := ABAStoreMap_Complete (ABAStore st) (keyset_round i n)\<rparr>"]
      by (auto simp: ABAStoreMap_Complete_def Store_def split: if_splits)
  qed simp
  then show ?thesis by (simp add: cleanup_def cleanupSessionStore_def cleanupKeygenStore_def)
qed

lemma finish_key_quiet: "finish_key L r i c T hZ s = Some (s', acts, fin) \<Longrightarrow> quiet acts"
  by (auto simp: finish_key_def Let_def split: sum.splits Option.bind_splits if_splits)

lemma keyderivation_share_body_quiet:
  "keyderivation_share_body L self j r i c share s = Some (s', acts, fin) \<Longrightarrow> quiet acts"
  by (auto simp: keyderivation_share_body_def Let_def dest: finish_key_quiet
    split: prod.splits if_splits Option.bind_splits option.splits sum.splits)

lemma derivation_agree:
  assumes "processKeyDerivationMessages L self rnd sender msg0 st = Some (st', acts)"
  shows "agree_rel L j msg st st' acts"
proof -
  have "aba_idle st st' acts"
    if "keyderivation_InitMessage_Process L self rnd sender r c st = Some (st', acts)" for r c
    using that unfolding keyderivation_InitMessage_Process_def
    by (auto split: if_splits sum.splits elim!: on_session_idle)
      (auto simp: keyderivation_init_body_def Let_def dest: new_message_quiet
        split: prod.splits if_splits Option.bind_splits sum.splits)
  moreover have "agree_rel L j msg st st' acts"
    if "keyderivation_ShareMessage_Process L self sender r c sh rr ss st = Some (st', acts)" for r c sh rr ss
  proof -
    have st': "quiet acts \<and> (ABAStore st' = ABAStore st \<or> (\<exists>st1 i. st' = cleanup L self i st1 \<and> ABAStore st1 = ABAStore st))"
      using that
      by (auto simp: keyderivation_ShareMessage_Process_def Let_def dest: keyderivation_share_body_quiet
        split: prod.splits if_splits Option.bind_splits sum.splits)
    have "m_get (ABAStore st') rid = m_get (ABAStore st) rid \<or> m_get (ABAStore st') rid = Some None" for rid
    proof (cases "ABAStore st' = ABAStore st")
      case False
      then obtain st1 i where "st' = cleanup L self i st1" "ABAStore st1 = ABAStore st" using st' by blast
      then show ?thesis using ABAStore_cleanup [of L self i st1 rid] by simp
    qed simp
    then show ?thesis using st' unfolding agree_rel_def quiet_def by blast
  qed
  ultimately show ?thesis using processKeyDerivationMessages_cases [OF assms]
    by (elim disjE exE conjE) (simp add: agree_rel_def, (rule agree_rel_idle)?, blast+)
qed

lemma aba_agree:
  assumes "codec_laws L" "processABAMessages L self rnd sender msg st = Some (st', acts)"
  shows "agree_rel L (kn_Index sender) msg st st' acts"
proof -
  let ?j = "kn_Index sender"
  have "agree_rel L ?j msg st st' acts"
    if "aba_InitMessage_Process L self sender r c v rd st = Some (st', acts)" for r c v rd
  proof (cases "kn_Index sender = ID self")
    case True
    have "on_aba st r (aba_init_body L r c v rd) = Some (st', acts)"
      using that True by (simp add: aba_InitMessage_Process_def)
    then show ?thesis by (rule on_aba_agree) (blast intro: aba_init_body_agree)
  next
    case False
    then show ?thesis using that by (simp add: aba_InitMessage_Process_def agree_rel_def)
  qed
  moreover have "agree_rel L ?j msg st st' acts"
    if "Est1Message_Process L self sender r c v rd st = Some (st', acts)" for r c v rd
    using that unfolding Est1Message_Process_def
    by (rule on_aba_agree) (auto split: prod.splits dest: aba_est1_body_agree)
  moreover have "agree_rel L ?j msg st st' acts"
    if "Aux1Message_Process L self sender r c v rd st = Some (st', acts)" for r c v rd
    using that unfolding Aux1Message_Process_def
    by (rule on_aba_agree) (auto split: prod.splits dest: aba_aux1_body_agree)
  moreover have "agree_rel L ?j msg st st' acts"
    if "AuxsetMessage_Process L self sender r c v rd st = Some (st', acts)" for r c v rd
    using that unfolding AuxsetMessage_Process_def
    by (rule on_aba_agree) (auto split: prod.splits dest: aba_auxset_body_agree)
  moreover have "aba_idle st st' acts"
    if "CoinInitMessage_Process L self rnd sender r c i st = Some (st', acts)" for r c i
    using that unfolding CoinInitMessage_Process_def
    by (auto split: if_splits sum.splits elim!: on_session_idle)
      (auto simp: coin_init_body_def Let_def dest: new_message_quiet
        split: prod.splits if_splits Option.bind_splits sum.splits)
  ultimately show ?thesis
    using processABAMessages_cases [OF assms(2)] Est2_agree [OF assms(1), of self sender _ _ _ _ st st' acts]
      Aux2_agree [of L self sender _ _ _ _ st st' acts msg] Coin_agree [of L self sender _ _ _ st st' acts]
      agree_rel_idle [of st st' acts L ?j msg]
    by (elim disjE exE conjE) (simp add: agree_rel_def; fail | blast)+
qed

lemma ProcessMessage_agree:
  assumes "codec_laws L" "ProcessMessage L self rnd sender msg st = Some (st', acts, err)"
  shows "agree_rel L (kn_Index sender) msg st st' acts"
proof -
  consider "processACSSMessages L self rnd sender msg st = Some (st', acts)"
    | "processKeysetMessages L self rnd sender msg st = Some (st', acts)"
    | "processABAMessages L self rnd sender msg st = Some (st', acts)"
    | "processKeyDerivationMessages L self rnd sender msg st = Some (st', acts)"
    | "st' = st" "acts = []"
    using assms(2) unfolding ProcessMessage_def Let_def by (auto split: if_splits)
  then show ?thesis
  proof cases
    case 1
    then show ?thesis by (intro agree_rel_idle acss_idle)
  next
    case 2
    then show ?thesis by (intro agree_rel_idle keyset_idle)
  next
    case 3
    then show ?thesis by (rule aba_agree [OF assms(1)])
  next
    case 4
    then show ?thesis by (rule derivation_agree)
  qed (simp add: agree_rel_def)
qed

end
