(* ===== verification/SessionTheorems.thy ===== *)
theory SessionTheorems
  imports Sessions
begin

text \<open>
  The properties of key generation sessions: refinement of the abstract session, invariants of
  every run, what is never undone, and the end of a session, where the derivation of the key and
  the decision of the chain meet.
\<close>

section \<open>Witness states\<close>

text \<open>A library that reads one message, and the round of dealer 2 for the key with index 1.\<close>

definition gf_reads :: "payload \<Rightarrow> (gf, gf) lib" where
  "gf_reads p = gf_lib\<lparr>bijson_Unmarshal := (\<lambda>k b. if k = payload_kind p then Some p else None)\<rparr>"

definition gf_id :: ADKGID where "gf_id = NewADKGID 1 SECP256K1"

definition gf_round :: RoundID where "gf_round = CreateRound gf_id 2 ''keyset''"

lemma gf_round_facts [simp]:
  "Leader gf_round = Inr 2" "FromID gf_round = Inr \<lparr>rd_ADKGID = gf_id, rd_Dealer = 2, rd_Kind = ''keyset''\<rparr>"
  "ADKGIDFromRoundID gf_round = Inr gf_id" "GetIndex gf_id = Inr 1" "GetCurve gf_id = Inr SECP256K1"
proof -
  show "Leader gf_round = Inr 2"
    unfolding gf_round_def gf_id_def by (rule Leader_CreateRound) (rule NewADKGID_no_Delimiter4 kinds_no_Delimiter4 | simp)+
  show f: "FromID gf_round = Inr \<lparr>rd_ADKGID = gf_id, rd_Dealer = 2, rd_Kind = ''keyset''\<rparr>"
    unfolding gf_round_def gf_id_def CreateRound_def
    by (rule FromID_ID) (simp_all only: RoundDetails.simps NewADKGID_no_Delimiter4 kinds_no_Delimiter4, simp_all)
  show "ADKGIDFromRoundID gf_round = Inr gf_id" by (simp add: ADKGIDFromRoundID_def f)
  show "GetIndex gf_id = Inr 1" "GetCurve gf_id = Inr SECP256K1"
    unfolding gf_id_def by (simp_all add: NewADKGID_index NewADKGID_curve SECP256K1_def ED25519_def)
qed

lemma Params_gf_self [simp]: "Params gf_self = (4, 2, 1)"
  by (simp add: Params_def gf_self_def)

lemma Int64_2 [simp]: "Int64 2 = 2"
  by (rule Int64_small) simp_all

definition gf_message :: "payload \<Rightarrow> DKGMessage" where
  "gf_message p = \<lparr>dm_Version = VERSION, dm_RoundID = gf_round, dm_Method = payload_kind p, dm_Data = []\<rparr>"

section \<open>Refinement and invariants\<close>


definition gf_output :: payload where
  "gf_output = KeysetOutput gf_round ''keyset_output'' SECP256K1 (IntToByteValue 0)"

lemmas gf_run_defs = ProcessMessage_def processKeysetMessages_def gf_reads_def gf_output_def gf_message_def
  HasPrefix_def keyset_OutputMessage_Process_def ID_def gf_self_def gf_node_def on_session_def
  empty_state_def ADKGSessionStore_GetOrSetIfNotComplete_def ADKGSessionStore_GetOrSet_def
  LoadOrStore_def store_defs DefaultADKGSession_def
  IntToByteValue_def Let_def aba_NewInitMessage_def marshal_message_def gf_lib_def

lemma gf_output_run:
  "ProcessMessage (gf_reads gf_output) gf_self rnd (gf_node 1) (gf_message gf_output) empty_state =
     Some (\<lparr>KeygenStore = [],
            SessionStore = [(gf_id, Some (DefaultADKGSession\<lparr>ses_ABAStarted := [2]\<rparr>))], ABAStore = []\<rparr>,
           [ReceiveMessage (gf_node 1) (CreateMessage gf_round ''aba_init'' [])], None)"
  using Uint64_Put [of 0 "[]"]
  by (simp add: gf_run_defs)


text \<open>
  C1. The invariant of every session of a node, in every state the node can reach by messages,
  decisions of the chain and expiry: a dealing in the set of accepted dealers has its share and
  \<open>k\<close> commitments, every key set is a subset of the accepted dealers, decisions are 0 or 1, no
  agreement is started twice, the agreements count as complete only after a decision 1, shares
  of the public key are verified only when at least \<open>n\<close> agreements are decided, and a finished
  session has its share, at least \<open>k\<close> verified public key shares, and has not seen the chain's
  decision.
\<close>

theorem session_invariant:
  assumes "reachable L self st" "Params self = (n, k, f)" "m_get (SessionStore st) i = Some (Some s)"
  shows "(\<forall>j \<in> bitset (ses_TPrime s). (\<exists>sh. m_get (ses_S s) j = Some sh) \<and>
        (\<exists>cs. m_get (ses_C s) j = Some cs \<and> length cs = nat k)) \<and>
     (\<forall>j w. m_get (ses_T s) j = Some w \<longrightarrow> w AND ses_TPrime s = w) \<and>
     (\<forall>j b. m_get (ses_Decisions s) j = Some b \<longrightarrow> b \<in> {0, 1}) \<and>
     distinct (ses_ABAStarted s) \<and>
     (ses_ABAComplete s \<longrightarrow> (\<exists>j. m_get (ses_Decisions s) j = Some 1)) \<and>
     (ses_PubKeyShares s \<noteq> [] \<longrightarrow> n \<le> m_len (ses_Decisions s) \<and> ses_ABAComplete s) \<and>
     (ses_Over s \<longrightarrow> ses_Share s \<noteq> None \<and> k \<le> m_len (ses_PubKeyShares s) \<and> \<not> ses_BFTDecided s)"
proof -
  have "session_ok n k s" using assms by (rule reachable_session_ok)
  then show ?thesis unfolding session_ok_def session_inv_def by (elim conjE) (intro conjI)
qed

lemma gf_output_reachable:
  "reachable (gf_reads gf_output) gf_self
     \<lparr>KeygenStore = [], SessionStore = [(gf_id, Some (DefaultADKGSession\<lparr>ses_ABAStarted := [2]\<rparr>))], ABAStore = []\<rparr>"
proof (rule message [OF start])
  show "ProcessMessage (reorder (gf_reads gf_output) (range_int (gf_reads gf_output)) (range_str (gf_reads gf_output)))
      gf_self rnd (gf_node 1) (gf_message gf_output) \<lparr>KeygenStore = [], SessionStore = [], ABAStore = []\<rparr> =
    Some (\<lparr>KeygenStore = [], SessionStore = [(gf_id, Some (DefaultADKGSession\<lparr>ses_ABAStarted := [2]\<rparr>))], ABAStore = []\<rparr>,
      [ReceiveMessage (gf_node 1) (CreateMessage gf_round ''aba_init'' [])], None)" for rnd
    using gf_output_run by (simp add: empty_state_def)
qed

theorem session_invariant_witness:
  "\<exists>st s. reachable (gf_reads gf_output) gf_self st \<and> m_get (SessionStore st) gf_id = Some (Some s) \<and>
     ses_ABAStarted s = [2] \<and> distinct (ses_ABAStarted s) \<and>
     (ses_ABAComplete s \<longrightarrow> (\<exists>j. m_get (ses_Decisions s) j = Some 1))"
  using session_invariant [OF gf_output_reachable Params_gf_self, of gf_id
      "DefaultADKGSession\<lparr>ses_ABAStarted := [2]\<rparr>"] gf_output_reachable
  by fastforce


definition gf_decided :: "gf ADKGSession" where
  "gf_decided = DefaultADKGSession\<lparr>ses_Decisions := [(3, 1)], ses_ABAComplete := True\<rparr>"

lemma gf_decided_run:
  "ProcessMessage (gf_reads gf_output) gf_self rnd (gf_node 1) (gf_message gf_output)
     (empty_state\<lparr>SessionStore := [(gf_id, Some gf_decided)]\<rparr>) =
     Some (\<lparr>KeygenStore = [], SessionStore = [(gf_id, Some (gf_decided\<lparr>ses_ABAStarted := [2]\<rparr>))], ABAStore = []\<rparr>,
           [ReceiveMessage (gf_node 1) (CreateMessage gf_round ''aba_init'' [])], None)"
  using Uint64_Put [of 0 "[]"]
  by (simp add: gf_run_defs gf_decided_def)


section \<open>The end of a session\<close>

text \<open>
  C24. The decision of the chain never panics the node, whatever identifier it names: in every
  reachable state \<open>BFTDecided\<close> returns. In particular the share that it dereferences for a
  finished session is there.
\<close>

theorem chain_decision_total:
  assumes "reachable L self st" "Params self = (n, k, f)"
  shows "\<exists>st' acts. BFTDecided L self i st = Some (st', acts)"
proof -
  obtain session complete sm where sm:
    "ADKGSessionStore_GetOrSetIfNotComplete (SessionStore st) i DefaultADKGSession =
      ((session, complete), sm)" by (metis prod.exhaust)
  let ?s = "current (SessionStore st) i DefaultADKGSession"
  have "session_ok n k ?s"
    using reachable_session_ok [OF assms] session_ok_default
    by (auto simp: current_def split: option.splits)
  then have "ses_Over ?s \<Longrightarrow> \<exists>z. ses_Share ?s = Some z" by (simp add: session_ok_def)
  then show ?thesis using session_lookup(2) [OF sm]
    by (cases complete; cases "ses_Over ?s") (auto simp: BFTDecided_def sm Let_def split: sum.splits)
qed

theorem chain_decision_total_witness:
  "\<exists>st acts. BFTDecided (gf_reads gf_output) gf_self gf_id
     \<lparr>KeygenStore = [], SessionStore = [(gf_id, Some (DefaultADKGSession\<lparr>ses_ABAStarted := [2]\<rparr>))], ABAStore = []\<rparr> =
     Some (st, acts)"
  by (rule chain_decision_total [OF gf_output_reachable Params_gf_self])

text \<open>
  C28. A key set proposal is not bound to the outcome of its broadcast: a later proposal of the
  same leader whose dealings the node has accepted replaces the key set \<open>T[leader]\<close>, also when
  the broadcast of the key set has been delivered, the agreement on it has been started or
  decided. Two nodes that saw different proposals of a faulty leader keep different key sets.
\<close>

theorem keyset_proposal_replaces_keyset:
  assumes "Leader r = Inr (kn_Index sender)" "ADKGIDFromRoundID r = Inr i"
    and "m_get (SessionStore st) i = Some (Some s)" "w AND ses_TPrime s = w"
    and "Int64 (kn_Index sender) \<noteq> ID self"
    and "keyset_ProposeMessage_Process L self sender r c (IntToByteValue w) st = Some (st', acts)"
  shows "m_get (SessionStore st') i =
    Some (Some (s\<lparr>ses_T := m_set (ses_T s) (Int64 (kn_Index sender)) w\<rparr>))"
proof -
  let ?body = "\<lambda>session. do {
     verified \<leftarrow> keyset_Predicate (IntToByteValue (ses_TPrime session)) (IntToByteValue w);
     if verified then OnKeysetVerified L self r c (IntToByteValue w) (Int64 (kn_Index sender)) session
     else do {
       v \<leftarrow> ByteToIntValue (IntToByteValue w);
       Some (session\<lparr>ses_TProposals := m_set (ses_TProposals session) (kn_Index sender) v\<rparr>, []) } }"
  have cur: "current (SessionStore st) i DefaultADKGSession = s" using assms(3) by (simp add: current_def)
  have "on_session st i ?body = Some (st', acts)"
    using assms(6) by (simp add: keyset_ProposeMessage_Process_def assms(1,2))
  then obtain s' where s': "?body s = Some (s', acts)" "m_get (SessionStore st') i = Some (Some s')"
    by (rule on_session_cases) (use assms(3) cur in auto)
  then have "OnKeysetVerified L self r c (IntToByteValue w) (Int64 (kn_Index sender)) s = Some (s', acts)"
    using assms(4) by (simp add: keyset_Predicate_words)
  then have "s' = s\<lparr>ses_T := m_set (ses_T s) (Int64 (kn_Index sender)) w\<rparr>"
    unfolding OnKeysetVerified_def using assms(5)
    by (auto simp: Let_def split: Option.bind_splits if_splits sum.splits prod.splits)
  then show ?thesis using s'(2) by simp
qed

definition gf_no_fec :: "(gf, gf) lib" where
  "gf_no_fec = gf_lib\<lparr>fec_New := (\<lambda>k n. False)\<rparr>"

definition gf_proposed :: "gf ADKGSession" where
  "gf_proposed = DefaultADKGSession\<lparr>ses_TPrime := 6, ses_T := [(2, 2)], ses_ABAStarted := [2],
                                     ses_Decisions := [(2, 1)]\<rparr>"

lemma gf_proposal_run:
  "keyset_ProposeMessage_Process gf_no_fec gf_self (gf_node 2) gf_round SECP256K1 (IntToByteValue 4)
     (empty_state\<lparr>SessionStore := [(gf_id, Some gf_proposed)]\<rparr>) =
   Some (empty_state\<lparr>SessionStore := [(gf_id, Some (gf_proposed\<lparr>ses_T := [(2, 4)]\<rparr>))]\<rparr>, [])"
  by (simp add: keyset_ProposeMessage_Process_def gf_node_def on_session_def gf_no_fec_def
      ADKGSessionStore_GetOrSetIfNotComplete_def ADKGSessionStore_GetOrSet_def LoadOrStore_def store_defs
      keyset_Predicate_words gf_proposed_def DefaultADKGSession_def OnKeysetVerified_def ID_def gf_self_def
      empty_state_def Params_def)

theorem keyset_proposal_replaces_keyset_witness:
  "\<exists>st' acts. keyset_ProposeMessage_Process gf_no_fec gf_self (gf_node 2) gf_round SECP256K1 (IntToByteValue 4)
       (empty_state\<lparr>SessionStore := [(gf_id, Some gf_proposed)]\<rparr>) = Some (st', acts) \<and>
     m_get (ses_T gf_proposed) 2 = Some 2 \<and> m_get (ses_Decisions gf_proposed) 2 = Some 1 \<and>
     m_get (SessionStore st') gf_id = Some (Some (gf_proposed\<lparr>ses_T := m_set (ses_T gf_proposed) 2 4\<rparr>))"
proof -
  have "m_get (SessionStore (empty_state\<lparr>SessionStore := [(gf_id, Some (gf_proposed\<lparr>ses_T := [(2, 4)]\<rparr>))]\<rparr>)) gf_id =
    Some (Some (gf_proposed\<lparr>ses_T := m_set (ses_T gf_proposed) (Int64 (kn_Index (gf_node 2))) 4\<rparr>))"
    by (rule keyset_proposal_replaces_keyset [OF _ _ _ _ _ gf_proposal_run])
      (simp_all add: gf_node_def gf_proposed_def DefaultADKGSession_def ID_def gf_self_def)
  then show ?thesis using gf_proposal_run by (simp add: gf_node_def gf_proposed_def)
qed

text \<open>The actions that store the result of a key generation.\<close>

fun is_store :: "'p action \<Rightarrow> bool" where
  "is_store (StoreCompletedShare i z c) = True"
| "is_store (StoreCommitment i m c) = True"
| "is_store _ = False"

definition decided_by_chain :: "'p ADKGSession \<Rightarrow> 'p ADKGSession" where
  "decided_by_chain s = s\<lparr>ses_BFTDecided := True\<rparr>"

lemma decided_by_chain_update:
  "(decided_by_chain s)\<lparr>ses_PubKeyShares := x\<rparr> = decided_by_chain (s\<lparr>ses_PubKeyShares := x\<rparr>)"
  "ses_PubKeyShares (decided_by_chain s) = ses_PubKeyShares s"
  by (cases s, simp add: decided_by_chain_def)+

lemma process_unverified_chain:
  "process_unverified L c k T i (decided_by_chain s) = map_option decided_by_chain (process_unverified L c k T i s)"
  by (auto simp: process_unverified_def decided_by_chain_def split: option.splits Option.bind_splits)

lemma go_fold_commute:
  assumes "\<And>x s. f x (h s) = map_option h (f x s)"
  shows "go_fold f xs (h s) = map_option h (go_fold f xs s)"
proof (induction xs arbitrary: s)
  case (Cons x xs)
  show ?case
  proof (cases "f x s")
    case (Some s1)
    then show ?thesis using Cons.IH [of s1] assms [of x s] by simp
  qed (simp add: assms)
qed simp

lemma ProcessUnverifiedShares_chain:
  "ProcessUnverifiedShares L c k T (decided_by_chain s) =
     map_option decided_by_chain (ProcessUnverifiedShares L c k T s)"
proof -
  have "ses_PubKeySharesUnverified (decided_by_chain s) = ses_PubKeySharesUnverified s"
    by (simp add: decided_by_chain_def)
  then show ?thesis unfolding ProcessUnverifiedShares_def
    using go_fold_commute [of "process_unverified L c k T" decided_by_chain, OF process_unverified_chain]
    by simp
qed

lemma finish_key_chain:
  assumes "finish_key L r i cn T hZ s = Some (s', acts, fin)" "\<not> ses_Over s" "ses_Over s'"
    and "GetIndex i = Inr ki" "GetCurve i = Inr cv"
  shows "\<not> ses_BFTDecided s \<and> fin = False \<and> filter is_store acts = [] \<and>
    (\<exists>z. ses_Share s' = Some z \<and>
      finish_key L r i cn T hZ (decided_by_chain s) =
        Some (decided_by_chain s,
          [StoreCompletedShare ki z cv, StoreCommitment ki (ses_Commitments s') cv] @ acts, True))"
  using assms
  by (cases "ses_BFTDecided s")
    (auto simp: finish_key_def decided_by_chain_def Let_def split: Option.bind_splits sum.splits)

lemma share_body_chain:
  assumes body: "keyderivation_share_body L self sender r i cn share s = Some (s', acts, fin)"
    and over: "\<not> ses_Over s" "ses_Over s'"
    and id: "GetIndex i = Inr ki" "GetCurve i = Inr cv"
  shows "fin = False \<and> filter is_store acts = [] \<and> (\<exists>z s2. ses_Share s' = Some z \<and>
    keyderivation_share_body L self sender r i cn share (decided_by_chain s) =
      Some (s2, [StoreCompletedShare ki z cv, StoreCommitment ki (ses_Commitments s') cv] @ acts, True))"
proof -
  obtain n k f where par: "Params self = (n, k, f)" by (cases "Params self")
  let ?c = "CurveFromName L cn" and ?T = "Union (decided_keysets L n s)"
  have all: "n = m_len (ses_Decisions s)" "ses_ABAComplete s"
    using body over by (auto simp: keyderivation_share_body_def par Let_def split: if_splits)
  obtain g h s2 hZ where steps: "?T \<noteq> []" "DerivePublicKey sender k ?c ?T (ses_C s) = Some g"
    "VerifyShare L share ?c g = Some (Some h)"
    "ProcessUnverifiedShares L ?c k ?T (s\<lparr>ses_PubKeyShares := m_set (ses_PubKeyShares s) sender h\<rparr>) = Some s2"
    and len: "k \<le> m_len (ses_PubKeyShares s2)" "\<not> ses_Over s2" and der: "derive_key L ?c s2 = Inr hZ" and
    fin: "finish_key L r i cn ?T hZ s2 = Some (s', acts, fin)"
  proof -
    have "ses_Over s2 = ses_Over s"
      if "ProcessUnverifiedShares L ?c k ?T (s\<lparr>ses_PubKeyShares := x\<rparr>) = Some s2" for x s2
      using that unfolding ProcessUnverifiedShares_def
      by (rule go_fold_invariant [where P = "\<lambda>t. ses_Over t = ses_Over s"])
        (auto simp: process_unverified_def split: option.splits Option.bind_splits)
    then show thesis using that body over all
      by (auto simp: keyderivation_share_body_def par Let_def
        split: if_splits Option.bind_splits option.splits sum.splits)
  qed
  have same: "decided_keysets L n (decided_by_chain s) = decided_keysets L n s"
    "derive_key L ?c (decided_by_chain s2) = derive_key L ?c s2"
    "ses_PubKeyShares (decided_by_chain s2) = ses_PubKeyShares s2" "ses_Over (decided_by_chain s2) = ses_Over s2"
    by (simp_all add: decided_keysets_def derive_key_def decided_by_chain_def split: sum.splits)
  have P: "ProcessUnverifiedShares L ?c k ?T
      (decided_by_chain s\<lparr>ses_PubKeyShares := m_set (ses_PubKeyShares (decided_by_chain s)) sender h\<rparr>) =
      Some (decided_by_chain s2)"
    using ProcessUnverifiedShares_chain [of L ?c k ?T "s\<lparr>ses_PubKeyShares := m_set (ses_PubKeyShares s) sender h\<rparr>"]
      steps(4) by (simp add: decided_by_chain_update)
  have dec: "ses_Decisions (decided_by_chain s) = ses_Decisions s" "ses_C (decided_by_chain s) = ses_C s"
    "ses_ABAComplete (decided_by_chain s) = ses_ABAComplete s"
    by (simp_all add: decided_by_chain_def)
  have "keyderivation_share_body L self sender r i cn share (decided_by_chain s) =
      finish_key L r i cn ?T hZ (decided_by_chain s2)"
    using steps(1-3) len all(2)
    by (simp add: keyderivation_share_body_def par Let_def same dec all(1) [symmetric] P der)
  then show ?thesis using finish_key_chain [OF fin len(2) over(2) id] by auto
qed

lemma cleanup_completes: "m_get (SessionStore (cleanup L self i st)) i = Some None"
  by (simp add: SessionStore_cleanup ADKGSessionStore_Complete_def Store_def)

lemma share_Process_live:
  assumes "ADKGIDFromRoundID r = Inr i" "m_get (SessionStore st) i = Some (Some s)"
    and "keyderivation_share_body L self (kn_Index sender) r i c
      \<lparr>pks_R = rr, pks_S = ss, pks_Share = share\<rparr> s = Some (s', acts, fin)"
  shows "keyderivation_ShareMessage_Process L self sender r c share rr ss st =
    Some (let st' = st\<lparr>SessionStore := put (SessionStore st) i s'\<rparr> in
          if fin then cleanup L self i st' else st', acts)"
  using assms by (simp add: keyderivation_ShareMessage_Process_def sessions.obtain_live Let_def)

text \<open>
  C5. The share of a key is stored when both its derivation has finished and the chain has
  decided, in whichever order this happens, and the same share is stored. When a share message
  finishes the derivation of a session the chain has not decided, nothing is stored yet;
  \<open>BFTDecided\<close> then stores the share and the commitments. If the chain decides first, the same
  share message stores the same share and commitments. Either way the session is complete.
\<close>

theorem share_stored_in_either_order:
  assumes ids: "ADKGIDFromRoundID r = Inr i" "GetIndex i = Inr ki" "GetCurve i = Inr cv"
    and s: "m_get (SessionStore st) i = Some (Some s)" "\<not> ses_Over s"
    and run: "keyderivation_ShareMessage_Process L self sender r c share rr ss st = Some (st1, acts)"
    and s1: "m_get (SessionStore st1) i = Some (Some s1)" "ses_Over s1"
  shows "\<exists>z st2 st1' st2'. let stores = [StoreCompletedShare ki z cv, StoreCommitment ki (ses_Commitments s1) cv] in
      filter is_store acts = [] \<and>
      BFTDecided L self i st1 = Some (st2, stores) \<and>
      BFTDecided L self i st = Some (st1', []) \<and>
      keyderivation_ShareMessage_Process L self sender r c share rr ss st1' = Some (st2', stores @ acts) \<and>
      m_get (SessionStore st2) i = Some None \<and> m_get (SessionStore st2') i = Some None"
proof -
  let ?body = "keyderivation_share_body L self (kn_Index sender) r i c
    \<lparr>pks_R = rr, pks_S = ss, pks_Share = share\<rparr>"
  note look = sessions.obtain_live
  from run obtain s' fin where body: "?body s = Some (s', acts, fin)" and
    st1: "st1 = (if fin then cleanup L self i (st\<lparr>SessionStore := put (SessionStore st) i s'\<rparr>)
                 else st\<lparr>SessionStore := put (SessionStore st) i s'\<rparr>)"
    by (auto simp: keyderivation_ShareMessage_Process_def ids look [OF s(1)] Let_def split: Option.bind_splits)
  have "s1 = s'" using s1 by (auto simp: st1 put_def SessionStore_cleanup ADKGSessionStore_Complete_def Store_def split: if_splits)
  with share_body_chain [OF body s(2) _ ids(2,3)] s1(2) obtain z s2 where fin: "fin = False" and
    acts: "filter is_store acts = []" and z: "ses_Share s1 = Some z" and
    body': "?body (decided_by_chain s) =
      Some (s2, [StoreCompletedShare ki z cv, StoreCommitment ki (ses_Commitments s1) cv] @ acts, True)"
    by auto
  let ?stores = "[StoreCompletedShare ki z cv, StoreCommitment ki (ses_Commitments s1) cv]"
  let ?st1' = "st\<lparr>SessionStore := put (SessionStore st) i (decided_by_chain s)\<rparr>"
  have live: "m_get (SessionStore ?st1') i = Some (Some (decided_by_chain s))" by (simp add: put_def)
  have "BFTDecided L self i st1 = Some (cleanup L self i st1, ?stores)"
    using s1(2) z by (simp add: BFTDecided_def look [OF s1(1)] ids Let_def)
  moreover have "BFTDecided L self i st = Some (?st1', [])"
    using s(2) by (simp add: BFTDecided_def look [OF s(1)] Let_def decided_by_chain_def)
  moreover have "keyderivation_ShareMessage_Process L self sender r c share rr ss ?st1' =
      Some (cleanup L self i (?st1'\<lparr>SessionStore := put (SessionStore ?st1') i s2\<rparr>), ?stores @ acts)"
    using share_Process_live [OF ids(1) live body'] by simp
  ultimately show ?thesis using acts cleanup_completes unfolding Let_def by blast
qed

text \<open>A session at its last share message: dealer 1 was decided, all polynomials are zero.\<close>

definition gf_last :: "gf ADKGSession" where
  "gf_last = DefaultADKGSession\<lparr>
     ses_TPrime := 2, ses_T := [(1, 2)], ses_C := [(1, [0, 0])], ses_S := [(1, \<lparr>ss_Id = 1, ss_Value = gf_bytes 30 0\<rparr>)],
     ses_Decisions := [(1, 1), (2, 0), (3, 0), (4, 0)], ses_ABAComplete := True, ses_PubKeyShares := [(3, 0)]\<rparr>"

lemma gf_last_T: "Union (decided_keysets gf_lib 4 gf_last) = [1]"
proof -
  have "GetSetBits 4 2 = [1]" by (simp add: GetSetBits_def GetSetBits_from.simps shl1_def HasBit_def word_sless_alt numeral_eq_Suc)
  then show ?thesis by (simp add: decided_keysets_def gf_last_def DefaultADKGSession_def Union_def m_zero_def)
qed

lemma gf_last_derive: "DerivePublicKey 2 2 (gf_curve ''secp256k1'') [1] (ses_C gf_last) = Some 0"
  by (simp add: DerivePublicKey_def derive_dealer_def gf_last_def DefaultADKGSession_def m_zero_def
      go_index_def gf_curve_def)

abbreviation gf_zero_share :: PubKeyShare where
  "gf_zero_share \<equiv> \<lparr>pks_R = gf_bytes 31 0 @ gf_bytes 31 0, pks_S = gf_bytes 30 0, pks_Share = gf_bytes 31 0\<rparr>"

lemma gf_zero_share_verified: "VerifyShare gf_lib gf_zero_share (gf_curve ''secp256k1'') 0 = Some (Some 0)"
  using VerifyShare_encoded [of "gf_curve ''secp256k1''" gf_lib 238 1 0 0 0 0 0, OF gf_laws(3)]
  by (simp add: CurveParams_gf gf_curve_def)

lemma gf_point_coordinates: "\<exists>q. CurvePointToPoint (gf_curve ''secp256k1'') p SECP256K1 = Some q"
  by (simp add: CurvePointToPoint_def gf_curve_def SECP256K1_def ED25519_def go_slice_def Let_def)

lemma gf_last_run:
  "\<exists>s' acts. keyderivation_share_body gf_lib gf_self 2 gf_round gf_id SECP256K1 gf_zero_share gf_last =
     Some (s', acts, False) \<and> ses_Over s'"
proof -
  let ?s = "gf_last\<lparr>ses_PubKeyShares := [(3, 0), (2, 0)]\<rparr>"
  have cn: "CurveFromName gf_lib SECP256K1 = gf_curve ''secp256k1''" by (simp add: CurveFromName_def)
  obtain coeff where "LagrangeCoeffs (\<lambda>xs. xs) [3, 2] (gf_curve ''secp256k1'') = Inr coeff"
    using LagrangeCoeffs_ok [OF gf_laws(1), of "\<lambda>xs. xs" "[3, 2]" "''secp256k1''"] by auto
  then obtain hZ where hZ: "derive_key gf_lib (gf_curve ''secp256k1'') ?s = Inr hZ"
    by (simp add: derive_key_def)
  have unv: "ProcessUnverifiedShares gf_lib (gf_curve ''secp256k1'') 2 [1] ?s = Some ?s"
    by (simp add: ProcessUnverifiedShares_def gf_last_def DefaultADKGSession_def)
  obtain q where "CurvePointToPoint (gf_curve ''secp256k1'') hZ SECP256K1 = Some q"
    using gf_point_coordinates by blast
  then have "\<exists>s' acts. finish_key gf_lib gf_round gf_id SECP256K1 [1] hZ ?s = Some (s', acts, False) \<and> ses_Over s'"
    by (simp add: finish_key_def cn NewPubKeygenMessage_def gf_last_def DefaultADKGSession_def Let_def)
  moreover have "m_len (ses_Decisions gf_last) = 4" "ses_ABAComplete gf_last"
    "m_set (ses_PubKeyShares gf_last) 2 0 = [(3, 0), (2, 0)]" "m_len (ses_PubKeyShares ?s) = 2" "\<not> ses_Over ?s"
    by (simp_all add: gf_last_def DefaultADKGSession_def m_len_def)
  ultimately show ?thesis
    by (simp add: keyderivation_share_body_def cn gf_last_T gf_last_derive gf_zero_share_verified unv hZ Let_def)
qed

theorem share_stored_in_either_order_witness:
  "\<exists>st1 acts s1 z st2 st1' st2'.
     keyderivation_ShareMessage_Process gf_lib gf_self (gf_node 2) gf_round SECP256K1 (gf_bytes 31 0)
       (gf_bytes 31 0 @ gf_bytes 31 0) (gf_bytes 30 0) (empty_state\<lparr>SessionStore := [(gf_id, Some gf_last)]\<rparr>) =
       Some (st1, acts) \<and> m_get (SessionStore st1) gf_id = Some (Some s1) \<and> ses_Over s1 \<and>
     (let stores = [StoreCompletedShare 1 z SECP256K1, StoreCommitment 1 (ses_Commitments s1) SECP256K1] in
      BFTDecided gf_lib gf_self gf_id st1 = Some (st2, stores) \<and>
      BFTDecided gf_lib gf_self gf_id (empty_state\<lparr>SessionStore := [(gf_id, Some gf_last)]\<rparr>) = Some (st1', []) \<and>
      keyderivation_ShareMessage_Process gf_lib gf_self (gf_node 2) gf_round SECP256K1 (gf_bytes 31 0)
        (gf_bytes 31 0 @ gf_bytes 31 0) (gf_bytes 30 0) st1' = Some (st2', stores @ acts))"
proof -
  let ?st = "empty_state\<lparr>SessionStore := [(gf_id, Some gf_last)]\<rparr>"
  obtain s' acts where body: "keyderivation_share_body gf_lib gf_self (kn_Index (gf_node 2)) gf_round gf_id SECP256K1
      gf_zero_share gf_last = Some (s', acts, False)" and over: "ses_Over s'"
    using gf_last_run by (auto simp: gf_node_def)
  let ?st1 = "?st\<lparr>SessionStore := put (SessionStore ?st) gf_id s'\<rparr>"
  have live: "m_get (SessionStore ?st) gf_id = Some (Some gf_last)" "m_get (SessionStore ?st1) gf_id = Some (Some s')"
    "\<not> ses_Over gf_last" by (simp_all add: put_def gf_last_def DefaultADKGSession_def)
  have run: "keyderivation_ShareMessage_Process gf_lib gf_self (gf_node 2) gf_round SECP256K1 (gf_bytes 31 0)
      (gf_bytes 31 0 @ gf_bytes 31 0) (gf_bytes 30 0) ?st = Some (?st1, acts)"
    using share_Process_live [OF gf_round_facts(3) live(1) body] by simp
  show ?thesis
    using share_stored_in_either_order [OF gf_round_facts(3-5) live(1,3) run live(2) over] run live(2) over
    unfolding Let_def by blast
qed

end
