(* ===== verification/Network.thy ===== *)
theory Network
  imports Agreement SessionTheorems
begin

text \<open>
  A network of nodes of which some are honest. An honest node runs the handlers; the others send
  what they like. Channels are authenticated: an \<open>aux2\<close> message that arrives with the index of
  an honest sender was sent by it (to anyone: the model delivers it to every node, and it lets
  every other message be forged, so that it has more runs than the real network). The network keeps, as a history, which honest node decided which
  value in which round of an agreement on the ground of \<open>aux2\<close> votes.
\<close>

section \<open>Runs of a network\<close>

record 'p net =
  net_state :: "int \<Rightarrow> 'p NodeState"
  net_sent :: "int \<Rightarrow> DKGMessage set"
  net_decided :: "(int \<times> RoundID \<times> int \<times> int) set"

text \<open>Agreement, round and value that an \<open>aux2\<close> message makes a node decide.\<close>

definition aux2_decision ::
  "('s, 'p) lib \<Rightarrow> DKGMessage \<Rightarrow> 'p NodeState \<Rightarrow> 'p NodeState \<Rightarrow> (RoundID \<times> int \<times> int) set" where
  "aux2_decision L msg st st' = {(rid, r, w). \<exists>k c v d s'.
     dm_Method msg = ''aba_aux2'' \<and>
     bijson_Unmarshal L ''aba_aux2'' (dm_Data msg) = Some (AbaAux2 rid k c v r) \<and> FromID rid = Inr d \<and>
     m_get (ses_Decisions (current (SessionStore st) (rd_ADKGID d) DefaultADKGSession)) (rd_Dealer d) = None \<and>
     m_get (SessionStore st') (rd_ADKGID d) = Some (Some s') \<and>
     m_get (ses_Decisions s') (rd_Dealer d) = Some w}"

inductive network ::
  "('s, 'p) lib \<Rightarrow> (int \<Rightarrow> ('s, 'p) KeygenNode) \<Rightarrow> int \<Rightarrow> int set \<Rightarrow> 'p net \<Rightarrow> bool"
  for L nodes n H where
  net_start:
    "network L nodes n H \<lparr>net_state = (\<lambda>i. empty_state), net_sent = (\<lambda>i. {}), net_decided = {}\<rparr>"
| net_deliver:
    "network L nodes n H N \<Longrightarrow> i \<in> H \<Longrightarrow> kn_Index sender \<in> {1..n} \<Longrightarrow>
     (kn_Index sender \<in> H \<Longrightarrow> dm_Method msg = ''aba_aux2'' \<Longrightarrow> msg \<in> net_sent N (kn_Index sender)) \<Longrightarrow>
     ProcessMessage (reorder L ord ord') (nodes i) rnd sender msg (net_state N i) = Some (st', acts, err) \<Longrightarrow>
     network L nodes n H
       \<lparr>net_state = (net_state N)(i := st'),
        net_sent = (net_sent N)(i := net_sent N i \<union> sent_messages acts),
        net_decided = net_decided N \<union> {i} \<times> aux2_decision L msg (net_state N i) st'\<rparr>"
| net_chain:
    "network L nodes n H N \<Longrightarrow> i \<in> H \<Longrightarrow>
     BFTDecided (reorder L ord ord') (nodes i) key (net_state N i) = Some (st', acts) \<Longrightarrow>
     network L nodes n H (N\<lparr>net_state := (net_state N)(i := st')\<rparr>)"

section \<open>The invariant\<close>

text \<open>Node \<open>j\<close> has announced value \<open>v\<close> in round \<open>r\<close> of an agreement.\<close>

definition said :: "('s, 'p) lib \<Rightarrow> DKGMessage set \<Rightarrow> RoundID \<Rightarrow> int \<Rightarrow> int \<Rightarrow> bool" where
  "said L sent rid r v \<longleftrightarrow>
     (\<exists>m \<in> sent. dm_Method m = ''aba_aux2'' \<and>
        (\<exists>k c. bijson_Unmarshal L ''aba_aux2'' (dm_Data m) = Some (AbaAux2 rid k c v r)))"

text \<open>What a node said is the head of its \<open>bin2\<close>, as long as the agreement is live, and unique.\<close>

definition said_ok :: "('s, 'p) lib \<Rightarrow> DKGMessage set \<Rightarrow> 'p NodeState \<Rightarrow> bool" where
  "said_ok L sent st \<longleftrightarrow>
     (\<forall>rid r v. said L sent rid r v \<longrightarrow>
        (m_get (ABAStore st) rid = Some None \<or>
         (\<exists>s zs. m_get (ABAStore st) rid = Some (Some s) \<and> bin2 s r = v # zs)) \<and>
        (\<forall>v'. said L sent rid r v' \<longrightarrow> v' = v))"

definition votes_ok :: "('s, 'p) lib \<Rightarrow> int \<Rightarrow> int set \<Rightarrow> (int \<Rightarrow> DKGMessage set) \<Rightarrow> 'p NodeState \<Rightarrow> bool" where
  "votes_ok L n H sent st \<longleftrightarrow>
     (\<forall>rid s r v. m_get (ABAStore st) rid = Some (Some s) \<longrightarrow>
        distinct (aux2_votes s r v) \<and> set (aux2_votes s r v) \<subseteq> {1..n} \<and>
        (\<forall>j \<in> set (aux2_votes s r v) \<inter> H. said L (sent j) rid r v))"

definition quorum_for :: "('s, 'p) lib \<Rightarrow> int \<Rightarrow> int \<Rightarrow> int set \<Rightarrow> (int \<Rightarrow> DKGMessage set) \<Rightarrow> RoundID \<Rightarrow> int \<Rightarrow> int \<Rightarrow> bool" where
  "quorum_for L n f H sent rid r w \<longleftrightarrow>
     (\<exists>Q \<subseteq> {1..n}. n - f \<le> int (card Q) \<and> (\<forall>j \<in> Q \<inter> H. said L (sent j) rid r w))"

lemma said_Un: "said L (A \<union> B) rid r v \<longleftrightarrow> said L A rid r v \<or> said L B rid r v"
  by (auto simp: said_def)

lemma said_mono: "said L A rid r v \<Longrightarrow> A \<subseteq> B \<Longrightarrow> said L B rid r v"
  by (auto simp: said_def)

lemma said_ok_step:
  assumes "said_ok L sent st" "agree_rel L j msg st st' acts"
  shows "said_ok L (sent \<union> sent_messages acts) st'"
proof -
  have new: "\<exists>s zs. m_get (ABAStore st') rid = Some (Some s) \<and> bin2 s r = v # zs"
    if "said L (sent_messages acts) rid r v" for rid r v
    using that assms(2) unfolding said_def agree_rel_def announced_def by fastforce
  have old: "m_get (ABAStore st') rid = Some None \<or>
      (\<exists>s zs. m_get (ABAStore st') rid = Some (Some s) \<and> bin2 s r = v # zs)"
    if "said L sent rid r v" for rid r v
  proof -
    from assms(1) that have before: "m_get (ABAStore st) rid = Some None \<or>
        (\<exists>s zs. m_get (ABAStore st) rid = Some (Some s) \<and> bin2 s r = v # zs)"
      unfolding said_ok_def by blast
    show ?thesis
    proof (cases "m_get (ABAStore st') rid = m_get (ABAStore st) rid \<or> m_get (ABAStore st') rid = Some None")
      case True
      then show ?thesis using before by auto
    next
      case False
      then obtain s' where s': "m_get (ABAStore st) rid \<noteq> Some None" "m_get (ABAStore st') rid = Some (Some s')"
        "agree_entry L j msg rid (current (ABAStore st) rid DefaultABAStore) s'"
        using assms(2) unfolding agree_rel_def by blast
      then obtain s zs where s: "m_get (ABAStore st) rid = Some (Some s)" "bin2 s r = v # zs" using before by blast
      then have "current (ABAStore st) rid DefaultABAStore = s" by (simp add: current_def)
      then have "\<exists>ys. bin2 s' r = bin2 s r @ ys"
        using s'(3) unfolding agree_entry_def agree_step_def by blast
      then show ?thesis using s' s by auto
    qed
  qed
  show ?thesis unfolding said_ok_def
  proof (intro allI impI conjI)
    fix rid r v
    assume v: "said L (sent \<union> sent_messages acts) rid r v"
    show here: "m_get (ABAStore st') rid = Some None \<or>
        (\<exists>s zs. m_get (ABAStore st') rid = Some (Some s) \<and> bin2 s r = v # zs)"
      using v old new unfolding said_Un by blast
    fix v' assume v': "said L (sent \<union> sent_messages acts) rid r v'"
    show "v' = v"
    proof (cases "said L sent rid r v \<and> said L sent rid r v'")
      case True
      then show ?thesis using assms(1) unfolding said_ok_def by blast
    next
      case False
      then obtain u where "said L (sent_messages acts) rid r u" using v v' unfolding said_Un by blast
      then obtain s where "m_get (ABAStore st') rid = Some (Some s)" using new by blast
      moreover have "m_get (ABAStore st') rid = Some None \<or>
          (\<exists>s zs. m_get (ABAStore st') rid = Some (Some s) \<and> bin2 s r = v' # zs)"
        using v' old new unfolding said_Un by blast
      ultimately show ?thesis using here by auto
    qed
  qed
qed

lemma votes_ok_mono:
  assumes "votes_ok L n H sent st" "\<And>j. sent j \<subseteq> sent' j"
  shows "votes_ok L n H sent' st"
  using assms said_mono unfolding votes_ok_def by (meson IntE)

lemma votes_ok_step:
  assumes "votes_ok L n H sent st" "agree_rel L j msg st st' acts" "j \<in> {1..n}"
    and "j \<in> H \<Longrightarrow> dm_Method msg = ''aba_aux2'' \<Longrightarrow> msg \<in> sent j"
  shows "votes_ok L n H sent st'"
  unfolding votes_ok_def
proof (intro allI impI)
  fix rid s' r v
  assume s': "m_get (ABAStore st') rid = Some (Some s')"
  let ?s = "current (ABAStore st) rid DefaultABAStore"
  have before: "distinct (aux2_votes ?s r v) \<and> set (aux2_votes ?s r v) \<subseteq> {1..n} \<and>
      (\<forall>i \<in> set (aux2_votes ?s r v) \<inter> H. said L (sent i) rid r v)"
    using assms(1) unfolding votes_ok_def current_def
    by (auto simp: DefaultABAStore_def split: option.splits)
  have "s' = ?s \<or> agree_entry L j msg rid ?s s'"
  proof (cases "m_get (ABAStore st') rid = m_get (ABAStore st) rid")
    case True
    then have "m_get (ABAStore st) rid = Some (Some s')" using s' by simp
    then show ?thesis by (simp add: current_def)
  next
    case False
    then show ?thesis using assms(2) s' unfolding agree_rel_def by (metis option.distinct(1) option.inject)
  qed
  then consider "aux2_votes s' r v = aux2_votes ?s r v"
    | "dm_Method msg = ''aba_aux2''" "\<exists>k c. bijson_Unmarshal L ''aba_aux2'' (dm_Data msg) = Some (AbaAux2 rid k c v r)"
      "j \<notin> set (aux2_votes ?s r v)" "aux2_votes s' r v = aux2_votes ?s r v @ [j]"
    unfolding agree_entry_def agree_step_def by blast
  then show "distinct (aux2_votes s' r v) \<and> set (aux2_votes s' r v) \<subseteq> {1..n} \<and>
      (\<forall>i \<in> set (aux2_votes s' r v) \<inter> H. said L (sent i) rid r v)"
  proof cases
    case 1
    then show ?thesis using before by simp
  next
    case 2
    have "j \<in> H \<Longrightarrow> said L (sent j) rid r v" using 2(1,2) assms(4) unfolding said_def by blast
    then show ?thesis using before 2(3,4) assms(3) by auto
  qed
qed

text \<open>A decision is backed by a quorum of votes.\<close>

lemma aux2_values_quorum:
  "aux2_values nf b l0 l1 l2 = [w] \<Longrightarrow> w \<noteq> 2 \<Longrightarrow> w = 0 \<and> nf \<le> l0 \<or> w = 1 \<and> nf \<le> l1"
  by (auto simp: aux2_values_def split: if_splits)

lemma aux2_decide_decisions:
  assumes "aux2_decide L self rid c dealer w s = (s', acts)" "m_get (ses_Decisions s) dealer = None"
    and "m_get (ses_Decisions s') dealer = Some w'"
  shows "w' = w"
proof -
  have d: "ses_Decisions (fst (aux2_start_derivation L self rid c s a)) = ses_Decisions s" for s a
    by (auto simp: aux2_start_derivation_def split: prod.splits sum.splits)
  have "ses_Decisions (fst (aux2_decide L self rid c dealer w s)) = m_set (ses_Decisions s) dealer w"
    using assms(2) by (simp add: aux2_decide_def Let_def d split: prod.split sum.split)
  then show ?thesis using assms(1,3) by simp
qed

lemma aux2_act_decision:
  assumes "aux2_act L self rid c rd cur values2 st = Some (st', acts)" "FromID rid = Inr d"
    and "m_get (ses_Decisions (current (SessionStore st) (rd_ADKGID d) DefaultADKGSession)) (rd_Dealer d) = None"
    and "m_get (SessionStore st') (rd_ADKGID d) = Some (Some s')" "m_get (ses_Decisions s') (rd_Dealer d) = Some w"
  shows "values2 = [w] \<and> w \<noteq> 2"
proof -
  have "SessionStore st' \<noteq> SessionStore st" using assms(3-5) by (auto simp: current_def)
  then obtain w' where w': "values2 = [w']" "w' \<noteq> 2"
    "on_session st (rd_ADKGID d) (\<lambda>session. Some (aux2_decide L self rid c (rd_Dealer d) w' session)) = Some (st', acts)"
    using assms(1,2) by (auto simp: aux2_act_def split: list.splits if_splits sum.splits)
  from w'(3) have "w = w'"
  proof (cases rule: on_session_cases)
    case 1
    then show ?thesis using assms(4) by simp
  next
    case (2 s2)
    then have "s2 = s'" using assms(4) by simp
    then show ?thesis using aux2_decide_decisions [OF _ assms(3,5)] 2(1) by simp
  qed
  then show ?thesis using w' by simp
qed

lemma Aux2_decision:
  assumes "Aux2Message_Process L self sender rid c v rd st = Some (st', acts)" "FromID rid = Inr d"
    and "Params self = (n, k, f)"
    and "m_get (ses_Decisions (current (SessionStore st) (rd_ADKGID d) DefaultADKGSession)) (rd_Dealer d) = None"
    and "m_get (SessionStore st') (rd_ADKGID d) = Some (Some s')" "m_get (ses_Decisions s') (rd_Dealer d) = Some w"
  shows "\<exists>s. m_get (ABAStore st') rid = Some (Some s) \<and> n - f \<le> int (length (aux2_votes s rd w))"
proof -
  obtain aba fin m where m: "ABAStoreMap_GetOrSetIfNotComplete (ABAStore st) rid DefaultABAStore = ((aba, fin), m)"
    by (metis prod.exhaust)
  have "SessionStore st' \<noteq> SessionStore st" using assms(4-6) by (auto simp: current_def)
  then obtain s s1 values2 where
    rec: "aux2_record n f (kn_Index sender) v rd s = Some (Some (s1, values2))" and
    act: "aux2_act L self rid c rd (GetRound s1) values2 (st\<lparr>ABAStore := put m rid s1\<rparr>) = Some (st', acts)"
    using assms(1,3) m
    by (auto simp: Aux2Message_Process_def Let_def split: if_splits Option.bind_splits option.splits)
  have "values2 = [w] \<and> w \<noteq> 2" using aux2_act_decision [OF act assms(2)] assms(4-6) by simp
  moreover have "values2 = aux2_values (n - f) (bin2 s1 rd) (int (length (aux2_votes s1 rd 0)))
      (int (length (aux2_votes s1 rd 1))) (int (length (aux2_votes s1 rd 2)))"
    using rec by (auto simp: aux2_record_def aba_ops split: if_splits)
  ultimately have "n - f \<le> int (length (aux2_votes s1 rd w))" using aux2_values_quorum by metis
  moreover have "m_get (ABAStore st') rid = Some (Some s1)"
    using aux2_act_idle [OF act] by (simp add: aba_idle_def put_def)
  ultimately show ?thesis by blast
qed

lemma ProcessMessage_aux2:
  assumes "dm_Method msg = ''aba_aux2''"
    and "bijson_Unmarshal L ''aba_aux2'' (dm_Data msg) = Some (AbaAux2 rid k c v rd)"
  shows "ProcessMessage L self rnd sender msg st =
    map_option (\<lambda>(st', acts). (st', acts, None)) (Aux2Message_Process L self sender rid c v rd st)"
  using assms by (simp add: ProcessMessage_def processABAMessages_def HasPrefix_def)

lemma decision_quorum:
  assumes "ProcessMessage L self rnd sender msg st = Some (st', acts, err)" "Params self = (n, k, f)"
    and "votes_ok L n H sent st'" "(rid, r, w) \<in> aux2_decision L msg st st'"
  shows "quorum_for L n f H sent rid r w"
proof -
  obtain kd c v d s' where msg: "dm_Method msg = ''aba_aux2''"
    "bijson_Unmarshal L ''aba_aux2'' (dm_Data msg) = Some (AbaAux2 rid kd c v r)" and
    d: "FromID rid = Inr d"
    "m_get (ses_Decisions (current (SessionStore st) (rd_ADKGID d) DefaultADKGSession)) (rd_Dealer d) = None"
    "m_get (SessionStore st') (rd_ADKGID d) = Some (Some s')" "m_get (ses_Decisions s') (rd_Dealer d) = Some w"
    using assms(4) unfolding aux2_decision_def by blast
  have "Aux2Message_Process L self sender rid c v r st = Some (st', acts)"
    using assms(1) by (simp add: ProcessMessage_aux2 [OF msg] split: prod.splits)
  then obtain s where s: "m_get (ABAStore st') rid = Some (Some s)" "n - f \<le> int (length (aux2_votes s r w))"
    using Aux2_decision [OF _ d(1) assms(2) d(2-4)] by blast
  then have "distinct (aux2_votes s r w)" "set (aux2_votes s r w) \<subseteq> {1..n}"
    "\<forall>j \<in> set (aux2_votes s r w) \<inter> H. said L (sent j) rid r w"
    using assms(3) unfolding votes_ok_def by blast+
  then show ?thesis using s(2) unfolding quorum_for_def
    by (intro exI [of _ "set (aux2_votes s r w)"]) (simp add: distinct_card)
qed

lemma quorum_for_mono:
  "quorum_for L n f H sent rid r w \<Longrightarrow> (\<And>j. sent j \<subseteq> sent' j) \<Longrightarrow> quorum_for L n f H sent' rid r w"
  unfolding quorum_for_def by (meson said_mono)

lemma BFTDecided_ABAStore:
  assumes "BFTDecided L self i st = Some (st', acts)"
  shows "m_get (ABAStore st') rid = m_get (ABAStore st) rid \<or> m_get (ABAStore st') rid = Some None"
  using assms ABAStore_cleanup [of L self i "st\<lparr>SessionStore := snd (ADKGSessionStore_GetOrSetIfNotComplete
    (SessionStore st) i DefaultADKGSession)\<rparr>" rid]
  by (auto simp: BFTDecided_def Let_def split: prod.splits if_splits sum.splits Option.bind_splits)

lemma agree_completed:
  assumes "\<And>rid. m_get (ABAStore st') rid = m_get (ABAStore st) rid \<or> m_get (ABAStore st') rid = Some None"
  shows "said_ok L sent st \<Longrightarrow> said_ok L sent st'" "votes_ok L n H sents st \<Longrightarrow> votes_ok L n H sents st'"
proof -
  show "said_ok L sent st'" if "said_ok L sent st"
    using that assms unfolding said_ok_def by metis
  show "votes_ok L n H sents st'" if "votes_ok L n H sents st"
    using that assms unfolding votes_ok_def by (metis option.distinct(1) option.inject)
qed

definition net_inv :: "('s, 'p) lib \<Rightarrow> int \<Rightarrow> int \<Rightarrow> int set \<Rightarrow> 'p net \<Rightarrow> bool" where
  "net_inv L n f H N \<longleftrightarrow>
     (\<forall>i \<in> H. said_ok L (net_sent N i) (net_state N i) \<and> votes_ok L n H (net_sent N) (net_state N i)) \<and>
     (\<forall>(i, rid, r, w) \<in> net_decided N. quorum_for L n f H (net_sent N) rid r w)"

lemma network_inv:
  assumes "network L nodes n H N" "codec_laws L" "\<And>i. i \<in> H \<Longrightarrow> \<exists>k. Params (nodes i) = (n, k, f)"
  shows "net_inv L n f H N"
  using assms(1)
proof induction
  case net_start
  then show ?case by (simp add: net_inv_def said_ok_def said_def votes_ok_def empty_state_def)
next
  case (net_deliver N i sender msg ord ord' rnd st' acts err)
  let ?sent = "(net_sent N)(i := net_sent N i \<union> sent_messages acts)"
  have rel: "agree_rel L (kn_Index sender) msg (net_state N i) st' acts"
    using ProcessMessage_agree [OF _ net_deliver.hyps(5)] assms(2)
    by (simp add: agree_rel_def agree_entry_def announced_def)
  have mono: "net_sent N j \<subseteq> ?sent j" for j by simp
  have IH: "said_ok L (net_sent N j) (net_state N j)" "votes_ok L n H (net_sent N) (net_state N j)"
    if "j \<in> H" for j using net_deliver.IH that by (auto simp: net_inv_def)
  have votes: "votes_ok L n H ?sent st'"
    using votes_ok_step [OF IH(2) [OF net_deliver.hyps(2)] rel net_deliver.hyps(3,4)] votes_ok_mono mono by blast
  have "said_ok L (?sent j) (((net_state N)(i := st')) j) \<and> votes_ok L n H ?sent (((net_state N)(i := st')) j)"
    if "j \<in> H" for j
    using said_ok_step [OF IH(1) [OF net_deliver.hyps(2)] rel] votes IH [OF that]
      votes_ok_mono [where sent' = ?sent, OF IH(2) [OF that] mono] by simp
  moreover have "quorum_for L n f H ?sent rid r w"
    if "(j, rid, r, w) \<in> net_decided N \<union> {i} \<times> aux2_decision L msg (net_state N i) st'" for j rid r w
    using that
  proof
    assume "(j, rid, r, w) \<in> net_decided N"
    then have "quorum_for L n f H (net_sent N) rid r w" using net_deliver.IH by (auto simp: net_inv_def)
    then show ?thesis by (rule quorum_for_mono) (rule mono)
  next
    assume "(j, rid, r, w) \<in> {i} \<times> aux2_decision L msg (net_state N i) st'"
    moreover obtain k where "Params (nodes i) = (n, k, f)" using assms(3) net_deliver.hyps(2) by blast
    ultimately show ?thesis
      using decision_quorum [OF net_deliver.hyps(5), of n k f H ?sent rid r w] votes
      by (simp add: aux2_decision_def votes_ok_def said_def quorum_for_def)
  qed
  ultimately show ?case unfolding net_inv_def net.select_convs by blast
next
  case (net_chain N i ord ord' key st' acts)
  note completed = agree_completed [OF BFTDecided_ABAStore [OF net_chain.hyps(3)]]
  show ?case using net_chain.IH net_chain.hyps(2) by (auto simp: net_inv_def intro: completed)
qed

section \<open>Agreement\<close>


text \<open>A run of a single node that receives an estimate, announces it and decides.\<close>

definition gf_single :: "(gf, gf) KeygenNode" where
  "gf_single = gf_self\<lparr>node_network := \<lparr>nn_Nodes = [], nn_N = 1, nn_T = 0, nn_K = 1\<rparr>\<rparr>"

abbreviation gf_est2 :: payload where "gf_est2 \<equiv> AbaEst2 gf_round ''aba_est2'' SECP256K1 1 0"
abbreviation gf_aux2 :: payload where "gf_aux2 \<equiv> AbaAux2 gf_round ''aba_aux2'' SECP256K1 1 0"

definition gf_vote_lib :: "(gf, gf) lib" where
  "gf_vote_lib = gf_lib\<lparr>
     json_Marshal := (\<lambda>p. if p = gf_est2 then Some [1] else if p = gf_aux2 then Some [2] else None),
     bijson_Unmarshal := (\<lambda>k b. if k = ''aba_est2'' \<and> b = [1] then Some gf_est2
       else if k = ''aba_aux2'' \<and> b = [2] then Some gf_aux2 else None),
     json_MarshalData := (\<lambda>m. None)\<rparr>"

lemma gf_vote_codec: "codec_laws gf_vote_lib"
  by (auto simp: codec_laws_def gf_vote_lib_def split: if_splits)

definition gf_voted :: "gf ABAState" where
  "gf_voted = DefaultABAStore\<lparr>aba_EstValues2 := [(0, [(1, [1])])], aba_EstSent2 := [(0, [(1, True)])],
     aba_BinValues2 := [(0, [1])]\<rparr>"

lemma gf_est2_step:
  "ProcessMessage gf_vote_lib gf_single rnd (gf_node 1) (CreateMessage gf_round ''aba_est2'' [1]) empty_state =
     Some (empty_state\<lparr>ABAStore := [(gf_round, Some gf_voted)]\<rparr>,
       [Broadcast (CreateMessage gf_round ''aba_est2'' [1]), Broadcast (CreateMessage gf_round ''aba_aux2'' [2])], None)"
  by (simp add: ProcessMessage_def processABAMessages_def HasPrefix_def CreateMessage_def CreateDKGMessage_def
      gf_vote_lib_def Est2Message_Process_def on_aba_def empty_state_def ABAStoreMap_GetOrSetIfNotComplete_def
      ABAStoreMap_GetOrSet_def LoadOrStore_def store_defs DefaultABAStore_def Params_def gf_single_def gf_self_def
      aba_est2_body_def est2_bin_def aba_ops gf_node_def nested_def nested_set_def add_vote_def m_zero_def
      go_index_def message_defs marshal_message_def gf_voted_def Let_def)

lemma gf_aux2_step:
  "ProcessMessage gf_vote_lib gf_single rnd (gf_node 1) (CreateMessage gf_round ''aba_aux2'' [2])
     (empty_state\<lparr>ABAStore := [(gf_round, Some gf_voted)]\<rparr>) =
     Some (\<lparr>KeygenStore = [],
       SessionStore = [(gf_id, Some (DefaultADKGSession\<lparr>ses_Decisions := [(2, 1)], ses_ABAComplete := True\<rparr>))],
       ABAStore = [(gf_round, Some (gf_voted\<lparr>aba_AuxValues2 := [(0, [(1, [1])])]\<rparr>))]\<rparr>, [], None)"
  by (simp add: ProcessMessage_def processABAMessages_def HasPrefix_def CreateMessage_def CreateDKGMessage_def
      gf_vote_lib_def Aux2Message_Process_def empty_state_def ABAStoreMap_GetOrSetIfNotComplete_def
      ABAStoreMap_GetOrSet_def LoadOrStore_def store_defs DefaultABAStore_def Params_def gf_single_def gf_self_def
      aux2_record_def aux2_values_def aux2_act_def aux2_decide_def on_session_def DefaultADKGSession_def
      ADKGSessionStore_GetOrSetIfNotComplete_def ADKGSessionStore_GetOrSet_def
      aba_ops gf_node_def nested_def nested_set_def add_vote_def m_zero_def
      message_defs marshal_message_def gf_voted_def Let_def)

lemma gf_network:
  "\<exists>N. network gf_vote_lib (\<lambda>i. gf_single) 1 {1} N \<and> (1, gf_round, 0, 1) \<in> net_decided N"
proof -
  let ?net = "network gf_vote_lib (\<lambda>i. gf_single) 1 {1}"
  let ?aux2 = "CreateMessage gf_round ''aba_aux2'' [2]"
  note deliver = net_deliver [where ord = "range_int gf_vote_lib" and ord' = "range_str gf_vote_lib"
      and L = gf_vote_lib, simplified]
  have index: "kn_Index (gf_node 1) = 1" by (simp add: gf_node_def)
  obtain N1 where N1: "?net N1" "net_state N1 1 = empty_state\<lparr>ABAStore := [(gf_round, Some gf_voted)]\<rparr>"
    "?aux2 \<in> net_sent N1 1"
  proof
    let ?N = "\<lparr>net_state = (\<lambda>i. empty_state), net_sent = (\<lambda>i. {}), net_decided = {}\<rparr> :: gf net"
    show "?net \<lparr>net_state = (net_state ?N)(1 := empty_state\<lparr>ABAStore := [(gf_round, Some gf_voted)]\<rparr>),
        net_sent = (net_sent ?N)(1 := net_sent ?N 1 \<union> sent_messages
          ([Broadcast (CreateMessage gf_round ''aba_est2'' [1]), Broadcast ?aux2] :: gf action list)),
        net_decided = net_decided ?N \<union> {1} \<times> aux2_decision gf_vote_lib
          (CreateMessage gf_round ''aba_est2'' [1]) (net_state ?N 1) (empty_state\<lparr>ABAStore := [(gf_round, Some gf_voted)]\<rparr>)\<rparr>"
      by (rule deliver [OF net_start, where sender = "gf_node 1"])
        (simp, simp add: index, simp add: CreateMessage_def CreateDKGMessage_def,
          simp only: net.select_convs, rule gf_est2_step)
  qed simp_all
  let ?st' = "\<lparr>KeygenStore = [],
       SessionStore = [(gf_id, Some (DefaultADKGSession\<lparr>ses_Decisions := [(2, 1)], ses_ABAComplete := True\<rparr>))],
       ABAStore = [(gf_round, Some (gf_voted\<lparr>aba_AuxValues2 := [(0, [(1, [1])])]\<rparr>))]\<rparr>"
  have "?net \<lparr>net_state = (net_state N1)(1 := ?st'),
      net_sent = (net_sent N1)(1 := net_sent N1 1 \<union> sent_messages ([] :: gf action list)),
      net_decided = net_decided N1 \<union> {1} \<times> aux2_decision gf_vote_lib ?aux2 (net_state N1 1) ?st'\<rparr>"
    by (rule deliver [OF N1(1), where sender = "gf_node 1"]) 
      (simp, simp add: index, simp add: index N1(3), simp only: N1(2), rule gf_aux2_step)
  moreover have "(gf_round, 0, 1) \<in> aux2_decision gf_vote_lib ?aux2 (net_state N1 1) ?st'"
    by (simp add: aux2_decision_def N1(2) CreateMessage_def CreateDKGMessage_def gf_vote_lib_def empty_state_def
        current_def DefaultADKGSession_def)
  ultimately show ?thesis by fastforce
qed


end
