(* ===== verification/Broker.thy ===== *)
theory Broker
  imports Participant
begin

text \<open>
  How the services of a node call each other, \<open>common/service_broker.go\<close> and
  \<open>common/service_registry.go\<close>: a request names a service, a method and a list of dynamically
  typed arguments; the registry runs the service's \<open>Call\<close>, turns a panic of it into an error,
  and publishes the response, which the caller casts back to a static type. The types of
  \<open>common/common.go\<close> that travel this way are here too.

  A service is a function of the method, the arguments and its state. Each broker method is
  generic in the service it is sent to; the theories of the services apply it to their \<open>Call\<close>.
  The model returns a response directly; the theory \<open>EventBus\<close> models the topics on which requests and
  responses travel and shows that they implement these direct calls.
\<close>

section \<open>Types that services exchange\<close>

record EpochInfo =
  ei_Id :: int
  ei_N :: int
  ei_K :: int
  ei_T :: int
  ei_PrevEpoch :: int
  ei_NextEpoch :: int

record VerifierParams =
  vp_ClientID :: string
  vp_Domain :: string

record GenericVerifierData =
  gv_Token :: string
  gv_Provider :: string
  gv_UserID :: string
  gv_AppID :: string

record KeyAssignmentPublic =
  ka_Index :: int
  ka_PublicKey :: Point
  ka_Verifiers :: "(string, string list) gomap"

record ConnectionDetails =
  cd_TMP2PConnection :: string
  cd_P2PConnection :: string

text \<open>\<open>AssignmentTx\<close> of \<open>tendermint/bft_rpc.go\<close> and of \<open>server/rpc\<close>, which have one type name.\<close>

record AssignmentTx =
  at_Provider :: string
  at_UserID :: string
  at_AppID :: string
  at_Curve :: CurveName

text \<open>\<open>secp256k1.HexToBigInt\<close> panics on text that is not hexadecimal.\<close>

definition HexToBigInt :: "string \<Rightarrow> int go" where
  "HexToBigInt s = big_SetString s 16"

record HexPoint =
  hp_X :: string
  hp_Y :: string

definition ToPoint :: "HexPoint \<Rightarrow> Point go" where
  "ToPoint p = do { x \<leftarrow> HexToBigInt (hp_X p); y \<leftarrow> HexToBigInt (hp_Y p); Some \<lparr>pt_X = x, pt_Y = y\<rparr> }"

definition ToHex :: "Point \<Rightarrow> HexPoint" where
  "ToHex p = \<lparr>hp_X = big_Text (pt_X p) 16, hp_Y = big_Text (pt_Y p) 16\<rparr>"

text \<open>The zero value of \<open>Point\<close>.\<close>

definition zero_Point :: Point where
  "zero_Point = \<lparr>pt_X = 0, pt_Y = 0\<rparr>"

lemma ToPoint_ToHex [simp]: "ToPoint (ToHex p) = Some p"
  by (simp add: ToPoint_def ToHex_def HexToBigInt_def SetString_Text)

text \<open>A node of the node list. The address, the index and the public key are pointers.\<close>

record NodeReference =
  nr_Address :: "bytes option"
  nr_Index :: "int option"
  nr_PeerID :: string
  nr_PublicKey :: "Point option"
  nr_P2PConnection :: string
  nr_TMP2PConnection :: string

record SerializedNodeReference =
  sn_Address :: bytes
  sn_Index :: int
  sn_PeerID :: string
  sn_PublicKey :: Point
  sn_P2PConnection :: string
  sn_TMP2PConnection :: string

definition Serialize :: "NodeReference \<Rightarrow> SerializedNodeReference" where
  "Serialize nodeRef =
     \<lparr>sn_Address = (case nr_Address nodeRef of Some a \<Rightarrow> a | None \<Rightarrow> replicate 20 0),
      sn_Index = (case nr_Index nodeRef of Some i \<Rightarrow> i | None \<Rightarrow> 0),
      sn_PeerID = nr_PeerID nodeRef,
      sn_PublicKey = (case nr_PublicKey nodeRef of Some p \<Rightarrow> p | None \<Rightarrow> zero_Point),
      sn_P2PConnection = nr_P2PConnection nodeRef,
      sn_TMP2PConnection = nr_TMP2PConnection nodeRef\<rparr>"

definition Deserialize :: "SerializedNodeReference \<Rightarrow> NodeReference" where
  "Deserialize s =
     \<lparr>nr_Address = Some (sn_Address s), nr_Index = Some (sn_Index s), nr_PeerID = sn_PeerID s,
      nr_PublicKey = Some (sn_PublicKey s), nr_P2PConnection = sn_P2PConnection s,
      nr_TMP2PConnection = sn_TMP2PConnection s\<rparr>"

lemma Serialize_Deserialize [simp]: "Serialize (Deserialize s) = s"
  by (simp add: Serialize_def Deserialize_def)

lemma Deserialize_Serialize:
  "nr_Address r \<noteq> None \<Longrightarrow> nr_Index r \<noteq> None \<Longrightarrow> nr_PublicKey r \<noteq> None \<Longrightarrow>
   Deserialize (Serialize r) = r"
  by (auto simp: Serialize_def Deserialize_def)

section \<open>Dynamic values\<close>

text \<open>
  \<open>interface{}\<close>: one constructor per dynamic type that is passed, \<open>Nil_iface\<close> for nil and
  \<open>VPtr\<close> for pointers. Named types are different dynamic types even when their representation
  is the same: \<open>VString\<close>, \<open>VCurve\<close> and \<open>VADKGID\<close>.
\<close>

text \<open>\<open>P2PBasicMessage\<close>, a message between nodes.\<close>

record P2PBasicMessage =
  pm_Version :: string
  pm_Timestamp :: int
  pm_Id :: string
  pm_Gossip :: bool
  pm_NodeId :: string
  pm_NodePubKey :: bytes
  pm_Sign :: bytes
  pm_MsgType :: string
  pm_Payload :: bytes

datatype iface =
    Nil_iface
  | VBool bool
  | VInt int
  | VUint "64 word"
  | VBig int
  | VString string
  | VBytes bytes
  | VCurve CurveName
  | VADKGID ADKGID
  | VPoint Point
  | VDetails KeygenNodeDetails
  | VEpochInfo EpochInfo
  | VVerifierParams VerifierParams
  | VNodeRef SerializedNodeReference
  | VNodeRefs "SerializedNodeReference list"
  | VMessage DKGMessage
  | VAssignmentTx AssignmentTx
  | VBigs "int list"
  | VInts "int list"
  | VKeyAssignment KeyAssignmentPublic
  | VAddress bytes
  | VConnection ConnectionDetails
  | VShares int int
  | VVerified bool string
  | VPoints "(string, Point list) gomap"
  | VMatrix "Point list list"
  | VHash bytes
  | VRaw bytes
  | VPeerID string
  | VProtocol string
  | VP2P P2PBasicMessage
  | VPtr "iface option"

text \<open>The readers: the static types that values are cast to, each with the values it takes.\<close>

fun bool_of :: "iface \<Rightarrow> bool option" where "bool_of (VBool b) = Some b" | "bool_of _ = None"
fun int_of :: "iface \<Rightarrow> int option" where "int_of (VInt i) = Some i" | "int_of _ = None"
fun big_of :: "iface \<Rightarrow> int option" where "big_of (VBig i) = Some i" | "big_of _ = None"
fun string_of :: "iface \<Rightarrow> string option" where "string_of (VString s) = Some s" | "string_of _ = None"
fun bytes_of :: "iface \<Rightarrow> bytes option" where "bytes_of (VBytes b) = Some b" | "bytes_of _ = None"
fun curve_of :: "iface \<Rightarrow> CurveName option" where "curve_of (VCurve c) = Some c" | "curve_of _ = None"
fun adkgid_of :: "iface \<Rightarrow> ADKGID option" where "adkgid_of (VADKGID i) = Some i" | "adkgid_of _ = None"
fun point_of :: "iface \<Rightarrow> Point option" where "point_of (VPoint p) = Some p" | "point_of _ = None"
fun details_of :: "iface \<Rightarrow> KeygenNodeDetails option" where
  "details_of (VDetails d) = Some d" | "details_of _ = None"
fun epoch_of :: "iface \<Rightarrow> EpochInfo option" where "epoch_of (VEpochInfo e) = Some e" | "epoch_of _ = None"
fun params_of :: "iface \<Rightarrow> VerifierParams option" where
  "params_of (VVerifierParams p) = Some p" | "params_of _ = None"
fun noderef_of :: "iface \<Rightarrow> SerializedNodeReference option" where
  "noderef_of (VNodeRef r) = Some r" | "noderef_of _ = None"
fun noderefs_of :: "iface \<Rightarrow> SerializedNodeReference list option" where
  "noderefs_of (VNodeRefs rs) = Some rs" | "noderefs_of _ = None"
fun message_of :: "iface \<Rightarrow> DKGMessage option" where
  "message_of (VMessage m) = Some m" | "message_of _ = None"
fun bigs_of :: "iface \<Rightarrow> int list option" where "bigs_of (VBigs is) = Some is" | "bigs_of _ = None"
fun ints_of :: "iface \<Rightarrow> int list option" where "ints_of (VInts is) = Some is" | "ints_of _ = None"
fun assignment_of :: "iface \<Rightarrow> KeyAssignmentPublic option" where
  "assignment_of (VKeyAssignment a) = Some a" | "assignment_of _ = None"
fun address_of :: "iface \<Rightarrow> bytes option" where "address_of (VAddress a) = Some a" | "address_of _ = None"
fun connection_of :: "iface \<Rightarrow> ConnectionDetails option" where
  "connection_of (VConnection c) = Some c" | "connection_of _ = None"
fun shares_of :: "iface \<Rightarrow> (int \<times> int) option" where
  "shares_of (VShares a b) = Some (a, b)" | "shares_of _ = None"
fun verified_of :: "iface \<Rightarrow> (bool \<times> string) option" where
  "verified_of (VVerified v u) = Some (v, u)" | "verified_of _ = None"
fun points_of :: "iface \<Rightarrow> (string, Point list) gomap option" where
  "points_of (VPoints m) = Some m" | "points_of _ = None"
fun matrix_of :: "iface \<Rightarrow> Point list list option" where
  "matrix_of (VMatrix m) = Some m" | "matrix_of _ = None"
fun hash_of :: "iface \<Rightarrow> bytes option" where "hash_of (VHash h) = Some h" | "hash_of _ = None"
fun raw_of :: "iface \<Rightarrow> bytes option" where "raw_of (VRaw r) = Some r" | "raw_of _ = None"
fun peerid_of :: "iface \<Rightarrow> string option" where "peerid_of (VPeerID i) = Some i" | "peerid_of _ = None"
fun protocol_of :: "iface \<Rightarrow> string option" where "protocol_of (VProtocol p) = Some p" | "protocol_of _ = None"
fun p2p_of :: "iface \<Rightarrow> P2PBasicMessage option" where "p2p_of (VP2P m) = Some m" | "p2p_of _ = None"

text \<open>
  \<open>CastOrUnmarshal\<close>: a pointer is followed, a nil pointer is an error; assigning a value of
  another type, or nil, panics in \<open>reflect\<close> and is recovered as an error. No caller passes
  \<open>EventBusBytes\<close>, so that the branch that unmarshals is never taken.
\<close>

definition CastOrUnmarshal :: "(iface \<Rightarrow> 'a option) \<Rightarrow> iface \<Rightarrow> 'a err" where
  "CastOrUnmarshal rd dataInter =
     (case dataInter of
        VPtr None \<Rightarrow> Inl ''LHS' element is invalid and may not be casted to the RHS''
      | VPtr (Some el) \<Rightarrow>
          (case rd el of Some v \<Rightarrow> Inr v | None \<Rightarrow> Inl ''could not cast in castOrUnmarshal'')
      | _ \<Rightarrow> (case rd dataInter of Some v \<Rightarrow> Inr v | None \<Rightarrow> Inl ''could not cast in castOrUnmarshal''))"

text \<open>
  An argument of a call: \<open>var x T; _ = CastOrUnmarshal(args[i], &x)\<close>. A missing argument panics,
  an argument of another type leaves the zero value.
\<close>

definition arg :: "'a \<Rightarrow> (iface \<Rightarrow> 'a option) \<Rightarrow> iface list \<Rightarrow> int \<Rightarrow> 'a go" where
  "arg zero rd args i = do {
     a \<leftarrow> go_index args i;
     Some (case CastOrUnmarshal rd a of Inr v \<Rightarrow> v | Inl e \<Rightarrow> zero) }"

lemma CastOrUnmarshal_simps [simp]:
  "CastOrUnmarshal rd Nil_iface = (case rd Nil_iface of Some v \<Rightarrow> Inr v | None \<Rightarrow> Inl ''could not cast in castOrUnmarshal'')"
  "CastOrUnmarshal bool_of (VBool b) = Inr b" "CastOrUnmarshal int_of (VInt i) = Inr i"
  "CastOrUnmarshal big_of (VBig i) = Inr i" "CastOrUnmarshal string_of (VString s) = Inr s"
  "CastOrUnmarshal bytes_of (VBytes bs) = Inr bs" "CastOrUnmarshal curve_of (VCurve c) = Inr c"
  "CastOrUnmarshal adkgid_of (VADKGID a) = Inr a" "CastOrUnmarshal point_of (VPoint p) = Inr p"
  "CastOrUnmarshal details_of (VDetails d) = Inr d" "CastOrUnmarshal epoch_of (VEpochInfo e) = Inr e"
  "CastOrUnmarshal params_of (VVerifierParams vp) = Inr vp" "CastOrUnmarshal noderef_of (VNodeRef r) = Inr r"
  "CastOrUnmarshal noderefs_of (VNodeRefs rs) = Inr rs" "CastOrUnmarshal message_of (VMessage m) = Inr m"
  "CastOrUnmarshal bigs_of (VBigs is) = Inr is" "CastOrUnmarshal ints_of (VInts is) = Inr is"
  "CastOrUnmarshal assignment_of (VKeyAssignment ka) = Inr ka" "CastOrUnmarshal address_of (VAddress ad) = Inr ad"
  "CastOrUnmarshal connection_of (VConnection cd) = Inr cd" "CastOrUnmarshal shares_of (VShares x y) = Inr (x, y)"
  "CastOrUnmarshal verified_of (VVerified v u) = Inr (v, u)" "CastOrUnmarshal points_of (VPoints pm) = Inr pm"
  "CastOrUnmarshal matrix_of (VMatrix mx) = Inr mx" "CastOrUnmarshal hash_of (VHash h) = Inr h"
  "CastOrUnmarshal raw_of (VRaw rw) = Inr rw" "CastOrUnmarshal peerid_of (VPeerID pid) = Inr pid"
  "CastOrUnmarshal protocol_of (VProtocol pr) = Inr pr" "CastOrUnmarshal p2p_of (VP2P msg) = Inr msg"
  "CastOrUnmarshal rd (VPtr None) = Inl ''LHS' element is invalid and may not be casted to the RHS''"
  "CastOrUnmarshal rd (VPtr (Some el)) = (case rd el of Some v \<Rightarrow> Inr v | None \<Rightarrow> Inl ''could not cast in castOrUnmarshal'')"
  by (simp_all add: CastOrUnmarshal_def)

lemma go_index_Cons [simp]:
  "go_index (x # xs) 0 = Some x" "go_index (x # xs) 1 = go_index xs 0"
  "go_index (x # xs) 2 = go_index xs 1" "go_index (x # xs) 3 = go_index xs 2"
  by (auto simp: go_index_def nth_Cons' numeral_2_eq_2 numeral_3_eq_3 nat_diff_distrib)

section \<open>Calls\<close>

text \<open>
  What a service's \<open>Call\<close> does: it returns a value and an error, it panics, or it never returns
  (it waits for a lock that is not released, or polls for something that does not happen).
\<close>

datatype call_result = Returns iface "string option" | Panics | Blocks

type_synonym 'st service = "string \<Rightarrow> iface list \<Rightarrow> 'st \<Rightarrow> call_result \<times> 'st"

text \<open>A call whose evaluation may panic, a call that stores and one that reads.\<close>

definition or_panic :: "'st \<Rightarrow> (call_result \<times> 'st) go \<Rightarrow> call_result \<times> 'st" where
  "or_panic st r = (case r of None \<Rightarrow> (Panics, st) | Some x \<Rightarrow> x)"

lemma or_panic_simps [simp]: "or_panic st None = (Panics, st)" "or_panic st (Some x) = x"
  by (simp_all add: or_panic_def)

record MethodResponse =
  mr_Error :: "string option"
  mr_Data :: iface

text \<open>\<open>ServiceMethod\<close> with the routing of \<open>SetupMethodRouting\<close>; \<open>None\<close> when no response comes.\<close>

definition ServiceMethod :: "'st service \<Rightarrow> string \<Rightarrow> iface list \<Rightarrow> 'st \<Rightarrow> (MethodResponse \<times> 'st) go" where
  "ServiceMethod call method data st =
     (case call method data st of
        (Returns d e, st') \<Rightarrow> Some (\<lparr>mr_Error = e, mr_Data = d\<rparr>, st')
      | (Panics, st') \<Rightarrow> Some (\<lparr>mr_Error = Some ''panic'', mr_Data = Nil_iface\<rparr>, st')
      | (Blocks, st') \<Rightarrow> None)"

text \<open>The three ways in which broker methods read a response.\<close>

definition checked :: "(iface \<Rightarrow> 'a option) \<Rightarrow> MethodResponse \<Rightarrow> 'a err" where
  "checked rd r = (case mr_Error r of Some e \<Rightarrow> Inl e | None \<Rightarrow> CastOrUnmarshal rd (mr_Data r))"

definition cast_only :: "(iface \<Rightarrow> 'a option) \<Rightarrow> MethodResponse \<Rightarrow> 'a err" where
  "cast_only rd r = CastOrUnmarshal rd (mr_Data r)"

definition acknowledged :: "MethodResponse \<Rightarrow> unit err" where
  "acknowledged r = (case mr_Error r of Some e \<Rightarrow> Inl e | None \<Rightarrow> Inr ())"

definition ask ::
  "(MethodResponse \<Rightarrow> 'a err) \<Rightarrow> 'st service \<Rightarrow> string \<Rightarrow> iface list \<Rightarrow> 'st \<Rightarrow> ('a err \<times> 'st) go" where
  "ask read call method data st = do {
     (r, st') \<leftarrow> ServiceMethod call method data st;
     Some (read r, st') }"

text \<open>\<open>retry.Do\<close> of \<open>avast/retry-go\<close>, which tries ten times, and then \<open>log.Fatal\<close>.\<close>

fun retry_do :: "nat \<Rightarrow> ('st \<Rightarrow> ('a err \<times> 'st) go) \<Rightarrow> 'st \<Rightarrow> ('a err \<times> 'st) go" where
  "retry_do 0 f st = Some (Inl ''All attempts fail'', st)"
| "retry_do (Suc n) f st = do {
     (r, st') \<leftarrow> f st;
     (case r of Inr v \<Rightarrow> Some (Inr v, st') | Inl e \<Rightarrow> retry_do n f st') }"

definition retry_or_fatal :: "('st \<Rightarrow> ('a err \<times> 'st) go) \<Rightarrow> 'st \<Rightarrow> ('a \<times> 'st) go" where
  "retry_or_fatal f st = do {
     (r, st') \<leftarrow> retry_do 10 f st;
     (case r of Inr v \<Rightarrow> Some (v, st') | Inl e \<Rightarrow> None) }"

lemma retry_first:
  "f st = Some (Inr v, st') \<Longrightarrow> retry_or_fatal f st = Some (v, st')"
  by (simp add: retry_or_fatal_def numeral_eq_Suc)

lemma retry_or_fatal_Some:
  assumes "retry_or_fatal f st = Some (v, st')" and "\<And>s r s'. f s = Some (r, s') \<Longrightarrow> s' = s"
  shows "st' = st \<and> f st = Some (Inr v, st)"
proof -
  have "retry_do n f st = Some (Inr v, st') \<Longrightarrow> st' = st \<and> f st = Some (Inr v, st)" for n
  proof (induction n)
    case (Suc n)
    then obtain r s where "f st = Some (r, s)" by (auto simp: go_bind_eq_Some)
    moreover then have "s = st" using assms(2) by blast
    ultimately show ?case using Suc by (cases r) auto
  qed simp
  moreover have "retry_do 10 f st = Some (Inr v, st')"
    using assms(1) by (cases "retry_do 10 f st") (auto simp: retry_or_fatal_def split: sum.splits)
  ultimately show ?thesis by blast
qed

section \<open>The methods of the verifier and of the consensus service\<close>

definition VerifierMethods_Verify :: "'st service \<Rightarrow> bytes \<Rightarrow> 'st \<Rightarrow> ((bool \<times> string) err \<times> 'st) go" where
  "VerifierMethods_Verify vs rawMessage = ask (checked verified_of) vs ''verify'' [VPtr (Some (VRaw rawMessage))]"

definition VerifierMethods_CleanToken :: "'st service \<Rightarrow> string \<Rightarrow> string \<Rightarrow> 'st \<Rightarrow> (string err \<times> 'st) go" where
  "VerifierMethods_CleanToken vs verifierIdentifier idtoken =
     ask (checked string_of) vs ''clean_token'' [VString verifierIdentifier, VString idtoken]"

definition TendermintMethods_Broadcast :: "'st service \<Rightarrow> iface \<Rightarrow> 'st \<Rightarrow> (bytes err \<times> 'st) go" where
  "TendermintMethods_Broadcast tm tx = ask (checked hash_of) tm ''broadcast'' [tx]"

definition TendermintMethods_TxStatus :: "'st service \<Rightarrow> bytes \<Rightarrow> 'st \<Rightarrow> (bool err \<times> 'st) go" where
  "TendermintMethods_TxStatus tm hash = ask (checked bool_of) tm ''tx_status'' [VBytes hash]"

text \<open>\<open>hasCallback\<close> tells whether the bus has a handler for the query; subscribing one succeeds.\<close>

definition TendermintMethods_RegisterQuery ::
  "'st service \<Rightarrow> (string \<Rightarrow> bool) \<Rightarrow> string \<Rightarrow> 'st \<Rightarrow> (unit err \<times> 'st) go" where
  "TendermintMethods_RegisterQuery tm hasCallback query w =
     (if hasCallback query then Some (Inl ''cannot call RegisterQuery on query as it already has a handler'', w)
      else ask acknowledged tm ''register_query'' [VString query] w)"

section \<open>Calls beside a part of the world\<close>

text \<open>A service that leaves the first part of the world as it is, and what a client of it keeps.\<close>

definition spares_fst :: "('a \<times> 'b) service \<Rightarrow> bool" where
  "spares_fst s \<longleftrightarrow> (\<forall>m args w r w'. s m args w = (r, w') \<longrightarrow> fst w' = fst w)"

lemma ServiceMethod_spares:
  assumes "spares_fst s" "ServiceMethod s m args w = Some (r, w')"
  shows "fst w' = fst w"
proof -
  obtain q w1 where q: "s m args w = (q, w1)" by (cases "s m args w")
  then have "w' = w1" using assms(2) by (cases q) (auto simp: ServiceMethod_def)
  then show ?thesis using assms(1) q unfolding spares_fst_def by blast
qed

lemma ask_spares: "spares_fst s \<Longrightarrow> ask rd s m args w = Some (r, w') \<Longrightarrow> fst w' = fst w"
  by (cases w') (auto simp: ask_def go_bind_eq_Some dest: ServiceMethod_spares)

lemma retry_do_invariant:
  assumes "\<And>w r w'. P w \<Longrightarrow> f w = Some (r, w') \<Longrightarrow> P w'"
  shows "P w \<Longrightarrow> retry_do n f w = Some (r, w') \<Longrightarrow> P w'"
proof (induction n arbitrary: w)
  case (Suc n)
  then obtain q w1 where q: "f w = Some (q, w1)" by (auto simp: go_bind_eq_Some)
  then show ?case using Suc assms [OF Suc.prems(1) q] by (cases q) auto
qed simp

lemma retry_invariant:
  assumes "\<And>w r w'. P w \<Longrightarrow> f w = Some (r, w') \<Longrightarrow> P w'" "P w" "retry_or_fatal f w = Some (v, w')"
  shows "P w'"
proof -
  obtain r where "retry_do 10 f w = Some (r, w')"
    using assms(3) by (auto simp: retry_or_fatal_def go_bind_eq_Some case_sum_eq)
  with assms(1,2) show ?thesis by (rule retry_do_invariant)
qed

text \<open>A service that keeps a property of the world, and what a client of it keeps.\<close>

definition preserves :: "('w \<Rightarrow> bool) \<Rightarrow> 'w service \<Rightarrow> bool" where
  "preserves P s \<longleftrightarrow> (\<forall>m args w. P w \<longrightarrow> P (snd (s m args w)))"

lemma preservesD: "preserves P s \<Longrightarrow> P w \<Longrightarrow> P (snd (s m args w))"
  by (simp add: preserves_def)

lemma ServiceMethod_keeps:
  "(P w \<Longrightarrow> P (snd (s m args w))) \<Longrightarrow> P w \<Longrightarrow> ServiceMethod s m args w = Some (r, w') \<Longrightarrow> P w'"
  by (auto simp: ServiceMethod_def split: prod.splits call_result.splits)

lemma ask_keeps:
  assumes "\<And>w. P w \<Longrightarrow> P (snd (s m args w))" "P w" "ask rd s m args w = Some (r, w')"
  shows "P w'"
  using assms(3) ServiceMethod_keeps [where P = P and s = s and m = m and args = args, OF assms(1) assms(2)] by (auto simp: ask_def go_bind_eq_Some)

lemma retry_ask_keeps:
  assumes "\<And>w. P w \<Longrightarrow> P (snd (s m args w))" "P w" "retry_or_fatal (ask rd s m args) w = Some (r, w')"
  shows "P w'"
  by (rule retry_invariant [where P = P, OF _ assms(2,3)]) (rule ask_keeps [where P = P and s = s and m = m and args = args and rd = rd, OF assms(1)])

text \<open>A service on a part of the world.\<close>

definition in_part :: "('w \<Rightarrow> 'd) \<Rightarrow> ('d \<Rightarrow> 'w \<Rightarrow> 'w) \<Rightarrow> 'd service \<Rightarrow> 'w service" where
  "in_part sel upd s m args w = (case s m args (sel w) of (r, d) \<Rightarrow> (r, upd d w))"

end
