(* ===== verification/Crypto.thy ===== *)
theory Crypto
  imports Broker
begin

text \<open>
  Signatures, \<open>crypto/crypto.go\<close> and \<open>keygen/signature.go\<close>: ECDSA over Keccak-256 in the raw
  form that nodes send each other and in the hexadecimal form that clients collect. ECDSA and
  Keccak (\<open>go-ethereum/crypto\<close>, \<open>crypto/ecdsa\<close>, \<open>x/crypto/sha3\<close>) are parameters.
\<close>

section \<open>The packages\<close>

text \<open>
  \<open>ec_Sign\<close> is \<open>ethcrypto.Sign\<close> of a hash with a private scalar, 65 bytes: r, s and the recovery
  identifier. \<open>hex_Spare\<close> is what the buffer of \<open>hex.DecodeString\<close> holds behind the bytes it
  decoded when the text is not hexadecimal; the documentation does not say.
\<close>

record ecdsa =
  ec_Verify :: "Point \<Rightarrow> bytes \<Rightarrow> int \<Rightarrow> int \<Rightarrow> bool"
  ec_Sign :: "bytes \<Rightarrow> int \<Rightarrow> bytes option"
  ec_ToECDSA :: "bytes \<Rightarrow> int option"
  ec_Public :: "int \<Rightarrow> Point"
  ec_Keccak256 :: "bytes \<Rightarrow> bytes"
  ec_PubkeyToAddress :: "Point \<Rightarrow> bytes"
  hex_Spare :: "string \<Rightarrow> bytes"

definition ecdsa_laws :: "ecdsa \<Rightarrow> bool" where
  "ecdsa_laws E \<longleftrightarrow>
     (\<forall>d. length (ec_Keccak256 E d) = 32) \<and>
     (\<forall>h k sig. length h = 32 \<and> ec_Sign E h k = Some sig \<longrightarrow>
        length sig = 65 \<and> sig ! 64 < 4 \<and>
        ec_Verify E (ec_Public E k) h (big_SetBytes (take 32 sig)) (big_SetBytes (take 32 (drop 32 sig))))"

section \<open>Signatures\<close>

record Signature =
  sg_Raw :: bytes
  sg_Hash :: bytes
  sg_R :: bytes
  sg_S :: bytes
  sg_V :: "8 word"

record SignatureHashless =
  sh_Raw :: bytes
  sh_R :: bytes
  sh_S :: bytes
  sh_V :: "8 word"

text \<open>An array of 32 bytes, filled from a slice.\<close>

definition bytes32 :: "bytes \<Rightarrow> bytes" where
  "bytes32 b = take 32 (b @ replicate 32 0)"

definition SigToHex :: "Signature \<Rightarrow> string" where
  "SigToHex sig = hex_EncodeToString (sg_R sig) @ hex_EncodeToString (sg_S sig) @
     hex_EncodeToString (big_Bytes (uint (sg_V sig)))"

text \<open>The bytes \<open>hex.DecodeString\<close> returns, whether or not it returns an error with them.\<close>

fun hex_decoded :: "string \<Rightarrow> bytes" where
  "hex_decoded (a # b # s) =
     (case (hex_digit a, hex_digit b) of
        (Some x, Some y) \<Rightarrow> of_nat (x * 16 + y) # hex_decoded s
      | _ \<Rightarrow> [])"
| "hex_decoded _ = []"

definition hex_buffer :: "ecdsa \<Rightarrow> string \<Rightarrow> bytes" where
  "hex_buffer E s = take 32 (hex_decoded s @ hex_Spare E s @ replicate 32 0)"

definition HexToSig :: "ecdsa \<Rightarrow> string \<Rightarrow> SignatureHashless go" where
  "HexToSig E hexString = do {
     hexR \<leftarrow> go_slice hexString 0 64;
     hexS \<leftarrow> go_slice hexString 64 128;
     hexV \<leftarrow> go_slice hexString 128 130;
     let V = big_SetBytes (hex_decoded hexV);
     Some \<lparr>sh_Raw = hex_decoded hexR @ hex_decoded hexS @ big_Bytes V,
           sh_R = hex_buffer E hexR, sh_S = hex_buffer E hexS, sh_V = word_of_int V\<rparr> }"

text \<open>A failed signature ends the process.\<close>

definition SignData :: "ecdsa \<Rightarrow> bytes \<Rightarrow> int \<Rightarrow> Signature go" where
  "SignData E data k = do {
     let hashRaw = ec_Keccak256 E data;
     signature \<leftarrow> ec_Sign E hashRaw k;
     r \<leftarrow> go_slice signature 0 32;
     s \<leftarrow> go_slice signature 32 64;
     v \<leftarrow> go_index signature 64;
     Some \<lparr>sg_Raw = signature, sg_Hash = bytes32 hashRaw, sg_R = bytes32 r, sg_S = bytes32 s,
           sg_V = v + 27\<rparr> }"

definition IsValidSignature :: "ecdsa \<Rightarrow> Point \<Rightarrow> Signature \<Rightarrow> bool" where
  "IsValidSignature E pk sig =
     ec_Verify E pk (sg_Hash sig) (big_SetBytes (sg_R sig)) (big_SetBytes (sg_S sig))"

definition verifyFromRaw :: "ecdsa \<Rightarrow> bytes \<Rightarrow> Point \<Rightarrow> bytes \<Rightarrow> bool go" where
  "verifyFromRaw E msg pk signature = do {
     r \<leftarrow> go_slice signature 0 32;
     s \<leftarrow> go_slice signature 32 64;
     Some (ec_Verify E pk (bytes32 (ec_Keccak256 E msg)) (big_SetBytes (bytes32 r)) (big_SetBytes (bytes32 s))) }"

definition VerifyPtFromRaw :: "ecdsa \<Rightarrow> bytes \<Rightarrow> Point \<Rightarrow> bytes \<Rightarrow> bool go" where
  "VerifyPtFromRaw E msg pubKeyPt signature = verifyFromRaw E msg pubKeyPt signature"

definition BigIntToECDSAPrivateKey :: "ecdsa \<Rightarrow> int \<Rightarrow> int go" where
  "BigIntToECDSAPrivateKey E x = ec_ToECDSA E (big_Bytes x)"

definition PointToEthAddress :: "ecdsa \<Rightarrow> Point \<Rightarrow> bytes" where
  "PointToEthAddress E point = ec_PubkeyToAddress E point"

text \<open>\<open>ECDSAVerify\<close>, \<open>ECDSASign\<close> and \<open>ECDSASignBytes\<close> of \<open>keygen/signature.go\<close>.\<close>

definition ECDSAVerify :: "ecdsa \<Rightarrow> string \<Rightarrow> Point \<Rightarrow> bytes \<Rightarrow> bool go" where
  "ECDSAVerify E str pubKey signature = do {
     r \<leftarrow> go_slice signature 0 32;
     s \<leftarrow> go_slice signature 32 64;
     Some (ec_Verify E pubKey (ec_Keccak256 E (string_bytes str)) (big_SetBytes r) (big_SetBytes s)) }"

text \<open>The error of \<open>ToECDSA\<close> is dropped; signing with the nil key it leaves panics.\<close>

definition ECDSASign :: "ecdsa \<Rightarrow> string \<Rightarrow> int \<Rightarrow> bytes go" where
  "ECDSASign E s privKey = do {
     k \<leftarrow> ec_ToECDSA E (big_Bytes privKey);
     ec_Sign E (ec_Keccak256 E (string_bytes s)) k }"

definition ECDSASignBytes :: "ecdsa \<Rightarrow> bytes \<Rightarrow> int \<Rightarrow> bytes go" where
  "ECDSASignBytes E b privKey = ECDSASign E (bytes_string b) privKey"

section \<open>Round trips\<close>

lemma bytes32_id [simp]: "length b = 32 \<Longrightarrow> bytes32 b = b"
  by (simp add: bytes32_def)

lemma hex_decoded_Encode [simp]: "hex_decoded (hex_EncodeToString b) = b"
proof (induction b)
  case (Cons x b)
  have "unat x < 256" using unsigned_less [of x, where 'a = nat] by simp
  then have d: "unat x div 16 < 16" "unat x mod 16 < 16" by auto
  have "hex_digit (digit_char n) = Some n" if "n < 16" for n
    using that by (simp add: hex_digit_def)
  then show ?case using Cons d by (simp add: hex_EncodeToString_def)
qed (simp add: hex_EncodeToString_def)

lemma length_hex_Encode [simp]: "length (hex_EncodeToString b) = 2 * length b"
  by (induction b) (simp_all add: hex_EncodeToString_def)

lemma hex_buffer_Encode [simp]: "length b = 32 \<Longrightarrow> hex_buffer E (hex_EncodeToString b) = b"
  by (simp add: hex_buffer_def)

text \<open>The recovery identifier plus 27 is one byte, written as two digits.\<close>

lemma recovery_byte:
  fixes v :: "8 word"
  assumes "v < 4"
  shows "big_Bytes (uint (v + 27)) = [v + 27]"
proof -
  have v: "unat v < 4" using assms by (simp add: word_less_nat_alt)
  then have "unat (v + 27) = unat v + 27" by (simp add: unat_word_ariths)
  then have "nat \<bar>uint (v + 27)\<bar> = unat v + 27" by simp
  moreover have "bytes_nat (unat v + 27) = [of_nat (unat v + 27)]"
    using v by (simp add: bytes_nat.simps)
  ultimately show ?thesis by (simp add: big_Bytes_def)
qed

lemma SignData_Some:
  assumes "ecdsa_laws E" "SignData E data k = Some sig"
  obtains raw where "ec_Sign E (ec_Keccak256 E data) k = Some raw" "length raw = 65" "raw ! 64 < 4"
    "sig = \<lparr>sg_Raw = raw, sg_Hash = ec_Keccak256 E data, sg_R = take 32 raw, sg_S = take 32 (drop 32 raw),
            sg_V = raw ! 64 + 27\<rparr>"
    "ec_Verify E (ec_Public E k) (ec_Keccak256 E data) (big_SetBytes (take 32 raw))
       (big_SetBytes (take 32 (drop 32 raw)))"
proof -
  have len: "length (ec_Keccak256 E data) = 32" using assms(1) by (simp add: ecdsa_laws_def)
  obtain raw where raw: "ec_Sign E (ec_Keccak256 E data) k = Some raw"
    using assms(2) by (auto simp: SignData_def Let_def go_bind_eq_Some)
  then have laws: "length raw = 65" "raw ! 64 < 4"
    "ec_Verify E (ec_Public E k) (ec_Keccak256 E data) (big_SetBytes (take 32 raw))
       (big_SetBytes (take 32 (drop 32 raw)))"
    using assms(1) len unfolding ecdsa_laws_def by blast+
  then show thesis using that [OF raw] assms(2) raw len
    by (simp add: SignData_def Let_def go_slice_def go_index_def)
qed

text \<open>
  What a node signs verifies, in both forms: the raw signature against the public key of the
  private key, and the hexadecimal form after it has been written and read back, where the
  recovery identifier comes back as well.
\<close>

lemma signature_roundtrip:
  assumes "ecdsa_laws E" "SignData E data k = Some sig"
  shows "VerifyPtFromRaw E data (ec_Public E k) (sg_Raw sig) = Some True \<and>
    (\<exists>hs. HexToSig E (SigToHex sig) = Some hs \<and> sh_R hs = sg_R sig \<and> sh_S hs = sg_S sig \<and> sh_V hs = sg_V sig \<and>
       sh_V hs - 27 = sg_Raw sig ! 64 \<and>
       IsValidSignature E (ec_Public E k) \<lparr>sg_Raw = sh_Raw hs, sg_Hash = bytes32 (ec_Keccak256 E data),
         sg_R = sh_R hs, sg_S = sh_S hs, sg_V = sh_V hs - 27\<rparr>)"
  using assms
proof (rule SignData_Some)
  fix raw :: bytes
  let ?h = "ec_Keccak256 E data" and ?r = "take 32 raw" and ?s = "take 32 (drop 32 raw)"
  assume raw: "length raw = 65" "raw ! 64 < 4"
    and sig: "sig = \<lparr>sg_Raw = raw, sg_Hash = ?h, sg_R = ?r, sg_S = ?s, sg_V = raw ! 64 + 27\<rparr>"
    and valid: "ec_Verify E (ec_Public E k) ?h (big_SetBytes ?r) (big_SetBytes ?s)"
  have len: "length ?h = 32" "length ?r = 32" "length ?s = 32"
    using assms(1) raw(1) by (simp_all add: ecdsa_laws_def)
  have hex: "SigToHex sig = hex_EncodeToString ?r @ hex_EncodeToString ?s @ hex_EncodeToString [raw ! 64 + 27]"
    by (simp add: SigToHex_def sig recovery_byte [OF raw(2)])
  have "HexToSig E (SigToHex sig) = Some \<lparr>sh_Raw = ?r @ ?s @ big_Bytes (uint (raw ! 64 + 27)), sh_R = ?r,
      sh_S = ?s, sh_V = raw ! 64 + 27\<rparr>"
    unfolding HexToSig_def hex using len
    by (simp add: go_slice_def big_SetBytes_def Let_def min_absorb2 raw(1))
  then show ?thesis using valid len raw(1) sig
    by (simp add: VerifyPtFromRaw_def verifyFromRaw_def go_slice_def IsValidSignature_def)
qed

text \<open>A signature scheme that is correct and not secure, for concrete runs.\<close>

definition toy_ecdsa :: ecdsa where
  "toy_ecdsa =
     \<lparr>ec_Verify = (\<lambda>pk h r s. r = big_SetBytes h \<and> s = pt_X pk mod 256),
      ec_Sign = (\<lambda>h k. Some (h @ replicate 31 0 @ [word_of_int k, 0])),
      ec_ToECDSA = (\<lambda>b. Some (big_SetBytes b)),
      ec_Public = (\<lambda>k. \<lparr>pt_X = k, pt_Y = k\<rparr>),
      ec_Keccak256 = (\<lambda>d. take 32 (d @ replicate 32 0)),
      ec_PubkeyToAddress = (\<lambda>p. replicate 19 0 @ [word_of_int (pt_X p)]),
      hex_Spare = (\<lambda>_. [])\<rparr>"

lemma toy_ecdsa_laws [simp]: "ecdsa_laws toy_ecdsa"
proof -
  have "big_SetBytes (replicate 31 0 @ [word_of_int k :: byte]) = k mod 256" for k
    by (simp add: big_SetBytes_def foldl_append numeral_eq_Suc uint_word_of_int)
  then show ?thesis by (auto simp: ecdsa_laws_def toy_ecdsa_def nth_append min_def)
qed

lemma signature_roundtrip_witness:
  "\<exists>sig. SignData toy_ecdsa [1, 2, 3] 5 = Some sig \<and>
     VerifyPtFromRaw toy_ecdsa [1, 2, 3] (ec_Public toy_ecdsa 5) (sg_Raw sig) = Some True"
proof -
  obtain sig where sig: "SignData toy_ecdsa [1, 2, 3] 5 = Some sig"
    by (simp add: SignData_def toy_ecdsa_def go_slice_def go_index_def Let_def)
  then show ?thesis using signature_roundtrip [OF toy_ecdsa_laws sig] by blast
qed

end
