(* ===== verification/Db.thy ===== *)
theory Db
  imports Broker
begin

text \<open>
  The database of a node: \<open>db/db_wrapper.go\<close> (one key prefix per table over LevelDB),
  \<open>db/db_service.go\<close> (the service) and the broker methods that reach it, and
  \<open>keystore/keystore_service.go\<close>, which has the same form. LevelDB and the JSON codec are
  parameters; a failed write ends the process (\<open>log.Fatal\<close>) and a failed read panics, both
  \<open>None\<close> here.

  A table is a function from its arguments to a database key. The locale \<open>table\<close> is its
  contract: the key determines the arguments, so that what is read back is what was stored last.
\<close>

section \<open>The packages\<close>

text \<open>
  \<open>goleveldb\<close>: \<open>ldb_Get\<close> gives \<open>None\<close> on an error other than \<open>ErrNotFound\<close>, which is
  \<open>Some None\<close>; \<open>ldb_Put\<close> gives \<open>None\<close> on an error. A codec is \<open>bijson.Marshal\<close> and
  \<open>bijson.Unmarshal\<close> at one type.
\<close>

record 'd leveldb =
  ldb_Get :: "'d \<Rightarrow> bytes \<Rightarrow> bytes option option"
  ldb_Put :: "'d \<Rightarrow> bytes \<Rightarrow> bytes \<Rightarrow> 'd option"

definition leveldb_laws :: "'d leveldb \<Rightarrow> bool" where
  "leveldb_laws D \<longleftrightarrow> (\<forall>d k v d'. ldb_Put D d k v = Some d' \<longrightarrow>
     ldb_Get D d' k = Some (Some v) \<and> (\<forall>k'. k' \<noteq> k \<longrightarrow> ldb_Get D d' k' = ldb_Get D d k'))"

record 'a codec =
  Marshal :: "'a \<Rightarrow> bytes option"
  Unmarshal :: "bytes \<Rightarrow> 'a option"

definition codec_ok :: "'a codec \<Rightarrow> bool" where
  "codec_ok C \<longleftrightarrow> (\<forall>x b. Marshal C x = Some b \<longrightarrow> Unmarshal C b = Some x)"

record completedShare =
  cs_Si :: int
  cs_SiPrime :: int

record dbjson =
  js_share :: "completedShare codec"
  js_points :: "(string, Point list) gomap codec"
  js_ints :: "int list codec"
  js_hexpoint :: "HexPoint codec"
  js_started :: "bool codec"
  js_point :: "Point codec"
  js_matrix :: "Point list list codec"

section \<open>Keys\<close>

definition keyIndexToPubKeyBytes :: bytes where "keyIndexToPubKeyBytes = string_bytes ''h''"
definition keyIndexToPubKeyEDBytes :: bytes where "keyIndexToPubKeyEDBytes = string_bytes ''hED''"
definition pubkeyToKeyIndexBytes :: bytes where "pubkeyToKeyIndexBytes = string_bytes ''f''"
definition pubkeyToKeyIndexEDBytes :: bytes where "pubkeyToKeyIndexEDBytes = string_bytes ''fdd''"
definition commitmentBytes :: bytes where "commitmentBytes = string_bytes ''co''"
definition commitmentEDBytes :: bytes where "commitmentEDBytes = string_bytes ''mdom''"
definition TBytes :: bytes where "TBytes = string_bytes ''t''"
definition TEDBytes :: bytes where "TEDBytes = string_bytes ''de''"
definition completedPSSShareBytes :: bytes where "completedPSSShareBytes = string_bytes ''b''"
definition completedEDPSSShareBytes :: bytes where "completedEDPSSShareBytes = string_bytes ''ad''"
definition keygenIDBytes :: bytes where "keygenIDBytes = string_bytes ''g''"
definition connectionDetailsBytes :: bytes where "connectionDetailsBytes = string_bytes ''i''"
definition pssCommitmentMatrixBytes :: bytes where "pssCommitmentMatrixBytes = string_bytes ''e''"
definition nodePubKeyBytes :: bytes where "nodePubKeyBytes = string_bytes ''j''"

lemmas prefix_defs = keyIndexToPubKeyBytes_def keyIndexToPubKeyEDBytes_def pubkeyToKeyIndexBytes_def
  pubkeyToKeyIndexEDBytes_def commitmentBytes_def commitmentEDBytes_def TBytes_def TEDBytes_def
  completedPSSShareBytes_def completedEDPSSShareBytes_def keygenIDBytes_def connectionDetailsBytes_def
  pssCommitmentMatrixBytes_def nodePubKeyBytes_def

text \<open>The prefix of a table that has one per curve.\<close>

definition curve_key :: "bytes \<Rightarrow> bytes \<Rightarrow> CurveName \<Rightarrow> bytes \<Rightarrow> bytes" where
  "curve_key secp ed curve k = (if curve = ED25519 then ed @ k else secp @ k)"

definition share_key :: "int \<times> CurveName \<Rightarrow> bytes" where
  "share_key = (\<lambda>(i, c). curve_key completedPSSShareBytes completedEDPSSShareBytes c (big_Bytes i))"

definition commitment_key :: "int \<times> CurveName \<Rightarrow> bytes" where
  "commitment_key = (\<lambda>(i, c). curve_key commitmentBytes commitmentEDBytes c (big_Bytes i))"

definition T_key :: "int \<times> CurveName \<Rightarrow> bytes" where
  "T_key = (\<lambda>(i, c). curve_key TBytes TEDBytes c (big_Bytes i))"

definition pubkey_key :: "int \<times> CurveName \<Rightarrow> bytes" where
  "pubkey_key = (\<lambda>(i, c). curve_key keyIndexToPubKeyBytes keyIndexToPubKeyEDBytes c (big_Bytes i))"

section \<open>The wrapper\<close>

definition Set :: "'d leveldb \<Rightarrow> bytes \<Rightarrow> bytes \<Rightarrow> 'd \<Rightarrow> 'd go" where
  "Set D key value d = ldb_Put D d key value"

definition Get :: "'d leveldb \<Rightarrow> bytes \<Rightarrow> 'd \<Rightarrow> bytes option go" where
  "Get D key d = ldb_Get D d key"

definition Has :: "'d leveldb \<Rightarrow> bytes \<Rightarrow> 'd \<Rightarrow> bool go" where
  "Has D key d = do { r \<leftarrow> Get D key d; Some (r \<noteq> None) }"

definition RetrieveCompletedShare ::
  "'d leveldb \<Rightarrow> dbjson \<Rightarrow> int \<Rightarrow> CurveName \<Rightarrow> 'd \<Rightarrow> (int \<times> int) err go" where
  "RetrieveCompletedShare D J keyIndex curve d = do {
     res \<leftarrow> Get D (share_key (keyIndex, curve)) d;
     Some (case res of
         None \<Rightarrow> Inl ''Share not found!''
       | Some b \<Rightarrow>
           (case Unmarshal (js_share J) b of
              None \<Rightarrow> Inl ''unmarshal''
            | Some s \<Rightarrow> Inr (cs_Si s, cs_SiPrime s))) }"

definition StoreCompletedPSSShare ::
  "'d leveldb \<Rightarrow> dbjson \<Rightarrow> int \<Rightarrow> int \<Rightarrow> int \<Rightarrow> CurveName \<Rightarrow> 'd \<Rightarrow> (unit err \<times> 'd) go" where
  "StoreCompletedPSSShare D J keyIndex si siprime curve d =
     (case Marshal (js_share J) \<lparr>cs_Si = si, cs_SiPrime = siprime\<rparr> of
        None \<Rightarrow> Some (Inl ''marshal'', d)
      | Some b \<Rightarrow> do { d' \<leftarrow> Set D (share_key (keyIndex, curve)) b d; Some (Inr (), d') })"

text \<open>\<open>tVal, _ := bijson.Marshal(T)\<close>: a failure leaves nil, which \<open>Set\<close> stores as no bytes.\<close>

definition db_StoreCommitment ::
  "'d leveldb \<Rightarrow> dbjson \<Rightarrow> int \<Rightarrow> int list \<Rightarrow> (string, Point list) gomap \<Rightarrow> CurveName \<Rightarrow> 'd \<Rightarrow>
   (unit err \<times> 'd) go" where
  "db_StoreCommitment D J keyIndex T metadata curve d =
     (case Marshal (js_points J) metadata of
        None \<Rightarrow> Some (Inl ''marshal'', d)
      | Some b \<Rightarrow> do {
          d1 \<leftarrow> Set D (commitment_key (keyIndex, curve)) b d;
          d2 \<leftarrow> Set D (T_key (keyIndex, curve)) (case Marshal (js_ints J) T of Some t \<Rightarrow> t | None \<Rightarrow> []) d1;
          Some (Inr (), d2) })"

text \<open>
  A failed \<open>Unmarshal\<close> leaves the pointer \<open>pubKeyHex\<close> nil, and \<open>ToPoint\<close> on it panics.
\<close>

definition RetrieveNodePubKey ::
  "'d leveldb \<Rightarrow> dbjson \<Rightarrow> bytes \<Rightarrow> 'd \<Rightarrow> Point err go" where
  "RetrieveNodePubKey D J nodeAddress d = do {
     data \<leftarrow> Get D (nodePubKeyBytes @ nodeAddress) d;
     (case data of
        None \<Rightarrow> Some (Inl ''could not find pubkey for nodeAddress'')
      | Some b \<Rightarrow> do {
          pubKeyHex \<leftarrow> Unmarshal (js_hexpoint J) b;
          p \<leftarrow> ToPoint pubKeyHex;
          Some (Inr p) }) }"

definition StoreNodePubKey ::
  "'d leveldb \<Rightarrow> dbjson \<Rightarrow> bytes \<Rightarrow> Point \<Rightarrow> 'd \<Rightarrow> (unit err \<times> 'd) go" where
  "StoreNodePubKey D J nodeAddress pubKey d =
     (case Marshal (js_hexpoint J) (ToHex pubKey) of
        None \<Rightarrow> Some (Inl ''marshal'', d)
      | Some b \<Rightarrow> do { d' \<leftarrow> Set D (nodePubKeyBytes @ nodeAddress) b d; Some (Inr (), d') })"

definition db_GetKeygenStarted :: "'d leveldb \<Rightarrow> dbjson \<Rightarrow> string \<Rightarrow> 'd \<Rightarrow> bool go" where
  "db_GetKeygenStarted D J keygenID d = do {
     data \<leftarrow> Get D (keygenIDBytes @ string_bytes keygenID) d;
     Some (case data of
         None \<Rightarrow> False
       | Some b \<Rightarrow> (case Unmarshal (js_started J) b of Some s \<Rightarrow> s | None \<Rightarrow> False)) }"

definition db_SetKeygenStarted :: "'d leveldb \<Rightarrow> dbjson \<Rightarrow> string \<Rightarrow> bool \<Rightarrow> 'd \<Rightarrow> 'd go" where
  "db_SetKeygenStarted D J keygenID started d =
     Set D (keygenIDBytes @ string_bytes keygenID)
       (case Marshal (js_started J) started of Some b \<Rightarrow> b | None \<Rightarrow> []) d"

text \<open>An absent key gives \<open>SetBytes(nil)\<close>, that is index zero.\<close>

definition RetrievePublicKeyToKeyIndex ::
  "'d leveldb \<Rightarrow> dbjson \<Rightarrow> Point \<Rightarrow> 'd \<Rightarrow> int err go" where
  "RetrievePublicKeyToKeyIndex D J publicKey d =
     (case Marshal (js_point J) publicKey of
        None \<Rightarrow> Some (Inl ''marshal'')
      | Some b \<Rightarrow> do {
          r \<leftarrow> Get D (pubkeyToKeyIndexBytes @ b) d;
          Some (Inr (big_SetBytes (case r of Some x \<Rightarrow> x | None \<Rightarrow> []))) })"

definition KeyIndexToPublicKeyExists :: "'d leveldb \<Rightarrow> int \<Rightarrow> CurveName \<Rightarrow> 'd \<Rightarrow> bool go" where
  "KeyIndexToPublicKeyExists D keyIndex curve d = Has D (pubkey_key (keyIndex, curve)) d"

definition StorePublicKeyToKeyIndex ::
  "'d leveldb \<Rightarrow> dbjson \<Rightarrow> Point \<Rightarrow> int \<Rightarrow> CurveName \<Rightarrow> 'd \<Rightarrow> (unit err \<times> 'd) go" where
  "StorePublicKeyToKeyIndex D J publicKey keyIndex curve d =
     (case Marshal (js_point J) publicKey of
        None \<Rightarrow> Some (Inl ''marshal'', d)
      | Some b \<Rightarrow> do {
          d1 \<leftarrow> Set D (if curve = ED25519 then pubkeyToKeyIndexEDBytes @ big_Bytes keyIndex
                       else pubkeyToKeyIndexBytes @ b) (big_Bytes keyIndex) d;
          d2 \<leftarrow> Set D (pubkey_key (keyIndex, curve)) b d1;
          Some (Inr (), d2) })"

definition StoreConnectionDetails ::
  "'d leveldb \<Rightarrow> bytes \<Rightarrow> string \<Rightarrow> string \<Rightarrow> 'd \<Rightarrow> (unit err \<times> 'd) go" where
  "StoreConnectionDetails D nodeAddress tmP2PConnection p2pConnection d = do {
     d' \<leftarrow> Set D (connectionDetailsBytes @ nodeAddress)
       (string_bytes (Join [tmP2PConnection, p2pConnection] Delimiter1)) d;
     Some (Inr (), d') }"

definition RetrieveConnectionDetails :: "'d leveldb \<Rightarrow> bytes \<Rightarrow> 'd \<Rightarrow> (string \<times> string) err go" where
  "RetrieveConnectionDetails D nodeAddress d = do {
     res \<leftarrow> Get D (connectionDetailsBytes @ nodeAddress) d;
     Some (case res of
         None \<Rightarrow> Inl ''could not get data from db for connection details''
       | Some b \<Rightarrow>
           (let substrs = Split (bytes_string b) Delimiter1 in
            if length substrs \<noteq> 2 then Inl ''unexpected number of substrs in connection details stored data''
            else Inr (substrs ! 0, substrs ! 1))) }"

definition StorePSSCommitmentMatrix ::
  "'d leveldb \<Rightarrow> dbjson \<Rightarrow> int \<Rightarrow> Point list list \<Rightarrow> 'd \<Rightarrow> (unit err \<times> 'd) go" where
  "StorePSSCommitmentMatrix D J keyIndex c d =
     (case Marshal (js_matrix J) c of
        None \<Rightarrow> Some (Inl ''marshal'', d)
      | Some b \<Rightarrow> do {
          d' \<leftarrow> Set D (pssCommitmentMatrixBytes @ big_Bytes keyIndex) b d;
          Some (Inr (), d') })"

section \<open>The service\<close>

text \<open>
  A store ends the process when the write fails, so that the call does not return; a failed read
  panics, which the registry reports as an error.
\<close>

definition stored :: "'d \<Rightarrow> (unit err \<times> 'd) go \<Rightarrow> call_result \<times> 'd" where
  "stored d r =
     (case r of
        None \<Rightarrow> (Blocks, d)
      | Some (Inl e, d') \<Rightarrow> (Returns Nil_iface (Some e), d')
      | Some (Inr _, d') \<Rightarrow> (Returns Nil_iface None, d'))"

definition db_Call :: "'d leveldb \<Rightarrow> dbjson \<Rightarrow> 'd service" where
  "db_Call D J method args d =
     (if method = ''set_keygen_started'' then or_panic d (do {
        args0 \<leftarrow> arg [] string_of args 0;
        args1 \<leftarrow> arg False bool_of args 1;
        Some (stored d (map_option (\<lambda>d'. (Inr (), d')) (db_SetKeygenStarted D J args0 args1 d))) })
      else if method = ''get_keygen_started'' then or_panic d (do {
        args0 \<leftarrow> arg [] string_of args 0;
        s \<leftarrow> db_GetKeygenStarted D J args0 d;
        Some (Returns (VBool s) None, d) })
      else if method = ''retrieve_public_key_to_index'' then or_panic d (do {
        args0 \<leftarrow> arg zero_Point point_of args 0;
        r \<leftarrow> RetrievePublicKeyToKeyIndex D J args0 d;
        Some (case r of
            Inl e \<Rightarrow> (Returns (VPtr (Some (VBig (- 1)))) (Some e), d)
          | Inr keyIndex \<Rightarrow> (Returns (VBig keyIndex) None, d)) })
      else if method = ''index_to_public_key_exists'' then or_panic d (do {
        args0 \<leftarrow> arg 0 big_of args 0;
        args1 \<leftarrow> arg [] curve_of args 1;
        exists \<leftarrow> KeyIndexToPublicKeyExists D args0 args1 d;
        Some (Returns (VBool exists) None, d) })
      else if method = ''store_public_key_to_index'' then or_panic d (do {
        args0 \<leftarrow> arg zero_Point point_of args 0;
        args1 \<leftarrow> arg 0 big_of args 1;
        Some (stored d (StorePublicKeyToKeyIndex D J args0 args1 [] d)) })
      else if method = ''retrieve_completed_share'' then or_panic d (do {
        args0 \<leftarrow> arg 0 big_of args 0;
        curve \<leftarrow> arg [] curve_of args 1;
        r \<leftarrow> RetrieveCompletedShare D J args0 curve d;
        Some (case r of
            Inl e \<Rightarrow> (Returns (VShares 0 0) (Some e), d)
          | Inr (si, sip) \<Rightarrow> (Returns (VShares si sip) None, d)) })
      else if method = ''store_PSS_commitment_matrix'' then or_panic d (do {
        args0 \<leftarrow> arg 0 big_of args 0;
        args1 \<leftarrow> arg [] matrix_of args 1;
        Some (stored d (StorePSSCommitmentMatrix D J args0 args1 d)) })
      else if method = ''store_completed_PSS_share'' then or_panic d (do {
        args0 \<leftarrow> arg 0 big_of args 0;
        args1 \<leftarrow> arg 0 big_of args 1;
        args2 \<leftarrow> arg 0 big_of args 2;
        curve \<leftarrow> arg [] curve_of args 3;
        Some (stored d (StoreCompletedPSSShare D J args0 args1 args2 curve d)) })
      else if method = ''store_sharing_commitment'' then or_panic d (do {
        args0 \<leftarrow> arg 0 big_of args 0;
        args1 \<leftarrow> arg [] ints_of args 1;
        args2 \<leftarrow> arg [] points_of args 2;
        curve \<leftarrow> arg [] curve_of args 3;
        Some (stored d (db_StoreCommitment D J args0 args1 args2 curve d)) })
      else if method = ''store_connection_details'' then or_panic d (do {
        args0 \<leftarrow> arg (replicate 20 0) address_of args 0;
        args1 \<leftarrow> arg \<lparr>cd_TMP2PConnection = [], cd_P2PConnection = []\<rparr> connection_of args 1;
        Some (stored d (StoreConnectionDetails D args0 (cd_TMP2PConnection args1) (cd_P2PConnection args1) d)) })
      else if method = ''retrieve_connection_details'' then or_panic d (do {
        args0 \<leftarrow> arg (replicate 20 0) address_of args 0;
        r \<leftarrow> RetrieveConnectionDetails D args0 d;
        Some (case r of
            Inl e \<Rightarrow> (Returns (VConnection \<lparr>cd_TMP2PConnection = [], cd_P2PConnection = []\<rparr>) (Some e), d)
          | Inr (tm, p) \<Rightarrow> (Returns (VConnection \<lparr>cd_TMP2PConnection = tm, cd_P2PConnection = p\<rparr>) None, d)) })
      else if method = ''retrieve_node_pub_key'' then or_panic d (do {
        args0 \<leftarrow> arg (replicate 20 0) address_of args 0;
        r \<leftarrow> RetrieveNodePubKey D J args0 d;
        Some (case r of
            Inl e \<Rightarrow> (Returns (VPoint zero_Point) (Some e), d)
          | Inr p \<Rightarrow> (Returns (VPoint p) None, d)) })
      else if method = ''store_node_pub_key'' then or_panic d (do {
        args0 \<leftarrow> arg (replicate 20 0) address_of args 0;
        args1 \<leftarrow> arg zero_Point point_of args 1;
        Some (stored d (StoreNodePubKey D J args0 args1 d)) })
      else (Returns (VString []) None, d))"

section \<open>The broker methods\<close>

definition DBMethods_RetrieveNodePubKey :: "'st service \<Rightarrow> bytes \<Rightarrow> 'st \<Rightarrow> (Point err \<times> 'st) go" where
  "DBMethods_RetrieveNodePubKey db nodeAddress =
     ask (\<lambda>r. case mr_Error r of Some e \<Rightarrow> Inr zero_Point | None \<Rightarrow> cast_only point_of r)
       db ''retrieve_node_pub_key'' [VAddress nodeAddress]"

definition DBMethods_StoreConnectionDetails ::
  "'st service \<Rightarrow> bytes \<Rightarrow> ConnectionDetails \<Rightarrow> 'st \<Rightarrow> (unit err \<times> 'st) go" where
  "DBMethods_StoreConnectionDetails db nodeAddress details =
     ask acknowledged db ''store_connection_details'' [VAddress nodeAddress, VConnection details]"

definition DBMethods_StoreNodePubKey :: "'st service \<Rightarrow> bytes \<Rightarrow> Point \<Rightarrow> 'st \<Rightarrow> (unit err \<times> 'st) go" where
  "DBMethods_StoreNodePubKey db nodeAddress pubKey =
     ask acknowledged db ''store_node_pub_key'' [VAddress nodeAddress, VPoint pubKey]"

definition DBMethods_RetrieveConnectionDetails ::
  "'st service \<Rightarrow> bytes \<Rightarrow> 'st \<Rightarrow> (ConnectionDetails err \<times> 'st) go" where
  "DBMethods_RetrieveConnectionDetails db nodeAddress =
     ask (checked connection_of) db ''retrieve_connection_details'' [VAddress nodeAddress]"

definition DBMethods_StorePSSCommitmentMatrix ::
  "'st service \<Rightarrow> int \<Rightarrow> Point list list \<Rightarrow> 'st \<Rightarrow> (unit err \<times> 'st) go" where
  "DBMethods_StorePSSCommitmentMatrix db keyIndex c =
     ask acknowledged db ''store_PSS_commitment_matrix'' [VBig keyIndex, VMatrix c]"

definition DBMethods_RetrieveCommitmentMatrix ::
  "'st service \<Rightarrow> int \<Rightarrow> 'st \<Rightarrow> (Point list list err \<times> 'st) go" where
  "DBMethods_RetrieveCommitmentMatrix db keyIndex =
     ask (checked matrix_of) db ''retrieve_commitment_matrix'' [VBig keyIndex]"

definition DBMethods_RetrieveCompletedShare ::
  "'st service \<Rightarrow> int \<Rightarrow> CurveName \<Rightarrow> 'st \<Rightarrow> ((int \<times> int) err \<times> 'st) go" where
  "DBMethods_RetrieveCompletedShare db keyIndex curve =
     ask (checked shares_of) db ''retrieve_completed_share'' [VBig keyIndex, VCurve curve]"

definition DBMethods_SetKeygenStarted :: "'st service \<Rightarrow> string \<Rightarrow> bool \<Rightarrow> 'st \<Rightarrow> (unit err \<times> 'st) go" where
  "DBMethods_SetKeygenStarted db keygenID started =
     ask acknowledged db ''set_keygen_started'' [VString keygenID, VBool started]"

definition DBMethods_StoreCompletedPSSShare ::
  "'st service \<Rightarrow> int \<Rightarrow> int \<Rightarrow> int \<Rightarrow> CurveName \<Rightarrow> 'st \<Rightarrow> (unit err \<times> 'st) go" where
  "DBMethods_StoreCompletedPSSShare db keyIndex si siprime c =
     ask acknowledged db ''store_completed_PSS_share'' [VBig keyIndex, VBig si, VBig siprime, VCurve c]"

definition DBMethods_StoreCommitment ::
  "'st service \<Rightarrow> int \<Rightarrow> int list \<Rightarrow> (string, Point list) gomap \<Rightarrow> CurveName \<Rightarrow> 'st \<Rightarrow> (unit err \<times> 'st) go" where
  "DBMethods_StoreCommitment db keyIndex T metadata c =
     ask acknowledged db ''store_sharing_commitment'' [VBig keyIndex, VInts T, VPoints metadata, VCurve c]"

definition DBMethods_StorePublicKeyToIndex ::
  "'st service \<Rightarrow> Point \<Rightarrow> int \<Rightarrow> CurveName \<Rightarrow> 'st \<Rightarrow> (unit err \<times> 'st) go" where
  "DBMethods_StorePublicKeyToIndex db publicKey keyIndex c =
     ask acknowledged db ''store_public_key_to_index'' [VPoint publicKey, VBig keyIndex, VCurve c]"

definition DBMethods_GetKeygenStarted :: "'st service \<Rightarrow> string \<Rightarrow> 'st \<Rightarrow> (bool \<times> 'st) go" where
  "DBMethods_GetKeygenStarted db keygenID =
     retry_or_fatal (ask (checked bool_of) db ''get_keygen_started'' [VString keygenID])"

definition DBMethods_IndexToPublicKeyExists ::
  "'st service \<Rightarrow> int \<Rightarrow> CurveName \<Rightarrow> 'st \<Rightarrow> (bool \<times> 'st) go" where
  "DBMethods_IndexToPublicKeyExists db keyIndex curve =
     retry_or_fatal (ask (checked bool_of) db ''index_to_public_key_exists'' [VBig keyIndex, VCurve curve])"

definition DBMethods_RetrievePublicKeyToIndex :: "'st service \<Rightarrow> Point \<Rightarrow> 'st \<Rightarrow> (int err \<times> 'st) go" where
  "DBMethods_RetrievePublicKeyToIndex db publicKey =
     ask (checked big_of) db ''retrieve_public_key_to_index'' [VPoint publicKey]"

section \<open>The key store\<close>

definition symmetricShareByte :: bytes where "symmetricShareByte = string_bytes ''ss''"

definition storeKeyShare :: "'d leveldb \<Rightarrow> string \<Rightarrow> bytes \<Rightarrow> 'd \<Rightarrow> unit err \<times> 'd" where
  "storeKeyShare D i share d =
     (case ldb_Put D d (symmetricShareByte @ string_bytes i) share of
        None \<Rightarrow> (Inl ''leveldb'', d) | Some d' \<Rightarrow> (Inr (), d'))"

definition retrieveKeyShare :: "'d leveldb \<Rightarrow> string \<Rightarrow> 'd \<Rightarrow> bytes err" where
  "retrieveKeyShare D i d =
     (case ldb_Get D d (symmetricShareByte @ string_bytes i) of
        None \<Rightarrow> Inl ''leveldb'' | Some None \<Rightarrow> Inl ''leveldb: not found'' | Some (Some v) \<Rightarrow> Inr v)"

definition keystore_Call :: "'d leveldb \<Rightarrow> 'd service" where
  "keystore_Call D method args d =
     (if method = ''store'' then or_panic d (do {
        i \<leftarrow> arg [] string_of args 0;
        share \<leftarrow> arg [] bytes_of args 1;
        Some (case storeKeyShare D i share d of
            (Inl e, d') \<Rightarrow> (Returns Nil_iface (Some e), d') | (Inr _, d') \<Rightarrow> (Returns Nil_iface None, d')) })
      else if method = ''retrieve'' then or_panic d (do {
        i \<leftarrow> arg [] string_of args 0;
        Some (case retrieveKeyShare D i d of
            Inl e \<Rightarrow> (Returns (VBytes []) (Some e), d) | Inr data \<Rightarrow> (Returns (VBytes data) None, d)) })
      else (Returns Nil_iface (Some ''keystore service method not found''), d))"

definition KeystoreMethods_StoreShare :: "'st service \<Rightarrow> string \<Rightarrow> bytes \<Rightarrow> 'st \<Rightarrow> (unit err \<times> 'st) go" where
  "KeystoreMethods_StoreShare ks i share = ask acknowledged ks ''store'' [VString i, VBytes share]"

definition KeystoreMethods_RetrieveShare :: "'st service \<Rightarrow> string \<Rightarrow> 'st \<Rightarrow> (bytes err \<times> 'st) go" where
  "KeystoreMethods_RetrieveShare ks i = ask (checked bytes_of) ks ''retrieve'' [VString i]"

section \<open>Tables\<close>

text \<open>
  The contract of a table: on the arguments it is meant for, its key determines them. Then a
  value written under one key is what is read under it, and nothing else of the table changes.
\<close>

locale table =
  fixes key :: "'a \<Rightarrow> bytes" and valid :: "'a \<Rightarrow> bool"
  assumes key_inject: "valid a \<Longrightarrow> valid b \<Longrightarrow> key a = key b \<Longrightarrow> a = b"
begin

lemma Get_Set:
  assumes "leveldb_laws D" "Set D (key a) v d = Some d'" "valid a" "valid b"
  shows "Get D (key b) d' = (if b = a then Some (Some v) else Get D (key b) d)"
proof (cases "b = a")
  case False
  then have "key b \<noteq> key a" using key_inject assms(3,4) by blast
  then show ?thesis using False assms(1,2) by (simp add: leveldb_laws_def Get_def Set_def)
qed (use assms in \<open>simp add: leveldb_laws_def Get_def Set_def\<close>)

end

text \<open>Indexes are not negative and curves are one of the two: then the tables by index are tables.\<close>

definition valid_key :: "int \<times> CurveName \<Rightarrow> bool" where
  "valid_key = (\<lambda>(i, c). 0 \<le> i \<and> (c = SECP256K1 \<or> c = ED25519))"

lemma big_Bytes_inject: "0 \<le> i \<Longrightarrow> 0 \<le> j \<Longrightarrow> big_Bytes i = big_Bytes j \<longleftrightarrow> i = j"
  by (metis abs_of_nonneg big_SetBytes_Bytes)

lemma curve_key_inject:
  assumes "valid_key (i, c)" "valid_key (j, c')" "hd secp \<noteq> hd ed" "secp \<noteq> []" "ed \<noteq> []"
    and "curve_key secp ed c (big_Bytes i) = curve_key secp ed c' (big_Bytes j)"
  shows "(i, c) = (j, c')"
proof -
  have h: "hd (curve_key secp ed x b) = (if x = ED25519 then hd ed else hd secp)" for x b
    using assms(4,5) by (auto simp: curve_key_def)
  have "(if c = ED25519 then hd ed else hd secp) = (if c' = ED25519 then hd ed else hd secp)"
    using assms(6) h by metis
  then have "(c = ED25519) = (c' = ED25519)" using assms(3) by (auto split: if_splits)
  then have "c = c'" "big_Bytes i = big_Bytes j"
    using assms(1,2,6) by (auto simp: valid_key_def curve_key_def split: if_splits)
  then show ?thesis using assms(1,2) by (auto simp: valid_key_def big_Bytes_inject)
qed

lemma curve_table:
  "hd secp \<noteq> hd ed \<Longrightarrow> secp \<noteq> [] \<Longrightarrow> ed \<noteq> [] \<Longrightarrow>
   table (\<lambda>(i, c). curve_key secp ed c (big_Bytes i)) valid_key"
  by unfold_locales (simp split: prod.splits, blast dest: curve_key_inject)

interpretation shares: table share_key valid_key
  unfolding share_key_def by (rule curve_table) (simp_all add: prefix_defs string_bytes_def)

interpretation commitments: table commitment_key valid_key
  unfolding commitment_key_def by (rule curve_table) (simp_all add: prefix_defs string_bytes_def)

interpretation key_sets: table T_key valid_key
  unfolding T_key_def by (rule curve_table) (simp_all add: prefix_defs string_bytes_def)

interpretation started: table "\<lambda>keygenID. keygenIDBytes @ string_bytes keygenID" "\<lambda>_. True"
  by unfold_locales simp

interpretation connections: table "\<lambda>a. connectionDetailsBytes @ a" "\<lambda>_. True"
  by unfold_locales simp

interpretation node_keys: table "\<lambda>a. nodePubKeyBytes @ a" "\<lambda>_. True"
  by unfold_locales simp

section \<open>Completed shares are durable\<close>

text \<open>The prefixes differ in their first byte, except those of the two tables of public keys.\<close>

lemma Set_other:
  "leveldb_laws D \<Longrightarrow> Set D k v d = Some d' \<Longrightarrow> k' \<noteq> k \<Longrightarrow> Get D k' d' = Get D k' d"
  by (simp add: leveldb_laws_def Get_def Set_def)

definition is_share_key :: "bytes \<Rightarrow> bool" where
  "is_share_key k \<longleftrightarrow> k \<noteq> [] \<and> (hd k = 98 \<or> hd k = 97)"

lemma share_key_is: "is_share_key (share_key a)"
  by (cases a) (simp add: is_share_key_def share_key_def curve_key_def prefix_defs string_bytes_def)

lemma other_keys:
  "is_share_key k \<Longrightarrow> k \<noteq> commitment_key a" "is_share_key k \<Longrightarrow> k \<noteq> T_key a"
  "is_share_key k \<Longrightarrow> k \<noteq> pubkey_key a" "is_share_key k \<Longrightarrow> k \<noteq> keygenIDBytes @ b"
  "is_share_key k \<Longrightarrow> k \<noteq> connectionDetailsBytes @ b" "is_share_key k \<Longrightarrow> k \<noteq> nodePubKeyBytes @ b"
  "is_share_key k \<Longrightarrow> k \<noteq> pssCommitmentMatrixBytes @ b" "is_share_key k \<Longrightarrow> k \<noteq> pubkeyToKeyIndexBytes @ b"
  "is_share_key k \<Longrightarrow> k \<noteq> pubkeyToKeyIndexEDBytes @ b"
  by (cases a; auto simp: is_share_key_def commitment_key_def T_key_def pubkey_key_def curve_key_def
      prefix_defs string_bytes_def split: if_splits)+

text \<open>The state after a store, whatever the outcome.\<close>

lemma snd_stored: "snd (stored d r) = (case r of None \<Rightarrow> d | Some (e, d') \<Rightarrow> d')"
  by (auto simp: stored_def split: option.splits sum.splits)

lemma snd_or_panic: "snd (or_panic d r) = (case r of None \<Rightarrow> d | Some x \<Rightarrow> snd x)"
  by (simp add: or_panic_def split: option.splits)

lemma store_frame:
  assumes "leveldb_laws D" "is_share_key k"
  shows "db_SetKeygenStarted D J i b d = Some d' \<Longrightarrow> Get D k d' = Get D k d"
    and "db_StoreCommitment D J x T m c d = Some (r, d') \<Longrightarrow> Get D k d' = Get D k d"
    and "StoreNodePubKey D J a p d = Some (r, d') \<Longrightarrow> Get D k d' = Get D k d"
    and "StorePublicKeyToKeyIndex D J p x c d = Some (r, d') \<Longrightarrow> Get D k d' = Get D k d"
    and "StoreConnectionDetails D a s s' d = Some (r, d') \<Longrightarrow> Get D k d' = Get D k d"
    and "StorePSSCommitmentMatrix D J x mx d = Some (r, d') \<Longrightarrow> Get D k d' = Get D k d"
  using Set_other [OF assms(1)] other_keys [OF assms(2)]
  by (auto simp: db_SetKeygenStarted_def db_StoreCommitment_def StoreNodePubKey_def
      StorePublicKeyToKeyIndex_def StoreConnectionDetails_def StorePSSCommitmentMatrix_def go_bind_eq_Some
      split: option.splits)

text \<open>A call that leaves the value under a key as it is; the switch of \<open>Call\<close> case by case.\<close>

definition keeps :: "'d leveldb \<Rightarrow> bytes \<Rightarrow> 'd \<Rightarrow> call_result \<times> 'd \<Rightarrow> bool" where
  "keeps D k d x \<longleftrightarrow> Get D k (snd x) = Get D k d"

lemma keeps_if: "(b \<Longrightarrow> keeps D k d x) \<Longrightarrow> (\<not> b \<Longrightarrow> keeps D k d y) \<Longrightarrow> keeps D k d (if b then x else y)"
  by simp

lemma keeps_bind:
  "(\<And>x. m = Some x \<Longrightarrow> keeps D k d (or_panic d (f x))) \<Longrightarrow> keeps D k d (or_panic d (m \<bind> f))"
  by (cases m) (simp_all add: keeps_def)

lemma keeps_stored: "(\<And>e d'. r = Some (e, d') \<Longrightarrow> Get D k d' = Get D k d) \<Longrightarrow> keeps D k d (stored d r)"
  by (cases r) (auto simp: keeps_def snd_stored)

lemma keeps_Returns [simp]: "keeps D k d (x, d)"
  by (simp add: keeps_def)

lemma db_Call_frame:
  assumes "leveldb_laws D" "is_share_key k" "method \<noteq> ''store_completed_PSS_share''"
  shows "keeps D k d (db_Call D J method args d)"
  unfolding db_Call_def
  by (intro keeps_if keeps_bind; use assms(3) in \<open>simp only: refl not_True_eq_False or_panic_simps\<close>)
    (auto intro!: keeps_stored dest: store_frame [OF assms(1,2)] split: sum.splits)

text \<open>A run of the service: a list of calls, in order.\<close>

fun db_run :: "'d leveldb \<Rightarrow> dbjson \<Rightarrow> (string \<times> iface list) list \<Rightarrow> 'd \<Rightarrow> 'd" where
  "db_run D J [] d = d"
| "db_run D J ((method, args) # calls) d = db_run D J calls (snd (db_Call D J method args d))"

text \<open>A call that does not store a share of the key: another method, or another index or curve.\<close>

definition spares :: "int \<Rightarrow> CurveName \<Rightarrow> string \<times> iface list \<Rightarrow> bool" where
  "spares i c = (\<lambda>(method, args). method \<noteq> ''store_completed_PSS_share'' \<or>
     (\<exists>i' a b c'. args = [VBig i', VBig a, VBig b, VCurve c'] \<and> valid_key (i', c') \<and> (i', c') \<noteq> (i, c)))"

lemma db_run_share:
  assumes "leveldb_laws D" "valid_key (i, c)" "\<forall>call \<in> set calls. spares i c call"
  shows "Get D (share_key (i, c)) (db_run D J calls d) = Get D (share_key (i, c)) d"
  using assms(3)
proof (induction calls arbitrary: d)
  case (Cons call calls)
  obtain m as where call: "call = (m, as)" by fastforce
  have "Get D (share_key (i, c)) (snd (db_Call D J m as d)) = Get D (share_key (i, c)) d"
  proof (cases "m = ''store_completed_PSS_share''")
    case True
    then obtain i' a b c' where "as = [VBig i', VBig a, VBig b, VCurve c']" "valid_key (i', c')" "(i', c') \<noteq> (i, c)"
      using Cons.prems call by (auto simp: spares_def)
    then show ?thesis using True shares.Get_Set [OF assms(1) _ _ assms(2), of "(i', c')"]
      by (auto simp: db_Call_def arg_def StoreCompletedPSSShare_def snd_stored split: option.splits Option.bind_splits)
  qed (use db_Call_frame [OF assms(1) share_key_is] in \<open>simp add: keeps_def\<close>)
  then show ?case using Cons call by simp
qed simp

lemma store_share_call:
  "DBMethods_StoreCompletedPSSShare (db_Call D J) i si sip c d = Some (Inr (), d') \<longleftrightarrow>
   StoreCompletedPSSShare D J i si sip c d = Some (Inr (), d')"
  by (auto simp: DBMethods_StoreCompletedPSSShare_def ask_def ServiceMethod_def db_Call_def arg_def stored_def
      acknowledged_def split: option.splits sum.splits prod.splits)

lemma retrieve_share_call:
  "RetrieveCompletedShare D J i c d = Some (Inr (si, sip)) \<Longrightarrow>
   DBMethods_RetrieveCompletedShare (db_Call D J) i c d = Some (Inr (si, sip), d)"
  by (simp add: DBMethods_RetrieveCompletedShare_def ask_def ServiceMethod_def db_Call_def arg_def checked_def)

text \<open>
  C17. A share of a completed key is durable: once the database service has acknowledged it, it
  returns it after any calls of the service, in any order, as long as no other share is stored
  for the same index and curve.
\<close>

theorem completed_share_durable:
  assumes "leveldb_laws D" "codec_ok (js_share J)" "valid_key (i, c)"
    and "DBMethods_StoreCompletedPSSShare (db_Call D J) i si sip c d = Some (Inr (), d')"
    and "\<forall>call \<in> set calls. spares i c call"
  shows "DBMethods_RetrieveCompletedShare (db_Call D J) i c (db_run D J calls d') =
    Some (Inr (si, sip), db_run D J calls d')"
proof (rule retrieve_share_call)
  obtain b where b: "Marshal (js_share J) \<lparr>cs_Si = si, cs_SiPrime = sip\<rparr> = Some b"
    "Set D (share_key (i, c)) b d = Some d'"
    using assms(4) by (auto simp: store_share_call StoreCompletedPSSShare_def go_bind_eq_Some split: option.splits)
  have "Get D (share_key (i, c)) (db_run D J calls d') = Some (Some b)"
    using db_run_share [OF assms(1,3,5)] shares.Get_Set [OF assms(1) b(2) assms(3,3)] by simp
  then show "RetrieveCompletedShare D J i c (db_run D J calls d') = Some (Inr (si, sip))"
    using b(1) assms(2) by (auto simp: RetrieveCompletedShare_def codec_ok_def split: option.splits)
qed

text \<open>A database in memory and codecs that write decimal numbers, for concrete runs.\<close>

definition mem_db :: "(bytes, bytes) gomap leveldb" where
  "mem_db = \<lparr>ldb_Get = (\<lambda>d k. Some (m_get d k)), ldb_Put = (\<lambda>d k v. Some (m_set d k v))\<rparr>"

definition write_pair :: "int \<times> int \<Rightarrow> bytes" where
  "write_pair = (\<lambda>(a, b). string_bytes (Join [Itoa a, Itoa b] Delimiter1))"

definition read_pair :: "bytes \<Rightarrow> (int \<times> int) option" where
  "read_pair s =
     (case Split (bytes_string s) Delimiter1 of
        [x, y] \<Rightarrow> do { a \<leftarrow> big_SetString x 10; b \<leftarrow> big_SetString y 10; Some (a, b) }
      | _ \<Rightarrow> None)"

definition none_codec :: "'a codec" where
  "none_codec = \<lparr>Marshal = (\<lambda>_. None), Unmarshal = (\<lambda>_. None)\<rparr>"

definition mem_json :: dbjson where
  "mem_json =
     \<lparr>js_share = \<lparr>Marshal = (\<lambda>s. Some (write_pair (cs_Si s, cs_SiPrime s))),
                  Unmarshal = (\<lambda>b. map_option (\<lambda>(x, y). \<lparr>cs_Si = x, cs_SiPrime = y\<rparr>) (read_pair b))\<rparr>,
      js_points = none_codec, js_ints = none_codec, js_hexpoint = none_codec,
      js_started = \<lparr>Marshal = (\<lambda>s. Some [of_bool s]), Unmarshal = (\<lambda>b. Some (b = [1]))\<rparr>,
      js_point = \<lparr>Marshal = (\<lambda>p. Some (write_pair (pt_X p, pt_Y p))),
                  Unmarshal = (\<lambda>b. map_option (\<lambda>(x, y). \<lparr>pt_X = x, pt_Y = y\<rparr>) (read_pair b))\<rparr>,
      js_matrix = none_codec\<rparr>"

lemma mem_db_laws [simp]: "leveldb_laws mem_db"
  by (simp add: leveldb_laws_def mem_db_def)

lemma read_write_pair [simp]: "read_pair (write_pair p) = Some p"
proof -
  have "Delimiter1 \<notin> set (Itoa i)" for i
    using big_Text_chars [of 10 Delimiter1 i] by (auto simp: Itoa_def Delimiter_defs)
  then have "Split (Join [Itoa (fst p), Itoa (snd p)] Delimiter1) Delimiter1 = [Itoa (fst p), Itoa (snd p)]"
    by (intro Split_Join) auto
  then show ?thesis
    by (cases p) (simp add: read_pair_def write_pair_def Itoa_def SetString_Text del: string_bytes_append)
qed

lemma mem_json_ok [simp]: "codec_ok (js_share mem_json)" "codec_ok (js_point mem_json)"
  by (auto simp: codec_ok_def mem_json_def)

theorem completed_share_durable_witness:
  "DBMethods_RetrieveCompletedShare (db_Call mem_db mem_json) 5 ED25519
     (db_run mem_db mem_json
        [(''set_keygen_started'', [VString ''x'', VBool True]),
         (''store_completed_PSS_share'', [VBig 5, VBig 9, VBig 9, VCurve SECP256K1])]
        [(share_key (5, ED25519), write_pair (7, 7))]) =
   Some (Inr (7, 7), db_run mem_db mem_json
        [(''set_keygen_started'', [VString ''x'', VBool True]),
         (''store_completed_PSS_share'', [VBig 5, VBig 9, VBig 9, VCurve SECP256K1])]
        [(share_key (5, ED25519), write_pair (7, 7))])"
  by (rule completed_share_durable [OF mem_db_laws mem_json_ok(1), where d = "[]"])
    (auto simp: valid_key_def spares_def SECP256K1_def ED25519_def store_share_call StoreCompletedPSSShare_def
      Set_def mem_db_def mem_json_def)

section \<open>Public keys of the two curves\<close>

text \<open>
  The tables of the two curves overlap: the prefix of one is a prefix of the other, and the
  bytes of the secp256k1 index 17732 are the rest of the longer prefix.
\<close>

lemma pubkey_tables_overlap: "pubkey_key (17732, SECP256K1) = pubkey_key (0, ED25519)"
proof -
  have "big_Bytes 17732 = [69, 68]" "big_Bytes 0 = []"
    by (simp_all add: big_Bytes_def bytes_nat.simps)
  then show ?thesis
    by (simp add: pubkey_key_def curve_key_def SECP256K1_def ED25519_def prefix_defs string_bytes_def)
qed

text \<open>
  C34. The service stores the public key of an ed25519 key under the key of a secp256k1 key: its
  case \<open>store_public_key_to_index\<close> never reads the curve. After the chain has stored a key of
  ed25519, asking whether the index has an ed25519 key gives the answer of before, and asking for
  a secp256k1 key gives yes.
\<close>

theorem ed25519_key_stored_as_secp256k1:
  assumes "leveldb_laws D"
    and "DBMethods_StorePublicKeyToIndex (db_Call D J) pk i ED25519 d = Some (Inr (), d')"
  shows "KeyIndexToPublicKeyExists D i ED25519 d' = KeyIndexToPublicKeyExists D i ED25519 d \<and>
    KeyIndexToPublicKeyExists D i SECP256K1 d' = Some True"
proof -
  let ?h = "pubkey_key (i, [])"
  obtain b d1 where b: "Set D (pubkeyToKeyIndexBytes @ b) (big_Bytes i) d = Some d1" "Set D ?h b d1 = Some d'"
    using assms(2) by (auto simp: DBMethods_StorePublicKeyToIndex_def ask_def ServiceMethod_def db_Call_def arg_def
        stored_def acknowledged_def StorePublicKeyToKeyIndex_def go_bind_eq_Some ED25519_def
        split: option.splits sum.splits prod.splits)
  have keys: "pubkey_key (i, SECP256K1) = ?h" "pubkey_key (i, ED25519) \<noteq> ?h"
    "pubkey_key (i, ED25519) \<noteq> pubkeyToKeyIndexBytes @ b"
    by (auto simp: pubkey_key_def curve_key_def SECP256K1_def ED25519_def prefix_defs string_bytes_def
        dest: arg_cong [where f = length])
  have "Get D (pubkey_key (i, ED25519)) d' = Get D (pubkey_key (i, ED25519)) d"
    using Set_other [OF assms(1) b(1) keys(3)] Set_other [OF assms(1) b(2) keys(2)] by simp
  moreover have "Get D ?h d' = Some (Some b)"
    using assms(1) b(2) by (simp add: leveldb_laws_def Get_def Set_def)
  ultimately show ?thesis by (simp add: KeyIndexToPublicKeyExists_def Has_def keys(1))
qed

theorem ed25519_key_stored_as_secp256k1_witness:
  "\<exists>d'. KeyIndexToPublicKeyExists mem_db 3 ED25519 d' = Some False \<and>
     KeyIndexToPublicKeyExists mem_db 3 SECP256K1 d' = Some True"
proof -
  let ?pk = "\<lparr>pt_X = 1, pt_Y = 2\<rparr>"
  obtain d' where d': "DBMethods_StorePublicKeyToIndex (db_Call mem_db mem_json) ?pk 3 ED25519 [] = Some (Inr (), d')"
    by (simp add: DBMethods_StorePublicKeyToIndex_def ask_def ServiceMethod_def db_Call_def arg_def stored_def
        acknowledged_def StorePublicKeyToKeyIndex_def mem_json_def mem_db_def Set_def ED25519_def)
  have "KeyIndexToPublicKeyExists mem_db 3 ED25519 [] = Some False"
    by (simp add: KeyIndexToPublicKeyExists_def Has_def Get_def mem_db_def)
  then show ?thesis
    using ed25519_key_stored_as_secp256k1 [OF mem_db_laws d'] by auto
qed

end
