(* ===== verification/Cache.thy ===== *)
theory Cache
  imports Db
begin

text \<open>
  The cache of a node, \<open>cache/cache_service.go\<close>: token commitments per verifier, signatures of
  signers, and verifier parameters, application partitions and the key buffer in one cache. The
  cache proper (\<open>patrickmn/go-cache\<close>) is a parameter; time is an argument, in seconds.
\<close>

section \<open>The package\<close>

record TokenCommitmentData =
  tc_Exists :: bool
  tc_PubKey :: Point

text \<open>What the service keeps in caches; a pointer to verifier parameters is never nil there.\<close>

datatype cvalue = CToken TokenCommitmentData | CTrue bool | CInt int | CParams VerifierParams

record 'c gocache =
  gc_New :: 'c
  gc_Get :: "'c \<Rightarrow> int \<Rightarrow> string \<Rightarrow> cvalue option"
  gc_Set :: "'c \<Rightarrow> int \<Rightarrow> string \<Rightarrow> cvalue \<Rightarrow> int \<Rightarrow> 'c"

text \<open>
  An item is found until its duration has passed, counted from when it was set; other items are
  not affected. \<open>Add\<close> is \<open>Set\<close> unless an item is found, which is an error.
\<close>

definition gocache_laws :: "'c gocache \<Rightarrow> bool" where
  "gocache_laws C \<longleftrightarrow>
     (\<forall>now k. gc_Get C (gc_New C) now k = None) \<and>
     (\<forall>c now k v dur now' k'. now \<le> now' \<and> 0 < dur \<longrightarrow>
        gc_Get C (gc_Set C c now k v dur) now' k' =
          (if k' = k then (if now' \<le> now + dur then Some v else None) else gc_Get C c now' k'))"

definition gc_Add :: "'c gocache \<Rightarrow> 'c \<Rightarrow> int \<Rightarrow> string \<Rightarrow> cvalue \<Rightarrow> int \<Rightarrow> unit err \<times> 'c" where
  "gc_Add C c now k v dur =
     (case gc_Get C c now k of
        Some _ \<Rightarrow> (Inl ''Item already exists'', c)
      | None \<Rightarrow> (Inr (), gc_Set C c now k v dur))"

section \<open>The service\<close>

record 'c CacheService =
  ca_tokenCache :: "(string, 'c) gomap"
  ca_signerCache :: 'c
  ca_verifierCache :: 'c

definition cache_Start :: "'c gocache \<Rightarrow> 'c CacheService" where
  "cache_Start C = \<lparr>ca_tokenCache = [], ca_signerCache = gc_New C, ca_verifierCache = gc_New C\<rparr>"

definition StoreVerifierClientID ::
  "'c gocache \<Rightarrow> int \<Rightarrow> string \<Rightarrow> string \<Rightarrow> VerifierParams \<Rightarrow> 'c CacheService \<Rightarrow> 'c CacheService" where
  "StoreVerifierClientID C now appID verifier params c =
     c\<lparr>ca_verifierCache := gc_Set C (ca_verifierCache c) now (Join [appID, verifier] Delimiter1)
         (CParams params) 300\<rparr>"

definition cache_setBuffer :: "'c gocache \<Rightarrow> int \<Rightarrow> int \<Rightarrow> 'c CacheService \<Rightarrow> 'c CacheService" where
  "cache_setBuffer C now buffer c =
     c\<lparr>ca_verifierCache := gc_Set C (ca_verifierCache c) now ''key_buffer'' (CInt buffer) 3600\<rparr>"

text \<open>The type assertions \<open>val.(int)\<close> and \<open>value.(*VerifierParams)\<close> panic on another type.\<close>

definition cache_getBuffer :: "'c gocache \<Rightarrow> int \<Rightarrow> 'c CacheService \<Rightarrow> int go" where
  "cache_getBuffer C now c =
     (case gc_Get C (ca_verifierCache c) now ''key_buffer'' of
        None \<Rightarrow> Some 0 | Some (CInt b) \<Rightarrow> Some b | Some _ \<Rightarrow> None)"

definition RetrieveVerifierClientID ::
  "'c gocache \<Rightarrow> int \<Rightarrow> string \<Rightarrow> string \<Rightarrow> 'c CacheService \<Rightarrow> VerifierParams option go" where
  "RetrieveVerifierClientID C now appID verifier c =
     (case gc_Get C (ca_verifierCache c) now (Join [appID, verifier] Delimiter1) of
        None \<Rightarrow> Some None | Some (CParams p) \<Rightarrow> Some (Some p) | Some _ \<Rightarrow> None)"

definition StoreAppPartition ::
  "'c gocache \<Rightarrow> int \<Rightarrow> string \<Rightarrow> bool \<Rightarrow> 'c CacheService \<Rightarrow> 'c CacheService" where
  "StoreAppPartition C now appID partitioned c =
     c\<lparr>ca_verifierCache := gc_Set C (ca_verifierCache c) now appID (CTrue partitioned) 300\<rparr>"

definition RetrieveAppPartition :: "'c gocache \<Rightarrow> int \<Rightarrow> string \<Rightarrow> 'c CacheService \<Rightarrow> bool err" where
  "RetrieveAppPartition C now appID c =
     (case gc_Get C (ca_verifierCache c) now appID of
        None \<Rightarrow> Inl ''not found'' | Some (CTrue p) \<Rightarrow> Inr p | Some _ \<Rightarrow> Inl ''invalid value found'')"

definition signerSigExists :: "'c gocache \<Rightarrow> int \<Rightarrow> string \<Rightarrow> 'c CacheService \<Rightarrow> bool" where
  "signerSigExists C now sig c = (gc_Get C (ca_signerCache c) now sig \<noteq> None)"

definition recordSignerSig ::
  "'c gocache \<Rightarrow> int \<Rightarrow> string \<Rightarrow> 'c CacheService \<Rightarrow> unit err \<times> 'c CacheService" where
  "recordSignerSig C now sig c =
     (let (r, s) = gc_Add C (ca_signerCache c) now sig (CTrue True) 60 in (r, c\<lparr>ca_signerCache := s\<rparr>))"

text \<open>The first use of a verifier creates its cache.\<close>

definition verifier_tokens :: "'c gocache \<Rightarrow> string \<Rightarrow> 'c CacheService \<Rightarrow> 'c CacheService" where
  "verifier_tokens C verifier c =
     (case m_get (ca_tokenCache c) verifier of
        Some _ \<Rightarrow> c
      | None \<Rightarrow> c\<lparr>ca_tokenCache := m_set (ca_tokenCache c) verifier (gc_New C)\<rparr>)"

definition tokens_of :: "'c gocache \<Rightarrow> string \<Rightarrow> 'c CacheService \<Rightarrow> 'c" where
  "tokens_of C verifier c = m_zero (gc_New C) (ca_tokenCache c) verifier"

definition tokenCommitExists ::
  "'c gocache \<Rightarrow> int \<Rightarrow> string \<Rightarrow> string \<Rightarrow> 'c CacheService \<Rightarrow> bool \<times> 'c CacheService" where
  "tokenCommitExists C now verifier tokenCommitment c =
     (let c' = verifier_tokens C verifier c in
      (gc_Get C (tokens_of C verifier c') now tokenCommitment \<noteq> None, c'))"

text \<open>Only token commitments are kept in the caches of verifiers.\<close>

definition getTokenCommitKey ::
  "'c gocache \<Rightarrow> int \<Rightarrow> string \<Rightarrow> string \<Rightarrow> 'c CacheService \<Rightarrow> (Point \<times> 'c CacheService) go" where
  "getTokenCommitKey C now verifier tokenCommitment c =
     (let c' = verifier_tokens C verifier c in
      case gc_Get C (tokens_of C verifier c') now tokenCommitment of
        None \<Rightarrow> Some (zero_Point, c') | Some (CToken t) \<Rightarrow> Some (tc_PubKey t, c') | Some _ \<Rightarrow> None)"

definition recordTokenCommit ::
  "'c gocache \<Rightarrow> int \<Rightarrow> string \<Rightarrow> string \<Rightarrow> Point \<Rightarrow> 'c CacheService \<Rightarrow> 'c CacheService" where
  "recordTokenCommit C now verifier tokenCommitment pubKey c =
     (let c' = verifier_tokens C verifier c in
      c'\<lparr>ca_tokenCache := m_set (ca_tokenCache c') verifier
           (gc_Set C (tokens_of C verifier c') now tokenCommitment
              (CToken \<lparr>tc_Exists = True, tc_PubKey = pubKey\<rparr>) 5400)\<rparr>)"

definition cache_Call :: "'c gocache \<Rightarrow> int \<Rightarrow> 'c CacheService service" where
  "cache_Call C now method args c =
     (if method = ''token_commit_exists'' then or_panic c (do {
        provider \<leftarrow> arg [] string_of args 0;
        hash \<leftarrow> arg [] string_of args 1;
        let (e, c') = tokenCommitExists C now provider hash c;
        Some (Returns (VBool e) None, c') })
      else if method = ''get_token_commit_key'' then or_panic c (do {
        args0 \<leftarrow> arg [] string_of args 0;
        args1 \<leftarrow> arg [] string_of args 1;
        (p, c') \<leftarrow> getTokenCommitKey C now args0 args1 c;
        Some (Returns (VPoint p) None, c') })
      else if method = ''record_token_commit'' then or_panic c (do {
        args0 \<leftarrow> arg [] string_of args 0;
        args1 \<leftarrow> arg [] string_of args 1;
        args2 \<leftarrow> arg zero_Point point_of args 2;
        Some (Returns Nil_iface None, recordTokenCommit C now args0 args1 args2 c) })
      else if method = ''signer_sig_exists'' then or_panic c (do {
        args0 \<leftarrow> arg [] string_of args 0;
        Some (Returns (VBool (signerSigExists C now args0 c)) None, c) })
      else if method = ''record_signer_sig'' then or_panic c (do {
        args0 \<leftarrow> arg [] string_of args 0;
        let (r, c') = recordSignerSig C now args0 c;
        Some (Returns Nil_iface (case r of Inl e \<Rightarrow> Some e | Inr _ \<Rightarrow> None), c') })
      else if method = ''store_verifier_params'' then or_panic c (do {
        args0 \<leftarrow> arg [] string_of args 0;
        args1 \<leftarrow> arg [] string_of args 1;
        args2 \<leftarrow> arg \<lparr>vp_ClientID = [], vp_Domain = []\<rparr> params_of args 2;
        Some (Returns Nil_iface None, StoreVerifierClientID C now args0 args1 args2 c) })
      else if method = ''store_app_partition'' then or_panic c (do {
        appID \<leftarrow> arg [] string_of args 0;
        partitioned \<leftarrow> arg False bool_of args 1;
        Some (Returns Nil_iface None, StoreAppPartition C now appID partitioned c) })
      else if method = ''retrieve_verifier_params'' then or_panic c (do {
        args0 \<leftarrow> arg [] string_of args 0;
        args1 \<leftarrow> arg [] string_of args 1;
        p \<leftarrow> RetrieveVerifierClientID C now args0 args1 c;
        Some (Returns (VPtr (map_option VVerifierParams p)) None, c) })
      else if method = ''retrieve_app_partition'' then or_panic c (do {
        appID \<leftarrow> arg [] string_of args 0;
        Some (case RetrieveAppPartition C now appID c of
            Inl e \<Rightarrow> (Returns (VBool False) (Some e), c) | Inr p \<Rightarrow> (Returns (VBool p) None, c)) })
      else if method = ''set_buffer'' then or_panic c (do {
        buffer \<leftarrow> arg 0 int_of args 0;
        Some (Returns Nil_iface None, cache_setBuffer C now buffer c) })
      else if method = ''get_buffer'' then or_panic c (do {
        b \<leftarrow> cache_getBuffer C now c;
        Some (Returns (VInt b) None, c) })
      else (Returns Nil_iface (Some ''cache service method not found''), c))"

section \<open>The broker methods\<close>

text \<open>Where the source only logs an error the broker method returns nothing, or the zero value.\<close>

definition logged :: "('st \<Rightarrow> ('a err \<times> 'st) go) \<Rightarrow> 'st \<Rightarrow> 'st go" where
  "logged f st = do { (r, st') \<leftarrow> f st; Some st' }"

definition CacheMethods_TokenCommitExists :: "'st service \<Rightarrow> string \<Rightarrow> string \<Rightarrow> 'st \<Rightarrow> (bool \<times> 'st) go" where
  "CacheMethods_TokenCommitExists ca verifier tokenCommitment =
     retry_or_fatal (ask (checked bool_of) ca ''token_commit_exists'' [VString verifier, VString tokenCommitment])"

definition CacheMethods_RecordTokenCommit :: "'st service \<Rightarrow> string \<Rightarrow> string \<Rightarrow> Point \<Rightarrow> 'st \<Rightarrow> 'st go" where
  "CacheMethods_RecordTokenCommit ca verifier tokenCommitment pubKey =
     logged (ask acknowledged ca ''record_token_commit'' [VString verifier, VString tokenCommitment, VPoint pubKey])"

definition CacheMethods_StoreVerifierToClientID ::
  "'st service \<Rightarrow> string \<Rightarrow> string \<Rightarrow> VerifierParams option \<Rightarrow> 'st \<Rightarrow> 'st go" where
  "CacheMethods_StoreVerifierToClientID ca appID verifier params =
     logged (ask acknowledged ca ''store_verifier_params''
       [VString appID, VString verifier, VPtr (map_option VVerifierParams params)])"

definition CacheMethods_SetBuffer :: "'st service \<Rightarrow> int \<Rightarrow> 'st \<Rightarrow> 'st go" where
  "CacheMethods_SetBuffer ca buffer = logged (ask acknowledged ca ''set_buffer'' [VInt buffer])"

definition CacheMethods_GetBuffer :: "'st service \<Rightarrow> 'st \<Rightarrow> (int err \<times> 'st) go" where
  "CacheMethods_GetBuffer ca = ask (checked int_of) ca ''get_buffer'' []"

definition CacheMethods_StorePartitionForApp :: "'st service \<Rightarrow> string \<Rightarrow> bool \<Rightarrow> 'st \<Rightarrow> 'st go" where
  "CacheMethods_StorePartitionForApp ca appID partitioned =
     logged (ask acknowledged ca ''store_app_partition'' [VString appID, VBool partitioned])"

definition CacheMethods_RetrieveClientIDFromVerifier ::
  "'st service \<Rightarrow> string \<Rightarrow> string \<Rightarrow> 'st \<Rightarrow> (VerifierParams option \<times> 'st) go" where
  "CacheMethods_RetrieveClientIDFromVerifier ca appID verifier st = do {
     (r, st') \<leftarrow> ask (cast_only params_of) ca ''retrieve_verifier_params'' [VString appID, VString verifier] st;
     Some (case r of Inl e \<Rightarrow> None | Inr p \<Rightarrow> Some p, st') }"

definition CacheMethods_GetPartitionForApp :: "'st service \<Rightarrow> string \<Rightarrow> 'st \<Rightarrow> (bool err \<times> 'st) go" where
  "CacheMethods_GetPartitionForApp ca appID = ask (checked bool_of) ca ''retrieve_app_partition'' [VString appID]"

definition CacheMethods_GetTokenCommitKey :: "'st service \<Rightarrow> string \<Rightarrow> string \<Rightarrow> 'st \<Rightarrow> (Point \<times> 'st) go" where
  "CacheMethods_GetTokenCommitKey ca verifier tokenCommitment =
     retry_or_fatal (ask (checked point_of) ca ''get_token_commit_key'' [VString verifier, VString tokenCommitment])"

section \<open>Laws\<close>

lemma gocache_New: "gocache_laws C \<Longrightarrow> gc_Get C (gc_New C) now k = None"
  unfolding gocache_laws_def by blast

lemma gocache_Set:
  "gocache_laws C \<Longrightarrow> now \<le> now' \<Longrightarrow> 0 < dur \<Longrightarrow>
   gc_Get C (gc_Set C c now k v dur) now' k' =
     (if k' = k then (if now' \<le> now + dur then Some v else None) else gc_Get C c now' k')"
  unfolding gocache_laws_def by blast

lemma tokens_of_verifier_tokens [simp]: "tokens_of C v' (verifier_tokens C v c) = tokens_of C v' c"
  by (auto simp: tokens_of_def verifier_tokens_def m_zero_def split: option.splits)

lemma tokens_of_record:
  "tokens_of C v' (recordTokenCommit C now v t p c) =
     (if v' = v then gc_Set C (tokens_of C v c) now t (CToken \<lparr>tc_Exists = True, tc_PubKey = p\<rparr>) 5400
      else tokens_of C v' c)"
  by (auto simp: recordTokenCommit_def Let_def tokens_of_def verifier_tokens_def m_zero_def split: option.splits)

text \<open>A recorded token commitment is found for ninety minutes, with its key.\<close>

lemma recorded_token_found:
  assumes "gocache_laws C" "now \<le> now'" "now' \<le> now + 5400"
    and "tokens_of C v c' = tokens_of C v (recordTokenCommit C now v t p c)"
  shows "fst (tokenCommitExists C now' v t c')"
    and "map_option fst (getTokenCommitKey C now' v t c') = Some p"
  using assms by (auto simp: tokenCommitExists_def getTokenCommitKey_def Let_def tokens_of_record gocache_Set)

text \<open>A cache as an association list with the times of expiry, for concrete runs.\<close>

definition toy_cache :: "(string, cvalue \<times> int) gomap gocache" where
  "toy_cache =
     \<lparr>gc_New = [],
      gc_Get = (\<lambda>c now k. case m_get c k of None \<Rightarrow> None
                 | Some (v, expiry) \<Rightarrow> if now \<le> expiry then Some v else None),
      gc_Set = (\<lambda>c now k v dur. m_set c k (v, now + dur))\<rparr>"

lemma toy_cache_laws [simp]: "gocache_laws toy_cache"
  by (simp add: gocache_laws_def toy_cache_def)

end
