(* ===== verification/Chain.thy ===== *)
theory Chain
  imports Crypto Cache
begin

text \<open>
  The chain service, \<open>chain/chain_service.go\<close>: epochs and node lists from the contract, the
  node's own keys, verification of signed data against the node list, the key buffer and the
  parameters of applications; then the broker methods that reach it. The contract, the gateway
  of the applications, the peer-to-peer network and the order in which Go ranges over the
  registered epochs are parameters. The service uses the cache and the database through their
  \<open>Call\<close>s; its state is its own with theirs.

  The mutex of the service is a flag: a call that locks it while it is held never returns.
\<close>

section \<open>Parameters and state\<close>

record NodeDetails =
  nd_DeclaredIp :: string
  nd_Position :: int
  nd_PubKx :: int
  nd_PubKy :: int
  nd_TmP2PListenAddress :: string
  nd_P2pListenAddress :: string

record Creds =
  cr_Provider :: string
  cr_ClientID :: string
  cr_Domain :: string

record chain_ext =
  ct_BufferSize :: "int option"
  ct_GetEpochInfo :: "int \<Rightarrow> EpochInfo option"
  ct_GetNodes :: "int \<Rightarrow> bytes list option"
  ct_NodeDetails :: "bytes \<Rightarrow> NodeDetails option"
  ct_IsWhitelisted :: "int \<Rightarrow> bytes \<Rightarrow> bool option"
  ct_NodeRegistered :: "int \<Rightarrow> bytes \<Rightarrow> bool option"
  gw_Global :: "string \<Rightarrow> bool option"
  gw_Creds :: "string \<Rightarrow> Creds list err"
  p2p_ID :: string
  p2p_Connect :: "string \<Rightarrow> string \<Rightarrow> bool"
  p2p_PeerID :: "string \<Rightarrow> string option"
  srv_RequestConnectionDetails :: "string \<Rightarrow> ConnectionDetails option"
  range_epochs :: "int list \<Rightarrow> int list"

record NodeRegister =
  rg_AllConnected :: bool
  rg_NodeList :: "NodeReference list"

record ChainService =
  ch_locked :: bool
  ch_addr :: "bytes option"
  ch_pubKey :: Point
  ch_privKey :: int
  ch_cachedEpochInfo :: "(int, EpochInfo) gomap"
  ch_nodeRegisterMap :: "(int, NodeRegister) gomap"
  ch_isWhitelisted :: bool
  ch_isRegistered :: bool
  ch_tmp2pConnection :: string
  ch_p2pConnection :: string
  ch_currentEpoch :: int
  ch_index :: int

type_synonym ('ca, 'db) chain_state = "ChainService \<times> 'ca \<times> 'db"

definition zero_Details :: KeygenNodeDetails where
  "zero_Details = \<lparr>kn_Index = 0, kn_PubKey = zero_Point\<rparr>"

text \<open>Calls of the other services.\<close>

definition via_cache :: "('ca \<Rightarrow> ('a \<times> 'ca) go) \<Rightarrow> ('ca, 'db) chain_state \<Rightarrow> ('a \<times> ('ca, 'db) chain_state) go" where
  "via_cache f = (\<lambda>(ch, ca, db). do { (r, ca') \<leftarrow> f ca; Some (r, ch, ca', db) })"

definition via_db :: "('db \<Rightarrow> ('a \<times> 'db) go) \<Rightarrow> ('ca, 'db) chain_state \<Rightarrow> ('a \<times> ('ca, 'db) chain_state) go" where
  "via_db f = (\<lambda>(ch, ca, db). do { (r, db') \<leftarrow> f db; Some (r, ch, ca, db') })"

section \<open>Epochs\<close>

definition EpochCache_Get :: "(int, EpochInfo) gomap \<Rightarrow> int \<Rightarrow> EpochInfo option" where
  "EpochCache_Get s epoch = m_get s epoch"

definition EpochCache_Set :: "(int, EpochInfo) gomap \<Rightarrow> int \<Rightarrow> EpochInfo \<Rightarrow> (int, EpochInfo) gomap" where
  "EpochCache_Set s epoch e = m_set s epoch e"

definition GetEpochInfo ::
  "chain_ext \<Rightarrow> int \<Rightarrow> bool \<Rightarrow> ChainService \<Rightarrow> EpochInfo err \<times> ChainService" where
  "GetEpochInfo X epoch skipCache ch =
     (case (if skipCache then None else EpochCache_Get (ch_cachedEpochInfo ch) epoch) of
        Some eInfo \<Rightarrow> (Inr eInfo, ch)
      | None \<Rightarrow>
          if epoch = 0 then (Inl ''epoch is invalid'', ch)
          else
            (case ct_GetEpochInfo X epoch of
               None \<Rightarrow> (Inl ''contract'', ch)
             | Some result \<Rightarrow>
                 if ei_Id result = 0 then (Inl ''epoch has not been initialized'', ch)
                 else (Inr result,
                       ch\<lparr>ch_cachedEpochInfo := EpochCache_Set (ch_cachedEpochInfo ch) epoch result\<rparr>)))"

section \<open>Applications\<close>

text \<open>\<open>fetchKeyPartition\<close> drops every error and leaves \<open>Global\<close> false.\<close>

definition getKeyPartition :: "chain_ext \<Rightarrow> string \<Rightarrow> bool" where
  "getKeyPartition X appID = (\<not> (case gw_Global X appID of Some g \<Rightarrow> g | None \<Rightarrow> False))"

definition providerList :: "string list" where
  "providerList = [''google'', ''discord'', ''twitch'', ''reddit'', ''twitter'', ''github'',
     ''passwordless'', ''aws'', ''steam'', ''firebase'']"

definition GetVerifierParams :: "chain_ext \<Rightarrow> string \<Rightarrow> string \<Rightarrow> VerifierParams err" where
  "GetVerifierParams X appID provider =
     (if provider \<notin> set providerList then
        (if HasPrefix provider ''csp-'' then Inr \<lparr>vp_ClientID = appID, vp_Domain = []\<rparr>
         else Inl ''invalid provider'')
      else
        (case gw_Creds X appID of
           Inl e \<Rightarrow> Inl e
         | Inr creds \<Rightarrow>
             (case filter (\<lambda>v. provider = cr_Provider v) creds of
                [] \<Rightarrow> Inl ''ClientID not found''
              | v # _ \<Rightarrow> Inr \<lparr>vp_ClientID = cr_ClientID v, vp_Domain = cr_Domain v\<rparr>)))"

definition DEFAULT_KEY_BUFFER :: int where "DEFAULT_KEY_BUFFER = 50000"

definition getBuffer ::
  "chain_ext \<Rightarrow> 'ca service \<Rightarrow> ('ca, 'db) chain_state \<Rightarrow> (int \<times> ('ca, 'db) chain_state) go" where
  "getBuffer X cache st = do {
     (b, st1) \<leftarrow> via_cache (CacheMethods_GetBuffer cache) st;
     let buffer = (case b of Inr x \<Rightarrow> x | Inl e \<Rightarrow> 0);
     if buffer \<noteq> 0 then Some (buffer, st1)
     else
       (case ct_BufferSize X of
          None \<Rightarrow> Some (DEFAULT_KEY_BUFFER, st1)
        | Some sz \<Rightarrow> do {
            (_, st2) \<leftarrow> via_cache (\<lambda>ca. map_option (Pair ()) (CacheMethods_SetBuffer cache (Int64 sz) ca)) st1;
            Some (Int64 sz, st2) }) }"

section \<open>Signed data\<close>

text \<open>The last node with the public key; nil pointers in the list panic.\<close>

definition find_node :: "Point \<Rightarrow> NodeReference list \<Rightarrow> NodeReference option go" where
  "find_node pk nodeList =
     go_fold (\<lambda>nodeRef found. do {
       p \<leftarrow> nr_PublicKey nodeRef;
       Some (if pt_X p = pt_X pk \<and> pt_Y p = pt_Y pk then Some nodeRef else found) }) nodeList None"

text \<open>The end of both verification functions, after the lock is released.\<close>

definition verified_sender ::
  "ecdsa \<Rightarrow> Point \<Rightarrow> bytes \<Rightarrow> bytes \<Rightarrow> NodeReference option \<Rightarrow> call_result" where
  "verified_sender E pk sig data found =
     (case found of
        None \<Rightarrow> Returns (VDetails zero_Details) (Some ''node doesnt exist in node register map'')
      | Some foundNode \<Rightarrow>
          (case VerifyPtFromRaw E data pk sig of
             None \<Rightarrow> Panics
           | Some False \<Rightarrow> Returns (VDetails zero_Details) (Some ''invalid ecdsa sig for data'')
           | Some True \<Rightarrow>
               (case (nr_Index foundNode, nr_PublicKey foundNode) of
                  (Some i, Some p) \<Rightarrow> Returns (VDetails \<lparr>kn_Index = Int64 i, kn_PubKey = p\<rparr>) None
                | _ \<Rightarrow> Panics)))"

text \<open>
  When the epoch is not registered the function returns without unlocking, and a panic in the
  loop leaves the lock held as well.
\<close>

definition verifyDataWithEpoch ::
  "ecdsa \<Rightarrow> Point \<Rightarrow> bytes \<Rightarrow> bytes \<Rightarrow> int \<Rightarrow> ChainService \<Rightarrow> call_result \<times> ChainService" where
  "verifyDataWithEpoch E pk sig data epoch ch =
     (if ch_locked ch then (Blocks, ch)
      else
        (case m_get (ch_nodeRegisterMap ch) epoch of
           None \<Rightarrow> (Returns (VDetails zero_Details)
                     (Some ''epoch doesnt exist in node register map, verifyDataWithEpoch''),
                   ch\<lparr>ch_locked := True\<rparr>)
         | Some nodeRegister \<Rightarrow>
             (case find_node pk (rg_NodeList nodeRegister) of
                None \<Rightarrow> (Panics, ch\<lparr>ch_locked := True\<rparr>)
              | Some found \<Rightarrow> (verified_sender E pk sig data found, ch))))"

definition verifyDataWithNodelist ::
  "chain_ext \<Rightarrow> ecdsa \<Rightarrow> Point \<Rightarrow> bytes \<Rightarrow> bytes \<Rightarrow> ChainService \<Rightarrow> call_result \<times> ChainService" where
  "verifyDataWithNodelist X E pk sig data ch =
     (if ch_locked ch then (Blocks, ch)
      else
        (case find_node pk (concat (map (\<lambda>e. case m_get (ch_nodeRegisterMap ch) e of
             Some r \<Rightarrow> rg_NodeList r | None \<Rightarrow> []) (range_epochs X (m_keys (ch_nodeRegisterMap ch))))) of
           None \<Rightarrow> (Panics, ch\<lparr>ch_locked := True\<rparr>)
         | Some found \<Rightarrow> (verified_sender E pk sig data found, ch)))"

section \<open>The node list\<close>

definition GetNodeRef ::
  "chain_ext \<Rightarrow> 'db service \<Rightarrow> bytes \<Rightarrow> ('ca, 'db) chain_state \<Rightarrow>
   (NodeReference err \<times> ('ca, 'db) chain_state) go" where
  "GetNodeRef X db nodeAddress st =
     (case ct_NodeDetails X nodeAddress of
        None \<Rightarrow> Some (Inl ''contract'', st)
      | Some details \<Rightarrow> do {
          (conn, st1) \<leftarrow>
            (if nd_DeclaredIp details \<noteq> [] \<and> nd_P2pListenAddress details = [] \<or>
                nd_TmP2PListenAddress details = []
             then do {
               (r, st1) \<leftarrow> retry_do 10 (\<lambda>s.
                  case srv_RequestConnectionDetails X (nd_DeclaredIp details) of
                    None \<Rightarrow> Some (Inl ''could not get hidden connection details'', s)
                  | Some c \<Rightarrow> do {
                      (e, s') \<leftarrow> via_db (DBMethods_StoreConnectionDetails db nodeAddress c) s;
                      Some (case e of Inl _ \<Rightarrow> Inl ''could not store connection details'' | Inr _ \<Rightarrow> Inr c, s') }) st;
               (case r of
                  Inr c \<Rightarrow> Some (Inr c, st1)
                | Inl _ \<Rightarrow> do {
                    (r', st2) \<leftarrow> via_db (DBMethods_RetrieveConnectionDetails db nodeAddress) st1;
                    Some (case r' of Inl _ \<Rightarrow> Inl ''unable to get connection details for nodeAddress''
                      | Inr c \<Rightarrow> Inr c, st2) }) }
             else Some (Inr \<lparr>cd_TMP2PConnection = nd_TmP2PListenAddress details,
                             cd_P2PConnection = nd_P2pListenAddress details\<rparr>, st));
          Some (case conn of
              Inl e \<Rightarrow> (Inl e, st1)
            | Inr c \<Rightarrow>
                (case p2p_PeerID X (cd_P2PConnection c) of
                   None \<Rightarrow> (Inl ''peer'', st1)
                 | Some peerid \<Rightarrow>
                     (Inr \<lparr>nr_Address = Some nodeAddress, nr_Index = Some (nd_Position details),
                           nr_PeerID = peerid,
                           nr_PublicKey = Some \<lparr>pt_X = nd_PubKx details, pt_Y = nd_PubKy details\<rparr>,
                           nr_P2PConnection = cd_P2PConnection c,
                           nr_TMP2PConnection = cd_TMP2PConnection c\<rparr>, st1))) })"

text \<open>The two loops of \<open>getNodeRefsByEpoch\<close>: store every public key, then collect the references.\<close>

fun store_pub_keys ::
  "chain_ext \<Rightarrow> 'db service \<Rightarrow> bytes list \<Rightarrow> ('ca, 'db) chain_state \<Rightarrow> (unit err \<times> ('ca, 'db) chain_state) go" where
  "store_pub_keys X db [] st = Some (Inr (), st)"
| "store_pub_keys X db (a # as) st =
     (case ct_NodeDetails X a of
        None \<Rightarrow> Some (Inl ''could not get node details with pub key'', st)
      | Some details \<Rightarrow> do {
          (e, st1) \<leftarrow> via_db (DBMethods_StoreNodePubKey db a
                        \<lparr>pt_X = nd_PubKx details, pt_Y = nd_PubKy details\<rparr>) st;
          (case e of Inl _ \<Rightarrow> Some (Inl ''could not store node details with pub key'', st1)
           | Inr _ \<Rightarrow> store_pub_keys X db as st1) })"

fun collect_refs ::
  "chain_ext \<Rightarrow> 'db service \<Rightarrow> bytes list \<Rightarrow> ('ca, 'db) chain_state \<Rightarrow>
   (NodeReference list err \<times> ('ca, 'db) chain_state) go" where
  "collect_refs X db [] st = Some (Inr [], st)"
| "collect_refs X db (a # as) st = do {
     (r, st1) \<leftarrow> GetNodeRef X db a st;
     (case r of
        Inl _ \<Rightarrow> Some (Inl ''Could not get node refs'', st1)
      | Inr nodeRef \<Rightarrow> do {
          (rs, st2) \<leftarrow> collect_refs X db as st1;
          Some (case rs of Inl e \<Rightarrow> Inl e | Inr l \<Rightarrow> Inr (nodeRef # l), st2) }) }"

definition getNodeRefsByEpoch ::
  "chain_ext \<Rightarrow> 'db service \<Rightarrow> int \<Rightarrow> ('ca, 'db) chain_state \<Rightarrow>
   (NodeReference list err \<times> ('ca, 'db) chain_state) go" where
  "getNodeRefsByEpoch X db epoch st =
     (case ct_GetNodes X epoch of
        None \<Rightarrow> Some (Inl ''Could not get node list'', st)
      | Some ethList \<Rightarrow> do {
          (e, st1) \<leftarrow> store_pub_keys X db ethList st;
          (case e of Inl x \<Rightarrow> Some (Inl x, st1) | Inr _ \<Rightarrow> collect_refs X db ethList st1) })"

text \<open>
  One tick of \<open>currentNodesMonitor\<close>; the result says whether the loop ends. The lock is held
  only around the two accesses to the map.
\<close>

definition currentNodesMonitor_tick ::
  "chain_ext \<Rightarrow> 'db service \<Rightarrow> ('ca, 'db) chain_state \<Rightarrow> (bool \<times> ('ca, 'db) chain_state) go" where
  "currentNodesMonitor_tick X db = (\<lambda>(ch, ca, d).
     let currEpoch = ch_currentEpoch ch; (r, ch1) = GetEpochInfo X currEpoch True ch in
     case r of
       Inl e \<Rightarrow> Some (False, ch1, ca, d)
     | Inr currEpochInfo \<Rightarrow>
         if ch_locked ch1 then None
         else do {
           let ch2 = (case m_get (ch_nodeRegisterMap ch1) currEpoch of
             Some _ \<Rightarrow> ch1
           | None \<Rightarrow> ch1\<lparr>ch_nodeRegisterMap := m_set (ch_nodeRegisterMap ch1) currEpoch
                        \<lparr>rg_AllConnected = False, rg_NodeList = []\<rparr>\<rparr>);
           (refs, ch3, ca3, d3) \<leftarrow> getNodeRefsByEpoch X db currEpoch (ch2, ca, d);
           (case refs of
              Inl e \<Rightarrow> Some (False, ch3, ca3, d3)
            | Inr currNodeList \<Rightarrow>
                if ei_N currEpochInfo \<noteq> int (length currNodeList) then Some (False, ch3, ca3, d3)
                else do {
                  ch4 \<leftarrow> go_fold (\<lambda>nodeRef c. if nr_PeerID nodeRef = p2p_ID X then do {
                             i \<leftarrow> nr_Index nodeRef; Some (c\<lparr>ch_index := Int64 i\<rparr>) } else Some c) currNodeList ch3;
                  if \<forall>nodeRef \<in> set currNodeList. p2p_Connect X (nr_P2PConnection nodeRef) (nr_PeerID nodeRef) then do {
                    reg \<leftarrow> m_get (ch_nodeRegisterMap ch4) currEpoch;
                    Some (True, ch4\<lparr>ch_nodeRegisterMap := m_set (ch_nodeRegisterMap ch4) currEpoch
                                     (reg\<lparr>rg_NodeList := currNodeList\<rparr>)\<rparr>, ca3, d3) }
                  else Some (False, ch4, ca3, d3) }) })"

text \<open>One tick of \<open>whitelistMonitor\<close>.\<close>

definition whitelistMonitor_tick :: "chain_ext \<Rightarrow> ChainService \<Rightarrow> (bool \<times> ChainService) go" where
  "whitelistMonitor_tick X ch = do {
     a \<leftarrow> ch_addr ch;
     if ct_IsWhitelisted X (ch_currentEpoch ch) a = Some True then Some (True, ch\<lparr>ch_isWhitelisted := True\<rparr>)
     else Some (False, ch) }"

definition IsSelfRegistered :: "chain_ext \<Rightarrow> int \<Rightarrow> ChainService \<Rightarrow> bool err go" where
  "IsSelfRegistered X epoch ch = do {
     a \<leftarrow> ch_addr ch;
     Some (case ct_NodeRegistered X epoch a of None \<Rightarrow> Inl ''contract'' | Some r \<Rightarrow> Inr r) }"

section \<open>The service\<close>

text \<open>
  A case that takes the lock and releases it when it returns; one that waits until a condition
  holds returns when it does and blocks otherwise.
\<close>

definition locking :: "('ca, 'db) chain_state \<Rightarrow> (call_result \<times> ('ca, 'db) chain_state) go \<Rightarrow>
    call_result \<times> ('ca, 'db) chain_state" where
  "locking st r = (if ch_locked (fst st) then (Blocks, st) else or_panic st r)"

definition or_block :: "'st \<Rightarrow> (call_result \<times> 'st) go \<Rightarrow> call_result \<times> 'st" where
  "or_block st r = (case r of None \<Rightarrow> (Blocks, st) | Some x \<Rightarrow> x)"

definition on_chain :: "(ChainService \<Rightarrow> call_result \<times> ChainService) \<Rightarrow> ('ca, 'db) chain_state \<Rightarrow>
    call_result \<times> ('ca, 'db) chain_state" where
  "on_chain f = (\<lambda>(ch, ca, d). let (r, ch') = f ch in (r, ch', ca, d))"

definition registered :: "ChainService \<Rightarrow> int \<Rightarrow> bool" where
  "registered ch epoch =
     (case m_get (ch_nodeRegisterMap ch) epoch of Some reg \<Rightarrow> rg_NodeList reg \<noteq> [] | None \<Rightarrow> False)"

text \<open>\<open>await_complete_node_list\<close> at the end of its loop.\<close>

definition complete_node_list :: "chain_ext \<Rightarrow> int \<Rightarrow> ChainService \<Rightarrow> call_result \<times> ChainService" where
  "complete_node_list X epoch ch =
     (case m_get (ch_nodeRegisterMap ch) epoch of
        None \<Rightarrow> (Blocks, ch)
      | Some reg \<Rightarrow>
          (case GetEpochInfo X epoch False ch of
             (Inl e, ch') \<Rightarrow> (Blocks, ch')
           | (Inr info, ch') \<Rightarrow>
               if ei_N info \<noteq> int (length (rg_NodeList reg)) then (Blocks, ch')
               else (Returns (VNodeRefs (map Serialize (rg_NodeList reg))) None, ch')))"

text \<open>The first node with an address, in the order of ranging over the epochs; nil addresses panic.\<close>

fun node_by_address :: "bytes \<Rightarrow> NodeReference list \<Rightarrow> NodeReference option go" where
  "node_by_address a [] = Some None"
| "node_by_address a (r # rs) = do {
     b \<leftarrow> nr_Address r; if b = a then Some (Some r) else node_by_address a rs }"

fun node_by_index :: "int \<Rightarrow> NodeReference list \<Rightarrow> NodeReference option go" where
  "node_by_index i [] = Some None"
| "node_by_index i (r # rs) = do {
     j \<leftarrow> nr_Index r; if Int64 j = i then Some (Some r) else node_by_index i rs }"

definition all_nodes :: "chain_ext \<Rightarrow> ChainService \<Rightarrow> NodeReference list" where
  "all_nodes X ch =
     concat (map (\<lambda>e. case m_get (ch_nodeRegisterMap ch) e of Some r \<Rightarrow> rg_NodeList r | None \<Rightarrow> [])
       (range_epochs X (m_keys (ch_nodeRegisterMap ch))))"

definition node_reply :: "NodeReference option \<Rightarrow> call_result" where
  "node_reply r =
     (case r of None \<Rightarrow> Returns Nil_iface (Some ''node could not be found'')
      | Some nodeDetails \<Rightarrow> Returns (VNodeRef (Serialize nodeDetails)) None)"

definition chain_Call ::
  "chain_ext \<Rightarrow> ecdsa \<Rightarrow> 'ca service \<Rightarrow> 'db service \<Rightarrow> ('ca, 'db) chain_state service" where
  "chain_Call X E cache db method args st =
     (let ch = fst st in
      if method = ''get_self_address'' then locking st (Some (case ch_addr ch of
          None \<Rightarrow> (Returns Nil_iface (Some ''node address has not been initialized''), st)
        | Some a \<Rightarrow> (Returns (VAddress a) None, st)))
      else if method = ''set_self_index'' then locking st (do {
        args0 \<leftarrow> arg 0 int_of args 0;
        Some (on_chain (\<lambda>ch. (Returns Nil_iface None, ch\<lparr>ch_index := args0\<rparr>)) st) })
      else if method = ''get_tm_p2p_connection'' then (Returns (VString (ch_tmp2pConnection ch)) None, st)
      else if method = ''get_p2p_connection'' then (Returns (VString (ch_p2pConnection ch)) None, st)
      else if method = ''get_current_epoch'' then (Returns (VInt (ch_currentEpoch ch)) None, st)
      else if method = ''validate_epoch_pub_key'' then or_panic st (do {
        args0 \<leftarrow> arg (replicate 20 0) address_of args 0;
        args1 \<leftarrow> arg zero_Point point_of args 1;
        Some (or_block st (do {
          (r, st') \<leftarrow> via_db (DBMethods_RetrieveNodePubKey db args0) st;
          Some (case r of
              Inl e \<Rightarrow> (Returns (VBool False) (Some e), st')
            | Inr pubKey \<Rightarrow>
                if pt_X pubKey = pt_X args1 \<and> pt_Y pubKey = pt_Y args1 then (Returns (VBool True) None, st')
                else (Returns (VBool False) (Some ''incorrect pubkey''), st')) })) })
      else if method = ''get_previous_epoch'' then on_chain (\<lambda>ch.
          case GetEpochInfo X (ch_currentEpoch ch) False ch of
            (Inl e, ch') \<Rightarrow> (Returns Nil_iface (Some e), ch')
          | (Inr info, ch') \<Rightarrow> (Returns (VInt (Int64 (ei_PrevEpoch info))) None, ch')) st
      else if method = ''get_next_epoch'' then on_chain (\<lambda>ch.
          case GetEpochInfo X (ch_currentEpoch ch) False ch of
            (Inl e, ch') \<Rightarrow> (Returns Nil_iface (Some e), ch')
          | (Inr info, ch') \<Rightarrow> (Returns (VInt (Int64 (ei_NextEpoch info))) None, ch')) st
      else if method = ''get_self_index'' then locking st (Some (
          if ch_index ch \<noteq> 0 then (Returns (VInt (ch_index ch)) None, st) else (Blocks, st)))
      else if method = ''get_self_public_key'' then locking st (Some (Returns (VPoint (ch_pubKey ch)) None, st))
      else if method = ''get_address'' then (Returns (VPtr (map_option VAddress (ch_addr ch))) None, st)
      else if method = ''get_self_private_key'' then (Returns (VBig (ch_privKey ch)) None, st)
      else if method = ''self_sign_data'' then or_panic st (do {
        args0 \<leftarrow> arg [] bytes_of args 0;
        Some (or_block st (do { sig \<leftarrow> SignData E args0 (ch_privKey ch); Some (Returns (VBytes (sg_Raw sig)) None, st) })) })
      else if method = ''get_key_buffer'' then or_block st (do {
        (buffer, st') \<leftarrow> getBuffer X cache st;
        Some (Returns (VInt buffer) None, st') })
      else if method = ''await_nodes_connected'' then or_panic st (do {
        args0 \<leftarrow> arg 0 int_of args 0;
        Some (if registered ch args0 then (Returns Nil_iface None, st) else (Blocks, st)) })
      else if method = ''get_node_details_by_address'' then locking st (do {
        args0 \<leftarrow> arg (replicate 20 0) address_of args 0;
        r \<leftarrow> node_by_address args0 (all_nodes X ch);
        Some (node_reply r, st) })
      else if method = ''verify_data_with_nodelist'' then or_panic st (do {
        args0 \<leftarrow> arg zero_Point point_of args 0;
        args1 \<leftarrow> arg [] bytes_of args 1;
        args2 \<leftarrow> arg [] bytes_of args 2;
        Some (on_chain (verifyDataWithNodelist X E args0 args1 args2) st) })
      else if method = ''await_complete_node_list'' then or_panic st (do {
        args0 \<leftarrow> arg 0 int_of args 0;
        Some (on_chain (complete_node_list X args0) st) })
      else if method = ''verify_data_with_epoch'' then or_panic st (do {
        args0 \<leftarrow> arg zero_Point point_of args 0;
        args1 \<leftarrow> arg [] bytes_of args 1;
        args2 \<leftarrow> arg [] bytes_of args 2;
        args3 \<leftarrow> arg 0 int_of args 3;
        Some (on_chain (verifyDataWithEpoch E args0 args1 args2 args3) st) })
      else if method = ''get_epoch_info'' then or_panic st (do {
        args0 \<leftarrow> arg 0 int_of args 0;
        args1 \<leftarrow> arg False bool_of args 1;
        Some (on_chain (\<lambda>ch. case GetEpochInfo X args0 args1 ch of
            (Inl e, ch') \<Rightarrow> (Returns (VEpochInfo \<lparr>ei_Id = 0, ei_N = 0, ei_K = 0, ei_T = 0, ei_PrevEpoch = 0, ei_NextEpoch = 0\<rparr>) (Some e), ch')
          | (Inr info, ch') \<Rightarrow> (Returns (VEpochInfo info) None, ch')) st) })
      else if method = ''get_node_details_by_epoch_and_index'' then locking st (do {
        args0 \<leftarrow> arg 0 int_of args 0;
        args1 \<leftarrow> arg 0 int_of args 1;
        reg \<leftarrow> m_get (ch_nodeRegisterMap ch) args0;
        r \<leftarrow> node_by_index args1 (rg_NodeList reg);
        Some (node_reply r, st) })
      else if method = ''get_params_by_verifier'' then or_panic st (do {
        args0 \<leftarrow> arg [] string_of args 0;
        args1 \<leftarrow> arg [] string_of args 1;
        Some (case GetVerifierParams X args0 args1 of
            Inl e \<Rightarrow> (Returns (VPtr None) (Some e), st)
          | Inr p \<Rightarrow> (Returns (VPtr (Some (VVerifierParams p))) None, st)) })
      else if method = ''get_app_partition'' then or_panic st (do {
        args0 \<leftarrow> arg [] string_of args 0;
        Some (Returns (VBool (getKeyPartition X args0)) None, st) })
      else (Returns (VString []) None, st))"

section \<open>The broker methods\<close>

definition ChainMethods_GetTMP2PConnection :: "'st service \<Rightarrow> 'st \<Rightarrow> (string \<times> 'st) go" where
  "ChainMethods_GetTMP2PConnection ch = retry_or_fatal (ask (checked string_of) ch ''get_tm_p2p_connection'' [])"

definition ChainMethods_GetP2PConnection :: "'st service \<Rightarrow> 'st \<Rightarrow> (string \<times> 'st) go" where
  "ChainMethods_GetP2PConnection ch = retry_or_fatal (ask (checked string_of) ch ''get_p2p_connection'' [])"

definition ChainMethods_ValidateEpochPubKey :: "'st service \<Rightarrow> bytes \<Rightarrow> Point \<Rightarrow> 'st \<Rightarrow> (bool \<times> 'st) go" where
  "ChainMethods_ValidateEpochPubKey ch nodeAddress pubK st = do {
     (r, st') \<leftarrow> ask (checked bool_of) ch ''validate_epoch_pub_key'' [VAddress nodeAddress, VPoint pubK] st;
     Some (case r of Inl e \<Rightarrow> False | Inr b \<Rightarrow> b, st') }"

definition ChainMethods_GetSelfAddress :: "'st service \<Rightarrow> 'st \<Rightarrow> (bytes \<times> 'st) go" where
  "ChainMethods_GetSelfAddress ch = retry_or_fatal (ask (checked address_of) ch ''get_self_address'' [])"

definition ChainMethods_AwaitNodesConnected :: "'st service \<Rightarrow> int \<Rightarrow> 'st \<Rightarrow> 'st go" where
  "ChainMethods_AwaitNodesConnected ch epoch st = do {
     (r, st') \<leftarrow> ask acknowledged ch ''await_nodes_connected'' [VInt epoch] st;
     (case r of Inl e \<Rightarrow> None | Inr _ \<Rightarrow> Some st') }"

definition ChainMethods_KeyBuffer :: "'st service \<Rightarrow> 'st \<Rightarrow> (int \<times> 'st) go" where
  "ChainMethods_KeyBuffer ch st = do {
     (r, st') \<leftarrow> ask (cast_only int_of) ch ''get_key_buffer'' [] st;
     Some (case r of Inl e \<Rightarrow> 0 | Inr b \<Rightarrow> b, st') }"

definition ChainMethods_SetSelfIndex :: "'st service \<Rightarrow> int \<Rightarrow> 'st \<Rightarrow> (unit \<times> 'st) go" where
  "ChainMethods_SetSelfIndex ch index = retry_or_fatal (ask acknowledged ch ''set_self_index'' [VInt index])"

definition ChainMethods_GetPreviousEpoch :: "'st service \<Rightarrow> 'st \<Rightarrow> (int err \<times> 'st) go" where
  "ChainMethods_GetPreviousEpoch ch = ask (checked int_of) ch ''get_previous_epoch'' [Nil_iface]"

definition ChainMethods_GetNextEpoch :: "'st service \<Rightarrow> 'st \<Rightarrow> (int err \<times> 'st) go" where
  "ChainMethods_GetNextEpoch ch = ask (checked int_of) ch ''get_next_epoch'' []"

definition ChainMethods_GetCurrentEpoch :: "'st service \<Rightarrow> 'st \<Rightarrow> (int \<times> 'st) go" where
  "ChainMethods_GetCurrentEpoch ch =
     retry_or_fatal (ask (\<lambda>r. case checked int_of r of
        Inl e \<Rightarrow> Inl e
      | Inr d \<Rightarrow> if d = 0 then Inl ''could not get current epoch'' else Inr d) ch ''get_current_epoch'' [])"

definition ChainMethods_GetEpochInfo :: "'st service \<Rightarrow> int \<Rightarrow> bool \<Rightarrow> 'st \<Rightarrow> (EpochInfo err \<times> 'st) go" where
  "ChainMethods_GetEpochInfo ch epoch skipCache =
     ask (\<lambda>r. case checked epoch_of r of
        Inl e \<Rightarrow> Inl e
      | Inr d \<Rightarrow> if ei_Id d = 0 then Inl ''data is invalid, epochID is 0'' else Inr d)
       ch ''get_epoch_info'' [VInt epoch, VBool skipCache]"

definition ChainMethods_GetNodeDetailsByEpochAndIndex ::
  "'st service \<Rightarrow> int \<Rightarrow> int \<Rightarrow> 'st \<Rightarrow> (NodeReference \<times> 'st) go" where
  "ChainMethods_GetNodeDetailsByEpochAndIndex ch epoch index =
     retry_or_fatal (ask (\<lambda>r. map_sum id Deserialize (checked noderef_of r))
       ch ''get_node_details_by_epoch_and_index'' [VInt epoch, VInt index])"

definition ChainMethods_GetNodeDetailsByAddress :: "'st service \<Rightarrow> bytes \<Rightarrow> 'st \<Rightarrow> (NodeReference \<times> 'st) go" where
  "ChainMethods_GetNodeDetailsByAddress ch address =
     retry_or_fatal (ask (\<lambda>r. map_sum id Deserialize (checked noderef_of r))
       ch ''get_node_details_by_address'' [VAddress address])"

definition ChainMethods_GetSelfIndex :: "'st service \<Rightarrow> 'st \<Rightarrow> (int \<times> 'st) go" where
  "ChainMethods_GetSelfIndex ch st = do {
     (r, st') \<leftarrow> ServiceMethod ch ''get_self_index'' [] st;
     if mr_Error r \<noteq> None then None
     else Some (case CastOrUnmarshal int_of (mr_Data r) of Inl e \<Rightarrow> 0 | Inr i \<Rightarrow> i, st') }"

definition ChainMethods_GetSelfPublicKey :: "'st service \<Rightarrow> 'st \<Rightarrow> (Point \<times> 'st) go" where
  "ChainMethods_GetSelfPublicKey ch = retry_or_fatal (ask (checked point_of) ch ''get_self_public_key'' [])"

definition ChainMethods_GetSelfPrivateKey :: "'st service \<Rightarrow> 'st \<Rightarrow> (int \<times> 'st) go" where
  "ChainMethods_GetSelfPrivateKey ch = retry_or_fatal (ask (checked big_of) ch ''get_self_private_key'' [])"

text \<open>Both verification methods read the data of the response and not its error.\<close>

definition ChainMethods_VerifyDataWithNodelist ::
  "'st service \<Rightarrow> Point \<Rightarrow> bytes \<Rightarrow> bytes \<Rightarrow> 'st \<Rightarrow> (KeygenNodeDetails err \<times> 'st) go" where
  "ChainMethods_VerifyDataWithNodelist ch pk sig input =
     ask (cast_only details_of) ch ''verify_data_with_nodelist'' [VPoint pk, VBytes sig, VBytes input]"

definition ChainMethods_VerifyDataWithEpoch ::
  "'st service \<Rightarrow> Point \<Rightarrow> bytes \<Rightarrow> bytes \<Rightarrow> int \<Rightarrow> 'st \<Rightarrow> (KeygenNodeDetails err \<times> 'st) go" where
  "ChainMethods_VerifyDataWithEpoch ch pk sig input epoch =
     ask (cast_only details_of) ch ''verify_data_with_epoch'' [VPoint pk, VBytes sig, VBytes input, VInt epoch]"

definition ChainMethods_GetClientIDViaVerifier ::
  "'st service \<Rightarrow> string \<Rightarrow> string \<Rightarrow> 'st \<Rightarrow> (VerifierParams err \<times> 'st) go" where
  "ChainMethods_GetClientIDViaVerifier ch appID verifier =
     ask (cast_only params_of) ch ''get_params_by_verifier'' [VString appID, VString verifier]"

definition ChainMethods_GetPartitionForApp :: "'st service \<Rightarrow> string \<Rightarrow> 'st \<Rightarrow> (bool err \<times> 'st) go" where
  "ChainMethods_GetPartitionForApp ch appID = ask (cast_only bool_of) ch ''get_app_partition'' [VString appID]"

definition ChainMethods_AwaitCompleteNodeList :: "'st service \<Rightarrow> int \<Rightarrow> 'st \<Rightarrow> (NodeReference list \<times> 'st) go" where
  "ChainMethods_AwaitCompleteNodeList ch epoch =
     retry_or_fatal (ask (\<lambda>r. map_sum id (map Deserialize) (checked noderefs_of r))
       ch ''await_complete_node_list'' [VInt epoch])"

definition ChainMethods_SelfSignData :: "'st service \<Rightarrow> bytes \<Rightarrow> 'st \<Rightarrow> (bytes \<times> 'st) go" where
  "ChainMethods_SelfSignData ch input = retry_or_fatal (ask (checked bytes_of) ch ''self_sign_data'' [VBytes input])"

section \<open>Verification of signed data\<close>

text \<open>A node list as \<open>GetNodeRef\<close> makes them: indexes and public keys are there.\<close>

definition listed :: "NodeReference list \<Rightarrow> bool" where
  "listed nodes \<longleftrightarrow> (\<forall>r \<in> set nodes. nr_Index r \<noteq> None \<and> nr_PublicKey r \<noteq> None)"

lemma find_node_fold:
  assumes "listed nodes" "case found of None \<Rightarrow> True | Some r \<Rightarrow> nr_PublicKey r = Some pk"
  shows "\<exists>f. go_fold (\<lambda>nodeRef found. do {
       p \<leftarrow> nr_PublicKey nodeRef;
       Some (if pt_X p = pt_X pk \<and> pt_Y p = pt_Y pk then Some nodeRef else found) }) nodes found = Some f \<and>
     (case f of
        None \<Rightarrow> found = None \<and> (\<forall>r \<in> set nodes. nr_PublicKey r \<noteq> Some pk)
      | Some r \<Rightarrow> (r \<in> set nodes \<or> found = Some r) \<and> nr_PublicKey r = Some pk)"
  using assms
proof (induction nodes arbitrary: found)
  case (Cons r nodes)
  then obtain p where p: "nr_PublicKey r = Some p" by (auto simp: listed_def)
  let ?f = "if pt_X p = pt_X pk \<and> pt_Y p = pt_Y pk then Some r else found"
  have "case ?f of None \<Rightarrow> True | Some r \<Rightarrow> nr_PublicKey r = Some pk"
    using Cons.prems(2) p by (auto split: option.splits)
  moreover have "listed nodes" using Cons.prems(1) by (simp add: listed_def)
  ultimately show ?case using Cons.IH [of ?f] p by (auto split: option.splits if_splits)
qed (auto split: option.splits)

lemma find_node_Some:
  assumes "listed nodes"
  shows "\<exists>f. find_node pk nodes = Some f \<and>
    (case f of None \<Rightarrow> \<forall>r \<in> set nodes. nr_PublicKey r \<noteq> Some pk
     | Some r \<Rightarrow> r \<in> set nodes \<and> nr_PublicKey r = Some pk)"
  using find_node_fold [OF assms, where found = None and pk = pk] by (auto simp: find_node_def split: option.splits)

text \<open>
  The function of the service is sound: it reports no error only for a signature that the key of
  a node of the epoch verifies, and then with the index of that node.
\<close>

lemma verifyDataWithEpoch_sound:
  assumes "verifyDataWithEpoch E pk sig data epoch ch = (Returns v None, ch')"
    and "m_get (ch_nodeRegisterMap ch) epoch = Some reg" "listed (rg_NodeList reg)"
  shows "VerifyPtFromRaw E data pk sig = Some True \<and>
    (\<exists>r i. r \<in> set (rg_NodeList reg) \<and> nr_PublicKey r = Some pk \<and> nr_Index r = Some i \<and>
       v = VDetails \<lparr>kn_Index = Int64 i, kn_PubKey = pk\<rparr>)"
proof -
  obtain f where f: "find_node pk (rg_NodeList reg) = Some f"
    "case f of None \<Rightarrow> \<forall>r \<in> set (rg_NodeList reg). nr_PublicKey r \<noteq> Some pk
     | Some r \<Rightarrow> r \<in> set (rg_NodeList reg) \<and> nr_PublicKey r = Some pk"
    using find_node_Some [OF assms(3)] by blast
  then show ?thesis using assms(1,2)
    by (auto simp: verifyDataWithEpoch_def verified_sender_def split: if_splits option.splits bool.splits)
qed

lemma VerifyDataWithEpoch_call:
  "ChainMethods_VerifyDataWithEpoch (chain_Call X E cache db) pk sig data epoch (ch, ca, d) =
     (case verifyDataWithEpoch E pk sig data epoch ch of
        (Returns v e, ch') \<Rightarrow> Some (CastOrUnmarshal details_of v, ch', ca, d)
      | (Panics, ch') \<Rightarrow> Some (Inl ''could not cast in castOrUnmarshal'', ch', ca, d)
      | (Blocks, ch') \<Rightarrow> None)"
  by (simp add: ChainMethods_VerifyDataWithEpoch_def ask_def ServiceMethod_def chain_Call_def arg_def on_chain_def
      cast_only_def split: prod.splits call_result.splits)

text \<open>
  C16. The broker method drops the error of the verification: for data with a signature of at
  least 64 bytes it always succeeds. When the signature does not verify or the key is not of a
  node, the sender it returns is the zero value, a node of index 0.
\<close>

theorem unverified_data_accepted:
  assumes "\<not> ch_locked ch" "m_get (ch_nodeRegisterMap ch) epoch = Some reg" "listed (rg_NodeList reg)"
    and "64 \<le> length sig"
  shows "\<exists>sender. ChainMethods_VerifyDataWithEpoch (chain_Call X E cache db) pk sig data epoch (ch, ca, d) =
      Some (Inr sender, ch, ca, d) \<and>
    (VerifyPtFromRaw E data pk sig = Some False \<or> (\<forall>r \<in> set (rg_NodeList reg). nr_PublicKey r \<noteq> Some pk) \<longrightarrow>
       sender = zero_Details)"
proof -
  obtain f where f: "find_node pk (rg_NodeList reg) = Some f"
    "case f of None \<Rightarrow> \<forall>r \<in> set (rg_NodeList reg). nr_PublicKey r \<noteq> Some pk
     | Some r \<Rightarrow> r \<in> set (rg_NodeList reg) \<and> nr_PublicKey r = Some pk"
    using find_node_Some [OF assms(3)] by blast
  have "\<exists>b. VerifyPtFromRaw E data pk sig = Some b"
    using assms(4) by (simp add: VerifyPtFromRaw_def verifyFromRaw_def go_slice_def)
  then obtain b where b: "VerifyPtFromRaw E data pk sig = Some b" ..
  show ?thesis
  proof (cases f)
    case None
    then show ?thesis using assms(1,2) f by (simp add: VerifyDataWithEpoch_call verifyDataWithEpoch_def verified_sender_def)
  next
    case (Some r)
    then obtain i where "nr_Index r = Some i" using f(2) assms(3) by (auto simp: listed_def)
    then show ?thesis using assms(1,2) f Some b
      by (cases b) (auto simp: VerifyDataWithEpoch_call verifyDataWithEpoch_def verified_sender_def)
  qed
qed

text \<open>A chain service with one node.\<close>

definition toy_ext :: chain_ext where
  "toy_ext =
     \<lparr>ct_BufferSize = Some 1000, ct_GetEpochInfo = (\<lambda>e. Some \<lparr>ei_Id = e, ei_N = 1, ei_K = 1, ei_T = 0,
        ei_PrevEpoch = 0, ei_NextEpoch = 0\<rparr>), ct_GetNodes = (\<lambda>_. None), ct_NodeDetails = (\<lambda>_. None),
      ct_IsWhitelisted = (\<lambda>_ _. None), ct_NodeRegistered = (\<lambda>_ _. None), gw_Global = (\<lambda>_. None),
      gw_Creds = (\<lambda>_. Inl []), p2p_ID = [], p2p_Connect = (\<lambda>_ _. True), p2p_PeerID = (\<lambda>_. None),
      srv_RequestConnectionDetails = (\<lambda>_. None), range_epochs = (\<lambda>es. es)\<rparr>"

definition toy_ref :: NodeReference where
  "toy_ref = \<lparr>nr_Address = Some [], nr_Index = Some 1, nr_PeerID = [], nr_PublicKey = Some \<lparr>pt_X = 5, pt_Y = 5\<rparr>,
     nr_P2PConnection = [], nr_TMP2PConnection = []\<rparr>"

definition toy_chain :: ChainService where
  "toy_chain = \<lparr>ch_locked = False, ch_addr = Some [], ch_pubKey = \<lparr>pt_X = 5, pt_Y = 5\<rparr>, ch_privKey = 5,
     ch_cachedEpochInfo = [], ch_nodeRegisterMap = [(1, \<lparr>rg_AllConnected = True, rg_NodeList = [toy_ref]\<rparr>)],
     ch_isWhitelisted = True, ch_isRegistered = True, ch_tmp2pConnection = [], ch_p2pConnection = [],
     ch_currentEpoch = 1, ch_index = 1\<rparr>"

definition toy_call :: "((string, cvalue \<times> int) gomap CacheService, (bytes, bytes) gomap) chain_state service" where
  "toy_call = chain_Call toy_ext toy_ecdsa (cache_Call toy_cache 0) (db_Call mem_db mem_json)"

definition toy_state :: "((string, cvalue \<times> int) gomap CacheService, (bytes, bytes) gomap) chain_state" where
  "toy_state = (toy_chain, cache_Start toy_cache, [])"

lemma toy_chain_facts:
  "\<not> ch_locked toy_chain" "m_get (ch_nodeRegisterMap toy_chain) 2 = None"
  "m_get (ch_nodeRegisterMap toy_chain) 1 = Some \<lparr>rg_AllConnected = True, rg_NodeList = [toy_ref]\<rparr>"
  "listed (rg_NodeList \<lparr>rg_AllConnected = True, rg_NodeList = [toy_ref]\<rparr>)"
  by (simp_all add: toy_chain_def listed_def toy_ref_def)

text \<open>The zero signature of a node's key does not verify, and is accepted.\<close>

theorem unverified_data_accepted_witness:
  "VerifyPtFromRaw toy_ecdsa [1] \<lparr>pt_X = 5, pt_Y = 5\<rparr> (replicate 65 0) = Some False \<and>
   ChainMethods_VerifyDataWithEpoch toy_call \<lparr>pt_X = 5, pt_Y = 5\<rparr> (replicate 65 0) [1] 1 toy_state =
     Some (Inr zero_Details, toy_state)"
proof -
  have bad: "VerifyPtFromRaw toy_ecdsa [1] \<lparr>pt_X = 5, pt_Y = 5\<rparr> (replicate 65 0) = Some False"
    by (simp add: VerifyPtFromRaw_def verifyFromRaw_def go_slice_def toy_ecdsa_def big_SetBytes_def numeral_eq_Suc)
  obtain sender where
    "ChainMethods_VerifyDataWithEpoch toy_call \<lparr>pt_X = 5, pt_Y = 5\<rparr> (replicate 65 0) [1] 1 toy_state =
       Some (Inr sender, toy_state)" "sender = zero_Details"
    unfolding toy_call_def toy_state_def
    using unverified_data_accepted [OF toy_chain_facts(1,3,4), where sig = "replicate 65 0"] bad by fastforce
  with bad show ?thesis by simp
qed



end
