(* ===== verification/Abci.thy ===== *)
theory Abci
  imports Chain
begin

text \<open>
  The replicated application, \<open>tendermint/abci.go\<close> and \<open>tendermint/abci_handlers.go\<close>, with the
  transaction wrapper of \<open>tendermint/bft_rpc.go\<close>: nodes vote for the public key of a generated
  key, a threshold of equal votes decides it, and decided keys are assigned to users in order.

  The application calls the chain, the database and the key generation services through the
  broker; they act on one world state. Its own database, the JSON codec and the services are
  parameters. A value \<open>None\<close> is a panic or a call that does not return.
\<close>

section \<open>State\<close>

record KeygenPubKey =
  kp_ID :: string
  kp_Point :: Point

record KeygenDecision =
  kd_Nodes :: "int list"

record C25519State =
  c2_LastCreatedIndex :: "64 word"
  c2_LastUnassignedIndex :: "64 word"

record State =
  st_LastUnassignedIndex :: "64 word"
  st_LastCreatedIndex :: "64 word"
  st_BlockTime :: int
  st_NewKeyAssignments :: "KeyAssignmentPublic list"
  st_KeygenDecisions :: "(string, KeygenDecision) gomap"
  st_KeygenPubKeys :: "(string, KeygenPubKey) gomap"
  st_ConsecutiveFailedPubKeyAssigns :: "64 word"
  st_C25519State :: C25519State

record AppInfo =
  ai_Height :: int
  ai_AppHash :: bytes

record 'd ABCI =
  ab_db :: 'd
  ab_state :: State
  ab_prevState :: State
  ab_info :: AppInfo

record DefaultBFTTxWrapper =
  bw_BFTTx :: bytes
  bw_Nonce :: "32 word"
  bw_PubKey :: Point
  bw_MsgType :: byte
  bw_Signature :: bytes

definition KeyAvailable :: "CurveName \<Rightarrow> State \<Rightarrow> bool" where
  "KeyAvailable curve state =
     (if curve = SECP256K1 then st_LastUnassignedIndex state < st_LastCreatedIndex state
      else if curve = ED25519 then
        c2_LastUnassignedIndex (st_C25519State state) < c2_LastCreatedIndex (st_C25519State state)
      else False)"

section \<open>Parameters\<close>

record tmjson =
  tj_state :: "State codec"
  tj_info :: "AppInfo codec"
  tj_bigs :: "int list codec"
  tj_assignment :: "KeyAssignmentPublic codec"
  tj_wrapper :: "DefaultBFTTxWrapper codec"
  tj_tx :: "AssignmentTx codec"
  tj_query :: "AssignmentTx codec"
  tj_message :: "DKGMessage codec"

text \<open>The block time is not part of the JSON of a state (\<open>json:"-"\<close>).\<close>

definition tmjson_laws :: "tmjson \<Rightarrow> bool" where
  "tmjson_laws J \<longleftrightarrow>
     (\<forall>s b. Marshal (tj_state J) s = Some b \<longrightarrow> b \<noteq> [] \<and> Unmarshal (tj_state J) b = Some (s\<lparr>st_BlockTime := 0\<rparr>)) \<and>
     codec_ok (tj_info J) \<and> codec_ok (tj_bigs J) \<and> codec_ok (tj_assignment J) \<and> codec_ok (tj_wrapper J) \<and>
     codec_ok (tj_tx J) \<and> codec_ok (tj_query J) \<and> codec_ok (tj_message J)"

record 'w services =
  sv_chain :: "'w service"
  sv_db :: "'w service"
  sv_keygen :: "'w service"

text \<open>The broker methods of the key generation service.\<close>

definition KeygenMethods_ReceiveMessage :: "'w service \<Rightarrow> DKGMessage \<Rightarrow> 'w \<Rightarrow> (unit err \<times> 'w) go" where
  "KeygenMethods_ReceiveMessage kg msg = ask acknowledged kg ''receive_message'' [VMessage msg]"

definition KeygenMethods_Cleanup :: "'w service \<Rightarrow> ADKGID \<Rightarrow> 'w \<Rightarrow> (unit err \<times> 'w) go" where
  "KeygenMethods_Cleanup kg i = ask acknowledged kg ''cleanup'' [VADKGID i]"

section \<open>Keys of the application database\<close>

definition stateKey :: bytes where "stateKey = string_bytes ''sk''"
definition keyMappingPrefixKey :: bytes where "keyMappingPrefixKey = string_bytes ''km''"
definition EDKeyMappingPrefixKey :: bytes where "EDKeyMappingPrefixKey = string_bytes ''ekm''"
definition verifierToKeyIndexPrefixKey :: bytes where "verifierToKeyIndexPrefixKey = string_bytes ''vt''"
definition appInfoKey :: bytes where "appInfoKey = string_bytes ''ai''"

lemmas abci_prefix_defs = stateKey_def keyMappingPrefixKey_def EDKeyMappingPrefixKey_def
  verifierToKeyIndexPrefixKey_def appInfoKey_def

definition getPartitionedKeyspace :: "string \<Rightarrow> string \<Rightarrow> CurveName \<Rightarrow> bytes" where
  "getPartitionedKeyspace appID userID curve =
     verifierToKeyIndexPrefixKey @
       string_bytes (if curve = ED25519 then Join [appID, userID, ED25519] Delimiter1
                     else Join [appID, userID] Delimiter1)"

definition getUnpartitionedKeyspace :: "string \<Rightarrow> CurveName \<Rightarrow> bytes" where
  "getUnpartitionedKeyspace userID curve =
     verifierToKeyIndexPrefixKey @
       string_bytes (if curve = ED25519 then Join [''global'', userID, ED25519] Delimiter1
                     else Join [''global'', userID] Delimiter1)"

definition getVerifierKey :: "AssignmentTx \<Rightarrow> bool \<Rightarrow> bytes" where
  "getVerifierKey tx partitioned =
     (if partitioned then getPartitionedKeyspace (at_AppID tx) (at_UserID tx) (at_Curve tx)
      else getUnpartitionedKeyspace (at_UserID tx) (at_Curve tx))"

definition prefixKeyMapping :: "bytes \<Rightarrow> CurveName \<Rightarrow> bytes" where
  "prefixKeyMapping key curve =
     (if curve = ED25519 then EDKeyMappingPrefixKey @ key else keyMappingPrefixKey @ key)"

section \<open>Transactions\<close>

text \<open>\<open>txTypeMap\<close>: the number of a type name.\<close>

fun msg_type :: "iface \<Rightarrow> byte option" where
  "msg_type (VAssignmentTx _) = Some 1"
| "msg_type (VMessage _) = Some 2"
| "msg_type (VPtr (Some (VAssignmentTx _))) = Some 1"
| "msg_type (VPtr (Some (VMessage _))) = Some 2"
| "msg_type _ = None"

fun marshal_tx :: "tmjson \<Rightarrow> iface \<Rightarrow> bytes option" where
  "marshal_tx J (VAssignmentTx tx) = Marshal (tj_tx J) tx"
| "marshal_tx J (VMessage m) = Marshal (tj_message J) m"
| "marshal_tx J (VPtr (Some v)) = marshal_tx J v"
| "marshal_tx J _ = None"

definition GetSerializedBody :: "tmjson \<Rightarrow> DefaultBFTTxWrapper \<Rightarrow> bytes" where
  "GetSerializedBody J wrapper =
     (case Marshal (tj_wrapper J) (wrapper\<lparr>bw_Signature := []\<rparr>) of Some b \<Rightarrow> b | None \<Rightarrow> [])"

text \<open>The type of a nil value is nil, and asking for its kind panics.\<close>

definition PrepareBFTTx ::
  "tmjson \<Rightarrow> 'w service \<Rightarrow> int \<Rightarrow> iface \<Rightarrow> 'w \<Rightarrow> (bytes err \<times> 'w) go" where
  "PrepareBFTTx J chain nonce bftTx w =
     (if bftTx = Nil_iface then None
      else case msg_type bftTx of
        None \<Rightarrow> Some (Inl ''msg type does not exist for BFT'', w)
      | Some msgType \<Rightarrow> do {
          (pk, w1) \<leftarrow> ChainMethods_GetSelfPublicKey chain w;
          (case marshal_tx J bftTx of
             None \<Rightarrow> Some (Inl ''marshal'', w1)
           | Some bftRaw \<Rightarrow> do {
               let wrapper = \<lparr>bw_BFTTx = bftRaw, bw_Nonce = word_of_int nonce, bw_PubKey = pk,
                              bw_MsgType = msgType, bw_Signature = []\<rparr>;
               (sig, w2) \<leftarrow> ChainMethods_SelfSignData chain (GetSerializedBody J wrapper) w1;
               Some (case Marshal (tj_wrapper J) (wrapper\<lparr>bw_Signature := sig\<rparr>) of
                   None \<Rightarrow> Inl ''marshal'' | Some raw \<Rightarrow> Inr raw, w2) }) })"

definition authenticateBftTx ::
  "tmjson \<Rightarrow> 'w service \<Rightarrow> bytes \<Rightarrow> 'w \<Rightarrow> ((DefaultBFTTxWrapper \<times> KeygenNodeDetails) err \<times> 'w) go" where
  "authenticateBftTx J chain tx w =
     (case Unmarshal (tj_wrapper J) tx of
        None \<Rightarrow> Some (Inl ''unmarshal'', w)
      | Some parsedTx \<Rightarrow> do {
          (curEpoch, w1) \<leftarrow> ChainMethods_GetCurrentEpoch chain w;
          (r, w2) \<leftarrow> ChainMethods_VerifyDataWithEpoch chain (bw_PubKey parsedTx) (bw_Signature parsedTx)
                      (GetSerializedBody J parsedTx) curEpoch w1;
          Some (case r of Inl e \<Rightarrow> Inl e | Inr senderDetails \<Rightarrow> Inr (parsedTx, senderDetails), w2) })"

section \<open>Votes\<close>

definition decision_key :: "('s, 'p) lib \<Rightarrow> ADKGID \<Rightarrow> Point \<Rightarrow> string" where
  "decision_key L adkgid pk = adkgid @ hex_EncodeToString (keccak256 L (big_Bytes (pt_X pk)))"

text \<open>What both transaction functions check of a vote: the key is open and the sender has not voted.\<close>

definition check_vote ::
  "('s, 'p) lib \<Rightarrow> KeygenNodeDetails \<Rightarrow> ADKGID \<Rightarrow> Point \<Rightarrow> State \<Rightarrow> unit err" where
  "check_vote L sender adkgid pk state =
     (case m_get (st_KeygenPubKeys state) adkgid of
        Some k \<Rightarrow> Inl ''Key already processed''
      | None \<Rightarrow>
          (case m_get (st_KeygenDecisions state) (decision_key L adkgid pk) of
             Some decision \<Rightarrow>
               if kn_Index sender \<in> set (kd_Nodes decision) then Inl ''node already added to verfied list''
               else Inr ()
           | None \<Rightarrow> Inr ()))"

text \<open>The vote in a transaction: the round and the public key of a \<open>PubKeygenMessage\<close>.\<close>

definition parse_vote :: "('s, 'p) lib \<Rightarrow> tmjson \<Rightarrow> bytes \<Rightarrow> (ADKGID \<times> Point) err" where
  "parse_vote L J tx =
     (case Unmarshal (tj_message J) tx of
        None \<Rightarrow> Inl ''unmarshal''
      | Some msg \<Rightarrow>
          if dm_Method msg = ''key_derivation_pubkey_gen'' then
            (case bijson_Unmarshal L ''key_derivation_pubkey_gen'' (dm_Data msg) of
               Some (PubKeygen roundID kind curve pk) \<Rightarrow>
                 (case ADKGIDFromRoundID roundID of Inl e \<Rightarrow> Inl e | Inr adkgid \<Rightarrow> Inr (adkgid, pk))
             | _ \<Rightarrow> Inl ''unmarshal'')
          else Inl ''unimplemented method'')"

definition validateTx ::
  "('s, 'p) lib \<Rightarrow> tmjson \<Rightarrow> bytes \<Rightarrow> byte \<Rightarrow> KeygenNodeDetails \<Rightarrow> State \<Rightarrow> State \<Rightarrow> unit err" where
  "validateTx L J tx msgType sender state abci_state =
     (if msgType = 1 then
        (case Unmarshal (tj_tx J) tx of
           None \<Rightarrow> Inl ''unmarshal''
         | Some parsedTx \<Rightarrow>
             if \<not> KeyAvailable (at_Curve parsedTx) state then Inl ''Key not available for assignment!''
             else Inr ())
      else if msgType = 2 then
        (case parse_vote L J tx of
           Inl e \<Rightarrow> Inl e
         | Inr (adkgid, pk) \<Rightarrow> check_vote L sender adkgid pk abci_state)
      else Inl ''tx type not recognized'')"

section \<open>Assignment\<close>

definition assignKey :: "KeyAssignmentPublic \<Rightarrow> CurveName \<Rightarrow> State \<Rightarrow> State" where
  "assignKey pk curve state =
     (let next = word_of_int (Int64 (ka_Index pk)) + 1;
          state' = (if curve = SECP256K1 then state\<lparr>st_LastUnassignedIndex := next\<rparr>
                    else state\<lparr>st_C25519State := (st_C25519State state)\<lparr>c2_LastUnassignedIndex := next\<rparr>\<rparr>) in
      state'\<lparr>st_NewKeyAssignments := st_NewKeyAssignments state' @ [pk]\<rparr>)"

definition createKeyAssignment :: "AssignmentTx \<Rightarrow> int \<Rightarrow> Point \<Rightarrow> KeyAssignmentPublic" where
  "createKeyAssignment tx i pk =
     \<lparr>ka_Index = i, ka_PublicKey = pk, ka_Verifiers = [(at_Provider tx, [at_UserID tx])]\<rparr>"

text \<open>The public key of an identifier, the zero value when there is none.\<close>

definition pubkey_of :: "State \<Rightarrow> ADKGID \<Rightarrow> Point" where
  "pubkey_of state i = (case m_get (st_KeygenPubKeys state) i of Some k \<Rightarrow> kp_Point k | None \<Rightarrow> zero_Point)"

function find_unassigned :: "State \<Rightarrow> CurveName \<Rightarrow> int \<Rightarrow> int \<Rightarrow> (ADKGID \<times> int) option" where
  "find_unassigned state curve lastCreated i =
     (if lastCreated \<le> i then None
      else
        let dkgID = NewADKGID i curve; pk = pubkey_of state dkgID in
        if pt_X pk = 0 \<or> pt_Y pk = 0 then find_unassigned state curve lastCreated (i + 1)
        else Some (dkgID, i))"
  by pat_completeness auto
termination
  by (relation "measure (\<lambda>(_, _, lastCreated, i). nat (lastCreated - i))") auto

declare find_unassigned.simps [simp del]

definition findUnassignedKey :: "State \<Rightarrow> CurveName \<Rightarrow> (ADKGID \<times> int) err" where
  "findUnassignedKey state curve =
     (let (lastUnassigned, lastCreated) =
        (if curve = ED25519 then (c2_LastUnassignedIndex (st_C25519State state), c2_LastCreatedIndex (st_C25519State state))
         else (st_LastUnassignedIndex state, st_LastCreatedIndex state)) in
      case find_unassigned state curve (sint lastCreated) (sint lastUnassigned) of
        None \<Rightarrow> Inl ''could not assign key, key not found''
      | Some r \<Rightarrow> Inr r)"

definition retrieveVerifierToKeyIndex :: "'d leveldb \<Rightarrow> tmjson \<Rightarrow> bytes \<Rightarrow> 'd \<Rightarrow> int list err" where
  "retrieveVerifierToKeyIndex D J verifierKey d =
     (case ldb_Get D d verifierKey of
        None \<Rightarrow> Inl ''leveldb''
      | Some None \<Rightarrow> Inl ''retrieveVerifierToKeyIndex keyIndexes do not exist for verifier, and verifierID''
      | Some (Some b) \<Rightarrow> (case Unmarshal (tj_bigs J) b of None \<Rightarrow> Inl ''unmarshal'' | Some res \<Rightarrow> Inr res))"

definition storeVerifierToKeyIndex :: "'d leveldb \<Rightarrow> tmjson \<Rightarrow> bytes \<Rightarrow> int list \<Rightarrow> 'd \<Rightarrow> unit err \<times> 'd" where
  "storeVerifierToKeyIndex D J verifierKey keyIndexes d =
     (case Marshal (tj_bigs J) keyIndexes of
        None \<Rightarrow> (Inl ''marshal'', d)
      | Some b \<Rightarrow> (case ldb_Put D d verifierKey b of None \<Rightarrow> (Inl ''leveldb'', d) | Some d' \<Rightarrow> (Inr (), d')))"

definition km_key :: "int \<Rightarrow> CurveName \<Rightarrow> bytes" where
  "km_key keyIndex curve = prefixKeyMapping (string_bytes (big_Text keyIndex 16)) curve"

definition storeKeyMapping ::
  "'d leveldb \<Rightarrow> tmjson \<Rightarrow> int \<Rightarrow> CurveName \<Rightarrow> KeyAssignmentPublic \<Rightarrow> 'd \<Rightarrow> unit err \<times> 'd" where
  "storeKeyMapping D J keyIndex curve assignment d =
     (case Marshal (tj_assignment J) assignment of
        None \<Rightarrow> (Inl ''marshal'', d)
      | Some b \<Rightarrow> (case ldb_Put D d (km_key keyIndex curve) b of None \<Rightarrow> (Inl ''leveldb'', d) | Some d' \<Rightarrow> (Inr (), d')))"

text \<open>An absent mapping is nil bytes, which do not unmarshal.\<close>

definition retrieveKeyMapping ::
  "'d leveldb \<Rightarrow> tmjson \<Rightarrow> int \<Rightarrow> CurveName \<Rightarrow> 'd \<Rightarrow> KeyAssignmentPublic err" where
  "retrieveKeyMapping D J keyIndex curve d =
     (case ldb_Get D d (km_key keyIndex curve) of
        None \<Rightarrow> Inl ''retrieveKeyMapping, KeyMapping do not exist for index''
      | Some v \<Rightarrow>
          (case Unmarshal (tj_assignment J) (case v of Some b \<Rightarrow> b | None \<Rightarrow> []) of
             None \<Rightarrow> Inl ''unmarshal'' | Some res \<Rightarrow> Inr res))"

definition GetAppKeyPartition :: "'w service \<Rightarrow> string \<Rightarrow> 'w \<Rightarrow> (bool err \<times> 'w) go" where
  "GetAppKeyPartition chain appID = ChainMethods_GetPartitionForApp chain appID"

text \<open>The error of the partition is dropped, which leaves \<open>false\<close>.\<close>

definition getKeyAssignment ::
  "'d leveldb \<Rightarrow> tmjson \<Rightarrow> 'w service \<Rightarrow> int \<Rightarrow> AssignmentTx \<Rightarrow> 'd \<Rightarrow> 'w \<Rightarrow> (int list \<times> 'w) go" where
  "getKeyAssignment D J chain assignedKeyIndex tx d w = do {
     (p, w1) \<leftarrow> GetAppKeyPartition chain (at_AppID tx) w;
     let verifierKey = getVerifierKey tx (case p of Inl e \<Rightarrow> False | Inr b \<Rightarrow> b);
     Some (sort (case retrieveVerifierToKeyIndex D J verifierKey d of
         Inl e \<Rightarrow> [assignedKeyIndex] | Inr keyIndexes \<Rightarrow> keyIndexes @ [assignedKeyIndex]), w1) }"

section \<open>Delivering transactions\<close>

text \<open>A successful assignment; the steps that may fail leave what was written before them.\<close>

definition deliver_assignment ::
  "'d leveldb \<Rightarrow> tmjson \<Rightarrow> 'w service \<Rightarrow> bytes \<Rightarrow> 'd ABCI \<Rightarrow> 'w \<Rightarrow>
   ((string \<times> string) list err \<times> 'd ABCI \<times> 'w) go" where
  "deliver_assignment D J chain bftTx a w =
     (case Unmarshal (tj_tx J) bftTx of
        None \<Rightarrow> Some (Inl ''unmarshal'', a, w)
      | Some tx \<Rightarrow>
          let state = ab_state a in
          if \<not> KeyAvailable (at_Curve tx) state then
            Some (Inl ''key not available!'',
              a\<lparr>ab_state := state\<lparr>st_ConsecutiveFailedPubKeyAssigns := st_ConsecutiveFailedPubKeyAssigns state + 1\<rparr>\<rparr>, w)
          else
            (case findUnassignedKey state (at_Curve tx) of
               Inl e \<Rightarrow> Some (Inl ''could not find key'', a, w)
             | Inr (dkgID, assignIndex) \<Rightarrow> do {
                 let state1 = state\<lparr>st_ConsecutiveFailedPubKeyAssigns := 0\<rparr>;
                 let a1 = a\<lparr>ab_state := state1\<rparr>;
                 (keyIndexes, w1) \<leftarrow> getKeyAssignment D J chain assignIndex tx (ab_db a) w;
                 let keyAssignment = createKeyAssignment tx assignIndex (pubkey_of state dkgID);
                 let (r1, d1) = storeKeyMapping D J assignIndex (at_Curve tx) keyAssignment (ab_db a);
                 let a2 = a1\<lparr>ab_db := d1\<rparr>;
                 (case r1 of
                    Inl e \<Rightarrow> Some (Inl ''could not storeKeyMapping'', a2, w1)
                  | Inr _ \<Rightarrow> do {
                      (p, w2) \<leftarrow> GetAppKeyPartition chain (at_AppID tx) w1;
                      (case p of
                         Inl e \<Rightarrow> Some (Inl ''AppID not found'', a2, w2)
                       | Inr partitioned \<Rightarrow> do {
                           let (r2, d2) = storeVerifierToKeyIndex D J (getVerifierKey tx partitioned) keyIndexes d1;
                           let a3 = a2\<lparr>ab_db := d2\<rparr>;
                           (case r2 of
                              Inl e \<Rightarrow> Some (Inl ''could not storeVerifierToKeyIndex'', a3, w2)
                            | Inr _ \<Rightarrow>
                                let state2 = assignKey keyAssignment (at_Curve tx) state1 in
                                Some (Inr [(''assignment'', ''1'')],
                                  a3\<lparr>ab_state := state2\<lparr>st_KeygenPubKeys := m_del (st_KeygenPubKeys state2) dkgID\<rparr>\<rparr>, w2)) }) }) }))"

text \<open>A vote that was counted, and the decision when the threshold is reached.\<close>

definition count_vote :: "KeygenNodeDetails \<Rightarrow> string \<Rightarrow> State \<Rightarrow> State" where
  "count_vote sender key state =
     state\<lparr>st_KeygenDecisions := m_set (st_KeygenDecisions state) key
       (case m_get (st_KeygenDecisions state) key of
          Some decision \<Rightarrow> decision\<lparr>kd_Nodes := kd_Nodes decision @ [kn_Index sender]\<rparr>
        | None \<Rightarrow> \<lparr>kd_Nodes = [kn_Index sender]\<rparr>)\<rparr>"

definition raise_created :: "CurveName \<Rightarrow> int \<Rightarrow> State \<Rightarrow> State" where
  "raise_created curve index state =
     (let i = word_of_int (Int64 index) in
      if curve = SECP256K1 then
        (if i > st_LastCreatedIndex state then state\<lparr>st_LastCreatedIndex := i\<rparr> else state)
      else if curve = ED25519 then
        (if i > c2_LastCreatedIndex (st_C25519State state)
         then state\<lparr>st_C25519State := (st_C25519State state)\<lparr>c2_LastCreatedIndex := i\<rparr>\<rparr> else state)
      else state)"

definition decide_key :: "ADKGID \<Rightarrow> string \<Rightarrow> Point \<Rightarrow> CurveName \<Rightarrow> int \<Rightarrow> State \<Rightarrow> State" where
  "decide_key adkgid key pk curve keyIndex state =
     raise_created curve keyIndex
       (state\<lparr>st_KeygenPubKeys := m_set (st_KeygenPubKeys state) adkgid \<lparr>kp_ID = adkgid, kp_Point = pk\<rparr>,
              st_KeygenDecisions := m_del (st_KeygenDecisions state) key\<rparr>)"

definition deliver_vote ::
  "('s, 'p) lib \<Rightarrow> tmjson \<Rightarrow> 'w services \<Rightarrow> bytes \<Rightarrow> KeygenNodeDetails \<Rightarrow> int \<Rightarrow> 'd ABCI \<Rightarrow> 'w \<Rightarrow>
   ((string \<times> string) list err \<times> 'd ABCI \<times> 'w) go" where
  "deliver_vote L J S bftTx sender threshold a w =
     (case parse_vote L J bftTx of
        Inl e \<Rightarrow> Some (Inl e, a, w)
      | Inr (adkgid, pk) \<Rightarrow>
          (case GetIndex adkgid of
             Inl e \<Rightarrow> Some (Inl e, a, w)
           | Inr keyIndex \<Rightarrow>
               (case check_vote L sender adkgid pk (ab_state a) of
                  Inl e \<Rightarrow> Some (Inl e, a, w)
                | Inr _ \<Rightarrow>
                    let key = decision_key L adkgid pk;
                        state1 = count_vote sender key (ab_state a);
                        a1 = a\<lparr>ab_state := state1\<rparr> in
                    if map_option (\<lambda>d. int (length (kd_Nodes d))) (m_get (st_KeygenDecisions state1) key) = Some threshold
                    then do {
                      let curve = (case GetCurve adkgid of Inl e \<Rightarrow> [] | Inr c \<Rightarrow> c);
                      (r, w1) \<leftarrow> DBMethods_StorePublicKeyToIndex (sv_db S) pk keyIndex curve w;
                      (case r of
                         Inl e \<Rightarrow> Some (Inl e, a1, w1)
                       | Inr _ \<Rightarrow> do {
                           (_, w2) \<leftarrow> KeygenMethods_Cleanup (sv_keygen S) adkgid w1;
                           Some (Inr [], a1\<lparr>ab_state := decide_key adkgid key pk curve keyIndex state1\<rparr>, w2) }) }
                    else Some (Inr [], a1, w))))"

definition ValidateAndUpdateAndTagBFTTx ::
  "'d leveldb \<Rightarrow> ('s, 'p) lib \<Rightarrow> tmjson \<Rightarrow> 'w services \<Rightarrow> bytes \<Rightarrow> byte \<Rightarrow> KeygenNodeDetails \<Rightarrow> 'd ABCI \<Rightarrow> 'w \<Rightarrow>
   ((string \<times> string) list err \<times> 'd ABCI \<times> 'w) go" where
  "ValidateAndUpdateAndTagBFTTx D L J S bftTx msgType sender a w = do {
     (currEpoch, w1) \<leftarrow> ChainMethods_GetCurrentEpoch (sv_chain S) w;
     (info, w2) \<leftarrow> ChainMethods_GetEpochInfo (sv_chain S) currEpoch False w1;
     (case info of
        Inl e \<Rightarrow> Some (Inl ''could not get current epoch'', a, w2)
      | Inr currEpochInfo \<Rightarrow>
          if msgType = 1 then deliver_assignment D J (sv_chain S) bftTx a w2
          else if msgType = 2 then deliver_vote L J S bftTx sender (Int64 (ei_K currEpochInfo)) a w2
          else Some (Inl ''Invalid tx type'', a, w2)) }"

text \<open>The response codes of the example application: OK, unknown error and unauthorized.\<close>

datatype tx_code = CodeTypeOK | CodeTypeUnknownError | CodeTypeUnauthorized

definition DeliverTx ::
  "'d leveldb \<Rightarrow> ('s, 'p) lib \<Rightarrow> tmjson \<Rightarrow> 'w services \<Rightarrow> bytes \<Rightarrow> 'd ABCI \<Rightarrow> 'w \<Rightarrow>
   ((tx_code \<times> (string \<times> string) list) \<times> 'd ABCI \<times> 'w) go" where
  "DeliverTx D L J S tx a w = do {
     (auth, w1) \<leftarrow> authenticateBftTx J (sv_chain S) tx w;
     (case auth of
        Inl e \<Rightarrow> Some ((CodeTypeUnauthorized, []), a, w1)
      | Inr (parsedTx, senderDetails) \<Rightarrow> do {
          (r, a', w2) \<leftarrow> ValidateAndUpdateAndTagBFTTx D L J S (bw_BFTTx parsedTx) (bw_MsgType parsedTx) senderDetails a w1;
          Some (case r of Inl e \<Rightarrow> (CodeTypeUnauthorized, []) | Inr tags \<Rightarrow> (CodeTypeOK, tags), a', w2) }) }"

definition CheckTx ::
  "('s, 'p) lib \<Rightarrow> tmjson \<Rightarrow> 'w services \<Rightarrow> bytes \<Rightarrow> 'd ABCI \<Rightarrow> 'w \<Rightarrow> (tx_code \<times> 'w) go" where
  "CheckTx L J S tx a w = do {
     (auth, w1) \<leftarrow> authenticateBftTx J (sv_chain S) tx w;
     Some (case auth of
         Inl e \<Rightarrow> CodeTypeUnauthorized
       | Inr (parsedTx, senderDetails) \<Rightarrow>
           (case validateTx L J (bw_BFTTx parsedTx) (bw_MsgType parsedTx) senderDetails (ab_prevState a) (ab_state a) of
              Inl e \<Rightarrow> CodeTypeUnauthorized | Inr _ \<Rightarrow> CodeTypeOK), w1) }"

section \<open>Blocks\<close>

definition BeginBlock :: "int \<Rightarrow> 'd ABCI \<Rightarrow> 'd ABCI" where
  "BeginBlock time a = a\<lparr>ab_state := (ab_state a)\<lparr>st_BlockTime := time, st_NewKeyAssignments := []\<rparr>\<rparr>"

text \<open>Integer division of Go truncates towards zero.\<close>

definition go_quot :: "int \<Rightarrow> int \<Rightarrow> int" where
  "go_quot a b = (if a < 0 then - ((- a) div b) else a div b)"

definition MinOf :: "int list \<Rightarrow> int go" where
  "MinOf vars = do { m \<leftarrow> go_index vars 0; Some (foldl (\<lambda>m i. if m > i then i else m) m vars) }"

definition MaxOf :: "int list \<Rightarrow> int go" where
  "MaxOf vars = do { m \<leftarrow> go_index vars 0; Some (foldl (\<lambda>m i. if m < i then i else m) m vars) }"

text \<open>Start the generation of a key: errors are logged.\<close>

definition start_keygen ::
  "('s, 'p) lib \<Rightarrow> 'w services \<Rightarrow> ADKGID \<Rightarrow> CurveName \<Rightarrow> 'w \<Rightarrow> 'w go" where
  "start_keygen L S i curve w = do {
     (self, w1) \<leftarrow> ChainMethods_GetSelfIndex (sv_chain S) w;
     (case acss_NewShareMessage L (RoundDetails_ID \<lparr>rd_ADKGID = i, rd_Dealer = self, rd_Kind = ''acss''\<rparr>) curve of
        Inl e \<Rightarrow> Some w1
      | Inr msg \<Rightarrow> logged (KeygenMethods_ReceiveMessage (sv_keygen S) msg) w1) }"

definition secp_range :: "int \<Rightarrow> State \<Rightarrow> int list go" where
  "secp_range buffer state =
     (let created = sint (st_LastCreatedIndex state); unassigned = sint (st_LastUnassignedIndex state);
          maxKeyInit = (if buffer > 500 then go_quot buffer 500 else 100) in
      if created - unassigned < buffer then do {
        e \<leftarrow> MinOf [created + maxKeyInit, unassigned + buffer];
        Some [created..e - 1] }
      else Some [])"

definition ed_range :: "int \<Rightarrow> State \<Rightarrow> int list go" where
  "ed_range buffer state =
     (let created = sint (c2_LastCreatedIndex (st_C25519State state));
          unassigned = sint (c2_LastUnassignedIndex (st_C25519State state));
          maxKeyInit = (if buffer > 500 then go_quot buffer 500 else 100); edBuffer = go_quot buffer 10 in
      if created - unassigned < edBuffer then do {
        e \<leftarrow> MinOf [created + go_quot maxKeyInit 10, unassigned + edBuffer];
        Some [created..e - 1] }
      else Some [])"

definition EndBlock :: "('s, 'p) lib \<Rightarrow> 'w services \<Rightarrow> 'd ABCI \<Rightarrow> 'w \<Rightarrow> 'w go" where
  "EndBlock L S a w = do {
     (buffer, w1) \<leftarrow> ChainMethods_KeyBuffer (sv_chain S) w;
     is \<leftarrow> secp_range buffer (ab_state a);
     w2 \<leftarrow> go_fold (\<lambda>i. start_keygen L S (GenerateADKGID i) SECP256K1) is w1;
     js \<leftarrow> ed_range buffer (ab_state a);
     go_fold (\<lambda>j. start_keygen L S (NewADKGID j ED25519) ED25519) js w2 }"

section \<open>Persistence\<close>

text \<open>Marshalling errors panic; write errors are logged.\<close>

definition SaveState :: "'d leveldb \<Rightarrow> tmjson \<Rightarrow> 'd ABCI \<Rightarrow> 'd ABCI go" where
  "SaveState D J a = do {
     stateBytes \<leftarrow> Marshal (tj_state J) (ab_state a);
     let d1 = (case ldb_Put D (ab_db a) stateKey stateBytes of Some d \<Rightarrow> d | None \<Rightarrow> ab_db a);
     infoBytes \<leftarrow> Marshal (tj_info J) (ab_info a);
     let d2 = (case ldb_Put D d1 appInfoKey infoBytes of Some d \<Rightarrow> d | None \<Rightarrow> d1);
     Some (a\<lparr>ab_db := d2\<rparr>) }"

definition Commit :: "'d leveldb \<Rightarrow> ('s, 'p) lib \<Rightarrow> tmjson \<Rightarrow> 'd ABCI \<Rightarrow> (bytes \<times> 'd ABCI) go" where
  "Commit D L J a = do {
     byt \<leftarrow> Marshal (tj_state J) (ab_state a);
     let currAppHash = keccak256 L byt;
     a1 \<leftarrow> SaveState D J (a\<lparr>ab_info := \<lparr>ai_Height = ai_Height (ab_info a) + 1, ai_AppHash = currAppHash\<rparr>\<rparr>);
     prev \<leftarrow> Unmarshal (tj_state J) byt;
     Some (currAppHash, a1\<lparr>ab_prevState := prev\<rparr>) }"

definition zero_State :: State where
  "zero_State =
     \<lparr>st_LastUnassignedIndex = 0, st_LastCreatedIndex = 0, st_BlockTime = 0, st_NewKeyAssignments = [],
      st_KeygenDecisions = [], st_KeygenPubKeys = [], st_ConsecutiveFailedPubKeyAssigns = 0,
      st_C25519State = \<lparr>c2_LastCreatedIndex = 0, c2_LastUnassignedIndex = 0\<rparr>\<rparr>"

text \<open>A read error is logged and leaves no bytes; bytes that do not unmarshal panic.\<close>

definition LoadState :: "'d leveldb \<Rightarrow> tmjson \<Rightarrow> 'd \<Rightarrow> ((State \<times> AppInfo) option) go" where
  "LoadState D J d =
     (let read = (\<lambda>k. case ldb_Get D d k of Some (Some b) \<Rightarrow> b | _ \<Rightarrow> []);
          stateBytes = read stateKey in
      if stateBytes = [] then Some None
      else do {
        state \<leftarrow> Unmarshal (tj_state J) stateBytes;
        info \<leftarrow> Unmarshal (tj_info J) (read appInfoKey);
        Some (Some (state, info)) })"

definition NewABCI :: "'d leveldb \<Rightarrow> tmjson \<Rightarrow> 'd \<Rightarrow> 'd ABCI go" where
  "NewABCI D J d = do {
     loaded \<leftarrow> LoadState D J d;
     Some (case loaded of
         Some (state, info) \<Rightarrow> \<lparr>ab_db = d, ab_state = state, ab_prevState = state, ab_info = info\<rparr>
       | None \<Rightarrow> \<lparr>ab_db = d, ab_state = zero_State, ab_prevState = zero_State,
                  ab_info = \<lparr>ai_Height = 0, ai_AppHash = []\<rparr>\<rparr>) }"

definition Info :: "'d ABCI \<Rightarrow> bytes \<times> int" where
  "Info a = (ai_AppHash (ab_info a), ai_Height (ab_info a))"

section \<open>Queries\<close>

text \<open>The code and the value of a response.\<close>

type_synonym query_result = "nat \<times> bytes"

definition Query ::
  "'d leveldb \<Rightarrow> tmjson \<Rightarrow> 'w services \<Rightarrow> string \<Rightarrow> bytes \<Rightarrow> 'd ABCI \<Rightarrow> 'w \<Rightarrow> (query_result \<times> 'w) go" where
  "Query D J S path data a w =
     (if path = ''GetIndexesFromVerifierID'' then
        (case Unmarshal (tj_query J) data of
           None \<Rightarrow> Some ((10, []), w)
         | Some queryArgs \<Rightarrow> do {
             (p, w1) \<leftarrow> GetAppKeyPartition (sv_chain S) (at_AppID queryArgs) w;
             Some (case p of
                 Inl e \<Rightarrow> (10, [])
               | Inr partitioned \<Rightarrow>
                   (case retrieveVerifierToKeyIndex D J (getVerifierKey queryArgs partitioned) (ab_db a) of
                      Inl e \<Rightarrow> (10, [])
                    | Inr keyIndexes \<Rightarrow>
                        (0, case Marshal (tj_bigs J) keyIndexes of Some b \<Rightarrow> b | None \<Rightarrow> [])), w1) })
      else Some ((0, []), w))"

definition getIndexesFromVerifierID ::
  "'d leveldb \<Rightarrow> tmjson \<Rightarrow> 'w services \<Rightarrow> string \<Rightarrow> string \<Rightarrow> string \<Rightarrow> CurveName \<Rightarrow> 'd ABCI \<Rightarrow> 'w \<Rightarrow>
   (int list err \<times> 'w) go" where
  "getIndexesFromVerifierID D J S provider userID appID curve a w =
     (case Marshal (tj_query J) \<lparr>at_Provider = provider, at_UserID = userID, at_AppID = appID, at_Curve = curve\<rparr> of
        None \<Rightarrow> Some (Inl ''could not marshal query args'', w)
      | Some argBytes \<Rightarrow> do {
          ((code, val), w1) \<leftarrow> Query D J S ''GetIndexesFromVerifierID'' argBytes a w;
          Some (if code = 10 then Inl ''failed to find keyindexes''
                else (case Unmarshal (tj_bigs J) val of
                        None \<Rightarrow> Inl ''could not parse retrieved keyindex list'' | Some keyIndexes \<Rightarrow> Inr keyIndexes), w1) })"

definition abci_Call ::
  "'d leveldb \<Rightarrow> tmjson \<Rightarrow> 'w services \<Rightarrow> ('d ABCI \<times> 'w) service" where
  "abci_Call D J S method args = (\<lambda>(a, w).
     if method = ''last_created_index'' then (Returns (VUint (st_LastCreatedIndex (ab_state a))) None, a, w)
     else if method = ''last_unassigned_index'' then (Returns (VUint (st_LastUnassignedIndex (ab_state a))) None, a, w)
     else if method = ''retrieve_key_mapping'' then or_panic (a, w) (do {
       keyIndex \<leftarrow> arg 0 big_of args 0;
       curve \<leftarrow> arg [] curve_of args 1;
       Some (case retrieveKeyMapping D J keyIndex curve (ab_db a) of
           Inl e \<Rightarrow> (Returns Nil_iface (Some e), a, w)
         | Inr keyDetails \<Rightarrow> (Returns (VKeyAssignment keyDetails) None, a, w)) })
     else if method = ''get_indexes_from_verifier_id'' then or_panic (a, w) (do {
       provider \<leftarrow> arg [] string_of args 0;
       userID \<leftarrow> arg [] string_of args 1;
       appID \<leftarrow> arg [] string_of args 2;
       curve \<leftarrow> arg [] curve_of args 3;
       Some (case getIndexesFromVerifierID D J S provider userID appID curve a w of
           None \<Rightarrow> (Blocks, a, w)
         | Some (Inl e, w') \<Rightarrow> (Returns (VBigs []) (Some e), a, w')
         | Some (Inr keyIndexes, w') \<Rightarrow> (Returns (VBigs keyIndexes) None, a, w')) })
     else (Returns Nil_iface (Some ''ABCI service method not found''), a, w))"

definition ABCIMethods_RetrieveKeyMapping ::
  "'st service \<Rightarrow> int \<Rightarrow> CurveName \<Rightarrow> 'st \<Rightarrow> (KeyAssignmentPublic err \<times> 'st) go" where
  "ABCIMethods_RetrieveKeyMapping ab keyIndex curve =
     ask (checked assignment_of) ab ''retrieve_key_mapping'' [VBig keyIndex, VCurve curve]"

definition ABCIMethods_GetIndexesFromVerifierID ::
  "'st service \<Rightarrow> string \<Rightarrow> string \<Rightarrow> string \<Rightarrow> CurveName \<Rightarrow> 'st \<Rightarrow> (int list err \<times> 'st) go" where
  "ABCIMethods_GetIndexesFromVerifierID ab verifier verifierID appID curve =
     ask (checked bigs_of) ab ''get_indexes_from_verifier_id''
       [VString verifier, VString verifierID, VString appID, VCurve curve]"

end
