(* ===== verification/GoTime.thy ===== *)
theory GoTime
  imports Participant
begin

text \<open>
  More of the Go library: \<open>time.Time\<close>, and the functions of \<open>strings\<close> and \<open>strconv\<close> that the
  requests of users and the verification of tokens use.

  A time without a monotonic clock is the number of seconds since the year 1, at the width of 64
  bits, and nanoseconds. The model keeps a time as its nanoseconds since the year 1; every time
  that is computed from seconds is reduced to their width first.
\<close>

definition nanosecond :: int where "nanosecond = 10 ^ 9"

definition time_Unix :: "int \<Rightarrow> int" where
  "time_Unix sec = Int64 (sec + 62135596800) * nanosecond"

text \<open>Adding seconds saturates.\<close>

definition time_Add :: "int \<Rightarrow> int \<Rightarrow> int" where
  "time_Add t seconds =
     (let sec = t div nanosecond + seconds;
          sec' = (if 2 ^ 63 \<le> sec then 2 ^ 63 - 1 else if sec < - (2 ^ 63) then - (2 ^ 63 - 1) else sec) in
      sec' * nanosecond + t mod nanosecond)"

definition Before :: "int \<Rightarrow> int \<Rightarrow> bool" where
  "Before t u \<longleftrightarrow> t < u"

text \<open>\<open>strings.Trim(s, " ")\<close>.\<close>

definition Trim :: "(char \<Rightarrow> bool) \<Rightarrow> string \<Rightarrow> string" where
  "Trim P s = rev (dropWhile P (rev (dropWhile P s)))"

definition is_blank :: "char \<Rightarrow> bool" where
  "is_blank c \<longleftrightarrow> c = CHR '' ''"

text \<open>\<open>strings.TrimSpace\<close> on ASCII text: tabulator, line feeds, carriage return and blank.\<close>

definition is_space :: "char \<Rightarrow> bool" where
  "is_space c \<longleftrightarrow> of_char c \<in> {9, 10, 11, 12, 13, 32 :: nat}"

definition ToLower :: "string \<Rightarrow> string" where
  "ToLower s = map (\<lambda>c. if 65 \<le> (of_char c :: nat) \<and> (of_char c :: nat) \<le> 90 then char_of (of_char c + 32 :: nat) else c) s"

text \<open>\<open>strconv.ParseUint(s, 10, 32)\<close>.\<close>

definition ParseUint32 :: "string \<Rightarrow> int err" where
  "ParseUint32 s =
     (case parse_nat 10 s of
        None \<Rightarrow> Inl ''invalid syntax''
      | Some n \<Rightarrow> if int n < 2 ^ 32 then Inr (int n) else Inl ''value out of range'')"

lemma Trim_Trim [simp]: "Trim P (Trim P s) = Trim P s"
proof -
  let ?u = "dropWhile P s"
  have "dropWhile P (rev (dropWhile P (rev ?u))) = rev (dropWhile P (rev ?u))"
  proof (cases "dropWhile P (rev ?u) = []")
    case False
    then have "rev (dropWhile P (rev ?u)) \<noteq> []" by simp
    moreover have "hd (rev (dropWhile P (rev ?u))) = hd ?u"
    proof -
      obtain v where "rev ?u = v @ dropWhile P (rev ?u)" by (metis takeWhile_dropWhile_id)
      then have "?u = rev (dropWhile P (rev ?u)) @ rev v" by (metis rev_append rev_rev_ident)
      then show ?thesis using \<open>rev (dropWhile P (rev ?u)) \<noteq> []\<close> by (metis hd_append2)
    qed
    moreover have "\<not> P (hd ?u)" using False by (metis dropWhile.simps(1) hd_dropWhile rev.simps(1))
    ultimately show ?thesis by (metis dropWhile.simps(2) list.exhaust_sel)
  qed (simp only: rev.simps dropWhile.simps)
  then show ?thesis by (simp add: Trim_def)
qed

end
