(* ===== verification/Rpc.thy ===== *)
theory Rpc
  imports Abci GoTime
begin

text \<open>
  The requests of users, \<open>server/rpc/dkg_method_handlers.go\<close>: assign a key, look one up, commit to
  a token, and get the share of a key for a token that a threshold of nodes committed to; and the
  request of other nodes for connection details. The handlers call the other services through
  the broker, on one world state. Unmarshalling, the clock, the randomness of encryption, the
  order of ranging over a map and the events of the consensus engine are parameters.

  The parameters of a request may be absent (a nil pointer). A value \<open>None\<close> is a panic or a call
  that does not return.
\<close>

section \<open>Requests and results\<close>

record KeyAssignParams =
  kap_Provider :: string
  kap_UserID :: string
  kap_AppID :: string
  kap_Curve :: string

text \<open>\<open>VerifierLookupParams\<close> has the same fields.\<close>

type_synonym VerifierLookupParams = KeyAssignParams

record VerifierLookupItem =
  vl_KeyIndex :: string
  vl_PubKeyX :: string
  vl_PubKeyY :: string
  vl_Address :: string

record CommitmentRequestParams =
  crp_MessagePrefix :: string
  crp_TokenCommitment :: string
  crp_TempPubX :: string
  crp_TempPubY :: string
  crp_VerifierIdentifier :: string

record NodeSignature =
  ns_Signature :: string
  ns_Data :: string
  ns_NodePubKeyX :: string
  ns_NodePubKeyY :: string

record ShareRequestItem =
  sr_IDToken :: string
  sr_NodeSignatures :: "NodeSignature list"
  sr_UserID :: string
  sr_AppID :: string
  sr_Curve :: string

record ShareRequestResultItem =
  sri_Index :: string
  sri_PublicKey :: "string \<times> string"
  sri_Verifiers :: "(string, string list) gomap"
  sri_Share :: bytes
  sri_Metadata :: EciesMetadata

record CommitmentRequestResultData =
  crd_MessagePrefix :: string
  crd_TokenCommitment :: string
  crd_TempPubX :: string
  crd_TempPubY :: string
  crd_VerifierIdentifier :: string
  crd_TimeSigned :: string

record CommitmentRequestResult =
  crr_Signature :: string
  crr_Data :: string
  crr_NodePubX :: string
  crr_NodePubY :: string

record ConnectionDetailsMessage =
  cdm_Timestamp :: string
  cdm_Message :: string
  cdm_NodeAddress :: bytes

record ConnectionDetailsParams =
  cdp_PubKeyX :: string
  cdp_PubKeyY :: string
  cdp_Message :: ConnectionDetailsMessage
  cdp_Signature :: bytes

text \<open>An error of the protocol: its code and its data.\<close>

datatype rpc_error = RpcError int string

record rpcjson =
  rj_assign :: "bytes option \<Rightarrow> rpc_error + KeyAssignParams"
  rj_lookup :: "bytes option \<Rightarrow> rpc_error + VerifierLookupParams"
  rj_commit :: "bytes option \<Rightarrow> rpc_error + CommitmentRequestParams"
  rj_shares :: "bytes option \<Rightarrow> rpc_error + bytes list"
  rj_connection :: "bytes option \<Rightarrow> rpc_error + ConnectionDetailsParams"
  rj_item :: "bytes \<Rightarrow> ShareRequestItem option"
  rj_object :: "(string, bytes) gomap codec"
  rj_generic :: "GenericVerifierData \<Rightarrow> bytes option"
  rj_tx_ok :: "bytes \<Rightarrow> bool option"
  rj_address :: "bytes \<Rightarrow> string"

record 'w rpc_services =
  rs_chain :: "'w service"
  rs_db :: "'w service"
  rs_abci :: "'w service"
  rs_cache :: "'w service"
  rs_verifier :: "'w service"
  rs_tendermint :: "'w service"

section \<open>Transactions\<close>

text \<open>The query for a transaction: the hash in upper case hexadecimal, between quotes.\<close>

definition ToUpper :: "string \<Rightarrow> string" where
  "ToUpper s = map (\<lambda>c. if 97 \<le> (of_char c :: nat) \<and> (of_char c :: nat) \<le> 122 then char_of (of_char c - 32 :: nat) else c) s"

definition tx_query :: "bytes \<Rightarrow> string" where
  "tx_query hash = ''tx.hash='' @ [CHR 0x27] @ ToUpper (hex_EncodeToString hash) @ [CHR 0x27]"

section \<open>Commitments\<close>

definition CommitmentRequestResultData_ToString :: "CommitmentRequestResultData \<Rightarrow> string" where
  "CommitmentRequestResultData_ToString c =
     Join [crd_MessagePrefix c, crd_TokenCommitment c, crd_TempPubX c, crd_TempPubY c,
           crd_VerifierIdentifier c, crd_TimeSigned c] Delimiter1"

definition CommitmentRequestResultData_FromString :: "string \<Rightarrow> CommitmentRequestResultData err" where
  "CommitmentRequestResultData_FromString data =
     (case Split data Delimiter1 of
        d0 # d1 # d2 # d3 # d4 # d5 # _ \<Rightarrow>
          Inr \<lparr>crd_MessagePrefix = d0, crd_TokenCommitment = d1, crd_TempPubX = d2, crd_TempPubY = d3,
               crd_VerifierIdentifier = d4, crd_TimeSigned = d5\<rparr>
      | _ \<Rightarrow> Inl ''Could not parse commitmentrequestresultdata'')"

text \<open>The last node of the list with the public key; a nil public key panics.\<close>

fun matching_node :: "NodeSignature \<Rightarrow> NodeReference list \<Rightarrow> NodeReference option go" where
  "matching_node nodeSig [] = Some None"
| "matching_node nodeSig (currNode # ns) = do {
     pk \<leftarrow> nr_PublicKey currNode;
     node \<leftarrow> matching_node nodeSig ns;
     Some (case node of
         Some n \<Rightarrow> Some n
       | None \<Rightarrow>
           if big_Text (pt_X pk) 16 = ns_NodePubKeyX nodeSig \<and> big_Text (pt_Y pk) 16 = ns_NodePubKeyY nodeSig
           then Some currNode else None) }"

definition NodeValidation :: "ecdsa \<Rightarrow> NodeReference list \<Rightarrow> NodeSignature \<Rightarrow> NodeReference err go" where
  "NodeValidation E nodeList nodeSig = do {
     found \<leftarrow> matching_node nodeSig nodeList;
     (case found of
        None \<Rightarrow> Some (Inl ''Node not found for nodeSig'')
      | Some node \<Rightarrow> do {
          recSig \<leftarrow> HexToSig E (ns_Signature nodeSig);
          hash \<leftarrow> go_slice (ec_Keccak256 E (string_bytes (ns_Data nodeSig))) 0 32;
          pk \<leftarrow> nr_PublicKey node;
          Some (if IsValidSignature E pk
                  \<lparr>sg_Raw = sh_Raw recSig, sg_Hash = bytes32 hash, sg_R = sh_R recSig, sg_S = sh_S recSig,
                   sg_V = sh_V recSig - 27\<rparr>
                then Inr node else Inl ''Could not validate ecdsa signature'') }) }"

section \<open>Assigning and looking up keys\<close>

text \<open>The error of the method is that of the cast; the parameters are a nil pointer after an error
  of the service, which the cast reports.\<close>

definition getVerifierClientID :: "'w service \<Rightarrow> string \<Rightarrow> string \<Rightarrow> 'w \<Rightarrow> (string err \<times> 'w) go" where
  "getVerifierClientID chain appID verifier w = do {
     (r, w1) \<leftarrow> ChainMethods_GetClientIDViaVerifier chain appID verifier w;
     Some (case r of Inl e \<Rightarrow> Inl e | Inr params \<Rightarrow> Inr (vp_ClientID params), w1) }"

definition getTxStatus :: "'w service \<Rightarrow> bytes \<Rightarrow> 'w \<Rightarrow> (rpc_error option \<times> 'w) go" where
  "getTxStatus tm hash w = do {
     (r, w1) \<leftarrow> TendermintMethods_TxStatus tm hash w;
     Some (case r of Inr True \<Rightarrow> None | _ \<Rightarrow> Some (RpcError (- 32603) ''unable to get tx status''), w1) }"

definition checkTransactionResult :: "rpcjson \<Rightarrow> bytes \<Rightarrow> unit err" where
  "checkTransactionResult R e =
     (case rj_tx_ok R e of None \<Rightarrow> Inl ''unmarshal'' | Some ok \<Rightarrow> if ok then Inr () else Inl ''tx failed?'')"

text \<open>\<open>event\<close> is what the channel receives before the request times out, if anything.\<close>

definition waitForTransaction ::
  "rpcjson \<Rightarrow> 'w service \<Rightarrow> (string \<Rightarrow> bool) \<Rightarrow> bytes option \<Rightarrow> bytes \<Rightarrow> 'w \<Rightarrow> (rpc_error option \<times> 'w) go" where
  "waitForTransaction R tm hasCallback event hash w = do {
     (r, w1) \<leftarrow> TendermintMethods_RegisterQuery tm hasCallback (tx_query hash) w;
     (case r of
        Inl e \<Rightarrow> getTxStatus tm hash w1
      | Inr _ \<Rightarrow> Some (case event of
            None \<Rightarrow> Some (RpcError (- 32603) ''Request timeout'')
          | Some e \<Rightarrow> (case checkTransactionResult R e of
                Inl err \<Rightarrow> Some (RpcError (- 32603) ''Tx failed'') | Inr _ \<Rightarrow> None), w1)) }"

definition KeyAssignHandler ::
  "rpcjson \<Rightarrow> 'w rpc_services \<Rightarrow> (string \<Rightarrow> bool) \<Rightarrow> bytes option \<Rightarrow> bytes option \<Rightarrow> 'w \<Rightarrow> ((rpc_error + unit) \<times> 'w) go" where
  "KeyAssignHandler R S hasCallback event params w =
     (case rj_assign R params of
        Inl e \<Rightarrow> Some (Inl e, w)
      | Inr p \<Rightarrow>
          let curve = (if kap_Curve p = [] then SECP256K1 else kap_Curve p) in
          if kap_UserID p = [] then Some (Inl (RpcError (- 32602) ''VerifierID is empty''), w)
          else if kap_AppID p = [] then Some (Inl (RpcError (- 32602) ''AppID is empty''), w)
          else do {
            (clientID, w1) \<leftarrow> getVerifierClientID (rs_chain S) (kap_AppID p) (kap_Provider p) w;
            if clientID = Inr [] \<or> isl clientID then Some (Inl (RpcError (- 32602) ''Invalid AppID''), w1)
            else do {
              (keyIndexes, w2) \<leftarrow> ABCIMethods_GetIndexesFromVerifierID (rs_abci S) (kap_Provider p) (kap_UserID p) (kap_AppID p) curve w1;
              if \<not> isl keyIndexes \<and> projr keyIndexes \<noteq> [] then Some (Inl (RpcError (- 32602) ''Key is already assigned''), w2)
              else do {
                (hash, w3) \<leftarrow> TendermintMethods_Broadcast (rs_tendermint S)
                    (VAssignmentTx \<lparr>at_Provider = kap_Provider p, at_UserID = kap_UserID p, at_AppID = kap_AppID p, at_Curve = curve\<rparr>) w2;
                (case hash of
                   Inl e \<Rightarrow> Some (Inl (RpcError (- 32603) (''Unable to broadcast: '' @ e)), w3)
                 | Inr h \<Rightarrow> do {
                     (rpcErr, w4) \<leftarrow> waitForTransaction R (rs_tendermint S) hasCallback event h w3;
                     Some (case rpcErr of Some e \<Rightarrow> Inl e | None \<Rightarrow> Inr (), w4) }) } } })"

definition HealthHandler :: string where
  "HealthHandler = ''Ok''"

text \<open>The loop over the keys of a user.\<close>

fun lookup_keys ::
  "rpcjson \<Rightarrow> ecdsa \<Rightarrow> 'w service \<Rightarrow> CurveName \<Rightarrow> int list \<Rightarrow> 'w \<Rightarrow> ((rpc_error + VerifierLookupItem list) \<times> 'w) go" where
  "lookup_keys R E abci curve [] w = Some (Inr [], w)"
| "lookup_keys R E abci curve (index # keyIndexes) w = do {
     (publicKeyAss, w1) \<leftarrow> ABCIMethods_RetrieveKeyMapping abci index curve w;
     (case publicKeyAss of
        Inl e \<Rightarrow> Some (Inl (RpcError (- 32603) []), w1)
      | Inr ka \<Rightarrow> do {
          let pk = ka_PublicKey ka;
          let addr = (if curve = SECP256K1 then rj_address R (PointToEthAddress E pk) else []);
          (rest, w2) \<leftarrow> lookup_keys R E abci curve keyIndexes w1;
          Some (case rest of
              Inl e \<Rightarrow> Inl e
            | Inr items \<Rightarrow> Inr (\<lparr>vl_KeyIndex = big_Text index 16, vl_PubKeyX = big_Text (pt_X pk) 16,
                vl_PubKeyY = big_Text (pt_Y pk) 16, vl_Address = addr\<rparr> # items), w2) }) }"

definition PublicKeyLookupHandler ::
  "rpcjson \<Rightarrow> ecdsa \<Rightarrow> 'w rpc_services \<Rightarrow> bytes option \<Rightarrow> 'w \<Rightarrow> ((rpc_error + VerifierLookupItem list) \<times> 'w) go" where
  "PublicKeyLookupHandler R E S params w =
     (case rj_lookup R params of
        Inl e \<Rightarrow> Some (Inl e, w)
      | Inr p \<Rightarrow>
          let curve = (if kap_Curve p = [] then SECP256K1 else kap_Curve p) in
          if kap_UserID p = [] then Some (Inl (RpcError (- 32602) ''UserID is empty''), w)
          else if kap_AppID p = [] then Some (Inl (RpcError (- 32602) ''AppID is empty''), w)
          else if kap_Provider p = [] then Some (Inl (RpcError (- 32602) ''Provider is empty''), w)
          else do {
            (clientID, w1) \<leftarrow> getVerifierClientID (rs_chain S) (kap_AppID p) (kap_Provider p) w;
            if clientID = Inr [] \<or> isl clientID then Some (Inl (RpcError (- 32602) ''Invalid AppID''), w1)
            else do {
              (keyIndexes, w2) \<leftarrow> ABCIMethods_GetIndexesFromVerifierID (rs_abci S) (kap_Provider p) (kap_UserID p) (kap_AppID p) curve w1;
              (case keyIndexes of
                 Inl e \<Rightarrow> Some (Inl (RpcError (- 32602) ''Verifier + VerifierID has not yet been assigned''), w2)
               | Inr is \<Rightarrow> lookup_keys R E (rs_abci S) curve is w2) } })"

section \<open>Committing to a token\<close>

definition KeyCommitmentRequestHandler ::
  "rpcjson \<Rightarrow> ecdsa \<Rightarrow> 'w rpc_services \<Rightarrow> int \<Rightarrow> bytes option \<Rightarrow> 'w \<Rightarrow> ((rpc_error + CommitmentRequestResult) \<times> 'w) go" where
  "KeyCommitmentRequestHandler R E S now params w =
     (case rj_commit R params of
        Inl e \<Rightarrow> Some (Inl e, w)
      | Inr p \<Rightarrow>
          if crp_MessagePrefix p \<noteq> ''arc00'' then Some (Inl (RpcError (- 32603) ''Incorrect message prefix''), w)
          else do {
            (found, w1) \<leftarrow> CacheMethods_TokenCommitExists (rs_cache S) (crp_VerifierIdentifier p) (crp_TokenCommitment p) w;
            if found then Some (Inl (RpcError (- 32603) ''Duplicate token found''), w1)
            else do {
              x \<leftarrow> HexToBigInt (crp_TempPubX p);
              y \<leftarrow> HexToBigInt (crp_TempPubY p);
              w2 \<leftarrow> CacheMethods_RecordTokenCommit (rs_cache S) (crp_VerifierIdentifier p) (crp_TokenCommitment p)
                    \<lparr>pt_X = x, pt_Y = y\<rparr> w1;
              let data = CommitmentRequestResultData_ToString
                  \<lparr>crd_MessagePrefix = crp_MessagePrefix p, crd_TokenCommitment = crp_TokenCommitment p,
                   crd_TempPubX = crp_TempPubX p, crd_TempPubY = crp_TempPubY p,
                   crd_VerifierIdentifier = crp_VerifierIdentifier p, crd_TimeSigned = Itoa now\<rparr>;
              (k, w3) \<leftarrow> ChainMethods_GetSelfPrivateKey (rs_chain S) w2;
              (pk, w4) \<leftarrow> ChainMethods_GetSelfPublicKey (rs_chain S) w3;
              key \<leftarrow> BigIntToECDSAPrivateKey E k;
              sig \<leftarrow> SignData E (string_bytes data) key;
              Some (Inr \<lparr>crr_Signature = SigToHex sig, crr_Data = data, crr_NodePubX = big_Text (pt_X pk) 16,
                         crr_NodePubY = big_Text (pt_Y pk) 16\<rparr>, w4) } })"

section \<open>Requesting a share\<close>

text \<open>The signatures that validate, with the index of their node.\<close>

fun valid_signatures ::
  "ecdsa \<Rightarrow> NodeReference list \<Rightarrow> NodeSignature list \<Rightarrow> (NodeSignature \<times> int) list go" where
  "valid_signatures E nodeList [] = Some []"
| "valid_signatures E nodeList (s # sigs) = do {
     r \<leftarrow> NodeValidation E nodeList s;
     (case r of
        Inl e \<Rightarrow> valid_signatures E nodeList sigs
      | Inr nodeRef \<Rightarrow> do {
          index \<leftarrow> nr_Index nodeRef;
          rest \<leftarrow> valid_signatures E nodeList sigs;
          Some ((s, index) # rest) }) }"

text \<open>What signatures are compared by; data that does not parse leaves three empty strings.\<close>

definition common_data :: "NodeSignature \<Rightarrow> string" where
  "common_data s =
     (case CommitmentRequestResultData_FromString (ns_Data s) of
        Inr c \<Rightarrow> Join [crd_MessagePrefix c, crd_TokenCommitment c, crd_VerifierIdentifier c] Delimiter1
      | Inl e \<Rightarrow> Join [[], [], []] Delimiter1)"

definition count_common :: "(NodeSignature \<times> int) list \<Rightarrow> (string, int) gomap" where
  "count_common sigs =
     foldl (\<lambda>m (s, _). m_set m (common_data s) (m_zero 0 m (common_data s) + 1)) [] sigs"

text \<open>The counter that a key is compared with stays zero.\<close>

definition pick_common :: "('s, 'p) lib \<Rightarrow> (string, int) gomap \<Rightarrow> string" where
  "pick_common L m =
     (let commonDataCount = 0 in
      foldl (\<lambda>commonDataString k. if m_zero 0 m k > commonDataCount then k else commonDataString) []
        (range_str L (m_keys m)))"

text \<open>The checks of the signatures of an item give the token commitment and the verifier.\<close>

definition check_signatures ::
  "('s, 'p) lib \<Rightarrow> ecdsa \<Rightarrow> NodeReference list \<Rightarrow> int \<Rightarrow> NodeSignature list \<Rightarrow> (rpc_error + string \<times> string) go" where
  "check_signatures L E nodeList threshold sigs = do {
     validSignatures \<leftarrow> valid_signatures E nodeList sigs;
     Some (if int (length validSignatures) < threshold then
         Inl (RpcError (- 32602) (''Not enough valid signatures. Only '' @ Itoa (int (length validSignatures)) @ ''valid signatures found.''))
       else
         let commonDataString = pick_common L (count_common validSignatures);
             validCommonSignatures = filter (\<lambda>(s, _). common_data s = commonDataString) validSignatures in
         if int (length validCommonSignatures) < threshold then
           Inl (RpcError (- 32602) (''Not enough valid signatures on the same data, '' @ Itoa (int (length validCommonSignatures)) @ '' valid signatures.''))
         else
           (case Split commonDataString Delimiter1 of
              [prefix, commonTokenCommitment, commonVerifierIdentifier] \<Rightarrow> Inr (commonTokenCommitment, commonVerifierIdentifier)
            | _ \<Rightarrow> Inl (RpcError (- 32602) ''Could not parse common data''))) }"

text \<open>The token is verified by the proxy of the global key, or by the verifier of the item.\<close>

definition verify_item ::
  "rpcjson \<Rightarrow> 'w rpc_services \<Rightarrow> ShareRequestItem \<Rightarrow> bytes \<Rightarrow> bool \<Rightarrow> 'w \<Rightarrow> ((rpc_error + string) \<times> 'w) go" where
  "verify_item R S item redactedRawItem partitioned w =
     (case (if partitioned then Some redactedRawItem
            else rj_generic R \<lparr>gv_Token = sr_IDToken item, gv_Provider = ''global_key_proxy'', gv_UserID = sr_UserID item,
                   gv_AppID = sr_AppID item\<rparr>) of
        None \<Rightarrow> Some (Inl (RpcError (- 32602) ''Error occurred while verifying via the proxy:''), w)
      | Some raw \<Rightarrow> do {
          (r, w1) \<leftarrow> VerifierMethods_Verify (rs_verifier S) raw w;
          Some (case r of
              Inl e \<Rightarrow> Inl (RpcError (- 32602) (''Error occurred while verifying params: '' @ e))
            | Inr (verified, userID) \<Rightarrow>
                if \<not> verified then Inl (RpcError (- 32602) ''Could not verify params'') else Inr userID, w1) })"

text \<open>One item of a request: the keys it gives access to, and the key their shares are encrypted to.\<close>

definition share_item ::
  "('s, 'p) lib \<Rightarrow> rpcjson \<Rightarrow> ecdsa \<Rightarrow> 'w rpc_services \<Rightarrow> NodeReference list \<Rightarrow> int \<Rightarrow> bytes \<Rightarrow> 'w \<Rightarrow>
   ((rpc_error + CurveName \<times> int list \<times> Point) \<times> 'w) go" where
  "share_item L R E S nodeList threshold rawItem w =
     (case rj_item R rawItem of
        None \<Rightarrow> Some (Inl (RpcError (- 32602) ''Error occurred while parsing sharerequestitem''), w)
      | Some item \<Rightarrow>
     (case Unmarshal (rj_object R) rawItem of
        None \<Rightarrow> Some (Inl (RpcError (- 32602) ''Error occurred while parsing jsonmap''), w)
      | Some jsonMap \<Rightarrow>
     (case Marshal (rj_object R) (m_del jsonMap ''nodesignatures'') of
        None \<Rightarrow> Some (Inl (RpcError (- 32602) ''Error occurred while marshalling''), w)
      | Some redactedRawItem \<Rightarrow> do {
          (p, w1) \<leftarrow> GetAppKeyPartition (rs_chain S) (sr_AppID item) w;
          (case p of
             Inl e \<Rightarrow> Some (Inl (RpcError (- 32602) (''Error occurred while getting a partition'' @ e)), w1)
           | Inr partitioned \<Rightarrow> do {
          (v, w2) \<leftarrow> verify_item R S item redactedRawItem partitioned w1;
          (case v of
             Inl e \<Rightarrow> Some (Inl e, w2)
           | Inr userID \<Rightarrow> do {
          c \<leftarrow> check_signatures L E nodeList threshold (sr_NodeSignatures item);
          (case c of
             Inl e \<Rightarrow> Some (Inl e, w2)
           | Inr (commonTokenCommitment, commonVerifierIdentifier) \<Rightarrow> do {
          (t, w3) \<leftarrow> VerifierMethods_CleanToken (rs_verifier S) commonVerifierIdentifier (sr_IDToken item) w2;
          (case t of
             Inl e \<Rightarrow> Some (Inl (RpcError (- 32602) (''Error when cleaning token '' @ e)), w3)
           | Inr cleanedToken \<Rightarrow>
          if hex_EncodeToString (ec_Keccak256 E (string_bytes cleanedToken)) \<noteq> commonTokenCommitment then
            Some (Inl (RpcError (- 32602) ''Token commitment and token are not compatible''), w3)
          else do {
            (is, w4) \<leftarrow> ABCIMethods_GetIndexesFromVerifierID (rs_abci S) commonVerifierIdentifier userID (sr_AppID item) (sr_Curve item) w3;
            (case is of
               Inl e \<Rightarrow> Some (Inl (RpcError (- 32603) (''share request could not retrieve keyIndexes: '' @ e)), w4)
             | Inr keyIndexes \<Rightarrow> do {
                 (pubKey, w5) \<leftarrow> CacheMethods_GetTokenCommitKey (rs_cache S) commonVerifierIdentifier commonTokenCommitment w4;
                 Some (Inr (sr_Curve item, keyIndexes, pubKey), w5) }) }) }) }) }) })))"

text \<open>The loop over the items; the curve and the key are those of the last one.\<close>

fun share_items ::
  "('s, 'p) lib \<Rightarrow> rpcjson \<Rightarrow> ecdsa \<Rightarrow> 'w rpc_services \<Rightarrow> NodeReference list \<Rightarrow> int \<Rightarrow> bytes list \<Rightarrow>
   CurveName \<times> (string, int) gomap \<times> Point \<Rightarrow> 'w \<Rightarrow> ((rpc_error + CurveName \<times> (string, int) gomap \<times> Point) \<times> 'w) go" where
  "share_items L R E S nodeList threshold [] acc w = Some (Inr acc, w)"
| "share_items L R E S nodeList threshold (rawItem # items) (curve, allKeyIndexes, pubKey) w = do {
     (r, w1) \<leftarrow> share_item L R E S nodeList threshold rawItem w;
     (case r of
        Inl e \<Rightarrow> Some (Inl e, w1)
      | Inr (curve', keyIndexes, pubKey') \<Rightarrow>
          share_items L R E S nodeList threshold items
            (curve', foldl (\<lambda>m i. m_set m (big_Text i 16) i) allKeyIndexes keyIndexes, pubKey') w1) }"

text \<open>The format \<open>%064s\<close> fills up with zeros.\<close>

definition pad64 :: "string \<Rightarrow> string" where
  "pad64 s = replicate (64 - length s) (CHR ''0'') @ s"

text \<open>The answer: the share of the smallest key index, encrypted with randomness \<open>rnd\<close>.\<close>

definition release_share ::
  "('s, 'p) lib \<Rightarrow> 'w rpc_services \<Rightarrow> bytes \<Rightarrow> CurveName \<Rightarrow> int \<Rightarrow> Point \<Rightarrow> 'w \<Rightarrow>
   ((rpc_error + ShareRequestResultItem) \<times> 'w) go" where
  "release_share L S rnd curve index pubKey w = do {
     (ka, w1) \<leftarrow> ABCIMethods_RetrieveKeyMapping (rs_abci S) index curve w;
     (case ka of
        Inl e \<Rightarrow> Some (Inl (RpcError (- 32603) (''could not retrieve access structure: '' @ e)), w1)
      | Inr pubKeyAccessStructure \<Rightarrow> do {
     (sh, w2) \<leftarrow> DBMethods_RetrieveCompletedShare (rs_db S) index curve w1;
     (case sh of
        Inl e \<Rightarrow> Some (Inl (RpcError (- 32603) ''could not retrieve completed share''), w2)
      | Inr (si, _) \<Rightarrow>
          let pubKeyHex = ''04'' @ pad64 (big_Text (pt_X pubKey) 16) @ pad64 (big_Text (pt_Y pubKey) 16) in
          (case tron_Encrypt L pubKeyHex (big_Bytes si) rnd of
             None \<Rightarrow> Some (Inl (RpcError (- 32603) ''could not encrypt shares with err''), w2)
           | Some (encrypted, metadata) \<Rightarrow>
               Some (Inr \<lparr>sri_Index = big_Text (ka_Index pubKeyAccessStructure) 10,
                 sri_PublicKey = (big_Text (pt_X (ka_PublicKey pubKeyAccessStructure)) 10, big_Text (pt_Y (ka_PublicKey pubKeyAccessStructure)) 10),
                 sri_Verifiers = ka_Verifiers pubKeyAccessStructure, sri_Share = string_bytes encrypted,
                 sri_Metadata = metadata\<rparr>, w2))) }) }"

definition KeyShareRequestHandler ::
  "('s, 'p) lib \<Rightarrow> rpcjson \<Rightarrow> ecdsa \<Rightarrow> 'w rpc_services \<Rightarrow> bytes \<Rightarrow> bytes option \<Rightarrow> 'w \<Rightarrow>
   ((rpc_error + ShareRequestResultItem list) \<times> 'w) go" where
  "KeyShareRequestHandler L R E S rnd params w = do {
     (epoch, w1) \<leftarrow> ChainMethods_GetCurrentEpoch (rs_chain S) w;
     (info, w2) \<leftarrow> ChainMethods_GetEpochInfo (rs_chain S) epoch False w1;
     (case info of
        Inl e \<Rightarrow> Some (Inl (RpcError (- 32602) ''Error occurred while current epoch''), w2)
      | Inr epochInfo \<Rightarrow>
     (case rj_shares R params of
        Inl e \<Rightarrow> Some (Inl e, w2)
      | Inr items \<Rightarrow> do {
          let threshold = Int64 (ei_K epochInfo);
          (nodeList, w3) \<leftarrow> ChainMethods_AwaitCompleteNodeList (rs_chain S) epoch w2;
          (r, w4) \<leftarrow> share_items L R E S nodeList threshold items (SECP256K1, [], zero_Point) w3;
          (case r of
             Inl e \<Rightarrow> Some (Inl e, w4)
           | Inr (curve, allKeyIndexes, pubKey) \<Rightarrow>
               (case sort (map snd allKeyIndexes) of
                  [] \<Rightarrow> Some (Inr [], w4)
                | index # _ \<Rightarrow> do {
                    (a, w5) \<leftarrow> release_share L S rnd curve index pubKey w4;
                    Some (case a of Inl e \<Rightarrow> Inl e | Inr key \<Rightarrow> Inr [key], w5) })) })) }"

section \<open>Connection details\<close>

definition ConnectionDetailsMessage_String :: "rpcjson \<Rightarrow> ConnectionDetailsMessage \<Rightarrow> string" where
  "ConnectionDetailsMessage_String R c =
     Join [cdm_Timestamp c, cdm_Message c, rj_address R (cdm_NodeAddress c)] Delimiter1"

text \<open>\<open>ParseInt\<close> reads what \<open>Atoi\<close> reads; ten minutes after it was signed a message is rejected
  with no error.\<close>

definition ConnectionDetailsMessage_Validate ::
  "rpcjson \<Rightarrow> ecdsa \<Rightarrow> int \<Rightarrow> ConnectionDetailsMessage \<Rightarrow> int \<Rightarrow> int \<Rightarrow> bytes \<Rightarrow> bool err go" where
  "ConnectionDetailsMessage_Validate R E now c pubKeyX pubKeyY sig =
     (if cdm_Message c \<noteq> ''ConnectionDetails'' then Some (Inl ''message is not ConnectionDetails'')
      else (case Atoi (cdm_Timestamp c) of
          Inl e \<Rightarrow> Some (Inl e)
        | Inr unixTime \<Rightarrow>
            if Before (time_Add (time_Unix unixTime) 600) now then Some (Inr False)
            else do {
              valid \<leftarrow> ECDSAVerify E (ConnectionDetailsMessage_String R c) \<lparr>pt_X = pubKeyX, pt_Y = pubKeyY\<rparr> sig;
              Some (Inr valid) }))"

definition ConnectionDetailsHandler ::
  "rpcjson \<Rightarrow> ecdsa \<Rightarrow> 'w rpc_services \<Rightarrow> int \<Rightarrow> bytes option \<Rightarrow> 'w \<Rightarrow> ((rpc_error + string \<times> string) \<times> 'w) go" where
  "ConnectionDetailsHandler R E S now params w = do {
     raw \<leftarrow> params;
     (case rj_connection R (Some raw) of
        Inl e \<Rightarrow> Some (Inl e, w)
      | Inr p \<Rightarrow> do {
          x \<leftarrow> HexToBigInt (cdp_PubKeyX p);
          y \<leftarrow> HexToBigInt (cdp_PubKeyY p);
          (ok, w1) \<leftarrow> ChainMethods_ValidateEpochPubKey (rs_chain S) (cdm_NodeAddress (cdp_Message p)) \<lparr>pt_X = x, pt_Y = y\<rparr> w;
          if \<not> ok then Some (Inl (RpcError (- 32602) ''Invalid pub key for provided epoch''), w1)
          else do {
            valid \<leftarrow> ConnectionDetailsMessage_Validate R E now (cdp_Message p) x y (cdp_Signature p);
            (case valid of
               Inl e \<Rightarrow> Some (Inl (RpcError (- 32602) (''Could not validate connection details message, err: '' @ e)), w1)
             | Inr False \<Rightarrow> Some (Inl (RpcError (- 32602) ''invalid connection details message''), w1)
             | Inr True \<Rightarrow> do {
                 (tm, w2) \<leftarrow> ChainMethods_GetTMP2PConnection (rs_chain S) w1;
                 (p2p, w3) \<leftarrow> ChainMethods_GetP2PConnection (rs_chain S) w2;
                 Some (Inr (tm, p2p), w3) }) } }) }"

end
