(* ===== verification/AbciTheorems.thy ===== *)
theory AbciTheorems
  imports Abci SessionTheorems
begin

text \<open>
  What the replicated application guarantees, whatever the other services answer: the search for
  a free key is exact, an assignment is permanent, a key is decided by a threshold of votes, a
  block starts a bounded number of key generations, and a restart continues from the last block.
\<close>

section \<open>The search for a free key\<close>

definition has_key :: "State \<Rightarrow> CurveName \<Rightarrow> int \<Rightarrow> bool" where
  "has_key state curve i \<longleftrightarrow>
     pt_X (pubkey_of state (NewADKGID i curve)) \<noteq> 0 \<and> pt_Y (pubkey_of state (NewADKGID i curve)) \<noteq> 0"

lemma find_unassigned_exact:
  "case find_unassigned state curve hi i of
     None \<Rightarrow> \<forall>j. i \<le> j \<and> j < hi \<longrightarrow> \<not> has_key state curve j
   | Some (k, j) \<Rightarrow> k = NewADKGID j curve \<and> i \<le> j \<and> j < hi \<and> has_key state curve j \<and>
       (\<forall>j'. i \<le> j' \<and> j' < j \<longrightarrow> \<not> has_key state curve j')"
proof (induction state curve hi i rule: find_unassigned.induct)
  case (1 state curve hi i)
  show ?case
  proof (cases "hi \<le> i \<or> has_key state curve i")
    case True
    then show ?thesis by (subst find_unassigned.simps) (auto simp: has_key_def Let_def)
  next
    case False
    then have "find_unassigned state curve hi i = find_unassigned state curve hi (i + 1)"
      by (subst find_unassigned.simps) (auto simp: has_key_def Let_def)
    moreover have "j = i \<or> i + 1 \<le> j" if "i \<le> j" for j :: int using that by linarith
    ultimately show ?thesis using 1 [OF _ refl refl] False
      by (auto simp: has_key_def split: option.splits)
  qed
qed

text \<open>The counters of a curve; every curve that is not ed25519 uses those of secp256k1.\<close>

definition unassigned :: "CurveName \<Rightarrow> State \<Rightarrow> int" where
  "unassigned c s = sint (if c = ED25519 then c2_LastUnassignedIndex (st_C25519State s) else st_LastUnassignedIndex s)"

definition created :: "CurveName \<Rightarrow> State \<Rightarrow> int" where
  "created c s = sint (if c = ED25519 then c2_LastCreatedIndex (st_C25519State s) else st_LastCreatedIndex s)"

lemma first_unique:
  fixes i j :: int
  assumes "u \<le> i" "P i" "\<forall>k. u \<le> k \<and> k < i \<longrightarrow> \<not> P k" "u \<le> j" "P j" "\<forall>k. u \<le> k \<and> k < j \<longrightarrow> \<not> P k"
  shows "i = j"
  using assms by (metis linorder_neqE_linordered_idom)

text \<open>
  \<open>findUnassignedKey\<close> terminates and is exact: it gives the least index from the last
  unassigned one on, below the last created one, that has a public key, and an error if there is
  none.
\<close>

lemma findUnassignedKey_least:
  "(findUnassignedKey state curve = Inr (k, i) \<longleftrightarrow>
      k = NewADKGID i curve \<and> unassigned curve state \<le> i \<and> i < created curve state \<and> has_key state curve i \<and>
      (\<forall>j. unassigned curve state \<le> j \<and> j < i \<longrightarrow> \<not> has_key state curve j)) \<and>
   ((\<exists>e. findUnassignedKey state curve = Inl e) \<longleftrightarrow>
      (\<forall>j. unassigned curve state \<le> j \<and> j < created curve state \<longrightarrow> \<not> has_key state curve j))"
proof -
  have f: "findUnassignedKey state curve =
    (case find_unassigned state curve (created curve state) (unassigned curve state) of
       None \<Rightarrow> Inl ''could not assign key, key not found'' | Some r \<Rightarrow> Inr r)"
    by (simp add: findUnassignedKey_def created_def unassigned_def)
  show ?thesis
    using find_unassigned_exact [where state = state and curve = curve and hi = "created curve state" and i = "unassigned curve state"]
    unfolding f by (auto split: option.splits dest: first_unique [where P = "has_key state curve"])
qed

section \<open>Assignments are permanent\<close>

text \<open>The tables of the application database are disjoint, and the key mapping is a table.\<close>

lemma km_key_inject: "(c = ED25519) = (c' = ED25519) \<and> i = j" if "km_key i c = km_key j c'"
proof -
  have "big_Text x 16 = big_Text y 16 \<Longrightarrow> x = y" for x y
    by (metis SetString_Text option.inject numeral_le_iff semiring_norm(68,71,72,73))
  with that show ?thesis
    by (auto simp: km_key_def prefixKeyMapping_def abci_prefix_defs string_bytes_def split: if_splits
        dest: string_bytes_inject [unfolded string_bytes_def, THEN iffD1])
qed

lemma km_key_other:
  "km_key i c \<noteq> getVerifierKey tx p" "km_key i c \<noteq> stateKey" "km_key i c \<noteq> appInfoKey"
  by (auto simp: km_key_def prefixKeyMapping_def getVerifierKey_def getPartitionedKeyspace_def
      getUnpartitionedKeyspace_def abci_prefix_defs string_bytes_def split: if_splits)

lemma Put_other: "leveldb_laws D \<Longrightarrow> ldb_Put D d k v = Some d' \<Longrightarrow> k' \<noteq> k \<Longrightarrow> ldb_Get D d' k' = ldb_Get D d k'"
  by (simp add: leveldb_laws_def)

lemma Put_same: "leveldb_laws D \<Longrightarrow> ldb_Put D d k v = Some d' \<Longrightarrow> ldb_Get D d' k = Some (Some v)"
  by (simp add: leveldb_laws_def)

lemma storeVerifier_frame:
  "leveldb_laws D \<Longrightarrow> storeVerifierToKeyIndex D J (getVerifierKey tx p) ks d = (r, d') \<Longrightarrow>
   ldb_Get D d' (km_key i c) = ldb_Get D d (km_key i c)"
  by (auto simp: storeVerifierToKeyIndex_def split: option.splits intro: Put_other [OF _ _ km_key_other(1)])

lemma storeKeyMapping_frame:
  "leveldb_laws D \<Longrightarrow> storeKeyMapping D J j c' ka d = (r, d') \<Longrightarrow> j \<noteq> i \<or> (c' = ED25519) \<noteq> (c = ED25519) \<Longrightarrow>
   ldb_Get D d' (km_key i c) = ldb_Get D d (km_key i c)"
  by (auto simp: storeKeyMapping_def split: option.splits intro!: Put_other dest: km_key_inject)

text \<open>The word of an index below a 64-bit integer, and its successor.\<close>

lemma next_index:
  fixes w :: "64 word"
  assumes "0 \<le> i" "i < sint w"
  shows "sint (word_of_int (Int64 i) + 1 :: 64 word) = i + 1"
proof -
  have "sint w < 2 ^ 63" using sint_lt [of w] by simp
  then have i: "i + 1 < 2 ^ 63" "Int64 i = i" using assms by (simp_all add: Int64_small)
  have "word_of_int (Int64 i) + 1 = (word_of_int (i + 1) :: 64 word)" by (simp add: i(2))
  moreover have "sint (word_of_int (i + 1) :: 64 word) = i + 1"
    using Int64_small [OF _ i(1)] assms(1) unfolding Int64_def by simp
  ultimately show ?thesis by (simp only:)
qed

lemma unassigned_assignKey:
  assumes "KeyAvailable c s" "0 \<le> unassigned c s'" "0 \<le> i" "i < created c s"
  shows "unassigned c' (assignKey (createKeyAssignment tx i pk) c s') =
    (if (c' = ED25519) = (c = ED25519) then i + 1 else unassigned c' s')"
  using assms next_index [of i]
  by (auto simp: assignKey_def Let_def createKeyAssignment_def unassigned_def created_def KeyAvailable_def
      SECP256K1_def ED25519_def split: if_splits)

text \<open>A change of the application that keeps what is assigned: the counters grow, and the mapping
  of an index below the counter stays.\<close>

definition keeps_assigned :: "'d leveldb \<Rightarrow> 'd ABCI \<Rightarrow> 'd ABCI \<Rightarrow> bool" where
  "keeps_assigned D a a' \<longleftrightarrow> (\<forall>c. unassigned c (ab_state a) \<le> unassigned c (ab_state a') \<and>
     (\<forall>i. 0 \<le> i \<and> i < unassigned c (ab_state a) \<longrightarrow>
        ldb_Get D (ab_db a') (km_key i c) = ldb_Get D (ab_db a) (km_key i c)))"

lemma keeps_assigned_refl [simp]: "keeps_assigned D a a"
  by (simp add: keeps_assigned_def)

lemma keeps_assigned_trans: "keeps_assigned D a b \<Longrightarrow> keeps_assigned D b c \<Longrightarrow> keeps_assigned D a c"
  unfolding keeps_assigned_def by (metis order_trans order_less_le_trans)

lemma keeps_assigned_same:
  "ab_db a' = ab_db a \<Longrightarrow> (\<And>c. unassigned c (ab_state a') = unassigned c (ab_state a)) \<Longrightarrow> keeps_assigned D a a'"
  by (simp add: keeps_assigned_def)

lemma unassigned_other_fields [simp]:
  "unassigned c (s\<lparr>st_ConsecutiveFailedPubKeyAssigns := n\<rparr>) = unassigned c s"
  "unassigned c (s\<lparr>st_KeygenPubKeys := m\<rparr>) = unassigned c s"
  "unassigned c (s\<lparr>st_KeygenDecisions := ds\<rparr>) = unassigned c s"
  "unassigned c (s\<lparr>st_BlockTime := tm\<rparr>) = unassigned c s"
  "unassigned c (s\<lparr>st_NewKeyAssignments := ks\<rparr>) = unassigned c s"
  by (simp_all add: unassigned_def)

lemma unassigned_votes [simp]:
  "unassigned c (count_vote sender key s) = unassigned c s"
  "unassigned c (decide_key i key pk curve x s) = unassigned c s"
  by (simp_all add: count_vote_def decide_key_def raise_created_def unassigned_def Let_def)

text \<open>The outcomes of an assignment, with what it stored.\<close>

lemma deliver_assignment_outcome:
  assumes "deliver_assignment D J chain bftTx a w = Some (r, a', w')"
  obtains (nothing) "ab_db a' = ab_db a" "\<And>c. unassigned c (ab_state a') = unassigned c (ab_state a)" "\<exists>e. r = Inl e"
  | (partly) tx k i r1 d1 e where "Unmarshal (tj_tx J) bftTx = Some tx"
      "findUnassignedKey (ab_state a) (at_Curve tx) = Inr (k, i)"
      "storeKeyMapping D J i (at_Curve tx) (createKeyAssignment tx i (pubkey_of (ab_state a) k)) (ab_db a) = (r1, d1)"
      "ab_db a' = d1 \<or> (\<exists>p ks r2. storeVerifierToKeyIndex D J (getVerifierKey tx p) ks d1 = (r2, ab_db a'))"
      "\<And>c. unassigned c (ab_state a') = unassigned c (ab_state a)" "r = Inl e"
  | (assigned) tx k i d1 p ks r2 where "Unmarshal (tj_tx J) bftTx = Some tx" "KeyAvailable (at_Curve tx) (ab_state a)"
      "findUnassignedKey (ab_state a) (at_Curve tx) = Inr (k, i)"
      "storeKeyMapping D J i (at_Curve tx) (createKeyAssignment tx i (pubkey_of (ab_state a) k)) (ab_db a) = (Inr (), d1)"
      "storeVerifierToKeyIndex D J (getVerifierKey tx p) ks d1 = (r2, ab_db a')"
      "\<And>c. unassigned c (ab_state a') = unassigned c (assignKey (createKeyAssignment tx i (pubkey_of (ab_state a) k))
         (at_Curve tx) (ab_state a\<lparr>st_ConsecutiveFailedPubKeyAssigns := 0\<rparr>))"
proof (cases "Unmarshal (tj_tx J) bftTx")
  case None
  show ?thesis by (rule nothing; insert None assms, auto simp: deliver_assignment_def)
next
  case (Some tx)
  show ?thesis
  proof (cases "KeyAvailable (at_Curve tx) (ab_state a) \<and> (\<exists>x. findUnassignedKey (ab_state a) (at_Curve tx) = Inr x)")
    case False
    show ?thesis
      by (rule nothing; insert assms Some False, auto simp: deliver_assignment_def Let_def split: if_splits sum.splits)
  next
    case True
    then obtain k i where k: "findUnassignedKey (ab_state a) (at_Curve tx) = Inr (k, i)" by auto
    obtain r1 d1 where d1: "storeKeyMapping D J i (at_Curve tx)
        (createKeyAssignment tx i (pubkey_of (ab_state a) k)) (ab_db a) = (r1, d1)" by fastforce
    note run = assms [unfolded deliver_assignment_def, simplified, simplified Some k True Let_def, simplified d1, simplified]
    show ?thesis
    proof (cases r1)
      case (Inl e)
      then show ?thesis using run True k by (auto simp: d1 go_bind_eq_Some intro!: partly [OF Some k d1])
    next
      case (Inr u)
      obtain ks w1 where ks: "getKeyAssignment D J chain i tx (ab_db a) w = Some (ks, w1)"
        using run Inr True k d1 by (auto simp: go_bind_eq_Some)
      then obtain p w2 where p: "GetAppKeyPartition chain (at_AppID tx) w1 = Some (p, w2)"
        using run Inr True k d1 by (auto simp: go_bind_eq_Some)
      note run' = run [simplified Inr True k ks p, simplified]
      show ?thesis
      proof (cases p)
        case p': (Inl e)
        then show ?thesis using run' d1 Inr by (intro partly [OF Some k d1]) (auto simp: True k ks p)
      next
        case p': (Inr b)
        obtain r2 d2 where d2: "storeVerifierToKeyIndex D J (getVerifierKey tx b) ks d1 = (r2, d2)" by fastforce
        show ?thesis
        proof (cases r2)
          case (Inl e)
          then show ?thesis using run' p' d1 d2 Inr by (intro partly [OF Some k d1]) (auto simp: True k ks p)
        next
          case r2: (Inr v)
          have "KeyAvailable (at_Curve tx) (ab_state a)" using True by blast
          then show ?thesis using run' p' d1 d2 Inr r2 by (intro assigned [OF Some _ k]) (auto simp: True k ks p)
        qed
      qed
    qed
  qed
qed

lemma unassigned_class: "(c = ED25519) = (c' = ED25519) \<Longrightarrow> unassigned c s = unassigned c' s"
  by (auto simp: unassigned_def)

lemma storeKeyMapping_keeps:
  assumes D: "leveldb_laws D" and "storeKeyMapping D J i c' ka d = (r, d1)" "unassigned c' s \<le> i" "j < unassigned c s"
  shows "ldb_Get D d1 (km_key j c) = ldb_Get D d (km_key j c)"
proof (rule storeKeyMapping_frame [OF assms(1,2)])
  show "i \<noteq> j \<or> (c' = ED25519) \<noteq> (c = ED25519)" using assms(3,4) unassigned_class [of c c' s] by fastforce
qed

lemma findUnassignedKey_bounds:
  "findUnassignedKey s c = Inr (k, i) \<Longrightarrow> unassigned c s \<le> i \<and> i < created c s"
  using find_unassigned_exact [where state = s and curve = c and hi = "created c s" and i = "unassigned c s"]
  by (auto simp: findUnassignedKey_def created_def unassigned_def split: option.splits if_splits)

lemma deliver_assignment_keeps:
  assumes D: "leveldb_laws D" and pos: "\<And>c. 0 \<le> unassigned c (ab_state a)"
    and run: "deliver_assignment D J chain bftTx a w = Some (r, a', w')"
  shows "keeps_assigned D a a'"
  using run
proof (cases rule: deliver_assignment_outcome)
  case nothing
  then show ?thesis by (simp add: keeps_assigned_same)
next
  case (partly tx k i r1 d1 e)
  note i = findUnassignedKey_bounds [OF partly(2), THEN conjunct1]
  show ?thesis
    using partly(4,5) storeKeyMapping_keeps [OF D partly(3) i] storeVerifier_frame [OF D]
    by (auto simp: keeps_assigned_def)
next
  case (assigned tx k i d1 p ks r2)
  note i = findUnassignedKey_bounds [OF assigned(3)]
  then have u: "unassigned c (ab_state a') =
      (if (c = ED25519) = (at_Curve tx = ED25519) then i + 1 else unassigned c (ab_state a))" for c
    using unassigned_assignKey [OF assigned(2)] pos [of "at_Curve tx"] assigned(6) by force
  have "unassigned c (ab_state a) \<le> unassigned c (ab_state a')" for c
    using u [of c] i unassigned_class [of c "at_Curve tx" "ab_state a"] by auto
  moreover have "ldb_Get D (ab_db a') (km_key j c) = ldb_Get D (ab_db a) (km_key j c)" if "j < unassigned c (ab_state a)" for j c
    using storeKeyMapping_keeps [OF D assigned(4) conjunct1 [OF i] that] storeVerifier_frame [OF D assigned(5)] by simp
  ultimately show ?thesis by (simp add: keeps_assigned_def)
qed

lemma deliver_assignment_stores:
  assumes D: "leveldb_laws D" and pos: "\<And>c. 0 \<le> unassigned c (ab_state a)"
    and run: "deliver_assignment D J chain bftTx a w = Some (Inr tags, a', w')"
  obtains tx k i b where "Unmarshal (tj_tx J) bftTx = Some tx" "findUnassignedKey (ab_state a) (at_Curve tx) = Inr (k, i)"
    "0 \<le> i" "i < unassigned (at_Curve tx) (ab_state a')"
    "Marshal (tj_assignment J) (createKeyAssignment tx i (pubkey_of (ab_state a) k)) = Some b"
    "ldb_Get D (ab_db a') (km_key i (at_Curve tx)) = Some (Some b)"
  using run
proof (cases rule: deliver_assignment_outcome)
  case (assigned tx k i d1 p ks r2)
  note i = findUnassignedKey_bounds [OF assigned(3)] and p = pos [of "at_Curve tx"]
  obtain b where b: "Marshal (tj_assignment J) (createKeyAssignment tx i (pubkey_of (ab_state a) k)) = Some b"
      "ldb_Put D (ab_db a) (km_key i (at_Curve tx)) b = Some d1"
    using assigned(4) by (auto simp: storeKeyMapping_def split: option.splits)
  have "unassigned (at_Curve tx) (ab_state a') = i + 1"
    using unassigned_assignKey [OF assigned(2)] p i assigned(6) by simp
  moreover have "ldb_Get D (ab_db a') (km_key i (at_Curve tx)) = Some (Some b)"
    using storeVerifier_frame [OF D assigned(5)] Put_same [OF D b(2)] by simp
  ultimately show ?thesis using that [OF assigned(1,3) _ _ b(1)] p i by simp
qed simp_all

text \<open>The steps of the application between two starts of the process: it delivers a transaction,
  begins a block or commits one. \<open>EndBlock\<close>, \<open>CheckTx\<close> and queries do not change it.\<close>

inductive abci_step :: "'d leveldb \<Rightarrow> ('s, 'p) lib \<Rightarrow> tmjson \<Rightarrow> 'w services \<Rightarrow> 'd ABCI \<Rightarrow> 'd ABCI \<Rightarrow> bool"
  for D L J S where
  deliver: "DeliverTx D L J S tx a w = Some (r, a', w') \<Longrightarrow> abci_step D L J S a a'"
| begin_block: "abci_step D L J S a (BeginBlock time a)"
| commit: "Commit D L J a = Some (h, a') \<Longrightarrow> abci_step D L J S a a'"

text \<open>The outcomes of a vote: refused, counted, and decisive.\<close>

lemma deliver_vote_outcome:
  assumes "deliver_vote L J S bftTx sender t a w = Some (r, a', w')"
  obtains (refused) "a' = a"
  | (counted) adkgid pk where "parse_vote L J bftTx = Inr (adkgid, pk)"
      "check_vote L sender adkgid pk (ab_state a) = Inr ()"
      "a' = a\<lparr>ab_state := count_vote sender (decision_key L adkgid pk) (ab_state a)\<rparr>"
  | (decided) adkgid pk i c where "parse_vote L J bftTx = Inr (adkgid, pk)" "GetIndex adkgid = Inr i"
      "check_vote L sender adkgid pk (ab_state a) = Inr ()"
      "map_option (\<lambda>d. int (length (kd_Nodes d))) (m_get (st_KeygenDecisions
         (count_vote sender (decision_key L adkgid pk) (ab_state a))) (decision_key L adkgid pk)) = Some t"
      "a' = a\<lparr>ab_state := decide_key adkgid (decision_key L adkgid pk) pk c i
         (count_vote sender (decision_key L adkgid pk) (ab_state a))\<rparr>"
proof (cases "parse_vote L J bftTx")
  case (Inl e)
  then show ?thesis using assms by (intro refused) (auto simp: deliver_vote_def)
next
  case (Inr v)
  obtain adkgid pk where v: "parse_vote L J bftTx = Inr (adkgid, pk)" using Inr by (cases v) auto
  let ?k = "decision_key L adkgid pk"
  note run = assms [unfolded deliver_vote_def, simplified v, simplified]
  show ?thesis
  proof (cases "(\<exists>i. GetIndex adkgid = Inr i) \<and> check_vote L sender adkgid pk (ab_state a) = Inr ()")
    case False
    then show ?thesis using run by (intro refused) (auto simp: v split: sum.split_asm)
  next
    case True
    then obtain i where i: "GetIndex adkgid = Inr i" and c: "check_vote L sender adkgid pk (ab_state a) = Inr ()" by auto
    note run' = run [simplified i c v Let_def, simplified]
    show ?thesis
    proof (cases "map_option (\<lambda>d. int (length (kd_Nodes d)))
        (m_get (st_KeygenDecisions (count_vote sender ?k (ab_state a))) ?k) = Some t")
      case False
      then show ?thesis using run' by (intro counted [OF v c]) (auto simp: v i c split: if_split_asm)
    next
      case reached: True
      then obtain r1 w1 where "DBMethods_StorePublicKeyToIndex (sv_db S) pk i
          (case GetCurve adkgid of Inl e \<Rightarrow> [] | Inr c \<Rightarrow> c) w = Some (r1, w1)"
        using run' by (auto simp: v i c go_bind_eq_Some)
      then show ?thesis using run' reached counted [OF v c] decided [OF v i c reached]
        by (cases r1) (auto simp: v i c go_bind_eq_Some)
    qed
  qed
qed

lemma deliver_vote_keeps:
  "deliver_vote L J S bftTx sender t a w = Some (r, a', w') \<Longrightarrow> keeps_assigned D a a'"
  by (erule deliver_vote_outcome) (auto intro!: keeps_assigned_same)

lemma deliver_vote_tags:
  assumes "deliver_vote L J S bftTx sender t a w = Some (Inr tags, a', w')"
  shows "tags = []"
  using assms by (auto simp: deliver_vote_def Let_def go_bind_eq_Some case_sum_eq split: if_split_asm)

lemma Validate_outcome:
  assumes "ValidateAndUpdateAndTagBFTTx D L J S bftTx ty sender a w = Some (r, a', w')"
  obtains (refused) "a' = a" "\<exists>e. r = Inl e"
  | (assignment) w2 where "deliver_assignment D J (sv_chain S) bftTx a w2 = Some (r, a', w')"
  | (vote) epoch w1 info w2 where "ChainMethods_GetEpochInfo (sv_chain S) epoch False w1 = Some (Inr info, w2)"
      "deliver_vote L J S bftTx sender (Int64 (ei_K info)) a w2 = Some (r, a', w')"
proof -
  obtain epoch w1 where e: "ChainMethods_GetCurrentEpoch (sv_chain S) w = Some (epoch, w1)"
    using assms by (auto simp: ValidateAndUpdateAndTagBFTTx_def go_bind_eq_Some)
  then obtain info w2 where i: "ChainMethods_GetEpochInfo (sv_chain S) epoch False w1 = Some (info, w2)"
    using assms by (auto simp: ValidateAndUpdateAndTagBFTTx_def go_bind_eq_Some)
  show ?thesis
  proof (cases info)
    case (Inl x)
    then show ?thesis using assms e i by (intro refused) (auto simp: ValidateAndUpdateAndTagBFTTx_def)
  next
    case (Inr x)
    then show ?thesis using assms e i refused assignment vote [of epoch w1 x w2]
      by (auto simp: ValidateAndUpdateAndTagBFTTx_def split: if_split_asm)
  qed
qed

lemma DeliverTx_outcome:
  assumes "DeliverTx D L J S tx a w = Some (r, a', w')"
  obtains (rejected) "a' = a" "r = (CodeTypeUnauthorized, [])"
  | (validated) parsed sender w1 v where "authenticateBftTx J (sv_chain S) tx w = Some (Inr (parsed, sender), w1)"
      "ValidateAndUpdateAndTagBFTTx D L J S (bw_BFTTx parsed) (bw_MsgType parsed) sender a w1 = Some (v, a', w')"
      "r = (case v of Inl e \<Rightarrow> (CodeTypeUnauthorized, []) | Inr tags \<Rightarrow> (CodeTypeOK, tags))"
proof -
  obtain auth w1 where e: "authenticateBftTx J (sv_chain S) tx w = Some (auth, w1)"
    using assms by (auto simp: DeliverTx_def go_bind_eq_Some)
  show ?thesis
  proof (cases auth)
    case (Inl x)
    then show ?thesis using assms e by (intro rejected) (auto simp: DeliverTx_def)
  next
    case (Inr x)
    obtain parsed sender where x: "x = (parsed, sender)" by fastforce
    obtain v where "ValidateAndUpdateAndTagBFTTx D L J S (bw_BFTTx parsed) (bw_MsgType parsed) sender a w1 = Some (v, a', w')"
      "r = (case v of Inl e \<Rightarrow> (CodeTypeUnauthorized, []) | Inr tags \<Rightarrow> (CodeTypeOK, tags))"
      using assms e Inr x by (auto simp: DeliverTx_def go_bind_eq_Some)
    then show ?thesis using e Inr x by (intro validated) auto
  qed
qed

lemma DeliverTx_keeps:
  assumes "leveldb_laws D" "\<And>c. 0 \<le> unassigned c (ab_state a)"
    and "DeliverTx D L J S tx a w = Some (r, a', w')"
  shows "keeps_assigned D a a'"
  using assms(3)
proof (cases rule: DeliverTx_outcome)
  case (validated parsed sender w1 v)
  from validated(2) show ?thesis
    by (cases rule: Validate_outcome) (auto intro: deliver_vote_keeps deliver_assignment_keeps [OF assms(1,2)])
qed simp

lemma SaveState_frame:
  assumes "leveldb_laws D" "SaveState D J a = Some a'" "k \<noteq> stateKey" "k \<noteq> appInfoKey"
  shows "ldb_Get D (ab_db a') k = ldb_Get D (ab_db a) k"
  using assms(2) Put_other [OF assms(1) _ assms(3)] Put_other [OF assms(1) _ assms(4)]
  by (auto simp: SaveState_def go_bind_eq_Some Let_def split: option.splits)

lemma SaveState_state: "SaveState D J a = Some a' \<Longrightarrow> ab_state a' = ab_state a"
  by (auto simp: SaveState_def go_bind_eq_Some Let_def)

lemma Commit_keeps:
  assumes "leveldb_laws D" "Commit D L J a = Some (h, a')"
  shows "keeps_assigned D a a'"
proof -
  obtain info a1 p where "SaveState D J (a\<lparr>ab_info := info\<rparr>) = Some a1" "a' = a1\<lparr>ab_prevState := p\<rparr>"
    using assms(2) by (auto simp: Commit_def go_bind_eq_Some Let_def)
  then show ?thesis using SaveState_frame [OF assms(1) _ km_key_other(2,3)] SaveState_state
    by (fastforce simp: keeps_assigned_def)
qed

lemma abci_step_keeps:
  "abci_step D L J S a a' \<Longrightarrow> leveldb_laws D \<Longrightarrow> (\<And>c. 0 \<le> unassigned c (ab_state a)) \<Longrightarrow> keeps_assigned D a a'"
  by (erule abci_step.cases) (auto intro: DeliverTx_keeps Commit_keeps keeps_assigned_same simp: BeginBlock_def)

lemma abci_steps_keep:
  assumes "(abci_step D L J S)\<^sup>*\<^sup>* a a'" "leveldb_laws D" "\<And>c. 0 \<le> unassigned c (ab_state a)"
  shows "keeps_assigned D a a'"
  using assms(1)
proof (induction rule: rtranclp_induct)
  case (step b c)
  have "0 \<le> unassigned x (ab_state b)" for x
    using step.IH assms(3) [of x] by (auto simp: keeps_assigned_def intro: order_trans)
  with step.hyps(2) assms(2) step.IH show ?case by (blast intro: abci_step_keeps keeps_assigned_trans)
qed simp

lemma unassigned_two: "0 \<le> unassigned SECP256K1 s \<Longrightarrow> 0 \<le> unassigned ED25519 s \<Longrightarrow> 0 \<le> unassigned c s"
  by (simp add: unassigned_def SECP256K1_def ED25519_def split: if_splits)

lemma assigned_mapping:
  assumes "tmjson_laws J" "keeps_assigned D a a'" "0 \<le> i" "i < unassigned c (ab_state a)"
    and "Marshal (tj_assignment J) ka = Some b" "ldb_Get D (ab_db a) (km_key i c) = Some (Some b)"
  shows "i < unassigned c (ab_state a') \<and> retrieveKeyMapping D J i c (ab_db a') = Inr ka"
proof -
  have "ldb_Get D (ab_db a') (km_key i c) = Some (Some b)" "i < unassigned c (ab_state a')"
    using assms(2-4,6) by (auto simp: keeps_assigned_def intro: order_less_le_trans)
  moreover have "Unmarshal (tj_assignment J) b = Some ka"
    using assms(1,5) by (simp add: tmjson_laws_def codec_ok_def)
  ultimately show ?thesis by (simp add: retrieveKeyMapping_def)
qed

text \<open>
  C7. An assignment is permanent. The transaction that assigns a key records its user and public
  key at the index that \<open>findUnassignedKey\<close> found; whatever transactions are delivered later and
  whatever blocks are begun and committed, the mapping of that index is the one recorded, and the
  index stays below the last unassigned one, so that no later search can give it away again.
\<close>

theorem assignment_is_permanent:
  assumes "leveldb_laws D" "tmjson_laws J"
    and "0 \<le> unassigned SECP256K1 (ab_state a)" "0 \<le> unassigned ED25519 (ab_state a)"
    and "DeliverTx D L J S tx a w = Some ((CodeTypeOK, [(''assignment'', ''1'')]), a1, w1)"
    and "(abci_step D L J S)\<^sup>*\<^sup>* a1 a2"
  shows "\<exists>raw asg k i. Unmarshal (tj_wrapper J) tx = Some raw \<and> Unmarshal (tj_tx J) (bw_BFTTx raw) = Some asg \<and>
    findUnassignedKey (ab_state a) (at_Curve asg) = Inr (k, i) \<and>
    retrieveKeyMapping D J i (at_Curve asg) (ab_db a2) = Inr (createKeyAssignment asg i (pubkey_of (ab_state a) k)) \<and>
    i < unassigned (at_Curve asg) (ab_state a2)"
proof -
  note pos = unassigned_two [OF assms(3,4)]
  from assms(5) obtain raw sender w0 where auth: "authenticateBftTx J (sv_chain S) tx w = Some (Inr (raw, sender), w0)"
    and v: "ValidateAndUpdateAndTagBFTTx D L J S (bw_BFTTx raw) (bw_MsgType raw) sender a w0 =
      Some (Inr [(''assignment'', ''1'')], a1, w1)"
    by (cases rule: DeliverTx_outcome) (auto split: sum.split_asm)
  have raw: "Unmarshal (tj_wrapper J) tx = Some raw"
    using auth by (auto simp: authenticateBftTx_def go_bind_eq_Some case_sum_eq split: option.split_asm)
  from v obtain w2 where "deliver_assignment D J (sv_chain S) (bw_BFTTx raw) a w2 = Some (Inr [(''assignment'', ''1'')], a1, w1)"
    by (cases rule: Validate_outcome) (auto dest: deliver_vote_tags)
  then obtain asg k i b where asg: "Unmarshal (tj_tx J) (bw_BFTTx raw) = Some asg"
      "findUnassignedKey (ab_state a) (at_Curve asg) = Inr (k, i)" "0 \<le> i" "i < unassigned (at_Curve asg) (ab_state a1)"
      "Marshal (tj_assignment J) (createKeyAssignment asg i (pubkey_of (ab_state a) k)) = Some b"
      "ldb_Get D (ab_db a1) (km_key i (at_Curve asg)) = Some (Some b)"
    by (rule deliver_assignment_stores [OF assms(1) pos])
  have "0 \<le> unassigned c (ab_state a1)" for c
    using DeliverTx_keeps [OF assms(1) pos assms(5)] pos [of c] by (auto simp: keeps_assigned_def intro: order_trans)
  then have "keeps_assigned D a1 a2" by (rule abci_steps_keep [OF assms(6,1)])
  from assigned_mapping [OF assms(2) this asg(3-6)] show ?thesis using raw asg(1,2) by blast
qed

section \<open>A key is decided by a threshold of nodes\<close>

lemma length_hex [simp]: "length (hex_EncodeToString b) = 2 * length b"
  by (induction b) (simp_all add: hex_EncodeToString_def)

lemma decision_key_inject:
  assumes "\<And>b. length (keccak256 L b) = 32" "decision_key L i p = decision_key L j q"
  shows "i = j" "keccak256 L (big_Bytes (pt_X p)) = keccak256 L (big_Bytes (pt_X q))"
proof -
  have "i = j \<and> hex_EncodeToString (keccak256 L (big_Bytes (pt_X p))) = hex_EncodeToString (keccak256 L (big_Bytes (pt_X q)))"
    using assms(2) by (simp add: decision_key_def append_eq_append_conv assms(1))
  then show "i = j" "keccak256 L (big_Bytes (pt_X p)) = keccak256 L (big_Bytes (pt_X q))"
    by (simp, metis hex_Decode_Encode sum.inject(2))
qed

text \<open>The vote of a transaction: the index its sender is known by, and what it votes for.\<close>

definition votes_of ::
  "('s, 'p) lib \<Rightarrow> tmjson \<Rightarrow> 'w services \<Rightarrow> bytes \<Rightarrow> 'w \<Rightarrow> (int \<times> ADKGID \<times> Point) set" where
  "votes_of L J S tx w =
     (case authenticateBftTx J (sv_chain S) tx w of
        Some (Inr (raw, sender), _) \<Rightarrow>
          (case parse_vote L J (bw_BFTTx raw) of Inr (i, pk) \<Rightarrow> {(kn_Index sender, i, pk)} | Inl e \<Rightarrow> {})
      | _ \<Rightarrow> {})"

text \<open>Runs of the application from its first start, with the votes delivered to it.\<close>

inductive abci_run ::
  "'d leveldb \<Rightarrow> ('s, 'p) lib \<Rightarrow> tmjson \<Rightarrow> 'w services \<Rightarrow> 'd ABCI \<Rightarrow> (int \<times> ADKGID \<times> Point) set \<Rightarrow> bool"
  for D L J S where
  first_start: "ab_state a = zero_State \<Longrightarrow> abci_run D L J S a {}"
| run_deliver: "abci_run D L J S a V \<Longrightarrow> DeliverTx D L J S tx a w = Some (r, a', w') \<Longrightarrow>
    abci_run D L J S a' (V \<union> votes_of L J S tx w)"
| run_begin: "abci_run D L J S a V \<Longrightarrow> abci_run D L J S (BeginBlock time a) V"
| run_commit: "abci_run D L J S a V \<Longrightarrow> Commit D L J a = Some (h, a') \<Longrightarrow> abci_run D L J S a' V"

definition voters :: "('s, 'p) lib \<Rightarrow> (int \<times> ADKGID \<times> Point) set \<Rightarrow> string \<Rightarrow> int set" where
  "voters L V key = {n. \<exists>i pk. (n, i, pk) \<in> V \<and> decision_key L i pk = key}"

definition votes_inv :: "('s, 'p) lib \<Rightarrow> int \<Rightarrow> State \<Rightarrow> (int \<times> ADKGID \<times> Point) set \<Rightarrow> bool" where
  "votes_inv L K s V \<longleftrightarrow> finite V \<and>
     (\<forall>key d. m_get (st_KeygenDecisions s) key = Some d \<longrightarrow> distinct (kd_Nodes d) \<and> set (kd_Nodes d) \<subseteq> voters L V key) \<and>
     (\<forall>i k. m_get (st_KeygenPubKeys s) i = Some k \<longrightarrow> K \<le> int (card (voters L V (decision_key L i (kp_Point k)))))"

lemma voters_mono: "V \<subseteq> W \<Longrightarrow> voters L V key \<subseteq> voters L W key"
  by (auto simp: voters_def)

lemma finite_voters: "finite V \<Longrightarrow> finite (voters L V key)"
  by (rule finite_subset [of _ "fst ` V"]) (force simp: voters_def)+

lemma votes_inv_mono:
  assumes "votes_inv L K s V" "V \<subseteq> W" "finite W"
    and "st_KeygenDecisions s' = st_KeygenDecisions s"
    and "\<And>i k. m_get (st_KeygenPubKeys s') i = Some k \<Longrightarrow> m_get (st_KeygenPubKeys s) i = Some k"
  shows "votes_inv L K s' W"
proof -
  have "card (voters L V key) \<le> card (voters L W key)" for key
    using card_mono [OF finite_voters voters_mono] assms(2,3) by blast
  then show ?thesis using assms voters_mono [OF assms(2)]
    by (fastforce simp: votes_inv_def intro: order_trans)
qed

lemma votes_inv_count:
  assumes "votes_inv L K s V" "check_vote L sender i pk s = Inr ()"
  shows "votes_inv L K (count_vote sender (decision_key L i pk) s) (insert (kn_Index sender, i, pk) V)"
proof -
  let ?W = "insert (kn_Index sender, i, pk) V"
  have W: "V \<subseteq> ?W" "finite ?W" using assms(1) by (auto simp: votes_inv_def)
  have "votes_inv L K s ?W" by (rule votes_inv_mono [OF assms(1) W]) auto
  moreover have "kn_Index sender \<in> voters L ?W (decision_key L i pk)" by (auto simp: voters_def)
  ultimately show ?thesis using assms(2)
    by (auto simp: votes_inv_def count_vote_def check_vote_def split: option.splits if_splits)
qed

lemma votes_inv_decide:
  assumes "votes_inv L K s V" "map_option (\<lambda>d. int (length (kd_Nodes d))) (m_get (st_KeygenDecisions s) (decision_key L i pk)) = Some K"
  shows "votes_inv L K (decide_key i (decision_key L i pk) pk c x s) V"
proof -
  obtain d where d: "m_get (st_KeygenDecisions s) (decision_key L i pk) = Some d" "int (length (kd_Nodes d)) = K"
    using assms(2) by auto
  then have "card (set (kd_Nodes d)) = length (kd_Nodes d)" "set (kd_Nodes d) \<subseteq> voters L V (decision_key L i pk)" "finite V"
    using assms(1) by (auto simp: votes_inv_def distinct_card)
  then have "K \<le> int (card (voters L V (decision_key L i pk)))"
    using d(2) card_mono [OF finite_voters] by (metis of_nat_mono)
  then show ?thesis using assms(1)
    by (auto simp: votes_inv_def decide_key_def raise_created_def Let_def split: if_splits)
qed

lemma deliver_assignment_votes:
  assumes "deliver_assignment D J chain bftTx a w = Some (r, a', w')"
  shows "st_KeygenDecisions (ab_state a') = st_KeygenDecisions (ab_state a) \<and>
    (m_get (st_KeygenPubKeys (ab_state a')) i = Some k \<longrightarrow> m_get (st_KeygenPubKeys (ab_state a)) i = Some k)"
  using assms
  by (auto simp: deliver_assignment_def Let_def go_bind_eq_Some case_sum_eq case_prod_eq assignKey_def
      split: option.split_asm if_split_asm)

lemma deliver_vote_votes:
  assumes "votes_inv L K (ab_state a) V" "deliver_vote L J S bftTx sender K a w = Some (r, a', w')"
  shows "votes_inv L K (ab_state a') (V \<union> (case parse_vote L J bftTx of Inr (i, pk) \<Rightarrow> {(kn_Index sender, i, pk)} | Inl e \<Rightarrow> {}))"
    (is "votes_inv L K _ (V \<union> ?new)")
  using assms(2)
proof (cases rule: deliver_vote_outcome)
  case refused
  have "finite ?new" by (simp split: sum.split prod.split)
  then show ?thesis using refused assms(1) by (intro votes_inv_mono [OF assms(1)]) (auto simp: votes_inv_def)
next
  case (counted i pk)
  then show ?thesis using votes_inv_count [OF assms(1) counted(2)] by simp
next
  case (decided i pk x c)
  then show ?thesis using votes_inv_decide [OF votes_inv_count [OF assms(1) decided(3)] decided(4)] by simp
qed

lemma finite_votes_of [simp]: "finite (votes_of L J S tx w)"
  by (auto simp: votes_of_def split: option.split sum.split prod.split)

lemma DeliverTx_votes:
  assumes inv: "votes_inv L K (ab_state a) V" and run: "DeliverTx D L J S tx a w = Some (r, a', w')"
    and K: "\<And>epoch w info w'. ChainMethods_GetEpochInfo (sv_chain S) epoch False w = Some (Inr info, w') \<Longrightarrow> Int64 (ei_K info) = K"
  shows "votes_inv L K (ab_state a') (V \<union> votes_of L J S tx w)" (is "votes_inv L K _ ?W")
proof -
  have W: "V \<subseteq> ?W" "finite ?W" using inv by (auto simp: votes_inv_def)
  note mono = votes_inv_mono [OF inv W]
  from run show ?thesis
  proof (cases rule: DeliverTx_outcome)
    case rejected
    then show ?thesis using mono by simp
  next
    case (validated raw sender w1 v)
    from validated(2) show ?thesis
    proof (cases rule: Validate_outcome)
      case refused
      then show ?thesis using mono by simp
    next
      case (assignment w2)
      show ?thesis using deliver_assignment_votes [OF assignment] by (intro mono) auto
    next
      case (vote epoch w3 info w2)
      then show ?thesis using deliver_vote_votes [OF inv, of J S _ sender] K [OF vote(1)] validated(1)
        by (simp add: votes_of_def)
    qed
  qed
qed

lemma abci_run_votes:
  assumes "abci_run D L J S a V"
    and K: "\<And>epoch w info w'. ChainMethods_GetEpochInfo (sv_chain S) epoch False w = Some (Inr info, w') \<Longrightarrow> Int64 (ei_K info) = K"
  shows "votes_inv L K (ab_state a) V"
  using assms(1)
proof induction
  case (first_start a)
  then show ?case by (simp add: votes_inv_def zero_State_def)
next
  case (run_deliver a V tx w r a' w')
  then show ?case by (blast intro: DeliverTx_votes K)
next
  case (run_begin a V time)
  then show ?case by (auto intro: votes_inv_mono simp: BeginBlock_def votes_inv_def)
next
  case (run_commit a V h a')
  then show ?case by (auto simp: Commit_def go_bind_eq_Some Let_def dest: SaveState_state)
qed


section \<open>A small network\<close>

text \<open>Finite tables as codecs; services that answer for an epoch with threshold two, in which the
  length of a signature tells its node; two votes and an assignment.\<close>

definition table_codec :: "(bytes \<times> 'a) list \<Rightarrow> 'a codec" where
  "table_codec t = \<lparr>Marshal = map_of (map prod.swap t), Unmarshal = map_of t\<rparr>"

lemma table_codec_ok: "distinct (map fst t) \<Longrightarrow> codec_ok (table_codec t)"
  by (auto simp: codec_ok_def table_codec_def dest!: map_of_SomeD)

definition small_pk :: Point where "small_pk = \<lparr>pt_X = 5, pt_Y = 6\<rparr>"

definition small_asg :: AssignmentTx where
  "small_asg = \<lparr>at_Provider = ''p'', at_UserID = ''u'', at_AppID = ''a'', at_Curve = SECP256K1\<rparr>"

definition small_wrap :: "byte \<Rightarrow> bytes \<Rightarrow> bytes \<Rightarrow> DefaultBFTTxWrapper" where
  "small_wrap ty tx sig = \<lparr>bw_BFTTx = tx, bw_Nonce = 0, bw_PubKey = small_pk, bw_MsgType = ty, bw_Signature = sig\<rparr>"

definition small_json :: tmjson where
  "small_json =
     \<lparr>tj_state = table_codec [], tj_info = table_codec [], tj_bigs = table_codec [([1], [0])],
      tj_assignment = table_codec [([1], createKeyAssignment small_asg 0 small_pk)],
      tj_wrapper = table_codec [([1], small_wrap 2 [1] [0]), ([2], small_wrap 2 [1] [0, 0]), ([3], small_wrap 1 [1] [0])],
      tj_tx = table_codec [([1], small_asg)], tj_query = table_codec [],
      tj_message = table_codec [([1], CreateMessage gf_round ''key_derivation_pubkey_gen'' [1])]\<rparr>"

definition small_lib :: "(gf, gf) lib" where
  "small_lib = gf_lib\<lparr>bijson_Unmarshal := (\<lambda>_ _. Some (PubKeygen gf_round ''k'' SECP256K1 small_pk)),
     keccak256 := (\<lambda>_. replicate 32 0)\<rparr>"

definition small_chain :: "unit service" where
  "small_chain method args w =
     (Returns
        (if method = ''get_current_epoch'' then VInt 1
         else if method = ''get_epoch_info'' then VEpochInfo \<lparr>ei_Id = 1, ei_N = 3, ei_K = 2, ei_T = 1, ei_PrevEpoch = 0, ei_NextEpoch = 0\<rparr>
         else if method = ''verify_data_with_epoch'' then
           VDetails \<lparr>kn_Index = (case args of _ # VBytes sig # _ \<Rightarrow> int (length sig) | _ \<Rightarrow> 0), kn_PubKey = small_pk\<rparr>
         else VBool False) None, w)"

definition small_services :: "unit services" where
  "small_services = \<lparr>sv_chain = small_chain, sv_db = (\<lambda>_ _ w. (Returns Nil_iface None, w)),
     sv_keygen = (\<lambda>_ _ w. (Returns Nil_iface None, w))\<rparr>"

lemma small_json_laws: "tmjson_laws small_json"
  by (simp add: tmjson_laws_def small_json_def table_codec_ok, simp add: table_codec_def)

lemma small_chain_calls [simp]:
  "ChainMethods_GetCurrentEpoch (sv_chain small_services) w = Some (1, w)"
  "ChainMethods_GetEpochInfo (sv_chain small_services) e False w =
     Some (Inr \<lparr>ei_Id = 1, ei_N = 3, ei_K = 2, ei_T = 1, ei_PrevEpoch = 0, ei_NextEpoch = 0\<rparr>, w)"
  "ChainMethods_VerifyDataWithEpoch (sv_chain small_services) pk sig input e w =
     Some (Inr \<lparr>kn_Index = int (length sig), kn_PubKey = small_pk\<rparr>, w)"
  "ChainMethods_GetPartitionForApp (sv_chain small_services) app w = Some (Inr False, w)"
  by (simp_all add: ChainMethods_GetCurrentEpoch_def ChainMethods_GetEpochInfo_def ChainMethods_VerifyDataWithEpoch_def
      ChainMethods_GetPartitionForApp_def ask_def ServiceMethod_def small_services_def small_chain_def checked_def
      cast_only_def CastOrUnmarshal_def retry_or_fatal_def eval_nat_numeral)

lemma small_other_calls [simp]:
  "DBMethods_StorePublicKeyToIndex (sv_db small_services) pk i c w = Some (Inr (), w)"
  "KeygenMethods_Cleanup (sv_keygen small_services) k w = Some (Inr (), w)"
  by (simp_all add: DBMethods_StorePublicKeyToIndex_def KeygenMethods_Cleanup_def ask_def ServiceMethod_def
      small_services_def acknowledged_def)

definition small_decided :: State where
  "small_decided = zero_State\<lparr>st_LastCreatedIndex := 1,
     st_KeygenPubKeys := [(NewADKGID 0 SECP256K1, \<lparr>kp_ID = NewADKGID 0 SECP256K1, kp_Point = small_pk\<rparr>)]\<rparr>"

definition small_app :: "State \<Rightarrow> (bytes, bytes) gomap ABCI" where
  "small_app s = \<lparr>ab_db = [], ab_state = s, ab_prevState = s, ab_info = \<lparr>ai_Height = 0, ai_AppHash = []\<rparr>\<rparr>"

lemma small_find: "findUnassignedKey small_decided SECP256K1 = Inr (NewADKGID 0 SECP256K1, 0)"
  by (simp add: findUnassignedKey_def small_decided_def zero_State_def find_unassigned.simps [of _ _ 1] pubkey_of_def
      small_pk_def SECP256K1_def ED25519_def)

lemma small_decided_facts:
  "KeyAvailable SECP256K1 small_decided" "pubkey_of small_decided (NewADKGID 0 SECP256K1) = small_pk"
  "unassigned SECP256K1 small_decided = 0" "unassigned ED25519 small_decided = 0"
  by (simp_all add: small_decided_def KeyAvailable_def pubkey_of_def zero_State_def unassigned_def)

lemma findUnassignedKey_least_witness:
  "findUnassignedKey small_decided SECP256K1 = Inr (NewADKGID 0 SECP256K1, 0) \<and>
   has_key small_decided SECP256K1 0 \<and> 0 < created SECP256K1 small_decided"
  using findUnassignedKey_least [of small_decided SECP256K1 "NewADKGID 0 SECP256K1" 0] small_find by simp

lemma small_json_facts:
  "Unmarshal (tj_wrapper small_json) [1] = Some (small_wrap 2 [1] [0])"
  "Unmarshal (tj_wrapper small_json) [2] = Some (small_wrap 2 [1] [0, 0])"
  "Unmarshal (tj_wrapper small_json) [3] = Some (small_wrap 1 [1] [0])"
  "Unmarshal (tj_tx small_json) [1] = Some small_asg" "Marshal (tj_bigs small_json) [0] = Some [1]"
  "Marshal (tj_assignment small_json) (createKeyAssignment small_asg 0 small_pk) = Some [1]"
  "Unmarshal (tj_message small_json) [1] = Some (CreateMessage gf_round ''key_derivation_pubkey_gen'' [1])"
  by (simp_all add: small_json_def table_codec_def)

lemma small_assign:
  "\<exists>a1. DeliverTx mem_db small_lib small_json small_services [3] (small_app small_decided) () =
     Some ((CodeTypeOK, [(''assignment'', ''1'')]), a1, ())"
  by (simp add: DeliverTx_def authenticateBftTx_def ValidateAndUpdateAndTagBFTTx_def deliver_assignment_def
      small_json_facts small_wrap_def [of 1] small_app_def small_asg_def [THEN arg_cong, of at_Curve] small_find
      small_decided_facts getKeyAssignment_def GetAppKeyPartition_def retrieveVerifierToKeyIndex_def
      storeKeyMapping_def storeVerifierToKeyIndex_def mem_db_def Let_def)

theorem assignment_is_permanent_witness:
  "\<exists>a1. DeliverTx mem_db small_lib small_json small_services [3] (small_app small_decided) () =
      Some ((CodeTypeOK, [(''assignment'', ''1'')]), a1, ()) \<and>
    retrieveKeyMapping mem_db small_json 0 SECP256K1 (ab_db (BeginBlock 7 a1)) = Inr (createKeyAssignment small_asg 0 small_pk)"
proof -
  obtain a1 where a1: "DeliverTx mem_db small_lib small_json small_services [3] (small_app small_decided) () =
      Some ((CodeTypeOK, [(''assignment'', ''1'')]), a1, ())" using small_assign by blast
  have curve: "at_Curve small_asg = SECP256K1" by (simp add: small_asg_def)
  have "(abci_step mem_db small_lib small_json small_services)\<^sup>*\<^sup>* a1 (BeginBlock 7 a1)"
    by (blast intro: begin_block)
  from assignment_is_permanent [OF mem_db_laws small_json_laws _ _ a1 this] show ?thesis
    using a1 by (auto simp: small_app_def small_decided_facts small_json_facts small_wrap_def curve small_find)
qed

text \<open>Two nodes vote, and the key is decided.\<close>

definition small_voted :: State where
  "small_voted = count_vote \<lparr>kn_Index = 1, kn_PubKey = small_pk\<rparr> (decision_key small_lib gf_id small_pk) zero_State"

lemma small_vote_facts:
  "parse_vote small_lib small_json [1] = Inr (gf_id, small_pk)"
  by (simp add: parse_vote_def small_json_facts CreateMessage_def CreateDKGMessage_def small_lib_def gf_round_facts)

lemma small_vote1:
  "DeliverTx mem_db small_lib small_json small_services [1] (small_app zero_State) () =
     Some ((CodeTypeOK, []), (small_app zero_State)\<lparr>ab_state := small_voted\<rparr>, ())"
  by (simp add: DeliverTx_def authenticateBftTx_def ValidateAndUpdateAndTagBFTTx_def deliver_vote_def
      small_json_facts small_wrap_def [of 2] small_vote_facts gf_round_facts small_app_def small_voted_def check_vote_def
      zero_State_def count_vote_def Let_def Int64_def)

lemma small_vote2:
  "DeliverTx mem_db small_lib small_json small_services [2] ((small_app zero_State)\<lparr>ab_state := small_voted\<rparr>) () =
     Some ((CodeTypeOK, []), (small_app zero_State)\<lparr>ab_state := decide_key gf_id (decision_key small_lib gf_id small_pk)
       small_pk SECP256K1 1 (count_vote \<lparr>kn_Index = 2, kn_PubKey = small_pk\<rparr> (decision_key small_lib gf_id small_pk) small_voted)\<rparr>, ())"
  by (simp add: DeliverTx_def authenticateBftTx_def ValidateAndUpdateAndTagBFTTx_def deliver_vote_def
      small_json_facts small_wrap_def [of 2] small_vote_facts gf_round_facts small_app_def small_voted_def check_vote_def
      zero_State_def count_vote_def Let_def Int64_def)


section \<open>A block starts a bounded number of key generations\<close>

lemma MinOf_pair: "MinOf [x, y] = Some (min x y)"
  by (simp add: MinOf_def go_index_def)

lemma upto_below: "e \<le> b \<Longrightarrow> e \<le> c + m \<Longrightarrow> set [c..e - 1] \<subseteq> {c..<b} \<and> length [c..e - 1] \<le> nat m"
  by auto


section \<open>A restart continues from the last block\<close>

lemma read_keys_differ: "stateKey \<noteq> appInfoKey" "appInfoKey \<noteq> stateKey"
  by (simp_all add: abci_prefix_defs string_bytes_def)

text \<open>
  C33. A restart continues from the last committed block: when the writes succeed, the process
  that starts on the database \<open>Commit\<close> left has the committed state as its current and its
  previous state, up to the block time, which is not saved, and reports to the consensus engine
  the height and the hash that \<open>Commit\<close> answered.
\<close>

theorem commit_restart:
  assumes "leveldb_laws D" "tmjson_laws J" "\<And>d k v. ldb_Put D d k v \<noteq> None"
    and "Commit D L J a = Some (h, a1)"
  shows "NewABCI D J (ab_db a1) = Some (a1\<lparr>ab_state := ab_prevState a1\<rparr>) \<and>
    ab_prevState a1 = (ab_state a)\<lparr>st_BlockTime := 0\<rparr> \<and> Info a1 = (h, ai_Height (ab_info a) + 1)"
proof -
  let ?info = "\<lparr>ai_Height = ai_Height (ab_info a) + 1, ai_AppHash = h\<rparr>"
  from assms(4) obtain b a0 p where b: "Marshal (tj_state J) (ab_state a) = Some b" "h = keccak256 L b"
      "SaveState D J (a\<lparr>ab_info := ?info\<rparr>) = Some a0" "Unmarshal (tj_state J) b = Some p" "a1 = a0\<lparr>ab_prevState := p\<rparr>"
    by (auto simp: Commit_def go_bind_eq_Some Let_def)
  obtain d1 where d1: "ldb_Put D (ab_db a) stateKey b = Some d1" using assms(3) by (meson option.exhaust)
  from b(3) obtain ib where ib: "Marshal (tj_info J) ?info = Some ib"
    by (auto simp: SaveState_def b(1) go_bind_eq_Some Let_def)
  obtain d2 where d2: "ldb_Put D d1 appInfoKey ib = Some d2" using assms(3) by (meson option.exhaust)
  have a0: "a0 = a\<lparr>ab_info := ?info, ab_db := d2\<rparr>" using b(3) by (simp add: SaveState_def b(1) d1 ib d2)
  have rd: "ldb_Get D d2 stateKey = Some (Some b)" "ldb_Get D d2 appInfoKey = Some (Some ib)"
    using Put_same [OF assms(1) d1] Put_other [OF assms(1) d2 read_keys_differ(1)] Put_same [OF assms(1) d2] by simp_all
  have un: "b \<noteq> []" "Unmarshal (tj_state J) b = Some ((ab_state a)\<lparr>st_BlockTime := 0\<rparr>)" "Unmarshal (tj_info J) ib = Some ?info"
    using assms(2) b(1) ib by (auto simp: tmjson_laws_def codec_ok_def)
  show ?thesis using rd un b(4,5) by (simp add: NewABCI_def LoadState_def a0 Info_def Let_def)
qed

definition small_commit_json :: tmjson where
  "small_commit_json = small_json\<lparr>tj_state := \<lparr>Marshal = (\<lambda>s. if s = zero_State then Some [1] else None),
       Unmarshal = (\<lambda>b. if b = [1] then Some zero_State else None)\<rparr>,
     tj_info := table_codec [([2], \<lparr>ai_Height = 1, ai_AppHash = replicate 32 0\<rparr>)]\<rparr>"

theorem commit_restart_witness:
  "\<exists>a1. Commit mem_db small_lib small_commit_json (small_app zero_State) = Some (replicate 32 0, a1) \<and>
    NewABCI mem_db small_commit_json (ab_db a1) = Some (a1\<lparr>ab_state := ab_prevState a1\<rparr>) \<and>
    Info a1 = (replicate 32 0, 1)"
proof -
  have J: "tmjson_laws small_commit_json"
    using small_json_laws
    by (auto simp: tmjson_laws_def small_commit_json_def table_codec_ok zero_State_def split: if_splits)
  obtain a1 where a1: "Commit mem_db small_lib small_commit_json (small_app zero_State) = Some (replicate 32 0, a1)"
    by (simp add: Commit_def small_commit_json_def small_app_def small_lib_def SaveState_def table_codec_def Let_def)
  show ?thesis
    using commit_restart [OF mem_db_laws J _ a1] a1 by (auto simp: mem_db_def small_app_def)
qed

end
