(* ===== verification/RpcTheorems.thy ===== *)
theory RpcTheorems
  imports Rpc AbciTheorems
begin

text \<open>
  What the requests of users guarantee: a token is committed to once, a share is released only
  for a token that a threshold of signatures commits to; and what they do not: the signatures
  need not be of different nodes.
\<close>

section \<open>Commitment data\<close>

lemma Split_no_delimiter: "x \<in> set (Split s d) \<Longrightarrow> d \<notin> set x"
proof (induction s arbitrary: x)
  case (Cons c s)
  then show ?case by (cases "Split s d") (auto split: if_splits)
qed simp

lemma FromString_ToString:
  assumes "\<forall>x \<in> {crd_MessagePrefix c, crd_TokenCommitment c, crd_TempPubX c, crd_TempPubY c,
    crd_VerifierIdentifier c, crd_TimeSigned c}. Delimiter1 \<notin> set x"
  shows "CommitmentRequestResultData_FromString (CommitmentRequestResultData_ToString c) = Inr c"
  using assms by (simp add: CommitmentRequestResultData_FromString_def CommitmentRequestResultData_ToString_def
      Split_append_sep Split_no_sep)

lemma FromString_fields:
  assumes "CommitmentRequestResultData_FromString s = Inr c"
  shows "Delimiter1 \<notin> set (crd_MessagePrefix c)" "Delimiter1 \<notin> set (crd_TokenCommitment c)"
    "Delimiter1 \<notin> set (crd_VerifierIdentifier c)"
proof -
  obtain rest where "Split s Delimiter1 = [crd_MessagePrefix c, crd_TokenCommitment c, crd_TempPubX c, crd_TempPubY c,
      crd_VerifierIdentifier c, crd_TimeSigned c] @ rest"
    using assms by (auto simp: CommitmentRequestResultData_FromString_def split: list.split_asm)
  then show "Delimiter1 \<notin> set (crd_MessagePrefix c)" "Delimiter1 \<notin> set (crd_TokenCommitment c)"
    "Delimiter1 \<notin> set (crd_VerifierIdentifier c)"
    by (auto intro!: Split_no_delimiter [of _ s])
qed

lemma Split_common_data:
  "Split (common_data s) Delimiter1 =
     (case CommitmentRequestResultData_FromString (ns_Data s) of
        Inr c \<Rightarrow> [crd_MessagePrefix c, crd_TokenCommitment c, crd_VerifierIdentifier c] | Inl e \<Rightarrow> [[], [], []])"
  using FromString_fields [of "ns_Data s"]
  by (auto simp: common_data_def Split_append_sep Split_no_sep split: sum.splits)

section \<open>The threshold of signatures\<close>

lemma length_filter_mono: "(\<And>x. P x \<Longrightarrow> Q x) \<Longrightarrow> length (filter P xs) \<le> length (filter Q xs)"
  by (induction xs) auto

lemma valid_signatures_subseq:
  "valid_signatures E nl sigs = Some vs \<Longrightarrow>
   map fst vs = filter (\<lambda>s. \<exists>node. NodeValidation E nl s = Some (Inr node)) sigs"
proof (induction sigs arbitrary: vs)
  case (Cons s sigs)
  obtain r where r: "NodeValidation E nl s = Some r" using Cons.prems by (auto simp: go_bind_eq_Some)
  then show ?case using Cons by (cases r) (auto simp: go_bind_eq_Some)
qed simp

text \<open>What a signature of a node vouches for.\<close>

definition vouches :: "ecdsa \<Rightarrow> NodeReference list \<Rightarrow> string \<Rightarrow> string \<Rightarrow> NodeSignature \<Rightarrow> bool" where
  "vouches E nl token verifier s \<longleftrightarrow> (\<exists>node c. NodeValidation E nl s = Some (Inr node) \<and>
     CommitmentRequestResultData_FromString (ns_Data s) = Inr c \<and>
     crd_TokenCommitment c = token \<and> crd_VerifierIdentifier c = verifier)"

lemma check_signatures_sound:
  assumes "check_signatures L E nl K sigs = Some (Inr (token, verifier))" "token \<noteq> []"
  shows "K \<le> int (length (filter (vouches E nl token verifier) sigs))"
proof -
  from assms(1) obtain vs p where vs: "valid_signatures E nl sigs = Some vs"
    and sp: "Split (pick_common L (count_common vs)) Delimiter1 = [p, token, verifier]"
    and K: "K \<le> int (length (filter (\<lambda>(s, _). common_data s = pick_common L (count_common vs)) vs))"
    by (auto simp: check_signatures_def go_bind_eq_Some Let_def split: if_split_asm list.split_asm)
  let ?P = "\<lambda>s. common_data s = pick_common L (count_common vs)"
  have "length (filter (\<lambda>(s, _). ?P s) vs) = length (filter ?P (map fst vs))"
    by (simp add: filter_map o_def case_prod_unfold)
  also have "\<dots> \<le> length (filter (vouches E nl token verifier) sigs)"
    unfolding valid_signatures_subseq [OF vs] filter_filter
  proof (rule length_filter_mono)
    fix s assume s: "(\<exists>node. NodeValidation E nl s = Some (Inr node)) \<and> common_data s = pick_common L (count_common vs)"
    then show "vouches E nl token verifier s"
      using sp assms(2) Split_common_data [of s]
      by (cases "CommitmentRequestResultData_FromString (ns_Data s)") (auto simp: vouches_def)
  qed
  finally show ?thesis using K by linarith
qed

text \<open>
  What entitles an item of a request to the shares of keys \<open>is\<close> of a curve, encrypted to \<open>pk\<close>:
  the verifier accepted the message for the item as one of \<open>user\<close>, at least \<open>K\<close> of its signatures
  are valid and vouch for the hash of the token at one verifier, the application assigned \<open>is\<close> to
  the user of that verifier, and \<open>pk\<close> is the key this node recorded with the hash of the token.
\<close>

definition item_message :: "rpcjson \<Rightarrow> 'w rpc_services \<Rightarrow> bytes \<Rightarrow> ShareRequestItem \<Rightarrow> bool \<Rightarrow> bytes \<Rightarrow> bool" where
  "item_message R S raw item partitioned b \<longleftrightarrow>
     (\<exists>w w'. GetAppKeyPartition (rs_chain S) (sr_AppID item) w = Some (Inr partitioned, w')) \<and>
     (if partitioned then \<exists>j. Unmarshal (rj_object R) raw = Some j \<and> Marshal (rj_object R) (m_del j ''nodesignatures'') = Some b
      else rj_generic R \<lparr>gv_Token = sr_IDToken item, gv_Provider = ''global_key_proxy'', gv_UserID = sr_UserID item,
             gv_AppID = sr_AppID item\<rparr> = Some b)"

definition entitled ::
  "rpcjson \<Rightarrow> ecdsa \<Rightarrow> 'w rpc_services \<Rightarrow> NodeReference list \<Rightarrow> int \<Rightarrow> bytes \<Rightarrow> CurveName \<Rightarrow> int list \<Rightarrow> Point \<Rightarrow> bool" where
  "entitled R E S nl K raw curve is pk \<longleftrightarrow> (\<exists>item user clean verifier token.
     rj_item R raw = Some item \<and> curve = sr_Curve item \<and>
     (\<exists>p b w w'. item_message R S raw item p b \<and> VerifierMethods_Verify (rs_verifier S) b w = Some (Inr (True, user), w')) \<and>
     (\<exists>w w'. VerifierMethods_CleanToken (rs_verifier S) verifier (sr_IDToken item) w = Some (Inr clean, w')) \<and>
     token = hex_EncodeToString (ec_Keccak256 E (string_bytes clean)) \<and>
     K \<le> int (length (filter (vouches E nl token verifier) (sr_NodeSignatures item))) \<and>
     (\<exists>w w'. ABCIMethods_GetIndexesFromVerifierID (rs_abci S) verifier user (sr_AppID item) curve w = Some (Inr is, w')) \<and>
     (\<exists>w w'. CacheMethods_GetTokenCommitKey (rs_cache S) verifier token w = Some (pk, w')))"

lemma verify_item_verified:
  assumes "verify_item R S item red p w = Some (Inr user, w')"
    and "GetAppKeyPartition (rs_chain S) (sr_AppID item) v = Some (Inr p, v')"
    and "Unmarshal (rj_object R) raw = Some j" "Marshal (rj_object R) (m_del j ''nodesignatures'') = Some red"
  shows "\<exists>p b w w'. item_message R S raw item p b \<and> VerifierMethods_Verify (rs_verifier S) b w = Some (Inr (True, user), w')"
proof -
  from assms(1) obtain b r w1 where b: "(if p then Some red
      else rj_generic R \<lparr>gv_Token = sr_IDToken item, gv_Provider = ''global_key_proxy'', gv_UserID = sr_UserID item,
             gv_AppID = sr_AppID item\<rparr>) = Some b"
    and run: "VerifierMethods_Verify (rs_verifier S) b w = Some (r, w1)"
    "(case r of Inl e \<Rightarrow> Inl (RpcError (- 32602) (''Error occurred while verifying params: '' @ e))
      | Inr (verified, userID) \<Rightarrow> if \<not> verified then Inl (RpcError (- 32602) ''Could not verify params'') else Inr userID) = Inr user"
    by (auto simp: verify_item_def go_bind_eq_Some split: option.split_asm)
  from run have "VerifierMethods_Verify (rs_verifier S) b w = Some (Inr (True, user), w1)"
    by (cases r) (auto split: if_splits)
  moreover have "item_message R S raw item p b"
    using b assms(2-4) by (auto simp: item_message_def split: if_splits)
  ultimately show ?thesis by blast
qed

lemma token_nonempty: "ecdsa_laws E \<Longrightarrow> hex_EncodeToString (ec_Keccak256 E b) \<noteq> []"
  unfolding ecdsa_laws_def
  by (metis length_hex list.size(3) mult_is_0 zero_neq_numeral)

lemma share_item_entitled:
  assumes "ecdsa_laws E" "share_item L R E S nl K raw w = Some (Inr (curve, is, pk), w')"
  shows "entitled R E S nl K raw curve is pk"
proof -
  from assms(2) obtain item jsonMap red where item: "rj_item R raw = Some item"
    "Unmarshal (rj_object R) raw = Some jsonMap" "Marshal (rj_object R) (m_del jsonMap ''nodesignatures'') = Some red"
    by (auto simp: share_item_def split: option.split_asm)
  note run = assms(2) [unfolded share_item_def item option.case]
  from run obtain p w1 where p: "GetAppKeyPartition (rs_chain S) (sr_AppID item) w = Some (Inr p, w1)"
    by (auto simp: go_bind_eq_Some case_sum_eq)
  with run obtain user w2 where v: "verify_item R S item red p w1 = Some (Inr user, w2)"
    by (auto simp: go_bind_eq_Some case_sum_eq)
  with run p obtain token verifier where c: "check_signatures L E nl K (sr_NodeSignatures item) = Some (Inr (token, verifier))"
    by (auto simp: go_bind_eq_Some case_sum_eq)
  with run p v obtain clean w3 where t: "VerifierMethods_CleanToken (rs_verifier S) verifier (sr_IDToken item) w2 = Some (Inr clean, w3)"
    by (auto simp: go_bind_eq_Some case_sum_eq)
  note run' = run [simplified p v c t, simplified p v c t, simplified]
  have h: "hex_EncodeToString (ec_Keccak256 E (string_bytes clean)) = token"
    using run' by (auto simp: p v c t split: if_splits)
  with run' obtain w4 where a: "ABCIMethods_GetIndexesFromVerifierID (rs_abci S) verifier user (sr_AppID item) (sr_Curve item) w3 = Some (Inr is, w4)"
    and k: "CacheMethods_GetTokenCommitKey (rs_cache S) verifier token w4 = Some (pk, w')" and cv: "curve = sr_Curve item"
    by (auto simp: p v c t go_bind_eq_Some case_sum_eq)
  have K: "K \<le> int (length (filter (vouches E nl token verifier) (sr_NodeSignatures item)))"
    using check_signatures_sound [OF c] token_nonempty [OF assms(1)] h by metis
  have ex: "\<exists>w w'. VerifierMethods_CleanToken (rs_verifier S) verifier (sr_IDToken item) w = Some (Inr clean, w')"
    "\<exists>w w'. ABCIMethods_GetIndexesFromVerifierID (rs_abci S) verifier user (sr_AppID item) (sr_Curve item) w = Some (Inr is, w')"
    "\<exists>w w'. CacheMethods_GetTokenCommitKey (rs_cache S) verifier token w = Some (pk, w')"
    using t a k by auto
  show ?thesis
    unfolding entitled_def cv
    by (rule exI [of _ item], rule exI [of _ user], rule exI [of _ clean], rule exI [of _ verifier], rule exI [of _ token])
      (intro conjI item(1) refl verify_item_verified [OF v p item(2,3)] ex h [symmetric] K)
qed

lemma snd_m_set: "snd ` set (m_set m k v) \<subseteq> insert v (snd ` set m)"
  by (induction m) auto

lemma snd_fold_set: "snd ` set (foldl (\<lambda>m i. m_set m (f i) i) m ks) \<subseteq> snd ` set m \<union> set ks"
proof (induction ks arbitrary: m)
  case (Cons i ks)
  have "snd ` set (foldl (\<lambda>m i. m_set m (f i) i) (m_set m (f i) i) ks) \<subseteq> snd ` set (m_set m (f i) i) \<union> set ks"
    by (rule Cons.IH)
  also have "\<dots> \<subseteq> snd ` set m \<union> set (i # ks)" using snd_m_set [where m = m and k = "f i" and v = i] by auto
  finally show ?case by simp
qed simp

lemma share_items_entitled:
  assumes "ecdsa_laws E"
  shows "share_items L R E S nl K items (c0, m0, p0) w = Some (Inr (c, m, p), w') \<Longrightarrow>
    snd ` set m \<subseteq> snd ` set m0 \<union> {i. \<exists>raw \<in> set items. \<exists>c is p. entitled R E S nl K raw c is p \<and> i \<in> set is} \<and>
    (if items = [] then (c, m, p) = (c0, m0, p0) else \<exists>is. entitled R E S nl K (last items) c is p)"
proof (induction items arbitrary: c0 m0 p0 w)
  case (Cons raw items)
  then obtain c1 "is" p1 w1 where r: "share_item L R E S nl K raw w = Some (Inr (c1, is, p1), w1)"
    and rest: "share_items L R E S nl K items (c1, foldl (\<lambda>m i. m_set m (big_Text i 16) i) m0 is, p1) w1 = Some (Inr (c, m, p), w')"
    by (auto simp: go_bind_eq_Some case_sum_eq)
  have e: "entitled R E S nl K raw c1 is p1" by (rule share_item_entitled [OF assms r])
  have "snd ` set m \<subseteq> snd ` set m0 \<union> {i. \<exists>raw \<in> set (raw # items). \<exists>c is p. entitled R E S nl K raw c is p \<and> i \<in> set is}"
    using conjunct1 [OF Cons.IH [OF rest]] snd_fold_set [where f = "\<lambda>i. big_Text i 16" and m = m0 and ks = "is"] e
    by (simp del: foldl_Cons) blast
  then show ?case using Cons.IH [OF rest] e by (auto split: if_splits)
qed simp

lemma handler_releases:
  assumes "ecdsa_laws E" "KeyShareRequestHandler L R E S rnd params w = Some (Inr (key # keys), w')"
  shows "\<exists>epoch w1 info w2 nl w3 w4 items index raw c is p curve is' pk wd si si' wd' enc.
    ChainMethods_GetEpochInfo (rs_chain S) epoch False w1 = Some (Inr info, w2) \<and>
    ChainMethods_AwaitCompleteNodeList (rs_chain S) epoch w3 = Some (nl, w4) \<and>
    rj_shares R params = Inr items \<and> raw \<in> set items \<and>
    entitled R E S nl (Int64 (ei_K info)) raw c is p \<and> index \<in> set is \<and>
    entitled R E S nl (Int64 (ei_K info)) (last items) curve is' pk \<and>
    DBMethods_RetrieveCompletedShare (rs_db S) index curve wd = Some (Inr (si, si'), wd') \<and>
    tron_Encrypt L (''04'' @ pad64 (big_Text (pt_X pk) 16) @ pad64 (big_Text (pt_Y pk) 16)) (big_Bytes si) rnd =
      Some (enc, sri_Metadata key) \<and> sri_Share key = string_bytes enc \<and> keys = []"
proof -
  from assms(2) obtain epoch w1 info w2 items nl w3 curve m pk w4 index js a where
    info: "ChainMethods_GetEpochInfo (rs_chain S) epoch False w1 = Some (Inr info, w2)"
    and items: "rj_shares R params = Inr items"
    and nl: "ChainMethods_AwaitCompleteNodeList (rs_chain S) epoch w2 = Some (nl, w3)"
    and loop: "share_items L R E S nl (Int64 (ei_K info)) items (SECP256K1, [], zero_Point) w3 = Some (Inr (curve, m, pk), w4)"
    and index: "sort (map snd m) = index # js"
    and rel: "release_share L S rnd curve index pk w4 = Some (Inr key, w')" and keys: "keys = []"
    by (auto simp: KeyShareRequestHandler_def go_bind_eq_Some case_sum_eq case_list_eq case_prod_eq Let_def)
  from rel obtain wd si si' enc where
    db: "DBMethods_RetrieveCompletedShare (rs_db S) index curve wd = Some (Inr (si, si'), w')"
    and enc: "tron_Encrypt L (''04'' @ pad64 (big_Text (pt_X pk) 16) @ pad64 (big_Text (pt_Y pk) 16)) (big_Bytes si) rnd =
      Some (enc, sri_Metadata key)" "sri_Share key = string_bytes enc"
    by (auto simp: release_share_def go_bind_eq_Some case_sum_eq case_option_eq Let_def)
  have "index \<in> set (map snd m)" using index by (metis list.set_intros(1) set_sort)
  then obtain raw c "is" p where e: "raw \<in> set items" "entitled R E S nl (Int64 (ei_K info)) raw c is p" "index \<in> set is"
    using share_items_entitled [OF assms(1) loop] by auto
  obtain is' where l: "entitled R E S nl (Int64 (ei_K info)) (last items) curve is' pk"
    using share_items_entitled [OF assms(1) loop] e(1) by (auto split: if_splits)
  show ?thesis by (intro exI conjI) (rule info nl items e l db enc keys)+
qed


section \<open>One signature is enough\<close>

lemma valid_signatures_replicate:
  assumes "NodeValidation E nl s = Some (Inr node)" "nr_Index node = Some i"
  shows "valid_signatures E nl (replicate n s) = Some (replicate n (s, i))"
  using assms by (induction n) simp_all

lemma count_common_replicate:
  "0 < n \<Longrightarrow> count_common (replicate n (s, i)) = [(common_data s, int n)]"
proof (induction n)
  case (Suc n)
  have "replicate (Suc n) (s, i) = replicate n (s, i) @ [(s, i)]" by (simp add: replicate_append_same)
  then show ?case using Suc by (cases "n = 0") (simp_all add: count_common_def m_zero_def)
qed simp

lemma singleton_list: "set xs = {x} \<Longrightarrow> distinct xs \<Longrightarrow> xs = [x]"
proof (cases xs)
  case (Cons a l)
  moreover assume "set xs = {x}" "distinct xs"
  ultimately have "set l \<subseteq> {x}" "x \<notin> set l" "a = x" by auto
  then show ?thesis using Cons by (cases l) auto
qed simp

text \<open>
  C36. The signatures of a share request need not be of different nodes: one valid signature of one
  node, repeated as often as the threshold asks for, passes the check of the threshold.
\<close>

theorem repeated_signature_passes:
  assumes "range_laws L" "0 < K" "NodeValidation E nl s = Some (Inr node)" "nr_Index node = Some i"
    and "CommitmentRequestResultData_FromString (ns_Data s) = Inr c"
  shows "check_signatures L E nl K (replicate (nat K) s) = Some (Inr (crd_TokenCommitment c, crd_VerifierIdentifier c))"
proof -
  have n: "0 < nat K" "int (nat K) = K" using assms(2) by simp_all
  have "range_str L [common_data s] = [common_data s]"
    using assms(1) by (intro singleton_list) (simp_all add: range_laws_def)
  then have "pick_common L (count_common (replicate (nat K) (s, i))) = common_data s"
    using assms(2) by (simp add: count_common_replicate [OF n(1)] pick_common_def m_zero_def)
  then show ?thesis
    using Split_common_data [of s] assms(2,5)
    by (simp add: check_signatures_def valid_signatures_replicate [OF assms(3,4)] Let_def)
qed

section \<open>A token is committed to once\<close>

text \<open>The services at a time, with the cache beside the rest of the world.\<close>

definition at_time ::
  "'c gocache \<Rightarrow> int \<Rightarrow> ('c CacheService \<times> 'x) rpc_services \<Rightarrow> ('c CacheService \<times> 'x) rpc_services" where
  "at_time C now S = S\<lparr>rs_cache := (\<lambda>m args (c, x). case cache_Call C now m args c of (r, c') \<Rightarrow> (r, (c', x)))\<rparr>"

lemma at_time_cache:
  "CacheMethods_TokenCommitExists (rs_cache (at_time C now S)) v t (c, x) =
     Some (fst (tokenCommitExists C now v t c), (snd (tokenCommitExists C now v t c), x))"
  "CacheMethods_RecordTokenCommit (rs_cache (at_time C now S)) v t p (c, x) = Some (recordTokenCommit C now v t p c, x)"
proof -
  obtain e c' where e: "tokenCommitExists C now v t c = (e, c')" by (cases "tokenCommitExists C now v t c")
  have "cache_Call C now ''token_commit_exists'' [VString v, VString t] c = (Returns (VBool e) None, c')"
    by (simp add: cache_Call_def arg_def e)
  then have "ask (checked bool_of) (rs_cache (at_time C now S)) ''token_commit_exists'' [VString v, VString t] (c, x) =
      Some (Inr e, (c', x))"
    by (simp add: ask_def ServiceMethod_def at_time_def checked_def)
  then show "CacheMethods_TokenCommitExists (rs_cache (at_time C now S)) v t (c, x) =
     Some (fst (tokenCommitExists C now v t c), (snd (tokenCommitExists C now v t c), x))"
    unfolding CacheMethods_TokenCommitExists_def e fst_conv snd_conv by (rule retry_first)
  have "cache_Call C now ''record_token_commit'' [VString v, VString t, VPoint p] c =
      (Returns Nil_iface None, recordTokenCommit C now v t p c)"
    by (simp add: cache_Call_def arg_def)
  then show "CacheMethods_RecordTokenCommit (rs_cache (at_time C now S)) v t p (c, x) = Some (recordTokenCommit C now v t p c, x)"
    by (simp add: CacheMethods_RecordTokenCommit_def logged_def ask_def ServiceMethod_def at_time_def acknowledged_def)
qed

lemma self_keys_keep:
  assumes "spares_fst s"
  shows "ChainMethods_GetSelfPrivateKey s w = Some (k, w') \<Longrightarrow> fst w' = fst w"
    and "ChainMethods_GetSelfPublicKey s w = Some (pk, w') \<Longrightarrow> fst w' = fst w"
  unfolding ChainMethods_GetSelfPrivateKey_def ChainMethods_GetSelfPublicKey_def
  using retry_invariant [where P = "\<lambda>w'. fst w' = fst w"] ask_spares [OF assms] by metis+

text \<open>A token commitment found until a time, and what a request does to it.\<close>

definition found_until :: "'c gocache \<Rightarrow> string \<Rightarrow> string \<Rightarrow> int \<Rightarrow> int \<Rightarrow> 'c CacheService \<Rightarrow> bool" where
  "found_until C v t now until c \<longleftrightarrow>
     (\<forall>time. now \<le> time \<and> time \<le> until \<longrightarrow> gc_Get C (tokens_of C v c) time t \<noteq> None)"

lemma request_outcome:
  assumes "spares_fst (rs_chain S)"
    and "KeyCommitmentRequestHandler R E (at_time C now S) now params (c, x) = Some (r, (c', x'))"
  obtains (refused) e where "r = Inl e" "tokens_of C v c' = tokens_of C v c"
  | (recorded) p q where "rj_commit R params = Inr p"
      "gc_Get C (tokens_of C (crp_VerifierIdentifier p) c) now (crp_TokenCommitment p) = None"
      "tokens_of C v c' = tokens_of C v (recordTokenCommit C now (crp_VerifierIdentifier p) (crp_TokenCommitment p) q c)"
proof (cases "rj_commit R params")
  case (Inl e)
  then show ?thesis using assms(2) refused by (auto simp: KeyCommitmentRequestHandler_def)
next
  case (Inr p)
  let ?v = "crp_VerifierIdentifier p" and ?t = "crp_TokenCommitment p"
  have chain: "rs_chain (at_time C now S) = rs_chain S" by (simp add: at_time_def)
  note run = assms(2) [unfolded KeyCommitmentRequestHandler_def Inr sum.case at_time_cache go_bind_Some prod.case]
  show ?thesis
  proof (cases "crp_MessagePrefix p = ''arc00'' \<and> \<not> fst (tokenCommitExists C now ?v ?t c)")
    case False
    then obtain e where "r = Inl e" "c' = c \<or> c' = snd (tokenCommitExists C now ?v ?t c)"
      using run by (cases "crp_MessagePrefix p = ''arc00''") auto
    then show ?thesis by (intro refused) (auto simp: tokenCommitExists_def Let_def)
  next
    case True
    then obtain a b k w1 pk w2 where w: "ChainMethods_GetSelfPrivateKey (rs_chain S)
          (recordTokenCommit C now ?v ?t \<lparr>pt_X = a, pt_Y = b\<rparr> (snd (tokenCommitExists C now ?v ?t c)), x) = Some (k, w1)"
        "ChainMethods_GetSelfPublicKey (rs_chain S) w1 = Some (pk, w2)" "(c', x') = w2"
      using run by (auto simp: at_time_cache chain go_bind_eq_Some Let_def)
    have "c' = recordTokenCommit C now ?v ?t \<lparr>pt_X = a, pt_Y = b\<rparr> (snd (tokenCommitExists C now ?v ?t c))"
      using self_keys_keep(1) [OF assms(1) w(1)] self_keys_keep(2) [OF assms(1) w(2)] w(3) by auto
    then show ?thesis using True
      by (intro recorded [OF Inr]) (auto simp: tokenCommitExists_def Let_def tokens_of_record)
  qed
qed

lemma request_keeps_found:
  assumes "gocache_laws C" "spares_fst (rs_chain S)" "found_until C v t time until c" "time \<le> now"
    and "KeyCommitmentRequestHandler R E (at_time C now S) now params (c, x) = Some (r, (c', x'))"
  shows "found_until C v t now until c'"
  using assms(2,5)
proof (cases rule: request_outcome [where v = v])
  case (refused e)
  then show ?thesis using assms(3,4) by (auto simp: found_until_def)
next
  case (recorded p q)
  show ?thesis
    unfolding found_until_def recorded(3) tokens_of_record
    using recorded(2) assms(3,4) by (auto simp: found_until_def gocache_Set [OF assms(1)])
qed

inductive commit_steps ::
  "'c gocache \<Rightarrow> rpcjson \<Rightarrow> ecdsa \<Rightarrow> ('c CacheService \<times> 'x) rpc_services \<Rightarrow> int \<Rightarrow> 'c CacheService \<times> 'x \<Rightarrow> int \<Rightarrow> 'c CacheService \<times> 'x \<Rightarrow> bool"
  for C R E S time w where
  commit_start: "commit_steps C R E S time w time w"
| commit_next: "commit_steps C R E S time w time' w' \<Longrightarrow> time' \<le> now \<Longrightarrow>
    KeyCommitmentRequestHandler R E (at_time C now S) now params w' = Some (r, w'') \<Longrightarrow> commit_steps C R E S time w now w''"

text \<open>
  C13. A node commits to a token once. After it has signed a commitment to a token, it refuses
  every request to commit to the same token at the same verifier for ninety minutes, whatever
  other requests it serves in between, one after the other; so that nobody who learns the token
  later can have the shares encrypted to another key. (The check and the record are two calls of
  the cache service, so that of two requests served at the same time both may pass.)
\<close>

theorem token_committed_once:
  assumes "gocache_laws C" "spares_fst (rs_chain S)"
    and "KeyCommitmentRequestHandler R E (at_time C time S) time params w = Some (Inr res, w1)"
    and "commit_steps C R E S time w1 time' w2" "time' \<le> now" "now \<le> time + 5400"
    and "rj_commit R params = Inr p" "rj_commit R params' = Inr p'"
    and "crp_TokenCommitment p' = crp_TokenCommitment p" "crp_VerifierIdentifier p' = crp_VerifierIdentifier p"
  shows "\<exists>e w3. KeyCommitmentRequestHandler R E (at_time C now S) now params' w2 = Some (Inl e, w3)"
proof -
  let ?v = "crp_VerifierIdentifier p" and ?t = "crp_TokenCommitment p"
  obtain c x c1 x1 c2 x2 where w: "w = (c, x)" "w1 = (c1, x1)" "w2 = (c2, x2)" by (metis surj_pair)
  have "found_until C ?v ?t time (time + 5400) c1"
    using assms(2) assms(3) [unfolded w]
    by (cases rule: request_outcome [where v = ?v])
      (use assms(7) in \<open>auto simp: found_until_def tokens_of_record gocache_Set [OF assms(1)]\<close>)
  with assms(4) have "found_until C ?v ?t time' (time + 5400) (fst w2)" unfolding w(2)
  proof (induction rule: commit_steps.induct)
    case (commit_next time' w' now params r w'')
    then show ?case using request_keeps_found [OF assms(1,2)] by (metis prod.collapse)
  qed simp
  then have "fst (tokenCommitExists C now ?v ?t c2)"
    using assms(5,6) w(3) by (auto simp: found_until_def tokenCommitExists_def Let_def)
  then show ?thesis
    using assms(8-10) by (auto simp: KeyCommitmentRequestHandler_def w(3) at_time_cache)
qed

section \<open>Concrete requests\<close>

text \<open>A node with key five, its signature on a commitment to the token \<open>tok\<close>, and services that
  answer for a user with key three.\<close>

definition tok_hash :: string where
  "tok_hash = hex_EncodeToString (ec_Keccak256 toy_ecdsa (string_bytes ''tok''))"

definition tok_data :: CommitmentRequestResultData where
  "tok_data = \<lparr>crd_MessagePrefix = ''arc00'', crd_TokenCommitment = tok_hash, crd_TempPubX = ''1'', crd_TempPubY = ''2'',
     crd_VerifierIdentifier = ''github'', crd_TimeSigned = ''0''\<rparr>"

definition tok_sig :: NodeSignature where
  "tok_sig = \<lparr>ns_Signature = (case SignData toy_ecdsa (string_bytes (CommitmentRequestResultData_ToString tok_data)) 5 of
       Some s \<Rightarrow> SigToHex s | None \<Rightarrow> []),
     ns_Data = CommitmentRequestResultData_ToString tok_data, ns_NodePubKeyX = ''5'', ns_NodePubKeyY = ''5''\<rparr>"

lemma tok_sig_valid: "NodeValidation toy_ecdsa [toy_ref] tok_sig = Some (Inr toy_ref)"
  by code_simp

lemma tok_sig_data: "CommitmentRequestResultData_FromString (ns_Data tok_sig) = Inr tok_data"
  by code_simp

theorem repeated_signature_passes_witness:
  "check_signatures gf_lib toy_ecdsa [toy_ref] 4 (replicate (nat 4) tok_sig) = Some (Inr (tok_hash, ''github''))"
proof -
  have "nr_Index toy_ref = Some 1" by (simp add: toy_ref_def)
  from repeated_signature_passes [OF gf_range_laws _ tok_sig_valid this tok_sig_data, of 4]
  show ?thesis by (simp add: tok_data_def)
qed

definition tok_json :: rpcjson where
  "tok_json =
     \<lparr>rj_assign = (\<lambda>_. Inl (RpcError 0 [])), rj_lookup = (\<lambda>_. Inl (RpcError 0 [])),
      rj_commit = (\<lambda>_. Inr \<lparr>crp_MessagePrefix = ''arc00'', crp_TokenCommitment = tok_hash, crp_TempPubX = ''1'',
        crp_TempPubY = ''2'', crp_VerifierIdentifier = ''github''\<rparr>),
      rj_shares = (\<lambda>_. Inr [[1]]), rj_connection = (\<lambda>_. Inl (RpcError 0 [])),
      rj_item = (\<lambda>_. Some \<lparr>sr_IDToken = ''tok'', sr_NodeSignatures = [tok_sig], sr_UserID = ''u'', sr_AppID = ''a'',
        sr_Curve = SECP256K1\<rparr>),
      rj_object = \<lparr>Marshal = (\<lambda>_. Some []), Unmarshal = (\<lambda>_. Some [])\<rparr>, rj_generic = (\<lambda>_. Some []),
      rj_tx_ok = (\<lambda>_. None), rj_address = (\<lambda>_. [])\<rparr>"

definition tok_call :: "'w service" where
  "tok_call method args w =
     (Returns
        (if method = ''get_current_epoch'' then VInt 1
         else if method = ''get_epoch_info'' then VEpochInfo \<lparr>ei_Id = 1, ei_N = 1, ei_K = 1, ei_T = 0, ei_PrevEpoch = 0, ei_NextEpoch = 0\<rparr>
         else if method = ''await_complete_node_list'' then VNodeRefs [Serialize toy_ref]
         else if method = ''get_self_private_key'' then VBig 5
         else if method = ''get_self_public_key'' then VPoint \<lparr>pt_X = 5, pt_Y = 5\<rparr>
         else if method = ''verify'' then VVerified True ''u''
         else if method = ''clean_token'' then VString ''tok''
         else if method = ''get_indexes_from_verifier_id'' then VBigs [3]
         else if method = ''retrieve_key_mapping'' then VKeyAssignment \<lparr>ka_Index = 3, ka_PublicKey = small_pk, ka_Verifiers = []\<rparr>
         else if method = ''get_token_commit_key'' then VPoint \<lparr>pt_X = 1, pt_Y = 2\<rparr>
         else if method = ''retrieve_completed_share'' then VShares 7 7
         else VBool False) None, w)"

definition tok_services :: "'w rpc_services" where
  "tok_services = \<lparr>rs_chain = tok_call, rs_db = tok_call, rs_abci = tok_call, rs_cache = tok_call, rs_verifier = tok_call,
     rs_tendermint = tok_call\<rparr>"

definition tok_lib :: "(gf, gf) lib" where
  "tok_lib = gf_lib\<lparr>tron_Encrypt := (\<lambda>_ _ _. Some ([], \<lparr>em_Mode = 1, em_Iv = [], em_EphemPublicKey = [], em_Mac = []\<rparr>))\<rparr>"

lemma tok_calls [simp]:
  "ChainMethods_GetCurrentEpoch tok_call w = Some (1, w)"
  "ChainMethods_GetEpochInfo tok_call e b w =
     Some (Inr \<lparr>ei_Id = 1, ei_N = 1, ei_K = 1, ei_T = 0, ei_PrevEpoch = 0, ei_NextEpoch = 0\<rparr>, w)"
  "ChainMethods_AwaitCompleteNodeList tok_call e w = Some ([Deserialize (Serialize toy_ref)], w)"
  "ChainMethods_GetSelfPrivateKey tok_call w = Some (5, w)"
  "ChainMethods_GetSelfPublicKey tok_call w = Some (\<lparr>pt_X = 5, pt_Y = 5\<rparr>, w)"
  "ChainMethods_GetPartitionForApp tok_call app w = Some (Inr False, w)"
  "VerifierMethods_Verify tok_call raw w = Some (Inr (True, ''u''), w)"
  "VerifierMethods_CleanToken tok_call v tk w = Some (Inr ''tok'', w)"
  "ABCIMethods_GetIndexesFromVerifierID tok_call v u app c w = Some (Inr [3], w)"
  "ABCIMethods_RetrieveKeyMapping tok_call i c w = Some (Inr \<lparr>ka_Index = 3, ka_PublicKey = small_pk, ka_Verifiers = []\<rparr>, w)"
  "CacheMethods_GetTokenCommitKey tok_call v tk w = Some (\<lparr>pt_X = 1, pt_Y = 2\<rparr>, w)"
  "DBMethods_RetrieveCompletedShare tok_call i c w = Some (Inr (7, 7), w)"
  by (simp_all add: ChainMethods_GetCurrentEpoch_def ChainMethods_GetEpochInfo_def ChainMethods_AwaitCompleteNodeList_def
      ChainMethods_GetSelfPrivateKey_def ChainMethods_GetSelfPublicKey_def ChainMethods_GetPartitionForApp_def
      VerifierMethods_Verify_def VerifierMethods_CleanToken_def ABCIMethods_GetIndexesFromVerifierID_def
      ABCIMethods_RetrieveKeyMapping_def CacheMethods_GetTokenCommitKey_def DBMethods_RetrieveCompletedShare_def
      ask_def ServiceMethod_def tok_call_def checked_def cast_only_def retry_or_fatal_def numeral_eq_Suc)

lemma tok_ref: "Deserialize (Serialize toy_ref) = toy_ref"
  by (simp add: toy_ref_def Serialize_def Deserialize_def)

lemma tok_check: "check_signatures tok_lib toy_ecdsa [toy_ref] 1 [tok_sig] = Some (Inr (tok_hash, ''github''))"
proof -
  have v: "valid_signatures toy_ecdsa [toy_ref] [tok_sig] = Some [(tok_sig, 1)]"
    by (simp add: tok_sig_valid) (simp add: toy_ref_def)
  have "pick_common tok_lib (count_common [(tok_sig, 1)]) = common_data tok_sig"
    by (simp add: pick_common_def count_common_def m_zero_def tok_lib_def gf_lib_def)
  then show ?thesis using Split_common_data [of tok_sig]
    by (simp add: check_signatures_def v Let_def tok_sig_data tok_data_def del: valid_signatures.simps)
qed

lemma tok_share:
  "\<exists>key. KeyShareRequestHandler tok_lib tok_json toy_ecdsa tok_services [] None () = Some (Inr [key], ())"
  by (simp add: KeyShareRequestHandler_def tok_services_def tok_json_def share_item_def verify_item_def GetAppKeyPartition_def
      tok_ref tok_check tok_hash_def [symmetric] release_share_def Int64_def) (simp add: tok_lib_def)


lemma tok_unseen: "\<not> fst (tokenCommitExists toy_cache 0 ''github'' tok_hash (cache_Start toy_cache))"
  by (simp add: tokenCommitExists_def Let_def) (simp add: tokens_of_def cache_Start_def m_zero_def toy_cache_def)

lemma tok_numbers: "HexToBigInt ''1'' = Some 1" "HexToBigInt ''2'' = Some 2"
  by code_simp+

lemma tok_signs: "\<exists>sig. SignData toy_ecdsa b k = Some sig" "BigIntToECDSAPrivateKey toy_ecdsa k = Some (big_SetBytes (big_Bytes k))"
  by (simp_all add: SignData_def toy_ecdsa_def go_slice_def go_index_def Let_def BigIntToECDSAPrivateKey_def)

lemma tok_chain [simp]: "rs_chain (at_time C now tok_services) = tok_call"
  by (simp add: at_time_def tok_services_def)

theorem token_committed_once_witness:
  "\<exists>res w1 e w3. KeyCommitmentRequestHandler tok_json toy_ecdsa (at_time toy_cache 0 tok_services) 0 None (cache_Start toy_cache, ()) =
      Some (Inr res, w1) \<and>
    KeyCommitmentRequestHandler tok_json toy_ecdsa (at_time toy_cache 5000 tok_services) 5000 (Some []) w1 = Some (Inl e, w3)"
proof -
  let ?S = "tok_services :: ((string, cvalue \<times> int) gomap CacheService \<times> unit) rpc_services"
  have S: "spares_fst (rs_chain ?S)" by (simp add: spares_fst_def tok_services_def tok_call_def)
  obtain f where f: "\<And>b k. SignData toy_ecdsa b k = Some (f b k)" using tok_signs(1) by metis
  obtain res w1 where first: "KeyCommitmentRequestHandler tok_json toy_ecdsa (at_time toy_cache 0 ?S) 0 None (cache_Start toy_cache, ()) =
      Some (Inr res, w1)"
    by (simp add: KeyCommitmentRequestHandler_def tok_json_def at_time_cache Let_def tok_unseen tok_signs(2) tok_numbers f)
  from token_committed_once [OF toy_cache_laws S first commit_start, of 5000 _ "Some []"]
  show ?thesis using first by (fastforce simp: tok_json_def)
qed

end
