(* ===== verification/P2p.thy ===== *)
theory P2p
  imports Chain
begin

text \<open>
  The service for messages between nodes, \<open>p2p/p2p_service.go\<close>, with the messages of
  \<open>common/common.go\<close> and the broker methods. The host (\<open>libp2p\<close>) and the JSON codec are
  parameters; a message that is written to a stream is recorded with its receiver and protocol.
  The service calls the chain service, on the rest of the world.
\<close>

section \<open>Messages\<close>

record P2PBasicMessageRaw =
  pr_Timestamp :: int
  pr_Id :: string
  pr_Gossip :: bool
  pr_NodeId :: string
  pr_NodePubKey :: bytes
  pr_Sign :: bytes
  pr_MsgType :: string
  pr_Payload :: bytes

definition NodeVersion :: string where "NodeVersion = ''0.1''"

definition CreateP2PBasicMessage :: "P2PBasicMessageRaw \<Rightarrow> P2PBasicMessage" where
  "CreateP2PBasicMessage r =
     \<lparr>pm_Version = NodeVersion, pm_Timestamp = pr_Timestamp r, pm_Id = pr_Id r, pm_Gossip = pr_Gossip r,
      pm_NodeId = pr_NodeId r, pm_NodePubKey = pr_NodePubKey r, pm_Sign = pr_Sign r, pm_MsgType = pr_MsgType r,
      pm_Payload = pr_Payload r\<rparr>"

text \<open>The host: its identifier, the errors of opening a stream and of writing to it, and the
  codec of messages and of points. An encoded message does not record an empty signature.\<close>

record p2p_ext =
  px_ID :: string
  px_NewStream :: "string \<Rightarrow> string \<Rightarrow> string option"
  px_write :: "string \<Rightarrow> bytes \<Rightarrow> string option"
  px_message :: "P2PBasicMessage codec"
  px_point :: "Point codec"

record P2PService =
  p2_publicKey :: Point
  p2_hostAddress :: "string option"
  p2_peers :: "string list"
  p2_protocols :: "string list"
  p2_written :: "(string \<times> string \<times> bytes) list"

definition P2P_GetSerializedBody :: "p2p_ext \<Rightarrow> P2PBasicMessage \<Rightarrow> bytes" where
  "P2P_GetSerializedBody X msg =
     (case Marshal (px_message X) (msg\<lparr>pm_Sign := []\<rparr>) of Some bin \<Rightarrow> bin | None \<Rightarrow> [])"

section \<open>The service\<close>

definition authenticateMessage :: "p2p_ext \<Rightarrow> 'w service \<Rightarrow> P2PBasicMessage \<Rightarrow> 'w \<Rightarrow> (unit err \<times> 'w) go" where
  "authenticateMessage X chain data w =
     (case Unmarshal (px_point X) (pm_NodePubKey data) of
        None \<Rightarrow> Some (Inl ''unmarshal'', w)
      | Some pk \<Rightarrow> do {
          (r, w') \<leftarrow> ChainMethods_VerifyDataWithNodelist chain pk (pm_Sign data) (P2P_GetSerializedBody X data) w;
          Some (map_sum id (\<lambda>_. ()) r, w') })"

text \<open>The handler of a protocol on the bytes of a stream: what it publishes on the bus, if anything.\<close>

definition ForwardP2PToEventBus :: "p2p_ext \<Rightarrow> 'w service \<Rightarrow> bytes \<Rightarrow> 'w \<Rightarrow> (P2PBasicMessage option \<times> 'w) go" where
  "ForwardP2PToEventBus X chain buf w =
     (case Unmarshal (px_message X) buf of
        None \<Rightarrow> Some (None, w)
      | Some p2pMsg \<Rightarrow> do {
          (r, w') \<leftarrow> authenticateMessage X chain p2pMsg w;
          Some (case r of Inl e \<Rightarrow> None | Inr _ \<Rightarrow> Some p2pMsg, w') })"

definition signP2PMessage :: "p2p_ext \<Rightarrow> 'w service \<Rightarrow> P2PBasicMessage \<Rightarrow> 'w \<Rightarrow> (bytes err \<times> 'w) go" where
  "signP2PMessage X chain message w =
     (case Marshal (px_message X) message of
        None \<Rightarrow> Some (Inl ''marshal'', w)
      | Some data \<Rightarrow> do {
          (sig, w') \<leftarrow> ChainMethods_SelfSignData chain data w;
          Some (Inr sig, w') })"

definition sendP2PMessage ::
  "p2p_ext \<Rightarrow> string \<Rightarrow> string \<Rightarrow> P2PBasicMessage \<Rightarrow> P2PService \<Rightarrow> unit err \<times> P2PService" where
  "sendP2PMessage X peer p msg s =
     (case Marshal (px_message X) msg of
        None \<Rightarrow> (Inl ''marshal'', s)
      | Some data \<Rightarrow>
          (case px_NewStream X peer p of
             Some e \<Rightarrow> (Inl e, s)
           | None \<Rightarrow>
               (case px_write X peer data of
                  Some e \<Rightarrow> (Inl e, s)
                | None \<Rightarrow> (Inr (), s\<lparr>p2_written := p2_written s @ [(peer, p, data)]\<rparr>))))"

text \<open>An address is added for a peer that the node does not know; there is never an error.\<close>

definition ConnectToP2PNode :: "p2p_ext \<Rightarrow> string \<Rightarrow> string \<Rightarrow> P2PService \<Rightarrow> P2PService" where
  "ConnectToP2PNode X nodeP2PConnection nodePeerID s =
     (if nodePeerID \<noteq> px_ID X \<and> nodePeerID \<notin> set (p2_peers s) then s\<lparr>p2_peers := p2_peers s @ [nodePeerID]\<rparr> else s)"

definition NewP2PMessage :: "p2p_ext \<Rightarrow> int \<Rightarrow> string \<Rightarrow> bool \<Rightarrow> bytes \<Rightarrow> string \<Rightarrow> P2PService \<Rightarrow> P2PBasicMessage" where
  "NewP2PMessage X now messageId gossip payload msgType s =
     CreateP2PBasicMessage
       \<lparr>pr_Timestamp = now, pr_Id = messageId, pr_Gossip = gossip, pr_NodeId = px_ID X,
        pr_NodePubKey = (case Marshal (px_point X) (p2_publicKey s) of Some b \<Rightarrow> b | None \<Rightarrow> []), pr_Sign = [],
        pr_MsgType = msgType, pr_Payload = payload\<rparr>"

definition zero_message :: P2PBasicMessage where
  "zero_message = \<lparr>pm_Version = [], pm_Timestamp = 0, pm_Id = [], pm_Gossip = False, pm_NodeId = [], pm_NodePubKey = [],
     pm_Sign = [], pm_MsgType = [], pm_Payload = []\<rparr>"

text \<open>A call of the chain service beside the state of this one.\<close>

definition on_world :: "('w \<Rightarrow> ('a \<times> 'w) go) \<Rightarrow> P2PService \<times> 'w \<Rightarrow> ('a \<times> P2PService \<times> 'w) go" where
  "on_world f = (\<lambda>(s, w). do { (r, w') \<leftarrow> f w; Some (r, (s, w')) })"

definition p2p_Call :: "p2p_ext \<Rightarrow> int \<Rightarrow> 'w service \<Rightarrow> (P2PService \<times> 'w) service" where
  "p2p_Call X now chain method args st =
     (let s = fst st; w = snd st in
      if method = ''id'' then (Returns (VPeerID (px_ID X)) None, st)
      else if method = ''get_host_address'' then
        ((case p2_hostAddress s of
            None \<Rightarrow> Returns Nil_iface (Some ''hostAddress not initialized'')
          | Some a \<Rightarrow> Returns (VString a) None), st)
      else if method = ''set_stream_handler'' then or_panic st (do {
        proto \<leftarrow> arg [] string_of args 0;
        Some (Returns (VBool True) None, (s\<lparr>p2_protocols := p2_protocols s @ [proto]\<rparr>, w)) })
      else if method = ''new_p2p_message'' then or_panic st (do {
        args0 \<leftarrow> arg [] string_of args 0;
        args1 \<leftarrow> arg False bool_of args 1;
        args2 \<leftarrow> arg [] bytes_of args 2;
        args3 \<leftarrow> arg [] string_of args 3;
        Some (Returns (VP2P (NewP2PMessage X now args0 args1 args2 args3 s)) None, st) })
      else if method = ''sign_p2p_message'' then or_panic st (do {
        args0 \<leftarrow> arg zero_message p2p_of args 0;
        Some (or_block st (do {
          (r, st') \<leftarrow> on_world (signP2PMessage X chain args0) st;
          Some (case r of Inl e \<Rightarrow> (Returns Nil_iface (Some e), st') | Inr sig \<Rightarrow> (Returns (VBytes sig) None, st')) })) })
      else if method = ''send_p2p_message'' then or_panic st (do {
        args0 \<leftarrow> arg [] peerid_of args 0;
        args1 \<leftarrow> arg [] protocol_of args 1;
        args2 \<leftarrow> arg zero_message p2p_of args 2;
        let (r, s') = sendP2PMessage X args0 args1 args2 s;
        Some (Returns Nil_iface (case r of Inl e \<Rightarrow> Some e | Inr _ \<Rightarrow> None), (s', w)) })
      else if method = ''authenticate_message'' then or_panic st (do {
        args0 \<leftarrow> arg zero_message p2p_of args 0;
        Some (or_block st (do {
          (r, st') \<leftarrow> on_world (authenticateMessage X chain args0) st;
          Some (Returns Nil_iface (case r of Inl e \<Rightarrow> Some e | Inr _ \<Rightarrow> None), st') })) })
      else if method = ''connect_to_p2p_node'' then or_panic st (do {
        args0 \<leftarrow> arg [] string_of args 0;
        args1 \<leftarrow> arg [] peerid_of args 1;
        Some (Returns Nil_iface None, (ConnectToP2PNode X args0 args1 s, w)) })
      else (Returns (VBool False) None, st))"

section \<open>The broker methods\<close>

definition P2PMethods_ID :: "'w service \<Rightarrow> 'w \<Rightarrow> (string \<times> 'w) go" where
  "P2PMethods_ID p2p = retry_or_fatal (ask (checked peerid_of) p2p ''id'' [])"

definition P2PMethods_NewP2PMessage ::
  "'w service \<Rightarrow> string \<Rightarrow> bool \<Rightarrow> bytes \<Rightarrow> string \<Rightarrow> 'w \<Rightarrow> (P2PBasicMessage \<times> 'w) go" where
  "P2PMethods_NewP2PMessage p2p messageId gossip payload msgType w = do {
     (r, w') \<leftarrow> ServiceMethod p2p ''new_p2p_message'' [VString messageId, VBool gossip, VBytes payload, VString msgType] w;
     if mr_Error r \<noteq> None then None
     else Some (case CastOrUnmarshal p2p_of (mr_Data r) of Inl e \<Rightarrow> zero_message | Inr m \<Rightarrow> m, w') }"

definition P2PMethods_ConnectToP2PNode :: "'w service \<Rightarrow> string \<Rightarrow> string \<Rightarrow> 'w \<Rightarrow> (unit err \<times> 'w) go" where
  "P2PMethods_ConnectToP2PNode p2p nodeP2PConnection nodePeerID =
     ask acknowledged p2p ''connect_to_p2p_node'' [VString nodeP2PConnection, VPeerID nodePeerID]"

definition P2PMethods_SignP2PMessage :: "'w service \<Rightarrow> P2PBasicMessage \<Rightarrow> 'w \<Rightarrow> (bytes err \<times> 'w) go" where
  "P2PMethods_SignP2PMessage p2p message = ask (checked bytes_of) p2p ''sign_p2p_message'' [VPtr (Some (VP2P message))]"

definition P2PMethods_SendP2PMessage :: "'w service \<Rightarrow> string \<Rightarrow> string \<Rightarrow> P2PBasicMessage \<Rightarrow> 'w \<Rightarrow> (unit err \<times> 'w) go" where
  "P2PMethods_SendP2PMessage p2p peer p msg =
     ask acknowledged p2p ''send_p2p_message'' [VPeerID peer, VProtocol p, VPtr (Some (VP2P msg))]"

definition P2PMethods_GetHostAddress :: "'w service \<Rightarrow> 'w \<Rightarrow> (string \<times> 'w) go" where
  "P2PMethods_GetHostAddress p2p = retry_or_fatal (ask (checked string_of) p2p ''get_host_address'' [])"

end
