(* ===== verification/KeygenService.thy ===== *)
theory KeygenService
  imports P2p Node
begin

text \<open>
  The key generation service: \<open>keygen/keygen_service.go\<close>, \<open>keygen/transport.go\<close>,
  \<open>keygen/keygen_tracker.go\<close> and the rest of \<open>keygen/keygen_node.go\<close>: what becomes of the
  actions of the handlers. A message a node sends to itself, and one that arrives from the
  network, is handled in a goroutine or a call of its own; here it is put among the pending
  messages, from which it may be taken in any order.
\<close>

section \<open>State\<close>

record ('s, 'p) KeygenService =
  kg_node :: "('s, 'p) KeygenNode"
  kg_state :: "'p NodeState"
  kg_tracker :: "(ADKGID, int) gomap"
  kg_pending :: "(KeygenNodeDetails \<times> DKGMessage) list"

record 'w keygen_services =
  kgs_chain :: "'w service"
  kgs_db :: "'w service"
  kgs_p2p :: "'w service"
  kgs_tendermint :: "'w service"

record keygen_ext =
  kx_message :: "DKGMessage codec"
  kx_point :: "Point codec"
  kx_PeerID :: "string \<Rightarrow> string option"

section \<open>The tracker\<close>

text \<open>Times are in seconds; the cutoff is five minutes.\<close>

definition CUTOFF_PERIOD :: int where "CUTOFF_PERIOD = - 300"

definition tracker_Add :: "int \<Rightarrow> ADKGID \<Rightarrow> (ADKGID, int) gomap \<Rightarrow> (ADKGID, int) gomap" where
  "tracker_Add now i t = m_set t i now"

definition tracker_Has :: "ADKGID \<Rightarrow> (ADKGID, int) gomap \<Rightarrow> bool" where
  "tracker_Has i t \<longleftrightarrow> m_get t i \<noteq> None"

definition removeExpiredKeygen ::
  "('s, 'p) lib \<Rightarrow> int \<Rightarrow> ('s, 'p) KeygenService \<Rightarrow> ('s, 'p) KeygenService" where
  "removeExpiredKeygen L now ks =
     (let cutoffTime = now + CUTOFF_PERIOD in
      foldl (\<lambda>ks (i, createdAt).
          if createdAt < cutoffTime
          then ks\<lparr>kg_tracker := m_del (kg_tracker ks) i, kg_state := remove L (kg_node ks) i (kg_state ks)\<rparr>
          else ks) ks (kg_tracker ks))"

section \<open>Transport\<close>

definition HashToString :: "ecdsa \<Rightarrow> bytes \<Rightarrow> string go" where
  "HashToString E b = go_slice (hex_EncodeToString (ec_Keccak256 E b)) 0 6"

definition SendBroadcast :: "'w keygen_services \<Rightarrow> DKGMessage \<Rightarrow> 'w \<Rightarrow> (unit err \<times> 'w) go" where
  "SendBroadcast S msg w = do {
     (r, w') \<leftarrow> TendermintMethods_Broadcast (kgs_tendermint S) (VMessage msg) w;
     Some (map_sum id (\<lambda>_. ()) r, w') }"

definition CheckIfNIZKPProcessed :: "'w keygen_services \<Rightarrow> int \<Rightarrow> CurveName \<Rightarrow> 'w \<Rightarrow> (bool \<times> 'w) go" where
  "CheckIfNIZKPProcessed S keyIndex curve = DBMethods_IndexToPublicKeyExists (kgs_db S) keyIndex curve"

text \<open>A message to the node itself becomes pending; the messages are the first component.\<close>

definition Transport_Send ::
  "keygen_ext \<Rightarrow> ecdsa \<Rightarrow> 'w keygen_services \<Rightarrow> ('s, 'p) KeygenNode \<Rightarrow> KeygenNodeDetails \<Rightarrow> DKGMessage \<Rightarrow> 'w \<Rightarrow>
   (((KeygenNodeDetails \<times> DKGMessage) list \<times> unit err) \<times> 'w) go" where
  "Transport_Send X E S node nodeDetails keygenMessage w =
     (if kn_PubKey nodeDetails = kn_PubKey (node_details node) then Some (([(nodeDetails, keygenMessage)], Inr ()), w)
      else do {
        (nodeReference, w1) \<leftarrow> ChainMethods_GetNodeDetailsByAddress (kgs_chain S) (PointToEthAddress E (kn_PubKey nodeDetails)) w;
        (case Marshal (kx_message X) keygenMessage of
           None \<Rightarrow> Some (([], Inl ''marshal''), w1)
         | Some byt \<Rightarrow> do {
             messageId \<leftarrow> HashToString E byt;
             (p2pMsg, w2) \<leftarrow> P2PMethods_NewP2PMessage (kgs_p2p S) messageId False byt ''transportKeygenMessage'' w1;
             (case kx_PeerID X (nr_P2PConnection nodeReference) of
                None \<Rightarrow> Some (([], Inl ''could not get peerid''), w2)
              | Some peerID \<Rightarrow> do {
                  (signature, w3) \<leftarrow> P2PMethods_SignP2PMessage (kgs_p2p S) p2pMsg w2;
                  (case signature of
                     Inl e \<Rightarrow> Some (([], Inl (''failed to sign p2p Message'' @ e)), w3)
                   | Inr sig \<Rightarrow> do {
                       (r, w4) \<leftarrow> retry_do 10 (P2PMethods_SendP2PMessage (kgs_p2p S) peerID (GetKeygenProtocolPrefix 1)
                                     (p2pMsg\<lparr>pm_Sign := sig\<rparr>)) w3;
                       Some (([], r), w4) }) }) }) })"

text \<open>What arrives on the protocol of the transport: a pending message of the node whose key it has.\<close>

definition streamHandler ::
  "keygen_ext \<Rightarrow> ecdsa \<Rightarrow> 'w keygen_services \<Rightarrow> P2PBasicMessage \<Rightarrow> ('s, 'p) KeygenService \<times> 'w \<Rightarrow>
   (('s, 'p) KeygenService \<times> 'w) go" where
  "streamHandler X E S p2pBasicMsg = (\<lambda>(ks, w).
     case Unmarshal (kx_message X) (pm_Payload p2pBasicMsg) of
       None \<Rightarrow> Some (ks, w)
     | Some message \<Rightarrow>
         (case Unmarshal (kx_point X) (pm_NodePubKey p2pBasicMsg) of
            None \<Rightarrow> Some (ks, w)
          | Some pubKey \<Rightarrow> do {
              (nodeReference, w') \<leftarrow> ChainMethods_GetNodeDetailsByAddress (kgs_chain S) (PointToEthAddress E pubKey) w;
              index \<leftarrow> nr_Index nodeReference;
              Some (ks\<lparr>kg_pending := kg_pending ks @ [(\<lparr>kn_Index = Int64 index, kn_PubKey = pubKey\<rparr>, message)]\<rparr>, w') }))"

section \<open>The actions of the handlers\<close>

definition node_ReceiveBFTMessage :: "'w keygen_services \<Rightarrow> DKGMessage \<Rightarrow> 'w \<Rightarrow> 'w go" where
  "node_ReceiveBFTMessage S msg w =
     (case ADKGIDFromRoundID (dm_RoundID msg) of
        Inl e \<Rightarrow> Some w
      | Inr adkgid \<Rightarrow>
          (case GetIndex adkgid of
             Inl e \<Rightarrow> Some w
           | Inr index \<Rightarrow> do {
               let c = (case GetCurve adkgid of Inl e \<Rightarrow> [] | Inr c \<Rightarrow> c);
               (processed, w1) \<leftarrow> CheckIfNIZKPProcessed S index c w;
               if processed then Some w1 else logged (SendBroadcast S msg) w1 }))"

definition node_StoreCompletedShare :: "'w keygen_services \<Rightarrow> int \<Rightarrow> int \<Rightarrow> CurveName \<Rightarrow> 'w \<Rightarrow> 'w go" where
  "node_StoreCompletedShare S keyIndex si c = logged (DBMethods_StoreCompletedPSSShare (kgs_db S) keyIndex si si c)"

text \<open>The commitments of every dealer as points, under the decimal number of the dealer.\<close>

definition convertedMetadata ::
  "('s, 'p) lib \<Rightarrow> CurveName \<Rightarrow> 'p ADKGMetadata \<Rightarrow> (string, Point list) gomap go" where
  "convertedMetadata L c metadata =
     go_fold (\<lambda>(k, v) m. do {
         ps \<leftarrow> go_map (\<lambda>p. CurvePointToPoint (CurveFromName L c) p c) v;
         Some (m_set m (Itoa k) (m_zero [] m (Itoa k) @ ps)) }) (meta_Commitments metadata) []"

definition node_StoreCommitment ::
  "('s, 'p) lib \<Rightarrow> 'w keygen_services \<Rightarrow> int \<Rightarrow> 'p ADKGMetadata \<Rightarrow> CurveName \<Rightarrow> 'w \<Rightarrow> 'w go" where
  "node_StoreCommitment L S keyIndex metadata c w = do {
     m \<leftarrow> convertedMetadata L c metadata;
     logged (DBMethods_StoreCommitment (kgs_db S) keyIndex (meta_T metadata) m c) w }"

definition perform ::
  "('s, 'p) lib \<Rightarrow> keygen_ext \<Rightarrow> ecdsa \<Rightarrow> 'w keygen_services \<Rightarrow> ('s, 'p) KeygenNode \<Rightarrow> 'p action \<Rightarrow>
   (KeygenNodeDetails \<times> DKGMessage) list \<times> 'w \<Rightarrow> ((KeygenNodeDetails \<times> DKGMessage) list \<times> 'w) go" where
  "perform L X E S node a = (\<lambda>(pending, w).
     let send = (\<lambda>n msg (pending, w). do {
           ((local, r), w') \<leftarrow> Transport_Send X E S node n msg w;
           Some (pending @ local, w') });
         keep = map_option (Pair pending) in
     case a of
       Send n msg \<Rightarrow> send n msg (pending, w)
     | Broadcast msg \<Rightarrow> go_fold (\<lambda>n. send n msg) (Nodes L node) (pending, w)
     | ReceiveMessage sender msg \<Rightarrow> Some (pending @ [(sender, msg)], w)
     | ReceiveBFTMessage msg \<Rightarrow> keep (node_ReceiveBFTMessage S msg w)
     | StoreCompletedShare i si c \<Rightarrow> keep (node_StoreCompletedShare S i si c w)
     | StoreCommitment i metadata c \<Rightarrow> keep (node_StoreCommitment L S i metadata c w))"

text \<open>\<open>Receive\<close>: process a message and perform what the handler asks for.\<close>

definition Transport_Receive ::
  "('s, 'p) lib \<Rightarrow> keygen_ext \<Rightarrow> ecdsa \<Rightarrow> 'w keygen_services \<Rightarrow> (nat \<Rightarrow> bytes) \<Rightarrow> KeygenNodeDetails \<Rightarrow> DKGMessage \<Rightarrow>
   ('s, 'p) KeygenService \<times> 'w \<Rightarrow> (string option \<times> ('s, 'p) KeygenService \<times> 'w) go" where
  "Transport_Receive L X E S rnd sender msg = (\<lambda>(ks, w). do {
     (st, acts, e) \<leftarrow> ProcessMessage L (kg_node ks) rnd sender msg (kg_state ks);
     (pending, w') \<leftarrow> go_fold (perform L X E S (kg_node ks)) acts (kg_pending ks, w);
     Some (e, ks\<lparr>kg_state := st, kg_pending := pending\<rparr>, w') })"

definition node_BFTDecided ::
  "('s, 'p) lib \<Rightarrow> keygen_ext \<Rightarrow> ecdsa \<Rightarrow> 'w keygen_services \<Rightarrow> ADKGID \<Rightarrow>
   ('s, 'p) KeygenService \<times> 'w \<Rightarrow> (('s, 'p) KeygenService \<times> 'w) go" where
  "node_BFTDecided L X E S i = (\<lambda>(ks, w). do {
     (st, acts) \<leftarrow> BFTDecided L (kg_node ks) i (kg_state ks);
     (pending, w') \<leftarrow> go_fold (perform L X E S (kg_node ks)) acts (kg_pending ks, w);
     Some (ks\<lparr>kg_state := st, kg_pending := pending\<rparr>, w') })"

section \<open>The service\<close>

definition keygen_Start ::
  "('s, 'p) lib \<Rightarrow> 'w keygen_services \<Rightarrow> 'w \<Rightarrow> (('s, 'p) KeygenService err \<times> 'w) go" where
  "keygen_Start L S w = do {
     (selfIndex, w1) \<leftarrow> ChainMethods_GetSelfIndex (kgs_chain S) w;
     (selfPubKey, w2) \<leftarrow> ChainMethods_GetSelfPublicKey (kgs_chain S) w1;
     (currEpoch, w3) \<leftarrow> ChainMethods_GetCurrentEpoch (kgs_chain S) w2;
     (currNodeList, w4) \<leftarrow> ChainMethods_AwaitCompleteNodeList (kgs_chain S) currEpoch w3;
     (info, w5) \<leftarrow> ChainMethods_GetEpochInfo (kgs_chain S) currEpoch True w4;
     (case info of
        Inl e \<Rightarrow> Some (Inl e, w5)
      | Inr currEpochInfo \<Rightarrow> do {
          (k, w6) \<leftarrow> ChainMethods_GetSelfPrivateKey (kgs_chain S) w5;
          (case s_SetBigInt (lib_K256 L) k of
             None \<Rightarrow> Some (Inl ''invalid scalar'', w6)
           | Some priv \<Rightarrow> do {
               refs \<leftarrow> go_map (\<lambda>r. do { i \<leftarrow> nr_Index r; pk \<leftarrow> nr_PublicKey r; Some (i, pt_X pk, pt_Y pk) }) currNodeList;
               let (node, st) = NewKeygenNode L \<lparr>kn_Index = selfIndex, kn_PubKey = selfPubKey\<rparr>
                   (getCommonNodesFromNodeRefArray refs) (Int64 (ei_T currEpochInfo)) (Int64 (ei_K currEpochInfo)) priv;
               Some (Inr \<lparr>kg_node = node, kg_state = st, kg_tracker = [], kg_pending = []\<rparr>, w6) }) }) }"

text \<open>The guard of a dealing: one per identifier, marked in the database before it starts. The
  result is whether the message is processed.\<close>

definition start_once ::
  "'w keygen_services \<Rightarrow> int \<Rightarrow> DKGMessage \<Rightarrow> ('s, 'p) KeygenService \<times> 'w \<Rightarrow>
   (bool err \<times> ('s, 'p) KeygenService \<times> 'w) go" where
  "start_once S now args0 = (\<lambda>(ks, w).
     if dm_Method args0 \<noteq> ''acss_share'' then Some (Inr True, ks, w)
     else (case ADKGIDFromRoundID (dm_RoundID args0) of
         Inl e \<Rightarrow> Some (Inl e, ks, w)
       | Inr i \<Rightarrow> do {
           (started, w1) \<leftarrow> DBMethods_GetKeygenStarted (kgs_db S) i w;
           if started then Some (Inr False, ks, w1)
           else do {
             (r, w2) \<leftarrow> DBMethods_SetKeygenStarted (kgs_db S) i True w1;
             Some (case r of
                 Inl e \<Rightarrow> (Inl e, ks, w2)
               | Inr _ \<Rightarrow> (Inr True, ks\<lparr>kg_tracker := tracker_Add now i (kg_tracker ks)\<rparr>, w2)) } }))"

text \<open>A panic of a handler is recovered by the registry: the mark in the database stays.\<close>

definition receive_message ::
  "('s, 'p) lib \<Rightarrow> keygen_ext \<Rightarrow> ecdsa \<Rightarrow> 'w keygen_services \<Rightarrow> int \<Rightarrow> (nat \<Rightarrow> bytes) \<Rightarrow> DKGMessage \<Rightarrow>
   ('s, 'p) KeygenService \<times> 'w \<Rightarrow> call_result \<times> ('s, 'p) KeygenService \<times> 'w" where
  "receive_message L X E S now rnd args0 st =
     (case start_once S now args0 st of
        None \<Rightarrow> (Panics, st)
      | Some (r, ks, w) \<Rightarrow> or_panic (ks, w)
          (case r of
             Inl e \<Rightarrow> Some (Returns Nil_iface (Some e), ks, w)
           | Inr False \<Rightarrow> Some (Returns Nil_iface None, ks, w)
           | Inr True \<Rightarrow> do {
               (index, w') \<leftarrow> ChainMethods_GetSelfIndex (kgs_chain S) w;
               (e, st') \<leftarrow> Transport_Receive L X E S rnd
                   \<lparr>kn_Index = index, kn_PubKey = kn_PubKey (node_details (kg_node ks))\<rparr> args0 (ks, w');
               Some (Returns Nil_iface e, st') }))"

definition keygen_Call ::
  "('s, 'p) lib \<Rightarrow> keygen_ext \<Rightarrow> ecdsa \<Rightarrow> 'w keygen_services \<Rightarrow> int \<Rightarrow> (nat \<Rightarrow> bytes) \<Rightarrow>
   (('s, 'p) KeygenService \<times> 'w) service" where
  "keygen_Call L X E S now rnd method args st =
     (if method = ''receive_message'' then or_panic st (do {
        a \<leftarrow> go_index args 0;
        (case CastOrUnmarshal message_of a of
           Inl e \<Rightarrow> Some (Returns Nil_iface (Some e), st)
         | Inr args0 \<Rightarrow> Some (receive_message L X E S now rnd args0 st)) })
      else if method = ''cleanup'' then or_panic st (do {
        a \<leftarrow> go_index args 0;
        (case CastOrUnmarshal adkgid_of a of
           Inl e \<Rightarrow> Some (Returns Nil_iface (Some e), st)
         | Inr adkgid \<Rightarrow> do {
             st' \<leftarrow> node_BFTDecided L X E S adkgid st;
             Some (Returns Nil_iface None, st') }) })
      else (Returns Nil_iface (Some (''keygen service method '' @ method @ '' not found'')), st))"

end
