(* ===== verification/KeygenServiceTheorems.thy ===== *)
theory KeygenServiceTheorems
  imports KeygenService SessionTheorems
begin

text \<open>
  The key generation service with the services it calls: a message between nodes is not
  authenticated by its signature, and a node deals a key once.
\<close>

section \<open>Messages between nodes\<close>

lemma VerifyDataWithNodelist_call:
  "ChainMethods_VerifyDataWithNodelist (chain_Call X E cache db) pk sig data (ch, ca, d) =
     (case verifyDataWithNodelist X E pk sig data ch of
        (Returns v e, ch') \<Rightarrow> Some (CastOrUnmarshal details_of v, ch', ca, d)
      | (Panics, ch') \<Rightarrow> Some (Inl ''could not cast in castOrUnmarshal'', ch', ca, d)
      | (Blocks, ch') \<Rightarrow> None)"
  by (simp add: ChainMethods_VerifyDataWithNodelist_def ask_def ServiceMethod_def chain_Call_def arg_def on_chain_def
      cast_only_def split: prod.splits call_result.splits)

lemma verified_sender_returns:
  assumes "64 \<le> length sig" "\<And>r. found = Some r \<Longrightarrow> (\<exists>i. nr_Index r = Some i) \<and> nr_PublicKey r = Some pk"
  shows "\<exists>sender e. verified_sender E pk sig data found = Returns (VDetails sender) e"
proof -
  obtain b where "VerifyPtFromRaw E data pk sig = Some b"
    using assms(1) by (simp add: VerifyPtFromRaw_def verifyFromRaw_def go_slice_def)
  then show ?thesis using assms(2) by (cases b) (auto simp: verified_sender_def split: option.splits)
qed

lemma VerifyDataWithNodelist_accepts:
  assumes "\<not> ch_locked ch" "listed (all_nodes X ch)" "64 \<le> length sig"
  shows "\<exists>sender. ChainMethods_VerifyDataWithNodelist (chain_Call X E cache db) pk sig data (ch, ca, d) =
    Some (Inr sender, ch, ca, d)"
proof -
  obtain f where f: "find_node pk (all_nodes X ch) = Some f"
    "case f of None \<Rightarrow> True | Some r \<Rightarrow> r \<in> set (all_nodes X ch) \<and> nr_PublicKey r = Some pk"
    using find_node_Some [OF assms(2), where pk = pk] by (auto split: option.splits)
  have "\<exists>sender e. verified_sender E pk sig data f = Returns (VDetails sender) e"
    using f(2) assms(2) by (intro verified_sender_returns [OF assms(3)]) (auto simp: listed_def)
  then show ?thesis using assms(1) f(1)
    by (auto simp: VerifyDataWithNodelist_call verifyDataWithNodelist_def all_nodes_def)
qed

lemma GetNodeDetailsByAddress_call:
  assumes "\<not> ch_locked ch" "node_by_address a (all_nodes X ch) = Some (Some r)"
  shows "ChainMethods_GetNodeDetailsByAddress (chain_Call X E cache db) a (ch, ca, d) =
    Some (Deserialize (Serialize r), ch, ca, d)"
  unfolding ChainMethods_GetNodeDetailsByAddress_def
  by (rule retry_first) (simp add: ask_def ServiceMethod_def chain_Call_def locking_def arg_def assms node_reply_def checked_def)

lemma node_by_address_mem: "node_by_address a rs = Some (Some r) \<Longrightarrow> r \<in> set rs"
  by (induction rs) (auto simp: go_bind_eq_Some split: if_splits)

text \<open>
  C15. Whoever can open a stream to a node can speak for every other node. A message that carries
  the public key of a node and any signature of at least 64 bytes passes the authentication of
  the service for messages between nodes, because the broker method drops the error of the
  verification; and the transport takes the node with that public key for the sender.
\<close>

theorem forged_message_received:
  assumes "\<not> ch_locked ch" "listed (all_nodes CX ch)"
    and "Unmarshal (px_message PX) buf = Some m" "64 \<le> length (pm_Sign m)"
    and "Unmarshal (px_point PX) (pm_NodePubKey m) = Some pk" "Unmarshal (kx_point X) (pm_NodePubKey m) = Some pk"
    and "Unmarshal (kx_message X) (pm_Payload m) = Some msg"
    and "node_by_address (PointToEthAddress E pk) (all_nodes CX ch) = Some (Some r)" "nr_Index r = Some i"
    and "kgs_chain S = chain_Call CX E cache db"
  shows "ForwardP2PToEventBus PX (chain_Call CX E cache db) buf (ch, ca, d) = Some (Some m, ch, ca, d) \<and>
    streamHandler X E S m (ks, ch, ca, d) =
      Some (ks\<lparr>kg_pending := kg_pending ks @ [(\<lparr>kn_Index = Int64 i, kn_PubKey = pk\<rparr>, msg)]\<rparr>, ch, ca, d)"
proof -
  obtain sender where "ChainMethods_VerifyDataWithNodelist (chain_Call CX E cache db) pk (pm_Sign m)
      (P2P_GetSerializedBody PX m) (ch, ca, d) = Some (Inr sender, ch, ca, d)"
    using VerifyDataWithNodelist_accepts [OF assms(1,2,4), where E = E and cache = cache and db = db and pk = pk and
        data = "P2P_GetSerializedBody PX m" and ca = ca and d = d] by blast
  then have "ForwardP2PToEventBus PX (chain_Call CX E cache db) buf (ch, ca, d) = Some (Some m, ch, ca, d)"
    by (simp add: ForwardP2PToEventBus_def assms(3,5) authenticateMessage_def)
  moreover have "nr_Index (Deserialize (Serialize r)) = Some i"
    by (simp add: Serialize_def Deserialize_def assms(9))
  ultimately show ?thesis
    by (simp add: streamHandler_def assms(6,7,10) GetNodeDetailsByAddress_call [OF assms(1,8)])
qed

text \<open>A node with key five is registered; the signature is zero.\<close>

definition forged :: P2PBasicMessage where
  "forged = zero_message\<lparr>pm_Sign := replicate 65 0, pm_Payload := [7]\<rparr>"

definition forged_ext :: p2p_ext where
  "forged_ext = \<lparr>px_ID = [], px_NewStream = (\<lambda>_ _. None), px_write = (\<lambda>_ _. None),
     px_message = \<lparr>Marshal = (\<lambda>_. Some [1]), Unmarshal = (\<lambda>b. if b = [1] then Some forged else None)\<rparr>,
     px_point = \<lparr>Marshal = (\<lambda>_. Some []), Unmarshal = (\<lambda>_. Some \<lparr>pt_X = 5, pt_Y = 5\<rparr>)\<rparr>\<rparr>"

definition forged_keygen :: keygen_ext where
  "forged_keygen = \<lparr>kx_message = \<lparr>Marshal = (\<lambda>_. Some [7]), Unmarshal = (\<lambda>b. if b = [7] then Some (CreateMessage [] ''aba_est1'' []) else None)\<rparr>,
     kx_point = px_point forged_ext, kx_PeerID = (\<lambda>_. None)\<rparr>"

definition forged_chain :: ChainService where
  "forged_chain = toy_chain\<lparr>ch_nodeRegisterMap :=
     [(1, \<lparr>rg_AllConnected = True, rg_NodeList = [toy_ref\<lparr>nr_Address := Some (replicate 19 0 @ [5])\<rparr>]\<rparr>)]\<rparr>"

definition forged_call :: "(unit, unit) chain_state service" where
  "forged_call = chain_Call toy_ext toy_ecdsa (\<lambda>_ _ w. (Returns Nil_iface None, w)) (\<lambda>_ _ w. (Returns Nil_iface None, w))"

definition forged_services :: "(unit, unit) chain_state keygen_services" where
  "forged_services = \<lparr>kgs_chain = forged_call, kgs_db = forged_call, kgs_p2p = forged_call, kgs_tendermint = forged_call\<rparr>"

theorem forged_message_received_witness:
  "VerifyPtFromRaw toy_ecdsa (P2P_GetSerializedBody forged_ext forged) \<lparr>pt_X = 5, pt_Y = 5\<rparr> (pm_Sign forged) = Some False \<and>
   (\<exists>ks :: (gf, gf) KeygenService. kg_pending ks = [] \<and>
     streamHandler forged_keygen toy_ecdsa forged_services forged (ks, forged_chain, (), ()) =
       Some (ks\<lparr>kg_pending := [(\<lparr>kn_Index = 1, kn_PubKey = \<lparr>pt_X = 5, pt_Y = 5\<rparr>\<rparr>, CreateMessage [] ''aba_est1'' [])]\<rparr>, forged_chain, (), ()))"
proof -
  have bad: "VerifyPtFromRaw toy_ecdsa (P2P_GetSerializedBody forged_ext forged) \<lparr>pt_X = 5, pt_Y = 5\<rparr> (pm_Sign forged) = Some False"
    by (simp add: VerifyPtFromRaw_def verifyFromRaw_def go_slice_def toy_ecdsa_def big_SetBytes_def numeral_eq_Suc
        forged_def zero_message_def forged_ext_def P2P_GetSerializedBody_def)
  let ?r = "toy_ref\<lparr>nr_Address := Some (replicate 19 0 @ [5])\<rparr>" and ?pk = "\<lparr>pt_X = 5, pt_Y = 5\<rparr>"
  have nodes: "all_nodes toy_ext forged_chain = [?r]"
    by (simp add: all_nodes_def toy_ext_def forged_chain_def)
  have f: "\<not> ch_locked forged_chain" "listed (all_nodes toy_ext forged_chain)"
    "Unmarshal (px_message forged_ext) [1] = Some forged" "64 \<le> length (pm_Sign forged)"
    "Unmarshal (px_point forged_ext) (pm_NodePubKey forged) = Some ?pk" "Unmarshal (kx_point forged_keygen) (pm_NodePubKey forged) = Some ?pk"
    "Unmarshal (kx_message forged_keygen) (pm_Payload forged) = Some (CreateMessage [] ''aba_est1'' [])"
    "node_by_address (PointToEthAddress toy_ecdsa ?pk) (all_nodes toy_ext forged_chain) = Some (Some ?r)" "nr_Index ?r = Some 1"
    by (simp_all add: nodes) (simp_all add: forged_chain_def toy_chain_def listed_def toy_ref_def forged_ext_def forged_def
        forged_keygen_def PointToEthAddress_def toy_ecdsa_def)
  define ks :: "(gf, gf) KeygenService" where
    "ks = \<lparr>kg_node = undefined, kg_state = empty_state, kg_tracker = [], kg_pending = []\<rparr>"
  have "streamHandler forged_keygen toy_ecdsa forged_services forged (ks, forged_chain, (), ()) =
       Some (ks\<lparr>kg_pending := kg_pending ks @ [(\<lparr>kn_Index = Int64 1, kn_PubKey = ?pk\<rparr>, CreateMessage [] ''aba_est1'' [])]\<rparr>, forged_chain, (), ())"
    using forged_message_received [OF f, where S = forged_services and cache = "\<lambda>_ _ w. (Returns Nil_iface None, w)" and
        db = "\<lambda>_ _ w. (Returns Nil_iface None, w)" and ks = ks and ca = "()" and d = "()"]
    by (simp add: forged_services_def forged_call_def)
  then show ?thesis using bad by (intro conjI exI [of _ ks]) (simp_all add: ks_def Int64_def)
qed

section \<open>A key is dealt once\<close>

text \<open>The mark of a key in the database, which no call takes away but one that sets it to false.\<close>

definition marked :: "'d leveldb \<Rightarrow> dbjson \<Rightarrow> ADKGID \<Rightarrow> 'd \<Rightarrow> bool" where
  "marked D J i d \<longleftrightarrow> db_GetKeygenStarted D J i d = Some True"

definition unmarks :: "string \<Rightarrow> iface list \<Rightarrow> bool" where
  "unmarks m args \<longleftrightarrow> m = ''set_keygen_started'' \<and> arg False bool_of args 1 = Some False"

definition is_mark_key :: "bytes \<Rightarrow> bool" where
  "is_mark_key k \<longleftrightarrow> k \<noteq> [] \<and> hd k = 103"

lemma mark_keys:
  "is_mark_key k \<Longrightarrow> k \<noteq> share_key a" "is_mark_key k \<Longrightarrow> k \<noteq> commitment_key a" "is_mark_key k \<Longrightarrow> k \<noteq> T_key a"
  "is_mark_key k \<Longrightarrow> k \<noteq> pubkey_key a" "is_mark_key k \<Longrightarrow> k \<noteq> connectionDetailsBytes @ b"
  "is_mark_key k \<Longrightarrow> k \<noteq> nodePubKeyBytes @ b" "is_mark_key k \<Longrightarrow> k \<noteq> pssCommitmentMatrixBytes @ b"
  "is_mark_key k \<Longrightarrow> k \<noteq> pubkeyToKeyIndexBytes @ b" "is_mark_key k \<Longrightarrow> k \<noteq> pubkeyToKeyIndexEDBytes @ b"
  by (cases a; auto simp: is_mark_key_def share_key_def commitment_key_def T_key_def pubkey_key_def curve_key_def
      prefix_defs string_bytes_def split: if_splits)+

lemma mark_frame:
  assumes "leveldb_laws D" "is_mark_key k"
  shows "StoreCompletedPSSShare D J x s s' c d = Some (r, d') \<Longrightarrow> Get D k d' = Get D k d"
    and "db_StoreCommitment D J x T mp c d = Some (r, d') \<Longrightarrow> Get D k d' = Get D k d"
    and "StoreNodePubKey D J a p d = Some (r, d') \<Longrightarrow> Get D k d' = Get D k d"
    and "StorePublicKeyToKeyIndex D J p x c d = Some (r, d') \<Longrightarrow> Get D k d' = Get D k d"
    and "StoreConnectionDetails D a t t' d = Some (r, d') \<Longrightarrow> Get D k d' = Get D k d"
    and "StorePSSCommitmentMatrix D J x mx d = Some (r, d') \<Longrightarrow> Get D k d' = Get D k d"
  using Set_other [OF assms(1)] mark_keys [OF assms(2)]
  by (auto simp: StoreCompletedPSSShare_def db_StoreCommitment_def StoreNodePubKey_def
      StorePublicKeyToKeyIndex_def StoreConnectionDetails_def StorePSSCommitmentMatrix_def go_bind_eq_Some
      split: option.splits)

lemma other_calls_keep_mark:
  assumes "leveldb_laws D" "is_mark_key k" "method \<noteq> ''set_keygen_started''"
  shows "keeps D k d (db_Call D J method args d)"
  unfolding db_Call_def
  by (intro keeps_if keeps_bind; use assms(3) in \<open>simp only: refl not_True_eq_False or_panic_simps\<close>)
    (auto intro!: keeps_stored dest: mark_frame [OF assms(1,2)] split: sum.splits)

text \<open>What is needed of the codec: a mark is written, and what is written is read back.\<close>

definition mark_codec :: "dbjson \<Rightarrow> bool" where
  "mark_codec J \<longleftrightarrow> codec_ok (js_started J) \<and> Marshal (js_started J) True \<noteq> None"

lemma set_marks:
  assumes "leveldb_laws D" "mark_codec J" "db_SetKeygenStarted D J j True d = Some d'"
  shows "marked D J i d' \<longleftrightarrow> i = j \<or> marked D J i d"
proof -
  obtain b where b: "Marshal (js_started J) True = Some b" "Unmarshal (js_started J) b = Some True"
    using assms(2) by (auto simp: mark_codec_def codec_ok_def)
  then have "Get D (keygenIDBytes @ string_bytes i) d' =
      (if i = j then Some (Some b) else Get D (keygenIDBytes @ string_bytes i) d)"
    using assms(3) started.Get_Set [OF assms(1), of j b d d' i] by (simp add: db_SetKeygenStarted_def)
  then show ?thesis using b(2) by (auto simp: marked_def db_GetKeygenStarted_def)
qed

lemma db_keeps_mark:
  assumes "leveldb_laws D" "mark_codec J" "\<not> unmarks m args" "marked D J i d"
  shows "marked D J i (snd (db_Call D J m args d))"
proof (cases "m = ''set_keygen_started''")
  case True
  show ?thesis
  proof (cases "arg False bool_of args 1")
    case None
    then show ?thesis using True assms(4) by (cases "arg [] string_of args 0") (simp_all add: db_Call_def)
  next
    case (Some b)
    then have "b" using assms(3) True by (cases b) (simp_all add: unmarks_def)
    then show ?thesis using True Some assms(4) set_marks [OF assms(1,2)]
      by (cases "arg [] string_of args 0") (auto simp: db_Call_def snd_stored split: option.splits)
  qed
next
  case False
  have "is_mark_key (keygenIDBytes @ string_bytes i)"
    by (simp add: is_mark_key_def prefix_defs string_bytes_def)
  then have "Get D (keygenIDBytes @ string_bytes i) (snd (db_Call D J m args d)) = Get D (keygenIDBytes @ string_bytes i) d"
    using other_calls_keep_mark [OF assms(1) _ False] by (simp add: keeps_def)
  then show ?thesis using assms(4) by (simp add: marked_def db_GetKeygenStarted_def)
qed

text \<open>A property of the world that the services keep, but for a call that takes a mark away.\<close>

definition services_keep :: "('w \<Rightarrow> bool) \<Rightarrow> 'w keygen_services \<Rightarrow> bool" where
  "services_keep P S \<longleftrightarrow> preserves P (kgs_chain S) \<and> preserves P (kgs_p2p S) \<and> preserves P (kgs_tendermint S) \<and>
     (\<forall>m args w. \<not> unmarks m args \<longrightarrow> P w \<longrightarrow> P (snd (kgs_db S m args w)))"

lemma db_keepsD: "services_keep P S \<Longrightarrow> \<not> unmarks m args \<Longrightarrow> P w \<Longrightarrow> P (snd (kgs_db S m args w))"
  by (simp add: services_keep_def)

lemma services_keepD:
  "services_keep P S \<Longrightarrow> P w \<Longrightarrow> P (snd (kgs_chain S m args w))"
  "services_keep P S \<Longrightarrow> P w \<Longrightarrow> P (snd (kgs_p2p S m args w))"
  "services_keep P S \<Longrightarrow> P w \<Longrightarrow> P (snd (kgs_tendermint S m args w))"
  by (simp_all add: services_keep_def preserves_def)

text \<open>Every call the service makes keeps such a property.\<close>

lemma calls_keep:
  assumes "services_keep P S" "P w"
  shows "ChainMethods_GetNodeDetailsByAddress (kgs_chain S) a w = Some (nr, w') \<Longrightarrow> P w'"
    and "ChainMethods_GetSelfPublicKey (kgs_chain S) w = Some (pt, w') \<Longrightarrow> P w'"
    and "ChainMethods_GetSelfPrivateKey (kgs_chain S) w = Some (n, w') \<Longrightarrow> P w'"
    and "ChainMethods_GetCurrentEpoch (kgs_chain S) w = Some (n, w') \<Longrightarrow> P w'"
    and "ChainMethods_AwaitCompleteNodeList (kgs_chain S) n w = Some (nl, w') \<Longrightarrow> P w'"
    and "ChainMethods_GetEpochInfo (kgs_chain S) n b w = Some (ei, w') \<Longrightarrow> P w'"
    and "P2PMethods_SignP2PMessage (kgs_p2p S) pm w = Some (sg, w') \<Longrightarrow> P w'"
    and "TendermintMethods_Broadcast (kgs_tendermint S) v w = Some (sg, w') \<Longrightarrow> P w'"
    and "DBMethods_IndexToPublicKeyExists (kgs_db S) n c w = Some (b, w') \<Longrightarrow> P w'"
    and "DBMethods_StoreCompletedPSSShare (kgs_db S) n n' n'' c w = Some (u, w') \<Longrightarrow> P w'"
    and "DBMethods_StoreCommitment (kgs_db S) n T mp c w = Some (u, w') \<Longrightarrow> P w'"
    and "DBMethods_GetKeygenStarted (kgs_db S) s w = Some (b, w') \<Longrightarrow> P w'"
    and "DBMethods_SetKeygenStarted (kgs_db S) s True w = Some (u, w') \<Longrightarrow> P w'"
  unfolding ChainMethods_GetNodeDetailsByAddress_def ChainMethods_GetSelfPublicKey_def ChainMethods_GetSelfPrivateKey_def
    ChainMethods_GetCurrentEpoch_def ChainMethods_AwaitCompleteNodeList_def ChainMethods_GetEpochInfo_def
    P2PMethods_SignP2PMessage_def TendermintMethods_Broadcast_def DBMethods_IndexToPublicKeyExists_def
    DBMethods_StoreCompletedPSSShare_def DBMethods_StoreCommitment_def DBMethods_GetKeygenStarted_def
    DBMethods_SetKeygenStarted_def
  by (erule retry_ask_keeps [where P = P, rotated 2] ask_keeps [where P = P, rotated 2],
      (rule services_keepD [OF assms(1)] db_keepsD [OF assms(1)]; simp add: unmarks_def arg_def), rule assms(2))+

lemma plain_calls_keep:
  assumes "services_keep P S" "P w"
  shows "ChainMethods_GetSelfIndex (kgs_chain S) w = Some (n, w') \<Longrightarrow> P w'"
    and "P2PMethods_NewP2PMessage (kgs_p2p S) s b bs s' w = Some (pm, w') \<Longrightarrow> P w'"
    and "retry_do k (P2PMethods_SendP2PMessage (kgs_p2p S) s s' pm) w = Some (u, w') \<Longrightarrow> P w'"
proof -
  show "ChainMethods_GetSelfIndex (kgs_chain S) w = Some (n, w') \<Longrightarrow> P w'"
    using ServiceMethod_keeps [where P = P, OF services_keepD(1) [OF assms(1)] assms(2)]
    by (auto simp: ChainMethods_GetSelfIndex_def go_bind_eq_Some split: if_splits)
  show "P2PMethods_NewP2PMessage (kgs_p2p S) s b bs s' w = Some (pm, w') \<Longrightarrow> P w'"
    using ServiceMethod_keeps [where P = P, OF services_keepD(2) [OF assms(1)] assms(2)]
    by (auto simp: P2PMethods_NewP2PMessage_def go_bind_eq_Some split: if_splits)
  show "P w'" if "retry_do k (P2PMethods_SendP2PMessage (kgs_p2p S) s s' pm) w = Some (u, w')"
    by (rule retry_do_invariant [where P = P, OF _ assms(2) that])
      (auto simp: P2PMethods_SendP2PMessage_def elim!: ask_keeps [where P = P, rotated 2]
        intro: services_keepD [OF assms(1)])
qed

lemma Transport_Send_keeps:
  assumes "services_keep P S" "P w" "Transport_Send X E S node n msg w = Some (r, w')"
  shows "P w'"
  using assms(3,2) unfolding Transport_Send_def
  by (auto simp: go_bind_eq_Some case_option_eq case_sum_eq split: if_splits)
    (meson calls_keep [OF assms(1)] plain_calls_keep [OF assms(1)])+

lemma logged_keeps: "(\<And>w r w'. P w \<Longrightarrow> f w = Some (r, w') \<Longrightarrow> P w') \<Longrightarrow> P w \<Longrightarrow> logged f w = Some w' \<Longrightarrow> P w'"
  by (auto simp: logged_def go_bind_eq_Some)

lemma ReceiveBFTMessage_keeps:
  assumes "services_keep P S" "P w" "node_ReceiveBFTMessage S msg w = Some w'"
  shows "P w'"
  using assms(3,2) unfolding node_ReceiveBFTMessage_def CheckIfNIZKPProcessed_def SendBroadcast_def logged_def
  by (auto simp: go_bind_eq_Some case_sum_eq Let_def split: if_splits) (meson calls_keep [OF assms(1)])+

lemma perform_keeps:
  assumes "services_keep P S" "P (snd x)" "perform L X E S node a x = Some y"
  shows "P (snd y)"
proof -
  obtain pending w where x: "x = (pending, w)" "P w" using assms(2) by (cases x) auto
  have send: "P (snd v)" if "P (snd u)"
    "(\<lambda>(pending, w). do { ((local, r), w') \<leftarrow> Transport_Send X E S node n msg w; Some (pending @ local, w') }) u = Some v"
    for n msg u v
    using that Transport_Send_keeps [OF assms(1)] by (cases u) (auto simp: go_bind_eq_Some)
  show ?thesis
  proof (cases a)
    case (Send n msg)
    then show ?thesis using assms(3) send [of "(pending, w)" n msg y] x by (simp add: perform_def)
  next
    case (Broadcast msg)
    then show ?thesis using assms(2,3) send
      by (auto simp: perform_def Let_def x(1) elim!: go_fold_invariant [where P = "\<lambda>v. P (snd v)"])
  next
    case (ReceiveBFTMessage msg)
    then show ?thesis using assms(3) ReceiveBFTMessage_keeps [OF assms(1) x(2)] by (auto simp: perform_def Let_def x(1))
  next
    case (StoreCompletedShare i si c)
    then show ?thesis using assms(3) calls_keep(10) [OF assms(1) x(2)]
      by (auto simp: perform_def Let_def x(1) node_StoreCompletedShare_def logged_def go_bind_eq_Some)
  next
    case (StoreCommitment i metadata c)
    then show ?thesis using assms(3) calls_keep(11) [OF assms(1) x(2)]
      by (auto simp: perform_def Let_def x(1) node_StoreCommitment_def logged_def go_bind_eq_Some)
  qed (use assms(3) x in \<open>auto simp: perform_def Let_def\<close>)
qed

lemma performs_keep:
  assumes "services_keep P S" "go_fold (perform L X E S node) acts (p, w) = Some (p', w')" "P w"
  shows "P w'"
proof -
  have "P (snd (p', w'))"
    by (rule go_fold_invariant [where P = "\<lambda>v. P (snd v)", OF assms(2)])
      (simp add: assms(3), rule perform_keeps [OF assms(1)])
  then show ?thesis by simp
qed

lemma Transport_Receive_keeps:
  assumes "services_keep P S" "P (snd st)" "Transport_Receive L X E S rnd sender msg st = Some (e, st')"
  shows "P (snd st')"
  using assms(2,3) by (cases st) (auto simp: Transport_Receive_def go_bind_eq_Some dest: performs_keep [OF assms(1)])

lemma node_BFTDecided_keeps:
  assumes "services_keep P S" "P (snd st)" "node_BFTDecided L X E S i st = Some st'"
  shows "P (snd st')"
  using assms(2,3) by (cases st) (auto simp: node_BFTDecided_def go_bind_eq_Some dest: performs_keep [OF assms(1)])

lemma streamHandler_keeps:
  assumes "services_keep P S" "P (snd st)" "streamHandler X E S m st = Some st'"
  shows "P (snd st')"
  using assms(2,3) by (cases st)
    (auto simp: streamHandler_def go_bind_eq_Some case_option_eq dest: calls_keep(1) [OF assms(1)])

lemma start_once_keeps:
  assumes "services_keep P S" "P (snd st)" "start_once S now m st = Some (r, st')"
  shows "P (snd st')"
  using assms(2,3) by (cases st)
    (auto simp: start_once_def go_bind_eq_Some case_sum_eq split: if_splits
      dest: calls_keep(12,13) [OF assms(1), rotated])

lemma or_panic_keeps:
  "P (snd st) \<Longrightarrow> (\<And>q st'. r = Some (q, st') \<Longrightarrow> P (snd st')) \<Longrightarrow> P (snd (snd (or_panic st r)))"
  by (cases r) auto

lemma started_keeps:
  assumes "services_keep P S" "P (snd st)"
  shows "P (snd (snd (or_panic st
      (case r of
         Inl e \<Rightarrow> Some (Returns Nil_iface (Some e), st)
       | Inr False \<Rightarrow> Some (Returns Nil_iface None, st)
       | Inr True \<Rightarrow> do {
           (index, w') \<leftarrow> ChainMethods_GetSelfIndex (kgs_chain S) (snd st);
           (e, st') \<leftarrow> Transport_Receive L X E S rnd
               \<lparr>kn_Index = index, kn_PubKey = kn_PubKey (node_details (kg_node (fst st)))\<rparr> m (fst st, w');
           Some (Returns Nil_iface e, st') }))))"
proof (rule or_panic_keeps [where P = P, OF assms(2)])
  have "P (snd st')" if "ChainMethods_GetSelfIndex (kgs_chain S) (snd st) = Some (n, w')"
      "Transport_Receive L X E S rnd d m (fst st, w') = Some (e, st')" for n w' d e st'
    using Transport_Receive_keeps [OF assms(1) _ that(2)] plain_calls_keep(1) [OF assms(1,2) that(1)] by simp
  then show "P (snd st')" if "(case r of
         Inl e \<Rightarrow> Some (Returns Nil_iface (Some e), st)
       | Inr False \<Rightarrow> Some (Returns Nil_iface None, st)
       | Inr True \<Rightarrow> do {
           (index, w') \<leftarrow> ChainMethods_GetSelfIndex (kgs_chain S) (snd st);
           (e, st') \<leftarrow> Transport_Receive L X E S rnd
               \<lparr>kn_Index = index, kn_PubKey = kn_PubKey (node_details (kg_node (fst st)))\<rparr> m (fst st, w');
           Some (Returns Nil_iface e, st') }) = Some (q, st')" for q st'
    using that assms(2) by (auto simp: go_bind_eq_Some split: sum.splits bool.splits)
qed

lemma receive_started_keeps:
  assumes "services_keep P S" "start_once S now m st = Some (r, st0)" "P (snd st0)"
  shows "P (snd (snd (receive_message L X E S now rnd m st)))"
proof -
  obtain ks w where st0: "st0 = (ks, w)" by fastforce
  show ?thesis
    using started_keeps [OF assms(1) assms(3) [unfolded st0], of L X E rnd m r, unfolded fst_conv snd_conv]
    by (simp add: receive_message_def assms(2) [unfolded st0])
qed

lemma receive_message_keeps:
  assumes "services_keep P S" "P (snd st)"
  shows "P (snd (snd (receive_message L X E S now rnd m st)))"
proof (cases "start_once S now m st")
  case (Some y)
  then obtain r st0 where y: "start_once S now m st = Some (r, st0)" by (cases y) auto
  show ?thesis by (rule receive_started_keeps [OF assms(1) y]) (rule start_once_keeps [OF assms y])
qed (use assms(2) in \<open>simp add: receive_message_def\<close>)

lemma keygen_Call_keeps:
  assumes "services_keep P S" "P (snd st)"
  shows "P (snd (snd (keygen_Call L X E S now rnd method args st)))"
proof -
  have "P (snd (snd (or_panic st (do { a \<leftarrow> go_index args 0;
      (case CastOrUnmarshal message_of a of
         Inl e \<Rightarrow> Some (Returns Nil_iface (Some e), st)
       | Inr args0 \<Rightarrow> Some (receive_message L X E S now rnd args0 st)) }))))"
    using assms(2) receive_message_keeps [OF assms]
    by (cases "go_index args 0"; cases "CastOrUnmarshal message_of (the (go_index args 0))") simp_all
  moreover have "P (snd (snd (or_panic st (do { a \<leftarrow> go_index args 0;
      (case CastOrUnmarshal adkgid_of a of
         Inl e \<Rightarrow> Some (Returns Nil_iface (Some e), st)
       | Inr adkgid \<Rightarrow> do { st' \<leftarrow> node_BFTDecided L X E S adkgid st; Some (Returns Nil_iface None, st') }) }))))"
    by (rule or_panic_keeps [where P = P, OF assms(2)])
      (use assms(2) in \<open>auto simp: go_bind_eq_Some case_sum_eq dest: node_BFTDecided_keeps [OF assms]\<close>)
  ultimately show ?thesis using assms(2) by (simp add: keygen_Call_def)
qed

lemma keygen_Start_keeps:
  assumes "services_keep P S" "P w" "keygen_Start L S w = Some (r, w')"
  shows "P w'"
proof -
  obtain i w1 pk w2 ep w3 ns w4 info w5 where a:
    "ChainMethods_GetSelfIndex (kgs_chain S) w = Some (i, w1)"
    "ChainMethods_GetSelfPublicKey (kgs_chain S) w1 = Some (pk, w2)"
    "ChainMethods_GetCurrentEpoch (kgs_chain S) w2 = Some (ep, w3)"
    "ChainMethods_AwaitCompleteNodeList (kgs_chain S) ep w3 = Some (ns, w4)"
    "ChainMethods_GetEpochInfo (kgs_chain S) ep True w4 = Some (info, w5)"
    using assms(3) unfolding keygen_Start_def by (auto simp only: go_bind_eq_Some case_prod_eq)
  then have "P w5"
    using calls_keep [OF assms(1)] plain_calls_keep(1) [OF assms(1,2)] by meson
  have "w' = w5 \<or> (\<exists>k. ChainMethods_GetSelfPrivateKey (kgs_chain S) w5 = Some (k, w'))"
    using assms(3) unfolding keygen_Start_def
    by (cases info) (auto simp: a go_bind_eq_Some case_option_eq Let_def case_prod_beta)
  then show ?thesis using \<open>P w5\<close> calls_keep(3) [OF assms(1)] by blast
qed

text \<open>
  Runs of a node: calls of the service, messages that arrive, pending messages that are taken in
  any order, the janitor, a restart of the process, and what the other services do to the world.
\<close>

inductive keygen_step ::
  "('s, 'p) lib \<Rightarrow> keygen_ext \<Rightarrow> ecdsa \<Rightarrow> 'w keygen_services \<Rightarrow> ('w \<Rightarrow> bool) \<Rightarrow>
   ('s, 'p) KeygenService \<times> 'w \<Rightarrow> ('s, 'p) KeygenService \<times> 'w \<Rightarrow> bool"
  for L X E S P where
  call: "keygen_Call L X E S now rnd method args st = (r, st') \<Longrightarrow> keygen_step L X E S P st st'"
| stream: "streamHandler X E S m st = Some st' \<Longrightarrow> keygen_step L X E S P st st'"
| deliver: "kg_pending ks = ps @ (sender, msg) # qs \<Longrightarrow>
    Transport_Receive L X E S rnd sender msg (ks\<lparr>kg_pending := ps @ qs\<rparr>, w) = Some (e, st') \<Longrightarrow>
    keygen_step L X E S P (ks, w) st'"
| janitor: "keygen_step L X E S P (ks, w) (removeExpiredKeygen L now ks, w)"
| restart: "keygen_Start L S w = Some (Inr ks', w') \<Longrightarrow> keygen_step L X E S P (ks, w) (ks', w')"
| world: "(P w \<Longrightarrow> P w') \<Longrightarrow> keygen_step L X E S P (ks, w) (ks, w')"

lemma keygen_step_keeps:
  assumes "services_keep P S" "keygen_step L X E S P st st'" "P (snd st)"
  shows "P (snd st')"
  using assms(2,3)
proof cases
  case (call now rnd mth args r)
  then show ?thesis using keygen_Call_keeps [OF assms(1,3), of L X E now rnd mth args] by simp
next
  case (stream m)
  then show ?thesis using streamHandler_keeps [OF assms(1,3)] by blast
next
  case (deliver ks ps sender msg qs rnd w e)
  then show ?thesis using assms(3) Transport_Receive_keeps [OF assms(1), of "(ks\<lparr>kg_pending := ps @ qs\<rparr>, w)"] by simp
qed (auto dest: keygen_Start_keeps [OF assms(1)])

lemma keygen_steps_keep:
  assumes "services_keep P S" "(keygen_step L X E S P)\<^sup>*\<^sup>* st st'" "P (snd st)"
  shows "P (snd st')"
  using assms(2,3) by induction (auto dest: keygen_step_keeps [OF assms(1)])

text \<open>The database is a part of the world; a mark there is seen by the guard.\<close>

lemma guard_closed:
  assumes "kgs_db S = in_part sel upd (db_Call D J)" "\<And>w. upd (sel w) w = w"
    and "marked D J i (sel (snd st))" "dm_Method m = ''acss_share''" "ADKGIDFromRoundID (dm_RoundID m) = Inr i"
  shows "start_once S now m st = Some (Inr False, st)"
proof -
  have "DBMethods_GetKeygenStarted (kgs_db S) i (snd st) = Some (True, snd st)"
    unfolding DBMethods_GetKeygenStarted_def
    by (rule retry_first) (use assms(3) in \<open>simp add: assms(1,2) ask_def ServiceMethod_def in_part_def db_Call_def arg_def marked_def checked_def\<close>)
  then show ?thesis using assms(4,5) by (cases st) (simp add: start_once_def)
qed

lemma guard_marks:
  assumes "leveldb_laws D" "mark_codec J" "kgs_db S = in_part sel upd (db_Call D J)" "\<And>d w. sel (upd d w) = d"
    and "start_once S now m st = Some (Inr b, st')" "dm_Method m = ''acss_share''" "ADKGIDFromRoundID (dm_RoundID m) = Inr i"
  shows "marked D J i (sel (snd st'))"
proof -
  obtain ks w where st: "st = (ks, w)" by fastforce
  have *: "P w1" if "retry_do k (ask (checked bool_of) (kgs_db S) ''get_keygen_started'' [VString i]) w0 = Some (Inr True, w1)"
    "P = (\<lambda>w. marked D J i (sel w))" for k w0 w1 P
    using that(1)
  proof (induction k arbitrary: w0)
    case (Suc k)
    then show ?case unfolding that(2)
      by (cases "db_GetKeygenStarted D J i (sel w0)")
        (auto simp: ask_def ServiceMethod_def assms(3,4) in_part_def db_Call_def arg_def checked_def marked_def go_bind_eq_Some split: if_splits)
  qed simp
  show ?thesis
  proof (cases b)
    case False
    then obtain w1 where "DBMethods_GetKeygenStarted (kgs_db S) i w = Some (True, w1)" "st' = (ks, w1)"
      using assms(5-7) by (auto simp: st start_once_def go_bind_eq_Some case_sum_eq split: if_splits)
    then show ?thesis using * by (auto simp: DBMethods_GetKeygenStarted_def retry_or_fatal_def go_bind_eq_Some case_sum_eq)
  next
    case True
    then obtain w1 w2 where "DBMethods_SetKeygenStarted (kgs_db S) i True w1 = Some (Inr (), w2)" "snd st' = w2"
      using assms(5-7) by (auto simp: st start_once_def go_bind_eq_Some case_sum_eq split: if_splits)
    then have "db_SetKeygenStarted D J i True (sel w1) = Some (sel (snd st'))"
      by (auto simp: DBMethods_SetKeygenStarted_def ask_def ServiceMethod_def assms(3,4) in_part_def db_Call_def arg_def
          stored_def acknowledged_def go_bind_eq_Some split: option.splits call_result.splits prod.splits)
        (metis assms(4))
    then show ?thesis using set_marks [OF assms(1,2)] by blast
  qed
qed

text \<open>
  C6. A node deals a key once. When a call of the service with the message that starts the dealing
  of a key has returned without an error, then no later call with such a message for the same key
  does anything, whatever happens in between: calls and messages in any order, the janitor that
  forgets the key, and restarts of the process, as long as the other services leave the mark of
  the key in the database.
\<close>

theorem key_dealt_once:
  assumes "leveldb_laws D" "mark_codec J"
    and "kgs_db S = in_part sel upd (db_Call D J)" "\<And>d w. sel (upd d w) = d" "\<And>w. upd (sel w) w = w"
    and "preserves (\<lambda>w. marked D J i (sel w)) (kgs_chain S)" "preserves (\<lambda>w. marked D J i (sel w)) (kgs_p2p S)"
    and "preserves (\<lambda>w. marked D J i (sel w)) (kgs_tendermint S)"
    and "dm_Method m = ''acss_share''" "ADKGIDFromRoundID (dm_RoundID m) = Inr i"
    and "dm_Method m' = ''acss_share''" "ADKGIDFromRoundID (dm_RoundID m') = Inr i"
    and "keygen_Call L X E S now rnd ''receive_message'' [VMessage m] st = (Returns v None, st1)"
    and "(keygen_step L X E S (\<lambda>w. marked D J i (sel w)))\<^sup>*\<^sup>* st1 st2"
  shows "keygen_Call L X E S now' rnd' ''receive_message'' [VMessage m'] st2 = (Returns Nil_iface None, st2)"
proof -
  let ?P = "\<lambda>w. marked D J i (sel w)"
  have S: "services_keep ?P S"
    using assms(6-8) db_keeps_mark [OF assms(1,2)]
    by (auto simp: services_keep_def assms(3,4) in_part_def split: prod.splits) (metis snd_conv)
  from assms(13) have r: "receive_message L X E S now rnd m st = (Returns v None, st1)"
    by (simp add: keygen_Call_def)
  then obtain b st0 where b: "start_once S now m st = Some (Inr b, st0)"
    by (auto simp: receive_message_def split: option.splits sum.splits)
  have "?P (snd st0)" by (rule guard_marks [OF assms(1-4) b assms(9,10)])
  then have "?P (snd st1)"
    using receive_started_keeps [where P = ?P, OF S b, of L X E rnd] r by simp
  then have "?P (snd st2)" by (rule keygen_steps_keep [OF S assms(14)])
  then have "start_once S now' m' st2 = Some (Inr False, st2)"
    by (rule guard_closed [OF assms(3,5) _ assms(11,12)])
  then show ?thesis by (cases st2) (simp add: keygen_Call_def receive_message_def)
qed

text \<open>A node starts a key, the janitor forgets it ten minutes later, and then the start is asked for again.\<close>

definition quiet :: "('d \<times> unit) service" where
  "quiet m args w = (Returns (VInt 1) None, w)"

definition quiet_services :: "((bytes, bytes) gomap \<times> unit) keygen_services" where
  "quiet_services = \<lparr>kgs_chain = quiet, kgs_db = in_part fst (\<lambda>d w. (d, snd w)) (db_Call mem_db mem_json),
     kgs_p2p = quiet, kgs_tendermint = quiet\<rparr>"

definition start_message :: DKGMessage where
  "start_message = CreateMessage gf_round ''acss_share'' []"

definition fresh_service :: "(gf, gf) KeygenService" where
  "fresh_service = \<lparr>kg_node = gf_self, kg_state = empty_state, kg_tracker = [], kg_pending = []\<rparr>"

definition quiet_call :: "int \<Rightarrow> ((gf, gf) KeygenService \<times> (bytes, bytes) gomap \<times> unit) service" where
  "quiet_call now = keygen_Call gf_lib forged_keygen toy_ecdsa quiet_services now (\<lambda>_. [])"

lemma mem_json_marks [simp]: "mark_codec mem_json"
  by (simp add: mark_codec_def codec_ok_def mem_json_def)

lemma preserves_quiet [simp]: "preserves P quiet"
  by (simp add: preserves_def quiet_def)

lemma first_start:
  "quiet_call 0 ''receive_message'' [VMessage start_message] (fresh_service, [], ()) =
     (Returns Nil_iface None, fresh_service\<lparr>kg_tracker := [(gf_id, 0)]\<rparr>, [(keygenIDBytes @ string_bytes gf_id, [1])], ())"
proof -
  have "DBMethods_GetKeygenStarted (kgs_db quiet_services) gf_id ([], ()) = Some (False, ([], ()))"
    unfolding DBMethods_GetKeygenStarted_def
    by (rule retry_first) (simp add: quiet_services_def ask_def ServiceMethod_def in_part_def db_Call_def arg_def
        db_GetKeygenStarted_def Get_def mem_db_def checked_def)
  moreover have "DBMethods_SetKeygenStarted (kgs_db quiet_services) gf_id True ([], ()) =
      Some (Inr (), [(keygenIDBytes @ string_bytes gf_id, [1])], ())"
    by (simp add: DBMethods_SetKeygenStarted_def quiet_services_def ask_def ServiceMethod_def in_part_def db_Call_def arg_def
        db_SetKeygenStarted_def Set_def mem_db_def mem_json_def stored_def acknowledged_def)
  ultimately have "start_once quiet_services 0 start_message (fresh_service, [], ()) =
      Some (Inr True, fresh_service\<lparr>kg_tracker := [(gf_id, 0)]\<rparr>, [(keygenIDBytes @ string_bytes gf_id, [1])], ())"
    by (simp add: start_once_def start_message_def CreateMessage_def CreateDKGMessage_def fresh_service_def tracker_Add_def)
  then show ?thesis
    by (simp add: quiet_call_def keygen_Call_def receive_message_def ChainMethods_GetSelfIndex_def ServiceMethod_def
        quiet_services_def quiet_def Transport_Receive_def ProcessMessage_def processACSSMessages_def HasPrefix_def
        start_message_def CreateMessage_def CreateDKGMessage_def gf_lib_def gf_unmarshal_def fresh_service_def)
qed

theorem key_dealt_once_witness:
  "\<exists>ks1 ks2 w. quiet_call 0 ''receive_message'' [VMessage start_message] (fresh_service, [], ()) = (Returns Nil_iface None, ks1, w) \<and>
     tracker_Has gf_id (kg_tracker ks1) \<and> ks2 = removeExpiredKeygen gf_lib 600 ks1 \<and> \<not> tracker_Has gf_id (kg_tracker ks2) \<and>
     quiet_call 700 ''receive_message'' [VMessage start_message] (ks2, w) = (Returns Nil_iface None, ks2, w)"
proof -
  let ?ks1 = "fresh_service\<lparr>kg_tracker := [(gf_id, 0)]\<rparr>" and ?w = "([(keygenIDBytes @ string_bytes gf_id, [1])], ())"
  let ?P = "\<lambda>w :: (bytes, bytes) gomap \<times> unit. marked mem_db mem_json gf_id (fst w)"
  let ?ks2 = "removeExpiredKeygen gf_lib 600 ?ks1"
  have "(keygen_step gf_lib forged_keygen toy_ecdsa quiet_services ?P)\<^sup>*\<^sup>* (?ks1, ?w) (?ks2, ?w)"
    by (rule r_into_rtranclp) (rule keygen_step.janitor)
  then have "quiet_call 700 ''receive_message'' [VMessage start_message] (?ks2, ?w) = (Returns Nil_iface None, ?ks2, ?w)"
    unfolding quiet_call_def
    by (rule key_dealt_once [where sel = fst and upd = "\<lambda>d w. (d, snd w)" and S = quiet_services, rotated 13, OF _ mem_db_laws mem_json_marks])
      (use first_start in \<open>simp_all add: quiet_services_def start_message_def CreateMessage_def CreateDKGMessage_def quiet_call_def prod_eq_iff\<close>)
  then show ?thesis using first_start
    by (intro exI [of _ ?ks1] exI [of _ ?ks2] exI [of _ ?w])
      (simp add: tracker_Has_def fresh_service_def removeExpiredKeygen_def CUTOFF_PERIOD_def)
qed

end
