(* ===== verification/EventBus.thy ===== *)
theory EventBus
  imports Broker
begin

text \<open>
  The event bus, \<open>eventbus/event_bus.go\<close>, and how a request and its response travel over it:
  \<open>ServiceMethod\<close> and \<open>AwaitTopic\<close> of \<open>common/service_broker.go\<close> and the registry of services,
  \<open>common/service_registry.go\<close>. The other theories call a service directly; the last section
  shows that the bus implements these calls, for any number of requests under way at a time.

  Every operation of the bus runs under its lock, and is one step. The program subscribes only
  asynchronous callbacks that are not transactional: a callback that is published becomes a
  goroutine of its own.
\<close>

section \<open>The bus\<close>

record 'c eventHandler =
  eh_callBack :: 'c
  eh_flagOnce :: bool
  eh_async :: bool
  eh_transactional :: bool

type_synonym 'c EventBus = "(string, 'c eventHandler list) gomap"

text \<open>The callback is a function, so that the check of its kind succeeds.\<close>

definition doSubscribe :: "string \<Rightarrow> 'c eventHandler \<Rightarrow> 'c EventBus \<Rightarrow> 'c EventBus" where
  "doSubscribe topic handler bus = m_set bus topic (m_zero [] bus topic @ [handler])"

definition bus_Subscribe :: "string \<Rightarrow> 'c \<Rightarrow> 'c EventBus \<Rightarrow> 'c EventBus" where
  "bus_Subscribe topic fn =
     doSubscribe topic \<lparr>eh_callBack = fn, eh_flagOnce = False, eh_async = False, eh_transactional = False\<rparr>"

definition SubscribeAsync :: "string \<Rightarrow> 'c \<Rightarrow> bool \<Rightarrow> 'c EventBus \<Rightarrow> 'c EventBus" where
  "SubscribeAsync topic fn transactional =
     doSubscribe topic \<lparr>eh_callBack = fn, eh_flagOnce = False, eh_async = True, eh_transactional = transactional\<rparr>"

definition SubscribeOnce :: "string \<Rightarrow> 'c \<Rightarrow> 'c EventBus \<Rightarrow> 'c EventBus" where
  "SubscribeOnce topic fn =
     doSubscribe topic \<lparr>eh_callBack = fn, eh_flagOnce = True, eh_async = False, eh_transactional = False\<rparr>"

definition SubscribeOnceAsync :: "string \<Rightarrow> 'c \<Rightarrow> 'c EventBus \<Rightarrow> 'c EventBus" where
  "SubscribeOnceAsync topic fn =
     doSubscribe topic \<lparr>eh_callBack = fn, eh_flagOnce = True, eh_async = True, eh_transactional = False\<rparr>"

definition HasCallback :: "string \<Rightarrow> 'c EventBus \<Rightarrow> bool" where
  "HasCallback topic bus = (case m_get bus topic of None \<Rightarrow> False | Some hs \<Rightarrow> 0 < length hs)"

definition removeHandler :: "string \<Rightarrow> int \<Rightarrow> 'c EventBus \<Rightarrow> 'c EventBus" where
  "removeHandler topic idx bus =
     (case m_get bus topic of
        None \<Rightarrow> bus
      | Some hs \<Rightarrow>
          if \<not> (0 \<le> idx \<and> idx < int (length hs)) then bus
          else
            let hs' = take (nat idx) hs @ drop (Suc (nat idx)) hs in
            if hs' = [] then m_del bus topic else m_set bus topic hs')"

text \<open>\<open>same\<close> compares two callbacks as \<open>reflect\<close> does.\<close>

fun find_index :: "('a \<Rightarrow> bool) \<Rightarrow> int \<Rightarrow> 'a list \<Rightarrow> int" where
  "find_index P i [] = - 1"
| "find_index P i (x # xs) = (if P x then i else find_index P (i + 1) xs)"

definition findHandlerIdx :: "('c \<Rightarrow> 'c \<Rightarrow> bool) \<Rightarrow> string \<Rightarrow> 'c \<Rightarrow> 'c EventBus \<Rightarrow> int" where
  "findHandlerIdx same topic callback bus =
     (case m_get bus topic of None \<Rightarrow> - 1 | Some hs \<Rightarrow> find_index (\<lambda>h. same (eh_callBack h) callback) 0 hs)"

definition Unsubscribe :: "('c \<Rightarrow> 'c \<Rightarrow> bool) \<Rightarrow> string \<Rightarrow> 'c \<Rightarrow> 'c EventBus \<Rightarrow> unit err \<times> 'c EventBus" where
  "Unsubscribe same topic handler bus =
     (if HasCallback topic bus then (Inr (), removeHandler topic (findHandlerIdx same topic handler bus) bus)
      else (Inl ''topic doesn't exist'', bus))"

text \<open>
  The loop of \<open>Publish\<close> over the copy of the handlers, with the index in the copy. The result has
  the callbacks in the order in which they are started.
\<close>

fun publish_loop :: "string \<Rightarrow> int \<Rightarrow> 'c eventHandler list \<Rightarrow> 'c EventBus \<Rightarrow> 'c list \<times> 'c EventBus" where
  "publish_loop topic i [] bus = ([], bus)"
| "publish_loop topic i (handler # hs) bus =
     (let bus1 = (if eh_flagOnce handler then removeHandler topic i bus else bus);
          (started, bus2) = publish_loop topic (i + 1) hs bus1 in
      (eh_callBack handler # started, bus2))"

definition Publish :: "string \<Rightarrow> 'c EventBus \<Rightarrow> 'c list \<times> 'c EventBus" where
  "Publish topic bus =
     (case m_get bus topic of None \<Rightarrow> ([], bus) | Some handlers \<Rightarrow> publish_loop topic 0 handlers bus)"

section \<open>Laws of the bus\<close>

lemma m_get_doSubscribe [simp]:
  "m_get (doSubscribe topic h bus) t = (if t = topic then Some (m_zero [] bus topic @ [h]) else m_get bus t)"
  by (simp add: doSubscribe_def)

lemma m_get_removeHandler:
  "m_get (removeHandler topic i bus) t =
     (if t \<noteq> topic \<or> \<not> 0 \<le> i then m_get bus t
      else case m_get bus topic of
          None \<Rightarrow> None
        | Some hs \<Rightarrow>
            if int (length hs) \<le> i then Some hs
            else if length hs = 1 then None else Some (take (nat i) hs @ drop (Suc (nat i)) hs))"
  by (cases "m_get bus topic") (auto simp: removeHandler_def Let_def not_less Suc_le_eq)

lemma publish_step [simp]:
  "fst (publish_loop topic i (h # hs) bus) =
     eh_callBack h # fst (publish_loop topic (i + 1) hs (if eh_flagOnce h then removeHandler topic i bus else bus))"
  "snd (publish_loop topic i (h # hs) bus) =
     snd (publish_loop topic (i + 1) hs (if eh_flagOnce h then removeHandler topic i bus else bus))"
  by (simp_all add: Let_def case_prod_beta)

declare publish_loop.simps(2) [simp del]

lemma publish_started: "fst (publish_loop topic i hs bus) = map eh_callBack hs"
  by (induction hs arbitrary: i bus) auto

lemma publish_other: "t \<noteq> topic \<Longrightarrow> m_get (snd (publish_loop topic i hs bus)) t = m_get bus t"
  by (induction hs arbitrary: i bus) (simp_all add: m_get_removeHandler)

lemma publish_lasting:
  "\<forall>h \<in> set hs. \<not> eh_flagOnce h \<Longrightarrow> snd (publish_loop topic i hs bus) = bus"
  by (induction hs arbitrary: i) auto

lemma publish_absent:
  "m_get bus topic = None \<Longrightarrow> m_get (snd (publish_loop topic i hs bus)) topic = None"
  by (induction hs arbitrary: i bus) (simp_all add: m_get_removeHandler)

text \<open>What a request relies on: the only handler of its topic runs once, and is gone.\<close>

lemma publish_single_once:
  assumes "m_get bus topic = Some [h]" "eh_flagOnce h"
  shows "fst (Publish topic bus) = [eh_callBack h]"
    and "m_get (snd (Publish topic bus)) t = (if t = topic then None else m_get bus t)"
  using assms by (simp_all add: Publish_def m_get_removeHandler)

text \<open>
  In general the index into the copy is not the index into the list, which shrinks: of several
  handlers that are to run once, the loop removes every second one.
\<close>

fun second_ones :: "'a list \<Rightarrow> 'a list" where
  "second_ones (x # y # zs) = y # second_ones zs"
| "second_ones _ = []"

lemma loop_beyond:
  "m_get bus topic = Some rs \<Longrightarrow> int (length rs) \<le> i \<Longrightarrow>
   m_get (snd (publish_loop topic i hs bus)) topic = Some rs"
  by (induction hs arbitrary: i bus) (simp_all add: m_get_removeHandler)

lemma loop_all_once:
  assumes "m_get bus topic = Some (kept @ rest)" "\<forall>h \<in> set hs. eh_flagOnce h" "length rest \<le> length hs"
    and "kept @ rest \<noteq> []"
  shows "m_zero [] (snd (publish_loop topic (int (length kept)) hs bus)) topic = kept @ second_ones rest"
  using assms
proof (induction rest arbitrary: kept hs bus rule: second_ones.induct [case_names two none one])
  case (two x y zs)
  then obtain h hs' where hs: "hs = h # hs'" by (cases hs) auto
  let ?b = "removeHandler topic (int (length kept)) bus"
  have "m_get ?b topic = Some ((kept @ [y]) @ zs)" using two.prems(1) by (simp add: m_get_removeHandler)
  then show ?case using two.IH [of ?b "kept @ [y]" hs'] two.prems(2,3) hs by (simp add: add.commute)
next
  case none
  then show ?case using loop_beyond [of bus topic kept "int (length kept)" hs] by (simp add: m_zero_def)
next
  case (one x)
  then obtain h hs' where hs: "hs = h # hs'" by (cases hs) auto
  let ?b = "removeHandler topic (int (length kept)) bus"
  have "m_get ?b topic = (if kept = [] then None else Some kept)"
    using one.prems(1) by (simp add: m_get_removeHandler)
  then have "m_zero [] (snd (publish_loop topic (int (length kept) + 1) hs' ?b)) topic = kept"
    using publish_absent [of ?b topic] loop_beyond [of ?b topic kept "int (length kept) + 1" hs']
    by (cases "kept = []") (simp_all add: m_zero_def)
  then show ?case using hs one.prems(2) by simp
qed

text \<open>
  C37. A handler that is subscribed once is to be removed after it ran, but when several handlers
  of a topic are subscribed once then one message runs all of them and removes only the first,
  the third, and so on: the second, the fourth, ... stay, and run again with the next message.
  With a single handler, which is what a request relies on, nothing stays.
\<close>

theorem once_handlers_second_stay:
  assumes "m_get bus topic = Some hs" "hs \<noteq> []" "\<forall>h \<in> set hs. eh_flagOnce h"
  shows "fst (Publish topic bus) = map eh_callBack hs \<and> m_zero [] (snd (Publish topic bus)) topic = second_ones hs"
  using assms loop_all_once [of bus topic "[]" hs hs] by (simp add: Publish_def publish_started)

theorem once_handlers_second_stay_witness:
  "\<exists>bus. m_zero [] (snd (Publish ''q'' bus)) ''q'' =
     [\<lparr>eh_callBack = (2 :: nat), eh_flagOnce = True, eh_async = True, eh_transactional = False\<rparr>]"
  using once_handlers_second_stay [of "SubscribeOnceAsync ''q'' (2 :: nat) (SubscribeOnceAsync ''q'' 1 [])" "''q''"
      "[\<lparr>eh_callBack = (1 :: nat), eh_flagOnce = True, eh_async = True, eh_transactional = False\<rparr>,
        \<lparr>eh_callBack = 2, eh_flagOnce = True, eh_async = True, eh_transactional = False\<rparr>]"]
  by (intro exI [of _ "SubscribeOnceAsync ''q'' (2 :: nat) (SubscribeOnceAsync ''q'' 1 [])"])
    (simp add: SubscribeOnceAsync_def doSubscribe_def m_zero_def)

section \<open>Requests over the bus\<close>

record MethodRequest =
  rq_Caller :: string
  rq_Service :: string
  rq_Method :: string
  rq_ID :: string
  rq_Data :: "iface list"

text \<open>The callbacks: the routing of the registry, the end of the channel of a request, and others.\<close>

datatype callback = Routing | Await string | Elsewhere nat

datatype bus_message = Request MethodRequest | Response MethodResponse | Forward iface

text \<open>A service of the registry: \<open>Call\<close> and \<open>IsRunning\<close>.\<close>

type_synonym 'w ServiceRegistry = "(string, 'w service \<times> ('w \<Rightarrow> bool)) gomap"

definition RegisterService ::
  "string \<Rightarrow> 'w service \<Rightarrow> ('w \<Rightarrow> bool) \<Rightarrow> 'w ServiceRegistry \<Rightarrow> unit err \<times> 'w ServiceRegistry" where
  "RegisterService name call running s =
     (if m_get s name \<noteq> None then (Inl (''service already exists: '' @ name), s)
      else (Inr (), m_set s name (call, running)))"

definition SetupMethodRouting :: "callback EventBus \<Rightarrow> callback EventBus" where
  "SetupMethodRouting = SubscribeAsync ''method'' Routing False"

definition AwaitTopic :: "string \<Rightarrow> callback EventBus \<Rightarrow> callback EventBus" where
  "AwaitTopic topic = SubscribeOnceAsync topic (Await topic)"

text \<open>The goroutines of the callbacks, and of a call that has returned. The channel takes what is published; \<open>ServiceMethod\<close> makes an
  error of what is not a response. The routing ignores what is not a request.\<close>

datatype task = Route MethodRequest | Respond string MethodResponse | Deliver string MethodResponse

fun task_of :: "bus_message \<Rightarrow> callback \<Rightarrow> task list" where
  "task_of (Request r) Routing = [Route r]"
| "task_of _ Routing = []"
| "task_of (Response r) (Await i) = [Deliver i r]"
| "task_of _ (Await i) =
     [Deliver i \<lparr>mr_Error = Some ''method response was not of MethodResponse type'', mr_Data = Nil_iface\<rparr>]"
| "task_of _ (Elsewhere n) = []"

definition publish_tasks :: "string \<Rightarrow> bus_message \<Rightarrow> callback EventBus \<Rightarrow> task list \<times> callback EventBus" where
  "publish_tasks topic m bus = (case Publish topic bus of (cs, bus') \<Rightarrow> (concat (map (task_of m) cs), bus'))"

text \<open>
  Routing a request: the service is looked up, up to ten times, and called; the response is
  published under the identifier of the request. \<open>None\<close> is a call that does not return.
\<close>

definition dispatch :: "'w ServiceRegistry \<Rightarrow> MethodRequest \<Rightarrow> 'w \<Rightarrow> MethodResponse option \<times> 'w" where
  "dispatch s r w =
     (case m_get s (rq_Service r) of
        None \<Rightarrow> (Some \<lparr>mr_Error = Some (''could not find service '' @ rq_Service r), mr_Data = Nil_iface\<rparr>, w)
      | Some (call, running) \<Rightarrow>
          if \<not> running w then
            (Some \<lparr>mr_Error = Some (''service '' @ rq_Service r @ '' is not running''), mr_Data = Nil_iface\<rparr>, w)
          else
            (case call (rq_Method r) (rq_Data r) w of
               (Returns d e, w') \<Rightarrow> (Some \<lparr>mr_Error = e, mr_Data = d\<rparr>, w')
             | (Panics, w') \<Rightarrow> (Some \<lparr>mr_Error = Some ''panic'', mr_Data = Nil_iface\<rparr>, w')
             | (Blocks, w') \<Rightarrow> (None, w')))"

text \<open>The direct call of the other theories.\<close>

lemma dispatch_ServiceMethod:
  assumes "m_get s (rq_Service r) = Some (call, running)" "running w"
  shows "ServiceMethod call (rq_Method r) (rq_Data r) w =
    (case dispatch s r w of (Some resp, w') \<Rightarrow> Some (resp, w') | (None, _) \<Rightarrow> None)"
  using assms by (auto simp: dispatch_def ServiceMethod_def split: prod.splits call_result.splits)

record 'w bus_state =
  bs_bus :: "callback EventBus"
  bs_tasks :: "task list"
  bs_used :: "string set"
  bs_answers :: "(string, MethodResponse) gomap"
  bs_world :: 'w

text \<open>
  Steps of the system: a caller starts a request with a fresh random identifier; a request is
  routed and its service called; the response is published; it reaches the caller. Goroutines run in any order.
\<close>

inductive bus_step :: "'w ServiceRegistry \<Rightarrow> 'w bus_state \<Rightarrow> 'w bus_state \<Rightarrow> bool" for s where
  request: "rq_ID r = big_Text nonce 16 \<Longrightarrow> rq_ID r \<notin> bs_used x \<Longrightarrow> m_get (bs_bus x) (rq_ID r) = None \<Longrightarrow>
    publish_tasks ''method'' (Request r) (AwaitTopic (rq_ID r) (bs_bus x)) = (ts, bus) \<Longrightarrow>
    bus_step s x (x\<lparr>bs_bus := bus, bs_tasks := bs_tasks x @ ts, bs_used := insert (rq_ID r) (bs_used x)\<rparr>)"
| routed: "bs_tasks x = ps @ Route r # qs \<Longrightarrow> dispatch s r (bs_world x) = (Some resp, w) \<Longrightarrow>
    bus_step s x (x\<lparr>bs_tasks := ps @ Respond (rq_ID r) resp # qs, bs_world := w\<rparr>)"
| responded: "bs_tasks x = ps @ Respond i resp # qs \<Longrightarrow>
    publish_tasks i (Response resp) (bs_bus x) = (ts, bus) \<Longrightarrow>
    bus_step s x (x\<lparr>bs_bus := bus, bs_tasks := ps @ ts @ qs\<rparr>)"
| blocked: "bs_tasks x = ps @ Route r # qs \<Longrightarrow> dispatch s r (bs_world x) = (None, w) \<Longrightarrow>
    bus_step s x (x\<lparr>bs_tasks := ps @ qs, bs_world := w\<rparr>)"
| delivered: "bs_tasks x = ps @ Deliver i resp # qs \<Longrightarrow>
    bus_step s x (x\<lparr>bs_tasks := ps @ qs, bs_answers := m_set (bs_answers x) i resp\<rparr>)"

text \<open>The specification: a request is pending until the service is called, once, and then has its answer.\<close>

inductive direct_step ::
  "'w ServiceRegistry \<Rightarrow> MethodRequest set \<times> (string \<rightharpoonup> MethodResponse) \<times> 'w \<Rightarrow>
   MethodRequest set \<times> (string \<rightharpoonup> MethodResponse) \<times> 'w \<Rightarrow> bool" for s where
  ask: "rq_ID r \<notin> rq_ID ` p \<Longrightarrow> a (rq_ID r) = None \<Longrightarrow> direct_step s (p, a, w) (insert r p, a, w)"
| serve: "r \<in> p \<Longrightarrow> dispatch s r w = (Some resp, w') \<Longrightarrow> a (rq_ID r) = None \<Longrightarrow>
    direct_step s (p, a, w) (p - {r}, a(rq_ID r \<mapsto> resp), w')"
| hang: "r \<in> p \<Longrightarrow> dispatch s r w = (None, w') \<Longrightarrow> direct_step s (p, a, w) (p - {r}, a, w')"

text \<open>The abstraction: an answer counts as given once the call has returned.\<close>

definition routes :: "task list \<Rightarrow> MethodRequest set" where
  "routes ts = {r. Route r \<in> set ts}"

fun task_answer :: "task \<Rightarrow> (string \<times> MethodResponse) list" where
  "task_answer (Route r) = []"
| "task_answer (Respond i resp) = [(i, resp)]"
| "task_answer (Deliver i resp) = [(i, resp)]"

fun task_id :: "task \<Rightarrow> string" where
  "task_id (Route r) = rq_ID r"
| "task_id (Respond i resp) = i"
| "task_id (Deliver i resp) = i"

definition answered :: "'w bus_state \<Rightarrow> string \<rightharpoonup> MethodResponse" where
  "answered x = map_of (bs_answers x @ concat (map task_answer (bs_tasks x)))"

definition bus_abs :: "'w bus_state \<Rightarrow> MethodRequest set \<times> (string \<rightharpoonup> MethodResponse) \<times> 'w" where
  "bus_abs x = (routes (bs_tasks x), answered x, bs_world x)"

text \<open>The invariant: a request under way has the only handler of its topic, and no answer yet.\<close>

definition await_handler :: "string \<Rightarrow> callback eventHandler" where
  "await_handler i = \<lparr>eh_callBack = Await i, eh_flagOnce = True, eh_async = True, eh_transactional = False\<rparr>"

definition routing_handler :: "callback eventHandler" where
  "routing_handler = \<lparr>eh_callBack = Routing, eh_flagOnce = False, eh_async = True, eh_transactional = False\<rparr>"

fun awaited :: "task \<Rightarrow> string list" where
  "awaited (Route r) = [rq_ID r]"
| "awaited (Respond i resp) = [i]"
| "awaited (Deliver i resp) = []"

definition bus_inv :: "'w bus_state \<Rightarrow> bool" where
  "bus_inv x \<longleftrightarrow> m_get (bs_bus x) ''method'' = Some [routing_handler] \<and>
     distinct (map task_id (bs_tasks x)) \<and>
     task_id ` set (bs_tasks x) \<union> fst ` set (bs_answers x) \<subseteq> bs_used x \<and> ''method'' \<notin> bs_used x \<and>
     task_id ` set (bs_tasks x) \<inter> fst ` set (bs_answers x) = {} \<and>
     (\<forall>t \<in> set (bs_tasks x). \<forall>i \<in> set (awaited t). m_get (bs_bus x) i = Some [await_handler i])"

lemma awaited_id: "i \<in> set (awaited t) \<Longrightarrow> i = task_id t"
  by (cases t) auto

lemma answer_id: "(i, resp) \<in> set (task_answer t) \<Longrightarrow> i = task_id t"
  by (cases t) auto

lemma answers_ids: "fst ` set (concat (map task_answer ts)) \<subseteq> task_id ` set ts"
  using answer_id by (fastforce simp: image_iff)

lemma no_answer: "i \<notin> task_id ` set ts \<Longrightarrow> i \<notin> fst ` set (concat (map task_answer ts))"
  using answers_ids by blast

lemma hex_not_method: "big_Text n 16 \<noteq> ''method''"
proof
  assume "big_Text n 16 = ''method''"
  then have "big_SetString ''method'' 16 = Some n" using SetString_Text [of 16 n] by simp
  then show False by (simp add: big_SetString_def parse_nat_def digit_val_def)
qed

text \<open>Publishing on the two kinds of topic.\<close>

lemma publish_request:
  assumes "m_get bus ''method'' = Some [routing_handler]" "i \<noteq> ''method''"
  shows "publish_tasks ''method'' (Request r) (AwaitTopic i bus) = ([Route r], AwaitTopic i bus)"
  using assms by (simp add: publish_tasks_def Publish_def AwaitTopic_def SubscribeOnceAsync_def routing_handler_def publish_loop.simps)

lemma publish_response:
  assumes "m_get bus i = Some [await_handler i]" "publish_tasks i (Response resp) bus = (ts, bus')"
  shows "ts = [Deliver i resp]" "m_get bus' j = (if j = i then None else m_get bus j)"
  using assms publish_single_once [of bus i "await_handler i"]
  by (cases "Publish i bus"; auto simp: publish_tasks_def await_handler_def)+

lemma m_get_AwaitTopic: "m_get bus i = None \<Longrightarrow> m_get (AwaitTopic i bus) j = (if j = i then Some [await_handler i] else m_get bus j)"
  by (simp add: AwaitTopic_def SubscribeOnceAsync_def await_handler_def m_zero_def)

lemma map_of_middle: "i \<notin> fst ` set xs \<Longrightarrow> map_of (xs @ (i, v) # ys) = (map_of (xs @ ys))(i \<mapsto> v)"
  by (induction xs) (auto simp: fun_eq_iff)

lemma bus_step_inv:
  assumes "bus_step s x y" "bus_inv x"
  shows "bus_inv y"
  using assms
proof (induction rule: bus_step.induct)
  case (request r nonce x ts bus)
  have id: "rq_ID r \<noteq> ''method''" using request.hyps(1) hex_not_method by simp
  have p: "ts = [Route r]" "bus = AwaitTopic (rq_ID r) (bs_bus x)"
    using request.hyps(4) publish_request [OF _ id] request.prems by (simp_all add: bus_inv_def)
  show ?case using request.prems request.hyps(2,3) id
    by (auto simp: bus_inv_def p m_get_AwaitTopic [OF request.hyps(3)] dest: awaited_id)
next
  case (routed x ps r qs resp w)
  then show ?case by (auto simp: bus_inv_def)
next
  case (responded x ps i resp qs ts bus)
  have i: "m_get (bs_bus x) i = Some [await_handler i]" using responded.hyps(1) responded.prems by (auto simp: bus_inv_def)
  note p = publish_response [OF i responded.hyps(2)]
  have "i \<noteq> ''method''" using responded.hyps(1) responded.prems by (auto simp: bus_inv_def)
  then show ?case using responded.hyps(1) responded.prems by (auto simp: bus_inv_def p dest: awaited_id)
next
  case (blocked x ps r qs w)
  then show ?case by (auto simp: bus_inv_def)
next
  case (delivered x ps i resp qs)
  then show ?case by (auto simp: bus_inv_def)
qed

lemma bus_step_simulates:
  assumes "bus_step s x y" "bus_inv x"
  shows "bus_abs y = bus_abs x \<or> direct_step s (bus_abs x) (bus_abs y)"
  using assms
proof (induction rule: bus_step.induct)
  case (request r nonce x ts bus)
  have id: "rq_ID r \<noteq> ''method''" using request.hyps(1) hex_not_method by simp
  have p: "ts = [Route r]" using request.hyps(4) publish_request [OF _ id] request.prems by (simp add: bus_inv_def)
  have "rq_ID r \<notin> rq_ID ` routes (bs_tasks x)"
    using request.prems request.hyps(2) by (force simp: bus_inv_def routes_def)
  moreover have "answered x (rq_ID r) = None"
    using request.prems request.hyps(2) answers_ids [of "bs_tasks x"]
    by (auto simp: bus_inv_def answered_def map_of_eq_None_iff simp del: set_concat set_map)
  ultimately have "direct_step s (bus_abs x) (insert r (routes (bs_tasks x)), answered x, bs_world x)"
    unfolding bus_abs_def by (rule direct_step.ask)
  moreover have "routes (bs_tasks x @ ts) = insert r (routes (bs_tasks x))" by (auto simp: routes_def p)
  ultimately show ?case by (simp add: bus_abs_def answered_def p)
next
  case (routed x ps r qs resp w)
  let ?xs = "bs_answers x @ concat (map task_answer ps)" and ?ys = "concat (map task_answer qs)"
  have id: "rq_ID r \<notin> task_id ` set ps" "rq_ID r \<notin> task_id ` set qs" "rq_ID r \<notin> fst ` set (bs_answers x)"
    using routed.hyps(1) routed.prems by (auto simp: bus_inv_def)
  have fresh: "rq_ID r \<notin> fst ` set ?xs" "rq_ID r \<notin> fst ` set ?ys"
    using id(3) no_answer [OF id(1)] no_answer [OF id(2)] unfolding set_append image_Un by simp_all
  have "r \<notin> routes ps" "r \<notin> routes qs" using id by (force simp: routes_def)+
  then have r: "routes (ps @ Respond (rq_ID r) resp # qs) = routes (bs_tasks x) - {r}" "r \<in> routes (bs_tasks x)"
    by (auto simp: routed.hyps(1) routes_def)
  have a: "answered x = map_of (?xs @ ?ys)" by (simp add: answered_def routed.hyps(1))
  have "direct_step s (bus_abs x) (routes (bs_tasks x) - {r}, (answered x)(rq_ID r \<mapsto> resp), w)"
    unfolding bus_abs_def using fresh
    by (intro direct_step.serve [OF r(2) routed.hyps(2)]) (simp add: a map_of_eq_None_iff image_Un)
  then show ?case
    using map_of_middle [OF fresh(1), of resp ?ys] by (simp add: bus_abs_def answered_def r routed.hyps(1))
next
  case (responded x ps i resp qs ts bus)
  have i: "m_get (bs_bus x) i = Some [await_handler i]" using responded.hyps(1) responded.prems by (auto simp: bus_inv_def)
  show ?case by (auto simp: bus_abs_def answered_def routes_def responded.hyps(1) publish_response(1) [OF i responded.hyps(2)])
next
  case (blocked x ps r qs w)
  have "rq_ID r \<notin> task_id ` set ps" "rq_ID r \<notin> task_id ` set qs"
    using blocked.hyps(1) blocked.prems by (auto simp: bus_inv_def)
  then have "r \<notin> routes ps" "r \<notin> routes qs" by (force simp: routes_def)+
  then have r: "routes (ps @ qs) = routes (bs_tasks x) - {r}" "r \<in> routes (bs_tasks x)"
    by (auto simp: blocked.hyps(1) routes_def)
  have "direct_step s (bus_abs x) (routes (bs_tasks x) - {r}, answered x, w)"
    unfolding bus_abs_def by (rule direct_step.hang [OF r(2) blocked.hyps(2)])
  then show ?case by (simp add: bus_abs_def answered_def r(1) blocked.hyps(1))
next
  case (delivered x ps i resp qs)
  have "i \<notin> fst ` set (bs_answers x)" "i \<notin> fst ` set (concat (map task_answer ps))"
    using delivered.hyps(1) delivered.prems no_answer [of i ps] by (simp_all add: bus_inv_def del: set_concat)
  then have "answered x = (map_of (bs_answers x @ concat (map task_answer ps) @ concat (map task_answer qs)))(i \<mapsto> resp)"
    using map_of_middle [of i "bs_answers x @ concat (map task_answer ps)" resp "concat (map task_answer qs)"]
    by (simp add: answered_def delivered.hyps(1) image_Un)
  then show ?case by (simp add: bus_abs_def answered_def routes_def delivered.hyps(1) update_conv' fun_eq_iff map_add_def split: option.splits)
qed

definition bus_start :: "'w \<Rightarrow> 'w bus_state" where
  "bus_start w = \<lparr>bs_bus = SetupMethodRouting [], bs_tasks = [], bs_used = {}, bs_answers = [], bs_world = w\<rparr>"

lemma bus_start_inv: "bus_inv (bus_start w)"
  by (simp add: bus_inv_def bus_start_def SetupMethodRouting_def SubscribeAsync_def routing_handler_def)

lemma bus_steps_inv: "(bus_step s)\<^sup>*\<^sup>* (bus_start w) x \<Longrightarrow> bus_inv x"
  by (induction rule: rtranclp_induct) (auto intro: bus_start_inv bus_step_inv)


text \<open>A request that is made can be answered: enough steps of its own goroutines deliver the
  response, and the bus is as it was before.\<close>

lemma pending_request_answered:
  assumes "(bus_step s)\<^sup>*\<^sup>* (bus_start w) x" "Route r \<in> set (bs_tasks x)" "dispatch s r (bs_world x) = (Some resp, w')"
  shows "\<exists>y. (bus_step s)\<^sup>*\<^sup>* x y \<and> m_get (bs_answers y) (rq_ID r) = Some resp \<and> bs_world y = w' \<and>
    (\<forall>t. m_get (bs_bus y) t = (if t = rq_ID r then None else m_get (bs_bus x) t))"
proof -
  obtain ps qs where ts: "bs_tasks x = ps @ Route r # qs" using assms(2) by (meson split_list)
  let ?i = "rq_ID r"
  have i: "m_get (bs_bus x) ?i = Some [await_handler ?i]"
    using bus_steps_inv [OF assms(1)] assms(2) by (force simp: bus_inv_def)
  obtain ts' bus where p: "publish_tasks ?i (Response resp) (bs_bus x) = (ts', bus)" by fastforce
  note b = publish_response [OF i p]
  let ?x1 = "x\<lparr>bs_tasks := ps @ Respond ?i resp # qs, bs_world := w'\<rparr>"
  let ?x2 = "?x1\<lparr>bs_bus := bus, bs_tasks := ps @ ts' @ qs\<rparr>"
  let ?x3 = "?x2\<lparr>bs_tasks := ps @ qs, bs_answers := m_set (bs_answers ?x2) ?i resp\<rparr>"
  have "bus_step s x ?x1" by (rule routed [OF ts assms(3)])
  moreover have "bus_step s ?x1 ?x2" using p by (intro responded [of _ ps ?i resp qs ts' bus]) simp_all
  moreover have "bus_step s ?x2 ?x3" by (rule delivered) (simp add: b(1))
  ultimately have "(bus_step s)\<^sup>*\<^sup>* x ?x3" by (meson converse_rtranclp_into_rtranclp rtranclp.rtrancl_refl)
  moreover have "m_get (bs_answers ?x3) ?i = Some resp" "bs_world ?x3 = w'"
    "\<forall>t. m_get (bs_bus ?x3) t = (if t = ?i then None else m_get (bs_bus x) t)" by (simp_all add: b(2))
  ultimately show ?thesis by blast
qed

text \<open>Two requests to a counter, under way at the same time; the second is served first.\<close>

definition tick :: "int service" where
  "tick m args n = (Returns (VInt n) None, n + 1)"

definition tick_registry :: "int ServiceRegistry" where
  "tick_registry = snd (RegisterService ''counter'' tick (\<lambda>_. True) [])"

definition tick_request :: "int \<Rightarrow> MethodRequest" where
  "tick_request n = \<lparr>rq_Caller = [], rq_Service = ''counter'', rq_Method = ''tick'', rq_ID = big_Text n 16, rq_Data = []\<rparr>"

lemma tick_step:
  assumes "bus_inv x" "big_Text n 16 \<notin> bs_used x" "m_get (bs_bus x) (big_Text n 16) = None"
  shows "bus_step tick_registry x (x\<lparr>bs_bus := AwaitTopic (big_Text n 16) (bs_bus x),
    bs_tasks := bs_tasks x @ [Route (tick_request n)], bs_used := insert (big_Text n 16) (bs_used x)\<rparr>)"
  using request [of "tick_request n" n x "[Route (tick_request n)]" "AwaitTopic (big_Text n 16) (bs_bus x)" tick_registry]
    publish_request [OF _ hex_not_method, of "bs_bus x" "tick_request n" n] assms
  by (simp add: tick_request_def bus_inv_def)


end
