(* ===== verification/Verifier.thy ===== *)
theory Verifier
  imports Chain GoTime
begin

text \<open>
  The verification of the tokens of users, \<open>verifier/\<close>: the service and its map of providers,
  and every provider. What a provider's own server answers, the parsing of JSON and of signed
  tokens and the clock are parameters, grouped in \<open>verifier_ext\<close>; \<open>now\<close> is the time of a call.
  The service calls the chain service, on the rest of the world. A value \<open>None\<close> is a panic, which
  the registry turns into an error, or a call that does not return.
\<close>

section \<open>Answers of other servers\<close>

text \<open>An error of the connection, or an answer: whether it has an error status, and its body,
  which is the zero value unless the request succeeded.\<close>

datatype 'a http = NetError string | Reply bool 'a

datatype json = JString string | JBool bool | JOther

text \<open>The payload of most providers, which have one type each with these fields.\<close>

record TokenParams =
  tp_IDToken :: string
  tp_UserID :: string

record GoogleAuthResponse =
  gr_Azp :: string
  gr_Email :: string
  gr_EmailVerified :: string
  gr_Iat :: string

record DiscordAuthResponse =
  dr_ApplicationID :: string
  dr_Expires :: string

record DiscordUserResponse =
  du_Verified :: bool
  du_Email :: string

record PasswordlessAuthResponse =
  pr_Email :: string
  pr_Iat :: int
  pr_Azp :: string

record AWSCognitoAuthResponse =
  ar_Sub :: string
  ar_EmailVerified :: string

record SteamAuthResponse =
  sr_ID :: string
  sr_AZP :: string

record TwitterAuthResponse =
  tr_ID :: string
  tr_Email :: string

record TwitterSignatureResponse =
  ts_Params :: "(string, string list) gomap"
  ts_Header :: string

record GetSignatureMessage =
  gs_Timestamp :: string
  gs_OauthToken :: string
  gs_OauthTokenSecret :: string
  gs_AppID :: string
  gs_NodeAddress :: bytes

record GetSignatureParams =
  gp_PubKeyX :: string
  gp_PubKeyY :: string
  gp_Message :: GetSignatureMessage
  gp_Signature :: bytes

record CustomProviderResponse =
  cr_JWKUrl :: string
  cr_IDParam :: string
  cr_Params :: "(string, string) gomap"
  cr_Issuer :: string
  cr_Audience :: string

record CustomProviderParams =
  cp_IDToken :: string
  cp_UserID :: string
  cp_AppID :: string
  cp_Provider :: string

text \<open>A signed token that a library has verified.\<close>

record jwt =
  jwt_IssuedAt :: int
  jwt_Issuer :: string
  jwt_Audience :: "string list"
  jwt_claims :: "(string, json) gomap"

record GlobalKeyMessage =
  gk_Verifier :: string
  gk_ApplicationID :: string
  gk_IDToken :: string

record 'k verifier_ext =
  vx_message :: "bytes \<Rightarrow> TokenParams option"
  vx_generic :: "GenericVerifierData codec"
  vx_custom_params :: "bytes \<Rightarrow> CustomProviderParams option"
  vx_google :: "string \<Rightarrow> GoogleAuthResponse http"
  vx_discord :: "string \<Rightarrow> DiscordAuthResponse http"
  vx_discord_user :: "string \<Rightarrow> DiscordUserResponse http"
  vx_ParseTime :: "string \<Rightarrow> int option"
  vx_twitch :: "string \<Rightarrow> string \<Rightarrow> (int \<times> (string, json) gomap option) err"
  vx_github :: "string \<Rightarrow> string http"
  vx_twitter_signature :: "bytes \<Rightarrow> TwitterSignatureResponse http"
  vx_twitter_user :: "string \<Rightarrow> (string, string list) gomap \<Rightarrow> TwitterAuthResponse http"
  vx_signature_params :: "GetSignatureParams \<Rightarrow> bytes option"
  vx_address :: "bytes \<Rightarrow> string"
  vx_passwordless :: "string \<Rightarrow> PasswordlessAuthResponse http"
  vx_cognito :: "string \<Rightarrow> string \<Rightarrow> AWSCognitoAuthResponse http"
  vx_steam :: "string \<Rightarrow> SteamAuthResponse http"
  vx_firebase_keys :: "((string, string) gomap \<times> string) err"
  vx_firebase_pem :: "string \<Rightarrow> 'k option"
  vx_firebase_header :: "string \<Rightarrow> (string \<times> json option) err"
  vx_firebase_check :: "'k \<Rightarrow> string \<Rightarrow> int \<Rightarrow> string \<Rightarrow> (bool \<times> string \<times> int option) err"
  vx_pkcs7 :: "string \<Rightarrow> bytes err"
  vx_global :: "bytes \<Rightarrow> GlobalKeyMessage option"
  vx_gateway :: "string \<Rightarrow> string \<Rightarrow> CustomProviderResponse http"
  vx_jwk_Fetch :: "string \<Rightarrow> 'k option"
  vx_jwt_Parse :: "'k \<Rightarrow> int \<Rightarrow> string \<Rightarrow> jwt err"
  vx_range :: "string list \<Rightarrow> string list"

definition ErrorIDNotVerified :: string where "ErrorIDNotVerified = ''user_not_verified''"

text \<open>Every provider but the proxy trims blanks.\<close>

definition CleanToken_blank :: "string \<Rightarrow> string" where
  "CleanToken_blank token = Trim is_blank token"

type_synonym verdict = "(bool \<times> string) err"

section \<open>Providers that ask a server\<close>

definition verifyGoogleResponse :: "int \<Rightarrow> GoogleAuthResponse \<Rightarrow> string \<Rightarrow> int \<Rightarrow> string \<Rightarrow> unit err" where
  "verifyGoogleResponse now body verifierID timeout clientID =
     (case big_SetString (gr_Iat body) 10 of
        None \<Rightarrow> Inl (''Could not get timesignedint from '' @ gr_Iat body)
      | Some timeSignedInt \<Rightarrow>
          if gr_EmailVerified body \<noteq> ''true'' then Inl ErrorIDNotVerified
          else if Before (time_Add (time_Unix (Int64 timeSignedInt)) timeout) now then
            Inl ''timesigned is more than 60 seconds ago ''
          else if verifierID \<noteq> gr_Email body then
            Inl (''email not equal to body.email '' @ verifierID @ '' '' @ gr_Email body)
          else if clientID \<noteq> gr_Azp body then Inl ''clientID mismatch''
          else Inr ())"

definition Google_Verify :: "'k verifier_ext \<Rightarrow> int \<Rightarrow> bytes \<Rightarrow> VerifierParams \<Rightarrow> verdict" where
  "Google_Verify X now rawPayload params =
     (case vx_message X rawPayload of
        None \<Rightarrow> Inl ''unmarshal''
      | Some p \<Rightarrow>
          let idToken = CleanToken_blank (tp_IDToken p) in
          if tp_UserID p = [] \<or> idToken = [] then Inl ''invalid payload parameters''
          else (case vx_google X (''https://www.googleapis.com/oauth2/v3/tokeninfo?id_token='' @ idToken) of
              NetError e \<Rightarrow> Inl e
            | Reply True body \<Rightarrow> Inl ''google auth api returned error''
            | Reply False body \<Rightarrow>
                (case verifyGoogleResponse now body (tp_UserID p) 600 (vp_ClientID params) of
                   Inl e \<Rightarrow> Inl (''verify_google_response: '' @ e)
                 | Inr _ \<Rightarrow> Inr (True, tp_UserID p))))"

text \<open>Seven days before it expires a token was signed. The token is not cleaned again.\<close>

definition Discord_Verify :: "'k verifier_ext \<Rightarrow> int \<Rightarrow> bytes \<Rightarrow> VerifierParams \<Rightarrow> verdict" where
  "Discord_Verify X now rawPayload params =
     (case vx_message X rawPayload of
        None \<Rightarrow> Inl ''unmarshal''
      | Some p \<Rightarrow>
          (case vx_discord X (''Bearer '' @ tp_IDToken p) of
             NetError e \<Rightarrow> Inl e
           | Reply True body \<Rightarrow> Inl ''discord_auth_error''
           | Reply False body \<Rightarrow>
               (case vx_ParseTime X (dr_Expires body) of
                  None \<Rightarrow> Inl ''parse time''
                | Some timeExpires \<Rightarrow>
                    if Before (time_Add (time_Add timeExpires (- 604800)) 60) now then Inl ''token_expired''
                    else if vp_ClientID params \<noteq> dr_ApplicationID body then Inl ''client_id_mismatch''
                    else (case vx_discord_user X (''Bearer '' @ tp_IDToken p) of
                        NetError e \<Rightarrow> Inl e
                      | Reply True user \<Rightarrow> Inl ''discord_user_error''
                      | Reply False user \<Rightarrow>
                          if \<not> du_Verified user then Inl ErrorIDNotVerified
                          else if tp_UserID p \<noteq> du_Email user then Inl ''user_id_mismatch''
                          else Inr (True, tp_UserID p)))))"

text \<open>The library checks the token for the client and gives the time of issue and the claims.\<close>

definition Twitch_Verify :: "'k verifier_ext \<Rightarrow> int \<Rightarrow> bytes \<Rightarrow> VerifierParams \<Rightarrow> verdict" where
  "Twitch_Verify X now rawPayload params =
     (case vx_message X rawPayload of
        None \<Rightarrow> Inl ''unmarshal''
      | Some p \<Rightarrow>
          let idToken = CleanToken_blank (tp_IDToken p) in
          if idToken = [] \<or> tp_UserID p = [] then Inl ''invalid payload parameters''
          else (case vx_twitch X (vp_ClientID params) idToken of
              Inl e \<Rightarrow> Inl e
            | Inr (issuedAt, parsed) \<Rightarrow>
                if Before (time_Add issuedAt 60) now then Inl ''timesigned is more than 60 seconds ago ''
                else (case parsed of
                    None \<Rightarrow> Inl ''claims''
                  | Some claims \<Rightarrow>
                      (case m_get claims ''email'' of
                         Some (JString email) \<Rightarrow>
                           (case m_get claims ''email_verified'' of
                              Some (JBool emailVerified) \<Rightarrow>
                                if \<not> emailVerified then Inl ''email_not_verified''
                                else if email \<noteq> tp_UserID p then Inl ''user_id_mismatch''
                                else Inr (True, tp_UserID p)
                            | _ \<Rightarrow> Inl ''email_verified_not_found'')
                       | _ \<Rightarrow> Inl ''email_not_found''))))"

definition Github_Verify :: "'k verifier_ext \<Rightarrow> bytes \<Rightarrow> verdict" where
  "Github_Verify X rawPayload =
     (case vx_message X rawPayload of
        None \<Rightarrow> Inl ''unmarshal''
      | Some p \<Rightarrow>
          let idToken = CleanToken_blank (tp_IDToken p) in
          if idToken = [] \<or> tp_UserID p = [] then Inl ''invalid payload parameters''
          else (case vx_github X (''token '' @ idToken) of
              NetError e \<Rightarrow> Inl e
            | Reply True email \<Rightarrow> Inl ''github auth api returned error''
            | Reply False email \<Rightarrow>
                if email \<noteq> tp_UserID p then Inl ''user id mismatch: only email is allowed''
                else Inr (True, tp_UserID p)))"

definition verifyPasswordlessResponse :: "int \<Rightarrow> PasswordlessAuthResponse \<Rightarrow> string \<Rightarrow> int \<Rightarrow> string \<Rightarrow> unit err" where
  "verifyPasswordlessResponse now body verifierID timeout clientID =
     (if Before (time_Add (time_Unix (pr_Iat body)) timeout) now then Inl ''timesigned is more than 60 seconds ago ''
      else if verifierID \<noteq> pr_Email body then Inl (''email not equal to body.email '' @ verifierID @ '' '' @ pr_Email body)
      else if clientID \<noteq> pr_Azp body then Inl ''clientID Mismatch''
      else Inr ())"

text \<open>The address of the server is part of the parameter.\<close>

definition Passwordless_Verify :: "'k verifier_ext \<Rightarrow> int \<Rightarrow> bytes \<Rightarrow> VerifierParams \<Rightarrow> verdict" where
  "Passwordless_Verify X now rawPayload params =
     (case vx_message X rawPayload of
        None \<Rightarrow> Inl ''unmarshal''
      | Some p \<Rightarrow>
          let idToken = CleanToken_blank (tp_IDToken p) in
          if tp_UserID p = [] \<or> idToken = [] then Inl ''invalid payload parameters''
          else (case vx_passwordless X idToken of
              NetError e \<Rightarrow> Inl e
            | Reply True body \<Rightarrow> Inl ''passwordless auth api returned error''
            | Reply False body \<Rightarrow>
                (case verifyPasswordlessResponse now body (tp_UserID p) 600 (vp_ClientID params) of
                   Inl e \<Rightarrow> Inl (''error: '' @ e)
                 | Inr _ \<Rightarrow> Inr (True, tp_UserID p))))"

text \<open>The status of the answer is not looked at; the client is not checked.\<close>

definition AWSCognito_callAndVerify :: "'k verifier_ext \<Rightarrow> TokenParams \<Rightarrow> VerifierParams \<Rightarrow> bool" where
  "AWSCognito_callAndVerify X p params =
     (case vx_cognito X (''https://'' @ vp_Domain params @ ''/oauth2/userInfo'') (''Bearer '' @ tp_IDToken p) of
        NetError e \<Rightarrow> False
      | Reply _ authResp \<Rightarrow> ar_Sub authResp = tp_UserID p \<and> ar_EmailVerified authResp = ''true'')"

definition AWSCognito_Verify :: "'k verifier_ext \<Rightarrow> bytes \<Rightarrow> VerifierParams \<Rightarrow> verdict" where
  "AWSCognito_Verify X rawPayload params =
     (case vx_message X rawPayload of
        None \<Rightarrow> Inl ''unmarshal''
      | Some p \<Rightarrow> if \<not> AWSCognito_callAndVerify X p params then Inr (False, []) else Inr (True, tp_UserID p))"

definition Steam_Verify :: "'k verifier_ext \<Rightarrow> bytes \<Rightarrow> VerifierParams \<Rightarrow> verdict" where
  "Steam_Verify X rawPayload params =
     (case vx_message X rawPayload of
        None \<Rightarrow> Inl ''unmarshal''
      | Some p \<Rightarrow>
          let idToken = CleanToken_blank (tp_IDToken p) in
          if tp_UserID p = [] \<or> idToken = [] then Inl ''invalid payload parameters''
          else (case vx_steam X idToken of
              NetError e \<Rightarrow> Inl e
            | Reply True body \<Rightarrow> Inl ''steam auth api returned error''
            | Reply False body \<Rightarrow>
                if tp_UserID p \<noteq> sr_ID body then Inl (''id not equal to body.steamid '' @ tp_UserID p @ '' '' @ sr_ID body)
                else if vp_ClientID params \<noteq> sr_AZP body then Inl (''client id not equal to AZP '' @ vp_ClientID params @ '' '' @ sr_AZP body)
                else Inr (True, tp_UserID p)))"

text \<open>The answer is decoded into a copy: the body that is compared is the zero value.\<close>

definition X_Verify :: "(string \<Rightarrow> unit http) \<Rightarrow> 'k verifier_ext \<Rightarrow> bytes \<Rightarrow> verdict" where
  "X_Verify get X rawPayload =
     (case vx_message X rawPayload of
        None \<Rightarrow> Inl ''unmarshal''
      | Some p \<Rightarrow>
          let idToken = CleanToken_blank (tp_IDToken p); bodyID = ([] :: string) in
          if idToken = [] \<or> tp_UserID p = [] then Inl ''invalid input parameters''
          else (case get (''Bearer '' @ idToken) of
              NetError e \<Rightarrow> Inl e
            | Reply True _ \<Rightarrow> Inl ''twitter api returned error''
            | Reply False _ \<Rightarrow> if bodyID \<noteq> tp_UserID p then Inl ''user id mismatch'' else Inr (True, tp_UserID p)))"

section \<open>Twitter\<close>

definition GetSignatureMessage_String :: "'k verifier_ext \<Rightarrow> GetSignatureMessage \<Rightarrow> string" where
  "GetSignatureMessage_String X c =
     Join [gs_Timestamp c, gs_OauthToken c, gs_OauthTokenSecret c, gs_AppID c, vx_address X (gs_NodeAddress c)] Delimiter1"

definition getSignatureParams ::
  "'k verifier_ext \<Rightarrow> ecdsa \<Rightarrow> int \<Rightarrow> 'w service \<Rightarrow> string \<Rightarrow> string \<Rightarrow> string \<Rightarrow> 'w \<Rightarrow> (bytes option \<times> 'w) go" where
  "getSignatureParams X E unix chain token secret appID w = do {
     (pubKey, w1) \<leftarrow> ChainMethods_GetSelfPublicKey chain w;
     (privKey, w2) \<leftarrow> ChainMethods_GetSelfPrivateKey chain w1;
     (addr, w3) \<leftarrow> ChainMethods_GetSelfAddress chain w2;
     let m = \<lparr>gs_Timestamp = Itoa unix, gs_OauthToken = token, gs_OauthTokenSecret = secret, gs_AppID = appID,
              gs_NodeAddress = addr\<rparr>;
     sig \<leftarrow> ECDSASign E (GetSignatureMessage_String X m) privKey;
     Some (vx_signature_params X \<lparr>gp_PubKeyX = big_Text (pt_X pubKey) 16, gp_PubKeyY = big_Text (pt_Y pubKey) 16,
             gp_Message = m, gp_Signature = sig\<rparr>, w3) }"

definition getSignedRequest ::
  "'k verifier_ext \<Rightarrow> ecdsa \<Rightarrow> int \<Rightarrow> 'w service \<Rightarrow> string \<Rightarrow> string \<Rightarrow> string \<Rightarrow> 'w \<Rightarrow>
   (TwitterSignatureResponse err \<times> 'w) go" where
  "getSignedRequest X E unix chain token secret appID w = do {
     (bodyBytes, w') \<leftarrow> getSignatureParams X E unix chain token secret appID w;
     Some (case bodyBytes of
         None \<Rightarrow> Inl ''error marshalling body for signature''
       | Some b \<Rightarrow>
           (case vx_twitter_signature X b of
              NetError e \<Rightarrow> Inl ''twitch_sig_error''
            | Reply True body \<Rightarrow> Inl ''twitch_sig_error''
            | Reply False body \<Rightarrow> Inr body), w') }"

definition getTwitterAuth ::
  "'k verifier_ext \<Rightarrow> ecdsa \<Rightarrow> int \<Rightarrow> 'w service \<Rightarrow> string \<Rightarrow> 'w \<Rightarrow> (TwitterAuthResponse err \<times> 'w) go" where
  "getTwitterAuth X E unix chain idToken w =
     (case Split idToken (CHR '':'') of
        [token, secret, appID] \<Rightarrow> do {
          (sig, w') \<leftarrow> getSignedRequest X E unix chain token secret appID w;
          Some (case sig of
              Inl e \<Rightarrow> Inl e
            | Inr s \<Rightarrow>
                (case vx_twitter_user X (ts_Header s) (ts_Params s) of
                   NetError e \<Rightarrow> Inl e
                 | Reply True body \<Rightarrow> Inl ''twitter_auth_error''
                 | Reply False body \<Rightarrow> Inr body), w') }
      | _ \<Rightarrow> Some (Inl ''unexpected id token'', w))"

definition Twitter_Verify ::
  "'k verifier_ext \<Rightarrow> ecdsa \<Rightarrow> int \<Rightarrow> 'w service \<Rightarrow> bytes \<Rightarrow> 'w \<Rightarrow> (verdict \<times> 'w) go" where
  "Twitter_Verify X E unix chain rawPayload w =
     (case vx_message X rawPayload of
        None \<Rightarrow> Some (Inl ''unmarshal'', w)
      | Some p \<Rightarrow>
          let idToken = CleanToken_blank (tp_IDToken p) in
          if idToken = [] \<or> tp_UserID p = [] then Some (Inl ''invalid payload parameters'', w)
          else do {
            (r, w') \<leftarrow> getTwitterAuth X E unix chain idToken w;
            Some (case r of
                Inl e \<Rightarrow> Inl e
              | Inr body \<Rightarrow>
                  if tr_ID body \<noteq> tp_UserID p \<and> tr_Email body \<noteq> tp_UserID p then Inl ''user_id_mismatch''
                  else Inr (True, tp_UserID p), w') })"

section \<open>Firebase\<close>

record 'k FirebaseProvider =
  fb_signingKeys :: "(string, 'k) gomap"
  fb_signingKeyExpiry :: "int option"

text \<open>The expiry in the header of the key list: the first \<open>max-age\<close>; \<open>Inl\<close> if it is not a number.\<close>

fun max_age :: "string list \<Rightarrow> int option err" where
  "max_age [] = Inr None"
| "max_age (part # parts) =
     (case Split (Trim is_space part) (CHR ''='') of
        [lhs, rhs] \<Rightarrow>
          if ToLower lhs \<noteq> ''max-age'' then max_age parts
          else (case ParseUint32 rhs of Inl e \<Rightarrow> Inl e | Inr n \<Rightarrow> Inr (Some n))
      | _ \<Rightarrow> max_age parts)"

fun parse_keys :: "'k verifier_ext \<Rightarrow> (string, string) gomap \<Rightarrow> string list \<Rightarrow> (string, 'k) gomap \<Rightarrow> (string, 'k) gomap err" where
  "parse_keys X keyMap [] parsed = Inr parsed"
| "parse_keys X keyMap (k # ks) parsed =
     (case vx_firebase_pem X (m_zero [] keyMap k) of
        None \<Rightarrow> Inl ''parse key''
      | Some pk \<Rightarrow> parse_keys X keyMap ks (m_set parsed k pk))"

definition initializeKeys :: "'k verifier_ext \<Rightarrow> int \<Rightarrow> 'k FirebaseProvider \<Rightarrow> unit err \<times> 'k FirebaseProvider" where
  "initializeKeys X now f =
     (case vx_firebase_keys X of
        Inl e \<Rightarrow> (Inl e, f)
      | Inr (keyMap, ctrlHdr) \<Rightarrow>
          (case (if ctrlHdr = [] then Inr None else max_age (Split ctrlHdr (CHR '',''))) of
             Inl e \<Rightarrow> (Inl e, f)
           | Inr age \<Rightarrow>
               (case parse_keys X keyMap (vx_range X (m_keys keyMap)) [] of
                  Inl e \<Rightarrow> (Inl e, f)
                | Inr parsedKM \<Rightarrow>
                    (Inr (), \<lparr>fb_signingKeys = parsedKM, fb_signingKeyExpiry = map_option (time_Add now) age\<rparr>))))"

definition verifyJWT :: "'k FirebaseProvider \<Rightarrow> string \<times> json option \<Rightarrow> 'k err" where
  "verifyJWT f = (\<lambda>(alg, kid).
     if alg \<noteq> ''RS256'' then Inl ''invalid signing algorithm''
     else (case kid of
         None \<Rightarrow> Inl ''kid missing''
       | Some (JString s) \<Rightarrow> (case m_get (fb_signingKeys f) s of None \<Rightarrow> Inl ''kid invalid (2)'' | Some k \<Rightarrow> Inr k)
       | Some _ \<Rightarrow> Inl ''kid invalid (1)''))"

text \<open>
  The check of the library for the key: signature, audience, issuer and times. A token without
  a time of issue, and keys without an expiry, are nil pointers. The user is the subject of the
  token, whatever the request says.
\<close>

definition Firebase_Verify ::
  "'k verifier_ext \<Rightarrow> int \<Rightarrow> bytes \<Rightarrow> VerifierParams \<Rightarrow> 'k FirebaseProvider \<Rightarrow> (verdict \<times> 'k FirebaseProvider) go" where
  "Firebase_Verify X now message params f = do {
     expiry \<leftarrow> fb_signingKeyExpiry f;
     let (e, f') = (if Before expiry now then initializeKeys X now f else (Inr (), f));
     (case e of
        Inl err \<Rightarrow> Some (Inl err, f')
      | Inr _ \<Rightarrow>
     (case vx_message X message of
        None \<Rightarrow> Some (Inl ''unmarshal'', f')
      | Some p \<Rightarrow>
     (case vx_firebase_header X (tp_IDToken p) of
        Inl err \<Rightarrow> Some (Inl err, f')
      | Inr hdr \<Rightarrow>
     (case verifyJWT f' hdr of
        Inl err \<Rightarrow> Some (Inl err, f')
      | Inr key \<Rightarrow>
     (case vx_firebase_check X key (vp_ClientID params) now (tp_IDToken p) of
        Inl err \<Rightarrow> Some (Inl err, f')
      | Inr (valid, subj, issuedAt) \<Rightarrow>
          if \<not> valid then Some (Inl ''token not valid'', f')
          else do {
            iat \<leftarrow> issuedAt;
            Some (if now - iat > 120 * nanosecond then Inl ''token was issued way too long ago'' else Inr (True, subj), f') }))))) }"

section \<open>Providers of an application\<close>

text \<open>The conditions that the gateway gives for the provider; a claim that is not a string panics.\<close>

fun check_params :: "(string, string) gomap \<Rightarrow> jwt \<Rightarrow> string list \<Rightarrow> unit err go" where
  "check_params ps tok [] = Some (Inr ())"
| "check_params ps tok (k # ks) =
     (case m_get (jwt_claims tok) k of
        None \<Rightarrow> Some (Inl (k @ '' is not in token''))
      | Some (JString val) \<Rightarrow>
          if val \<noteq> m_zero [] ps k then Some (Inl (k @ '' not satisfied'')) else check_params ps tok ks
      | Some _ \<Rightarrow> None)"

definition Custom_Verify :: "'k verifier_ext \<Rightarrow> int \<Rightarrow> bytes \<Rightarrow> verdict go" where
  "Custom_Verify X now rawPayload =
     (case vx_custom_params X rawPayload of
        None \<Rightarrow> Some (Inl ''unmarshal'')
      | Some p \<Rightarrow>
     (case vx_gateway X (cp_Provider p) (cp_AppID p) of
        NetError e \<Rightarrow> Some (Inl e)
      | Reply True c \<Rightarrow> Some (Inl ''invalid provider'')
      | Reply False c \<Rightarrow>
     (case vx_jwk_Fetch X (cr_JWKUrl c) of
        None \<Rightarrow> Some (Inl ''invalid jwk url'')
      | Some keys \<Rightarrow>
     (case vx_jwt_Parse X keys now (cp_IDToken p) of
        Inl e \<Rightarrow> Some (Inl (''jwt parse error: '' @ e))
      | Inr tok \<Rightarrow>
          if Before (jwt_IssuedAt tok) (time_Add now (- 120)) then Some (Inl ''jwt older than 2 minute'')
          else (case m_get (jwt_claims tok) (cr_IDParam c) of
              None \<Rightarrow> Some (Inl ''id is not set in provider'')
            | Some (JString idStr) \<Rightarrow>
                if idStr \<noteq> cp_UserID p then Some (Inl ''invalid user id'')
                else if jwt_Issuer tok \<noteq> cr_Issuer c then Some (Inl ''invalid issuer'')
                else do {
                  aud \<leftarrow> go_index (jwt_Audience tok) 0;
                  if aud \<noteq> cr_Audience c then Some (Inl ''invalid audience'')
                  else do {
                    r \<leftarrow> check_params (cr_Params c) tok (vx_range X (m_keys (cr_Params c)));
                    Some (case r of Inl e \<Rightarrow> Inl e | Inr _ \<Rightarrow> Inr (True, cp_UserID p)) } }
            | Some _ \<Rightarrow> Some (Inl ''id not present in token''))))))"

section \<open>The map of providers and the service\<close>

datatype Provider = Google | Discord | Twitch | Github | Twitter | Passwordless | AWSCognito | Steam | Firebase | GlobalKey | Custom

fun Provider_ID :: "Provider \<Rightarrow> string" where
  "Provider_ID Google = ''google''"
| "Provider_ID Discord = ''discord''"
| "Provider_ID Twitch = ''twitch''"
| "Provider_ID Github = ''github''"
| "Provider_ID Twitter = ''twitter''"
| "Provider_ID Passwordless = ''passwordless''"
| "Provider_ID AWSCognito = ''aws''"
| "Provider_ID Steam = ''steam''"
| "Provider_ID Firebase = ''firebase''"
| "Provider_ID GlobalKey = ''global_key_proxy''"
| "Provider_ID Custom = ''custom''"

definition Provider_CleanToken :: "Provider \<Rightarrow> string \<Rightarrow> string" where
  "Provider_CleanToken p token = (if p = GlobalKey then token else CleanToken_blank token)"

type_synonym ProviderMap = "(string, Provider) gomap"

definition NewProviderMap :: "Provider list \<Rightarrow> ProviderMap" where
  "NewProviderMap providers = foldl (\<lambda>m p. m_set m (Provider_ID p) p) [] providers"

definition Lookup :: "string \<Rightarrow> ProviderMap \<Rightarrow> Provider option err" where
  "Lookup provider m =
     (case m_get m provider of
        None \<Rightarrow> if HasPrefix provider ''csp-'' then Inr (m_get m ''custom'')
                else Inl (''provider:'' @ provider @ '' not found'')
      | Some p \<Rightarrow> Inr (Some p))"

text \<open>The providers that a proxy message may name; no code reads the list.\<close>

definition allowedProviders :: "string list" where
  "allowedProviders = [''google'', ''twitch'']"

record 'k VerifierService =
  vs_providerMap :: "ProviderMap option"
  vs_firebase :: "'k FirebaseProvider"

definition verifier_Start :: "'k verifier_ext \<Rightarrow> int \<Rightarrow> 'k VerifierService \<Rightarrow> unit err \<times> 'k VerifierService" where
  "verifier_Start X now v =
     (case initializeKeys X now \<lparr>fb_signingKeys = [], fb_signingKeyExpiry = None\<rparr> of
        (Inl e, _) \<Rightarrow> (Inl e, v)
      | (Inr _, f) \<Rightarrow>
          (Inr (), \<lparr>vs_providerMap = Some (NewProviderMap [Google, Discord, Twitch, Github, Twitter, Passwordless,
                      AWSCognito, Steam, Firebase, GlobalKey, Custom]), vs_firebase = f\<rparr>))"

text \<open>A provider other than the proxy.\<close>

definition provider_Verify ::
  "'k verifier_ext \<Rightarrow> ecdsa \<Rightarrow> int \<Rightarrow> int \<Rightarrow> 'w service \<Rightarrow> Provider \<Rightarrow> bytes \<Rightarrow> VerifierParams \<Rightarrow>
   'k VerifierService \<times> 'w \<Rightarrow> (verdict \<times> 'k VerifierService \<times> 'w) go" where
  "provider_Verify X E now unix chain p raw params = (\<lambda>(v, w).
     case p of
       Google \<Rightarrow> Some (Google_Verify X now raw params, v, w)
     | Discord \<Rightarrow> Some (Discord_Verify X now raw params, v, w)
     | Twitch \<Rightarrow> Some (Twitch_Verify X now raw params, v, w)
     | Github \<Rightarrow> Some (Github_Verify X raw, v, w)
     | Twitter \<Rightarrow> do { (r, w') \<leftarrow> Twitter_Verify X E unix chain raw w; Some (r, v, w') }
     | Passwordless \<Rightarrow> Some (Passwordless_Verify X now raw params, v, w)
     | AWSCognito \<Rightarrow> Some (AWSCognito_Verify X raw params, v, w)
     | Steam \<Rightarrow> Some (Steam_Verify X raw params, v, w)
     | Firebase \<Rightarrow> do {
         (r, f) \<leftarrow> Firebase_Verify X now raw params (vs_firebase v);
         Some (r, v\<lparr>vs_firebase := f\<rparr>, w) }
     | Custom \<Rightarrow> do { r \<leftarrow> Custom_Verify X now raw; Some (r, v, w) }
     | GlobalKey \<Rightarrow> None)"

definition getVerifierParams ::
  "'w service \<Rightarrow> string \<Rightarrow> string \<Rightarrow> 'w \<Rightarrow> (VerifierParams err \<times> 'w) go" where
  "getVerifierParams chain appID verifier = ChainMethods_GetClientIDViaVerifier chain appID verifier"

text \<open>
  The data that the proxy passes on. The content of the message is that of a signed envelope
  whose chain of certificates ends in the configured pool.
\<close>

definition proxy_data :: "'k verifier_ext \<Rightarrow> bytes \<Rightarrow> bytes err" where
  "proxy_data X rawPayload =
     (case Unmarshal (vx_generic X) rawPayload of
        None \<Rightarrow> Inl ''unmarshal''
      | Some p \<Rightarrow>
     (case vx_pkcs7 X (gv_Token p) of
        Inl e \<Rightarrow> Inl e
      | Inr content \<Rightarrow>
     (case vx_global X content of
        None \<Rightarrow> Inl ''unmarshal''
      | Some parsed \<Rightarrow>
          if gv_AppID p \<noteq> gk_ApplicationID parsed then Inl ''application ID did not match''
          else Inr (case Marshal (vx_generic X) \<lparr>gv_Token = gk_IDToken parsed, gv_Provider = gk_Verifier parsed,
                       gv_UserID = gv_UserID p, gv_AppID = gk_ApplicationID parsed\<rparr> of Some b \<Rightarrow> b | None \<Rightarrow> []))))"

text \<open>
  \<open>Verify\<close> of the map and of the proxy call each other: a proxy message may hold a proxy message.
  The number bounds the depth; at zero the result is \<open>None\<close>.
\<close>

fun ProviderMap_Verify ::
  "nat \<Rightarrow> 'k verifier_ext \<Rightarrow> ecdsa \<Rightarrow> int \<Rightarrow> int \<Rightarrow> 'w service \<Rightarrow> bytes \<Rightarrow>
   'k VerifierService \<times> 'w \<Rightarrow> (verdict \<times> 'k VerifierService \<times> 'w) go" where
  "ProviderMap_Verify 0 X E now unix chain rawMessage st = None"
| "ProviderMap_Verify (Suc n) X E now unix chain rawMessage st =
     (case Unmarshal (vx_generic X) rawMessage of
        None \<Rightarrow> Some (Inl ''unmarshal'', st)
      | Some msg \<Rightarrow> do {
          m \<leftarrow> vs_providerMap (fst st);
          (case Lookup (gv_Provider msg) m of
             Inl e \<Rightarrow> Some (Inl e, st)
           | Inr found \<Rightarrow> do {
               p \<leftarrow> found;
               if gv_Provider msg = ''global_key_proxy'' then
                 (case proxy_data X rawMessage of
                    Inl e \<Rightarrow> Some (Inl e, st)
                  | Inr serialized \<Rightarrow> ProviderMap_Verify n X E now unix chain serialized st)
               else if Provider_CleanToken p (gv_Token msg) \<noteq> gv_Token msg then
                 Some (Inl ''cleaned token is different from original token'', st)
               else do {
                 (params, w') \<leftarrow> getVerifierParams chain (gv_AppID msg) (gv_Provider msg) (snd st);
                 (case params of
                    Inl e \<Rightarrow> Some (Inl ''invalid app address'', fst st, w')
                  | Inr ps \<Rightarrow>
                      if vp_ClientID ps = [] then Some (Inl ''invalid app address'', fst st, w')
                      else provider_Verify X E now unix chain p rawMessage ps (fst st, w')) } }) })"

definition verifier_Call ::
  "nat \<Rightarrow> 'k verifier_ext \<Rightarrow> ecdsa \<Rightarrow> int \<Rightarrow> int \<Rightarrow> 'w service \<Rightarrow> ('k VerifierService \<times> 'w) service" where
  "verifier_Call n X E now unix chain method args st =
     (if method = ''verify'' then or_panic st (do {
        msg \<leftarrow> arg [] raw_of args 0;
        (r, st') \<leftarrow> ProviderMap_Verify n X E now unix chain msg st;
        Some (case r of
            Inl e \<Rightarrow> (Returns (VVerified False []) (Some e), st')
          | Inr (valid, userID) \<Rightarrow> (Returns (VVerified valid userID) None, st')) })
      else if method = ''clean_token'' then or_panic st (do {
        provider \<leftarrow> arg [] string_of args 0;
        token \<leftarrow> arg [] string_of args 1;
        m \<leftarrow> vs_providerMap (fst st);
        (case Lookup provider m of
           Inl e \<Rightarrow> Some (Returns Nil_iface (Some e), st)
         | Inr found \<Rightarrow> do { p \<leftarrow> found; Some (Returns (VString (Provider_CleanToken p token)) None, st) }) })
      else (Returns Nil_iface (Some (''verifier service method '' @ method @ '' not found'')), st))"

end
