(* ===== verification/VerifierTheorems.thy ===== *)
theory VerifierTheorems
  imports Verifier
begin

text \<open>
  What the verification of a token promises: a user that the service calls verified was confirmed
  by the authority of one of the providers, for the client that the application registered with
  that provider, possibly through signed proxy messages for the same application and user.
\<close>

section \<open>What an authority confirms\<close>

text \<open>The authority of a provider confirms the user for a token and the client of an application.\<close>

fun confirmed_by ::
  "'k verifier_ext \<Rightarrow> ecdsa \<Rightarrow> int \<Rightarrow> int \<Rightarrow> 'w service \<Rightarrow> VerifierParams \<Rightarrow> GenericVerifierData \<Rightarrow> Provider \<Rightarrow> string \<Rightarrow> bool" where
  "confirmed_by X E now unix chain ps g Google u \<longleftrightarrow>
     (\<exists>b t. vx_google X (''https://www.googleapis.com/oauth2/v3/tokeninfo?id_token='' @ gv_Token g) = Reply False b \<and>
        gr_Email b = u \<and> gr_EmailVerified b = ''true'' \<and> gr_Azp b = vp_ClientID ps \<and>
        big_SetString (gr_Iat b) 10 = Some t \<and> now \<le> time_Add (time_Unix (Int64 t)) 600)"
| "confirmed_by X E now unix chain ps g Discord u \<longleftrightarrow>
     (\<exists>b t d. vx_discord X (''Bearer '' @ gv_Token g) = Reply False b \<and> dr_ApplicationID b = vp_ClientID ps \<and>
        vx_ParseTime X (dr_Expires b) = Some t \<and> now \<le> time_Add (time_Add t (- 604800)) 60 \<and>
        vx_discord_user X (''Bearer '' @ gv_Token g) = Reply False d \<and> du_Verified d \<and> du_Email d = u)"
| "confirmed_by X E now unix chain ps g Twitch u \<longleftrightarrow>
     (\<exists>iat claims. vx_twitch X (vp_ClientID ps) (gv_Token g) = Inr (iat, Some claims) \<and> now \<le> time_Add iat 60 \<and>
        m_get claims ''email'' = Some (JString u) \<and> m_get claims ''email_verified'' = Some (JBool True))"
| "confirmed_by X E now unix chain ps g Github u \<longleftrightarrow> vx_github X (''token '' @ gv_Token g) = Reply False u"
| "confirmed_by X E now unix chain ps g Twitter u \<longleftrightarrow>
     (\<exists>w w' b. getTwitterAuth X E unix chain (gv_Token g) w = Some (Inr b, w') \<and> (tr_ID b = u \<or> tr_Email b = u))"
| "confirmed_by X E now unix chain ps g Passwordless u \<longleftrightarrow>
     (\<exists>b. vx_passwordless X (gv_Token g) = Reply False b \<and> pr_Email b = u \<and> pr_Azp b = vp_ClientID ps \<and>
        now \<le> time_Add (time_Unix (pr_Iat b)) 600)"
| "confirmed_by X E now unix chain ps g AWSCognito u \<longleftrightarrow>
     (\<exists>s b. vx_cognito X (''https://'' @ vp_Domain ps @ ''/oauth2/userInfo'') (''Bearer '' @ gv_Token g) = Reply s b \<and>
        ar_Sub b = u \<and> ar_EmailVerified b = ''true'')"
| "confirmed_by X E now unix chain ps g Steam u \<longleftrightarrow>
     (\<exists>b. vx_steam X (gv_Token g) = Reply False b \<and> sr_ID b = u \<and> sr_AZP b = vp_ClientID ps)"
| "confirmed_by X E now unix chain ps g Firebase u \<longleftrightarrow>
     (\<exists>f hdr key iat. vx_firebase_header X (gv_Token g) = Inr hdr \<and> verifyJWT f hdr = Inr key \<and>
        vx_firebase_check X key (vp_ClientID ps) now (gv_Token g) = Inr (True, u, Some iat) \<and> now - iat \<le> 120 * nanosecond)"
| "confirmed_by X E now unix chain ps g GlobalKey u \<longleftrightarrow> False"
| "confirmed_by X E now unix chain ps g Custom u \<longleftrightarrow>
     (\<exists>c keys tok. vx_gateway X (gv_Provider g) (gv_AppID g) = Reply False c \<and> vx_jwk_Fetch X (cr_JWKUrl c) = Some keys \<and>
        vx_jwt_Parse X keys now (gv_Token g) = Inr tok \<and> time_Add now (- 120) \<le> jwt_IssuedAt tok \<and>
        m_get (jwt_claims tok) (cr_IDParam c) = Some (JString u) \<and> jwt_Issuer tok = cr_Issuer c \<and>
        (\<exists>as. jwt_Audience tok = cr_Audience c # as) \<and>
        check_params (cr_Params c) tok (vx_range X (m_keys (cr_Params c))) = Some (Inr ()))"

text \<open>
  The JSON decoder: the types of the providers have fields of the generic message, under the same
  names, and a generic message made of decoded texts is encoded, and decodes to itself.
\<close>

definition verifier_laws :: "'k verifier_ext \<Rightarrow> bool" where
  "verifier_laws X \<longleftrightarrow>
     (\<forall>b g. Unmarshal (vx_generic X) b = Some g \<longrightarrow>
        vx_message X b = Some \<lparr>tp_IDToken = gv_Token g, tp_UserID = gv_UserID g\<rparr> \<and>
        vx_custom_params X b = Some \<lparr>cp_IDToken = gv_Token g, cp_UserID = gv_UserID g, cp_AppID = gv_AppID g,
                                 cp_Provider = gv_Provider g\<rparr>) \<and>
     (\<forall>b g c m. Unmarshal (vx_generic X) b = Some g \<longrightarrow> vx_global X c = Some m \<longrightarrow>
        (let h = \<lparr>gv_Token = gk_IDToken m, gv_Provider = gk_Verifier m, gv_UserID = gv_UserID g, gv_AppID = gk_ApplicationID m\<rparr> in
         \<exists>b'. Marshal (vx_generic X) h = Some b' \<and> Unmarshal (vx_generic X) b' = Some h))"

lemma case_http_eq:
  "(case h of NetError e \<Rightarrow> f e | Reply s b \<Rightarrow> g s b) = y \<longleftrightarrow>
     (\<exists>e. h = NetError e \<and> f e = y) \<or> (\<exists>s b. h = Reply s b \<and> g s b = y)"
  by (cases h) auto

lemma case_json_eq:
  "(case j of JString s \<Rightarrow> f s | JBool b \<Rightarrow> g b | JOther \<Rightarrow> h) = y \<longleftrightarrow>
     (\<exists>s. j = JString s \<and> f s = y) \<or> (\<exists>b. j = JBool b \<and> g b = y) \<or> (j = JOther \<and> h = y)"
  by (cases j) auto

lemmas verify_simps = case_http_eq case_json_eq case_sum_eq case_option_eq case_prod_eq go_bind_eq_Some
  bool.case_eq_if Before_def Let_def not_less

section \<open>Every provider\<close>

lemma provider_Verify_confirmed:
  assumes "verifier_laws X" "Unmarshal (vx_generic X) raw = Some g" "Provider_CleanToken p (gv_Token g) = gv_Token g"
    and "provider_Verify X E now unix chain p raw ps (v, w) = Some (Inr (True, u), st)"
  shows "confirmed_by X E now unix chain ps g p u \<and> (p = Firebase \<or> u = gv_UserID g)"
proof -
  have m: "vx_message X raw = Some \<lparr>tp_IDToken = gv_Token g, tp_UserID = gv_UserID g\<rparr>"
    "vx_custom_params X raw = Some \<lparr>cp_IDToken = gv_Token g, cp_UserID = gv_UserID g, cp_AppID = gv_AppID g,
       cp_Provider = gv_Provider g\<rparr>"
    using assms(1,2) by (auto simp: verifier_laws_def)
  have clean: "p \<noteq> GlobalKey \<Longrightarrow> CleanToken_blank (gv_Token g) = gv_Token g"
    using assms(3) by (simp add: Provider_CleanToken_def)
  show ?thesis
  proof (cases p)
    case Google
    then show ?thesis using assms(4) m clean
      by (auto simp: provider_Verify_def Google_Verify_def verifyGoogleResponse_def verify_simps split: if_splits)
  next
    case Discord
    then show ?thesis using assms(4) m clean
      by (auto simp: provider_Verify_def Discord_Verify_def verify_simps split: if_splits)
  next
    case Twitch
    then show ?thesis using assms(4) m clean
      by (auto simp: provider_Verify_def Twitch_Verify_def verify_simps split: if_splits)
  next
    case Github
    then show ?thesis using assms(4) m clean
      by (auto simp: provider_Verify_def Github_Verify_def verify_simps split: if_splits)
  next
    case Twitter
    then show ?thesis using assms(4) m clean
      by (fastforce simp: provider_Verify_def Twitter_Verify_def verify_simps split: if_splits)
  next
    case Passwordless
    then show ?thesis using assms(4) m clean
      by (auto simp: provider_Verify_def Passwordless_Verify_def verifyPasswordlessResponse_def verify_simps split: if_splits)
  next
    case AWSCognito
    then show ?thesis using assms(4) m clean
      by (auto simp: provider_Verify_def AWSCognito_Verify_def AWSCognito_callAndVerify_def verify_simps
          split: if_splits http.splits)
  next
    case Steam
    then show ?thesis using assms(4) m clean
      by (auto simp: provider_Verify_def Steam_Verify_def verify_simps split: if_splits)
  next
    case Firebase
    then show ?thesis using assms(4) m clean
      by (fastforce simp: provider_Verify_def Firebase_Verify_def verify_simps split: if_splits prod.splits)
  next
    case Custom
    then show ?thesis using assms(4) m clean
      by (fastforce simp: provider_Verify_def Custom_Verify_def go_index_def verify_simps neq_Nil_conv split: if_splits)
  next
    case GlobalKey
    then show ?thesis using assms(4) by (simp add: provider_Verify_def)
  qed
qed

section \<open>The map and the proxy\<close>

lemma verifier_Start_map:
  assumes "verifier_Start X now v = (Inr (), v')" "vs_providerMap v' = Some m" "Lookup provider m = Inr (Some p)"
  shows "Provider_ID p = provider \<or> p = Custom \<and> HasPrefix provider ''csp-''"
  using assms by (auto simp: verifier_Start_def NewProviderMap_def Lookup_def verify_simps split: if_splits)

text \<open>A message that holds another one in signed envelopes, each for the same application and user.\<close>

inductive proxied :: "'k verifier_ext \<Rightarrow> GenericVerifierData \<Rightarrow> GenericVerifierData \<Rightarrow> bool" for X where
  direct: "gv_Provider g \<noteq> ''global_key_proxy'' \<Longrightarrow> proxied X g g"
| signed: "\<lbrakk>gv_Provider g = ''global_key_proxy''; vx_pkcs7 X (gv_Token g) = Inr content; vx_global X content = Some m;
    gk_ApplicationID m = gv_AppID g;
    proxied X (g\<lparr>gv_Token := gk_IDToken m, gv_Provider := gk_Verifier m\<rparr>) h\<rbrakk> \<Longrightarrow> proxied X g h"

lemma proxied_keeps:
  assumes "proxied X g h"
  shows "gv_AppID h = gv_AppID g" "gv_UserID h = gv_UserID g" "gv_Provider h \<noteq> ''global_key_proxy''"
  using assms by (induction rule: proxied.induct) simp_all

lemma proxy_data_signed:
  assumes "verifier_laws X" "Unmarshal (vx_generic X) raw = Some g" "proxy_data X raw = Inr b"
  obtains content m where "vx_pkcs7 X (gv_Token g) = Inr content" "vx_global X content = Some m" "gk_ApplicationID m = gv_AppID g"
    "Unmarshal (vx_generic X) b = Some (g\<lparr>gv_Token := gk_IDToken m, gv_Provider := gk_Verifier m\<rparr>)"
proof -
  from assms(2,3) obtain content m where
    c: "vx_pkcs7 X (gv_Token g) = Inr content" "vx_global X content = Some m" "gk_ApplicationID m = gv_AppID g"
    by (auto simp: proxy_data_def verify_simps split: if_splits)
  let ?h = "\<lparr>gv_Token = gk_IDToken m, gv_Provider = gk_Verifier m, gv_UserID = gv_UserID g, gv_AppID = gk_ApplicationID m\<rparr>"
  obtain b' where b': "Marshal (vx_generic X) ?h = Some b'" "Unmarshal (vx_generic X) b' = Some ?h"
    using assms(1,2) c(2) unfolding verifier_laws_def Let_def by blast
  then have "b = b'" using assms(2,3) c by (simp add: proxy_data_def)
  moreover have "?h = g\<lparr>gv_Token := gk_IDToken m, gv_Provider := gk_Verifier m\<rparr>" using c(3) by simp
  ultimately show ?thesis using that c b' by metis
qed

lemma ProviderMap_Verify_confirmed:
  assumes "verifier_laws X" "ProviderMap_Verify n X E now unix chain raw (v, w) = Some (Inr (True, u), st)"
  shows "\<exists>g h m p ps w1 w2. Unmarshal (vx_generic X) raw = Some g \<and> proxied X g h \<and>
    vs_providerMap v = Some m \<and> Lookup (gv_Provider h) m = Inr (Some p) \<and>
    ChainMethods_GetClientIDViaVerifier chain (gv_AppID h) (gv_Provider h) w1 = Some (Inr ps, w2) \<and> vp_ClientID ps \<noteq> [] \<and>
    confirmed_by X E now unix chain ps h p u \<and> (p = Firebase \<or> u = gv_UserID h)"
  using assms(2)
proof (induction n arbitrary: raw)
  case (Suc n)
  from Suc.prems obtain g m p where g: "Unmarshal (vx_generic X) raw = Some g"
    and m: "vs_providerMap v = Some m" and p: "Lookup (gv_Provider g) m = Inr (Some p)"
    by (auto simp: verify_simps)
  show ?case
  proof (cases "gv_Provider g = ''global_key_proxy''")
    case True
    with Suc.prems g m p obtain b where b: "proxy_data X raw = Inr b"
      "ProviderMap_Verify n X E now unix chain b (v, w) = Some (Inr (True, u), st)"
      by (auto simp: verify_simps)
    obtain c gm where c: "vx_pkcs7 X (gv_Token g) = Inr c" "vx_global X c = Some gm" "gk_ApplicationID gm = gv_AppID g"
      and d: "Unmarshal (vx_generic X) b = Some (g\<lparr>gv_Token := gk_IDToken gm, gv_Provider := gk_Verifier gm\<rparr>)"
      using proxy_data_signed [OF assms(1) g b(1)] by blast
    from Suc.IH [OF b(2)] d g proxied.signed [OF True c] show ?thesis by fastforce
  next
    case False
    with Suc.prems g m p obtain ps w' where *: "Provider_CleanToken p (gv_Token g) = gv_Token g"
      "getVerifierParams chain (gv_AppID g) (gv_Provider g) w = Some (Inr ps, w')" "vp_ClientID ps \<noteq> []"
      "provider_Verify X E now unix chain p raw ps (v, w') = Some (Inr (True, u), st)"
      by (auto simp: verify_simps split: if_splits)
    from provider_Verify_confirmed [OF assms(1) g *(1,4)] show ?thesis
      using g m p *(2,3) proxied.direct [OF False] unfolding getVerifierParams_def by blast
  qed
qed simp

text \<open>More depth does not change a result.\<close>

lemma ProviderMap_Verify_mono:
  assumes "ProviderMap_Verify n X E now unix chain raw st = Some r" "n \<le> k"
  shows "ProviderMap_Verify k X E now unix chain raw st = Some r"
  using assms
proof (induction n arbitrary: raw k)
  case (Suc n)
  then obtain k' where k: "k = Suc k'" "n \<le> k'" by (cases k) auto
  have "ProviderMap_Verify k' X E now unix chain b st = Some r" if "ProviderMap_Verify n X E now unix chain b st = Some r" for b
    using Suc.IH [OF that k(2)] .
  then show ?case using Suc.prems(1) unfolding k(1)
    apply (cases "vs_providerMap (fst st)")
     apply (simp_all split: option.splits sum.splits if_splits)
    subgoal for _ _ p by (cases p) (simp_all split: if_splits)
    done
qed simp

lemma verifier_Call_verify:
  "VerifierMethods_Verify (verifier_Call n X E now unix chain) raw st = Some (Inr (valid, u), st') \<longleftrightarrow>
   ProviderMap_Verify n X E now unix chain raw st = Some (Inr (valid, u), st')"
  by (cases "ProviderMap_Verify n X E now unix chain raw st")
    (auto simp: VerifierMethods_Verify_def ask_def ServiceMethod_def checked_def verifier_Call_def verify_simps arg_def go_index_def)


section \<open>The list of providers that a proxy may use\<close>

lemma started_lookup:
  assumes "verifier_Start X t v0 = (Inr (), v1)"
  shows "\<exists>m. vs_providerMap v1 = Some m \<and> Lookup ''global_key_proxy'' m = Inr (Some GlobalKey) \<and>
    Lookup ''github'' m = Inr (Some Github)"
  using assms by (auto simp: verifier_Start_def NewProviderMap_def Lookup_def verify_simps)

lemma ProviderMap_Verify_github:
  assumes "verifier_laws X" "Unmarshal (vx_generic X) raw = Some g" "gv_Provider g = ''github''"
    and "vs_providerMap v = Some m" "Lookup ''github'' m = Inr (Some Github)"
    and "CleanToken_blank (gv_Token g) = gv_Token g" "gv_Token g \<noteq> []" "gv_UserID g \<noteq> []"
    and "ChainMethods_GetClientIDViaVerifier chain (gv_AppID g) ''github'' w = Some (Inr ps, w')" "vp_ClientID ps \<noteq> []"
    and "vx_github X (''token '' @ gv_Token g) = Reply False (gv_UserID g)"
  shows "ProviderMap_Verify (Suc n) X E now unix chain raw (v, w) = Some (Inr (True, gv_UserID g), v, w')"
proof -
  have "vx_message X raw = Some \<lparr>tp_IDToken = gv_Token g, tp_UserID = gv_UserID g\<rparr>"
    using assms(1,2) by (auto simp: verifier_laws_def)
  then show ?thesis
    using assms by (simp add: Provider_CleanToken_def getVerifierParams_def provider_Verify_def Github_Verify_def Let_def)
qed

text \<open>
  C38. The proxy is made with the list \<open>google\<close>, \<open>twitch\<close> of allowed providers and never reads it: a
  signed message that names Github, which is not in the list, is verified at Github and accepted.
\<close>

theorem proxy_accepts_disallowed_provider:
  assumes "verifier_laws X" "verifier_Start X t v0 = (Inr (), v)" "Unmarshal (vx_generic X) raw = Some g"
    and "gv_Provider g = ''global_key_proxy''" "vx_pkcs7 X (gv_Token g) = Inr content" "vx_global X content = Some gm"
    and "gk_ApplicationID gm = gv_AppID g" "gk_Verifier gm = ''github''"
    and "CleanToken_blank (gk_IDToken gm) = gk_IDToken gm" "gk_IDToken gm \<noteq> []" "gv_UserID g \<noteq> []"
    and "ChainMethods_GetClientIDViaVerifier chain (gv_AppID g) ''github'' w = Some (Inr ps, w')" "vp_ClientID ps \<noteq> []"
    and "vx_github X (''token '' @ gk_IDToken gm) = Reply False (gv_UserID g)"
  shows "VerifierMethods_Verify (verifier_Call (Suc (Suc n)) X E now unix chain) raw (v, w) = Some (Inr (True, gv_UserID g), v, w') \<and>
    gk_Verifier gm \<notin> set allowedProviders"
proof -
  obtain m where m: "vs_providerMap v = Some m" "Lookup ''global_key_proxy'' m = Inr (Some GlobalKey)"
    "Lookup ''github'' m = Inr (Some Github)" using started_lookup [OF assms(2)] by blast
  obtain b where b: "proxy_data X raw = Inr b" using assms(3,5,6,7) by (simp add: proxy_data_def)
  have d: "Unmarshal (vx_generic X) b = Some (g\<lparr>gv_Token := gk_IDToken gm, gv_Provider := gk_Verifier gm\<rparr>)"
    using proxy_data_signed [OF assms(1,3) b] assms(5,6) by (metis option.inject sum.inject(2))
  have "ProviderMap_Verify (Suc n) X E now unix chain b (v, w) = Some (Inr (True, gv_UserID g), v, w')"
    using ProviderMap_Verify_github [OF assms(1) d _ m(1,3)] assms(8-14) by simp
  then have "ProviderMap_Verify (Suc (Suc n)) X E now unix chain raw (v, w) = Some (Inr (True, gv_UserID g), v, w')"
    using assms(3,4) m b by simp
  then show ?thesis using assms(8) by (simp only: verifier_Call_verify) (simp add: allowedProviders_def)
qed

section \<open>An instance\<close>

definition toy_inner :: GenericVerifierData where
  "toy_inner = \<lparr>gv_Token = ''tok'', gv_Provider = ''github'', gv_UserID = ''u'', gv_AppID = ''a''\<rparr>"

definition toy_verifier :: "unit verifier_ext" where
  "toy_verifier = \<lparr>
     vx_message = (\<lambda>b. if b = [1] then Some \<lparr>tp_IDToken = ''tok'', tp_UserID = ''u''\<rparr>
                       else if b = [2] then Some \<lparr>tp_IDToken = ''tok'', tp_UserID = ''u''\<rparr> else None),
     vx_generic = \<lparr>Marshal = (\<lambda>g. if g = toy_inner then Some [2] else None),
       Unmarshal = (\<lambda>b. if b = [1] then Some (toy_inner\<lparr>gv_Token := ''tok'', gv_Provider := ''global_key_proxy''\<rparr>)
                        else if b = [2] then Some toy_inner else None)\<rparr>,
     vx_custom_params = (\<lambda>b.
       if b = [1] then Some \<lparr>cp_IDToken = ''tok'', cp_UserID = ''u'', cp_AppID = ''a'', cp_Provider = ''global_key_proxy''\<rparr>
       else if b = [2] then Some \<lparr>cp_IDToken = ''tok'', cp_UserID = ''u'', cp_AppID = ''a'', cp_Provider = ''github''\<rparr> else None),
     vx_google = (\<lambda>_. NetError []), vx_discord = (\<lambda>_. NetError []), vx_discord_user = (\<lambda>_. NetError []),
     vx_ParseTime = (\<lambda>_. None), vx_twitch = (\<lambda>_ _. Inl []), vx_github = (\<lambda>_. Reply False ''u''),
     vx_twitter_signature = (\<lambda>_. NetError []), vx_twitter_user = (\<lambda>_ _. NetError []),
     vx_signature_params = (\<lambda>_. None), vx_address = (\<lambda>_. []), vx_passwordless = (\<lambda>_. NetError []),
     vx_cognito = (\<lambda>_ _. NetError []), vx_steam = (\<lambda>_. NetError []),
     vx_firebase_keys = Inr ([], ''public, max-age=60''), vx_firebase_pem = (\<lambda>_. None),
     vx_firebase_header = (\<lambda>_. Inl []), vx_firebase_check = (\<lambda>_ _ _ _. Inl []),
     vx_pkcs7 = (\<lambda>_. Inr []), vx_global = (\<lambda>_. Some \<lparr>gk_Verifier = ''github'', gk_ApplicationID = ''a'', gk_IDToken = ''tok''\<rparr>),
     vx_gateway = (\<lambda>_ _. NetError []), vx_jwk_Fetch = (\<lambda>_. None), vx_jwt_Parse = (\<lambda>_ _ _. Inl []), vx_range = (\<lambda>ks. ks)\<rparr>"

definition toy_params :: "unit service" where
  "toy_params _ _ w = (Returns (VVerifierParams \<lparr>vp_ClientID = ''c'', vp_Domain = ''d''\<rparr>) None, w)"

definition toy_started :: "unit VerifierService" where
  "toy_started = snd (verifier_Start toy_verifier 0 \<lparr>vs_providerMap = None, vs_firebase = \<lparr>fb_signingKeys = [], fb_signingKeyExpiry = None\<rparr>\<rparr>)"

lemma toy_verifier_laws: "verifier_laws toy_verifier"
  by (auto simp: verifier_laws_def toy_verifier_def toy_inner_def Let_def split: if_splits)

lemma toy_started: "verifier_Start toy_verifier 0 \<lparr>vs_providerMap = None, vs_firebase = \<lparr>fb_signingKeys = [], fb_signingKeyExpiry = None\<rparr>\<rparr> =
    (Inr (), toy_started)"
  by code_simp

theorem proxy_accepts_disallowed_provider_witness:
  "VerifierMethods_Verify (verifier_Call 2 toy_verifier toy_ecdsa 0 0 toy_params) [1] (toy_started, ()) = Some (Inr (True, ''u''), toy_started, ()) \<and>
   ''github'' \<notin> set allowedProviders"
proof -
  let ?g = "toy_inner\<lparr>gv_Token := ''tok'', gv_Provider := ''global_key_proxy''\<rparr>"
  let ?m = "\<lparr>gk_Verifier = ''github'', gk_ApplicationID = ''a'', gk_IDToken = ''tok''\<rparr>"
  have "ChainMethods_GetClientIDViaVerifier toy_params ''a'' ''github'' () = Some (Inr \<lparr>vp_ClientID = ''c'', vp_Domain = ''d''\<rparr>, ())"
    by (simp add: ChainMethods_GetClientIDViaVerifier_def ask_def ServiceMethod_def cast_only_def toy_params_def)
  moreover have "CleanToken_blank ''tok'' = ''tok''" by code_simp
  ultimately show ?thesis
    using proxy_accepts_disallowed_provider [OF toy_verifier_laws toy_started, of "[1]" ?g "[]" ?m toy_params "()" _ "()" 0 toy_ecdsa 0 0]
    by (simp add: toy_verifier_def toy_inner_def numeral_2_eq_2)
qed


end
