(* ===== verification/Server.thy ===== *)
theory Server
  imports Rpc
begin

text \<open>
  The server service, \<open>server/server_service.go\<close>: a node asks another node for its connection
  details. The HTTP client and the JSON encoding are parameters. What the other node does with
  the request is \<open>ConnectionDetailsHandler\<close> of \<open>Rpc\<close>; the last section joins both sides.
\<close>

section \<open>Asking for connection details\<close>

record ConnectionDetailsRequestBody =
  cb_RpcVersion :: string
  cb_Method :: string
  cb_Id :: int
  cb_Params :: ConnectionDetailsParams

text \<open>
  What \<open>Post\<close> of the client returns: an error, and a response, which is nil with almost every error,
  with its status and what reading its body gives.
\<close>

type_synonym post = "string option \<times> (int \<times> bytes err) option"

record server_ext =
  sx_body :: "ConnectionDetailsRequestBody \<Rightarrow> bytes option"
  sx_Post :: "string \<Rightarrow> bytes \<Rightarrow> post"
  sx_response :: "bytes \<Rightarrow> ConnectionDetails option"

text \<open>The signed request.\<close>

definition connection_request ::
  "rpcjson \<Rightarrow> server_ext \<Rightarrow> ecdsa \<Rightarrow> int \<Rightarrow> 'w service \<Rightarrow> 'w \<Rightarrow> (bytes option \<times> 'w) go" where
  "connection_request R X E unix chain w = do {
     (pubKey, w1) \<leftarrow> ChainMethods_GetSelfPublicKey chain w;
     (privKey, w2) \<leftarrow> ChainMethods_GetSelfPrivateKey chain w1;
     (addr, w3) \<leftarrow> ChainMethods_GetSelfAddress chain w2;
     let message = \<lparr>cdm_Timestamp = Itoa unix, cdm_Message = ''ConnectionDetails'', cdm_NodeAddress = addr\<rparr>;
     sig \<leftarrow> ECDSASign E (ConnectionDetailsMessage_String R message) privKey;
     Some (sx_body X \<lparr>cb_RpcVersion = ''2.0'', cb_Method = ''ConnectionDetails'', cb_Id = 10,
             cb_Params = \<lparr>cdp_PubKeyX = big_Text (pt_X pubKey) 16, cdp_PubKeyY = big_Text (pt_Y pubKey) 16,
                          cdp_Message = message, cdp_Signature = sig\<rparr>\<rparr>, w3) }"

text \<open>\<open>respErr != nil || resp.StatusCode >= 400\<close>: a nil response without an error panics.\<close>

definition post_failed :: "post \<Rightarrow> bool go" where
  "post_failed r =
     (if fst r \<noteq> None then Some True
      else do { (status, _) \<leftarrow> snd r; Some (400 \<le> status) })"

text \<open>
  The three attempts. The log entry of the first one reads the status of the response before the
  error is looked at.
\<close>

definition post_request :: "server_ext \<Rightarrow> string \<Rightarrow> string \<Rightarrow> bytes \<Rightarrow> post go" where
  "post_request X uri port body = do {
     r1 \<leftarrow> (if port = [] then Some (None, None)
            else do {
              let r = sx_Post X (''http://'' @ uri @ '':'' @ port @ ''/rpc'') body;
              (status, _) \<leftarrow> snd r;
              Some r });
     f1 \<leftarrow> (if fst r1 \<noteq> None \<or> snd r1 = None then Some True else post_failed r1);
     let r2 = (if f1 then sx_Post X (''https://'' @ uri @ ''/rpc'') body else r1);
     f2 \<leftarrow> post_failed r2;
     Some (if f2 then sx_Post X (''http://'' @ uri @ ''/rpc'') body else r2) }"

definition RequestConnectionDetails ::
  "rpcjson \<Rightarrow> server_ext \<Rightarrow> ecdsa \<Rightarrow> int \<Rightarrow> 'w service \<Rightarrow> string \<Rightarrow> 'w \<Rightarrow> (ConnectionDetails err \<times> 'w) go" where
  "RequestConnectionDetails R X E unix chain endpoint w = do {
     (request, w') \<leftarrow> connection_request R X E unix chain w;
     (case request of
        None \<Rightarrow> Some (Inl ''marshal'', w')
      | Some body \<Rightarrow>
     (case Split endpoint (CHR '':'') of
        [] \<Rightarrow> Some (Inl ''could not get uri from endpoint'', w')
      | uri # rest \<Rightarrow> do {
          resp \<leftarrow> post_request X uri (case rest of [] \<Rightarrow> [] | port # _ \<Rightarrow> port) body;
          failed \<leftarrow> post_failed resp;
          if failed then Some (Inl ''could not get connection Details'', w')
          else do {
            (_, responseBody) \<leftarrow> snd resp;
            Some (case responseBody of
                Inl e \<Rightarrow> Inl e
              | Inr b \<Rightarrow> (case sx_response X b of None \<Rightarrow> Inl ''unmarshal'' | Some c \<Rightarrow> Inr c), w') } })) }"

definition server_Call ::
  "rpcjson \<Rightarrow> server_ext \<Rightarrow> ecdsa \<Rightarrow> int \<Rightarrow> 'w service \<Rightarrow> 'w service" where
  "server_Call R X E unix chain method args w =
     (if method = ''request_connection_details'' then or_panic w (do {
        endpoint \<leftarrow> arg [] string_of args 0;
        (r, w') \<leftarrow> RequestConnectionDetails R X E unix chain endpoint w;
        Some (case r of
            Inl e \<Rightarrow> (Returns (VConnection \<lparr>cd_TMP2PConnection = [], cd_P2PConnection = []\<rparr>) (Some e), w')
          | Inr c \<Rightarrow> (Returns (VConnection c) None, w')) })
      else (Returns Nil_iface (Some (''server service method '' @ method @ '' not found'')), w))"

definition ServerMethods_RequestConnectionDetails ::
  "'st service \<Rightarrow> string \<Rightarrow> 'st \<Rightarrow> (ConnectionDetails err \<times> 'st) go" where
  "ServerMethods_RequestConnectionDetails sm endpoint =
     ask (checked connection_of) sm ''request_connection_details'' [VString endpoint]"

section \<open>Both sides\<close>

text \<open>The parameters of an encoded request, as the protocol library hands them to the handler.\<close>

definition server_laws :: "server_ext \<Rightarrow> (bytes \<Rightarrow> bytes) \<Rightarrow> rpcjson \<Rightarrow> bool" where
  "server_laws X params R \<longleftrightarrow>
     (\<forall>q b. sx_body X q = Some b \<longrightarrow> rj_connection R (Some (params b)) = Inr (cb_Params q))"

lemma ECDSASign_verifies:
  assumes "ecdsa_laws E" "ECDSASign E s privKey = Some sig" "ec_ToECDSA E (big_Bytes privKey) = Some k"
  shows "ECDSAVerify E s (ec_Public E k) sig = Some True"
proof -
  have "length (ec_Keccak256 E (string_bytes s)) = 32" "ec_Sign E (ec_Keccak256 E (string_bytes s)) k = Some sig"
    using assms by (auto simp: ecdsa_laws_def ECDSASign_def)
  then have "length sig = 65" "ec_Verify E (ec_Public E k) (ec_Keccak256 E (string_bytes s)) (big_SetBytes (take 32 sig))
      (big_SetBytes (take 32 (drop 32 sig)))"
    using assms(1) by (auto simp: ecdsa_laws_def)
  then show ?thesis by (simp add: ECDSAVerify_def go_slice_def)
qed

lemma Point_surjective: "\<lparr>pt_X = pt_X p, pt_Y = pt_Y p\<rparr> = (p :: Point)"
  by simp

lemma ServerMethods_answer:
  "ServerMethods_RequestConnectionDetails (server_Call R X E unix chain) endpoint w =
     (case RequestConnectionDetails R X E unix chain endpoint w of
        None \<Rightarrow> Some (Inl ''panic'', w) | Some r \<Rightarrow> Some r)"
  by (cases "RequestConnectionDetails R X E unix chain endpoint w")
    (auto simp: ServerMethods_RequestConnectionDetails_def ask_def ServiceMethod_def server_Call_def checked_def arg_def go_index_def
      split: sum.splits)

text \<open>
  C39. A request for connection details that a node signs is accepted by the node that receives it,
  for the ten minutes that follow, when the key is valid there for the address of the sender; and
  the sender returns the connections that the answer holds.
\<close>

theorem connection_details_roundtrip:
  assumes "ecdsa_laws E" "server_laws X params R"
    and "ChainMethods_GetSelfPublicKey chain w = Some (ec_Public E k, w1)"
      "ChainMethods_GetSelfPrivateKey chain w1 = Some (privKey, w2)" "ec_ToECDSA E (big_Bytes privKey) = Some k"
      "ChainMethods_GetSelfAddress chain w2 = Some (addr, w3)"
    and body: "connection_request R X E unix chain w = Some (Some body, w3)"
    and "- (2 ^ 63) \<le> unix" "unix < 2 ^ 63" "now \<le> time_Add (time_Unix unix) 600"
    and "ChainMethods_ValidateEpochPubKey (rs_chain S) addr (ec_Public E k) v = Some (True, v1)"
      "ChainMethods_GetTMP2PConnection (rs_chain S) v1 = Some (tm, v2)" "ChainMethods_GetP2PConnection (rs_chain S) v2 = Some (p2p, v3)"
    and "Split endpoint (CHR '':'') = [uri, port]" "port \<noteq> []"
      "sx_Post X (''http://'' @ uri @ '':'' @ port @ ''/rpc'') body = (None, Some (200, Inr answer))"
      "sx_response X answer = Some \<lparr>cd_TMP2PConnection = tm, cd_P2PConnection = p2p\<rparr>"
  shows "ConnectionDetailsHandler R E S now (Some (params body)) v = Some (Inr (tm, p2p), v3) \<and>
    ServerMethods_RequestConnectionDetails (server_Call R X E unix chain) endpoint w =
      Some (Inr \<lparr>cd_TMP2PConnection = tm, cd_P2PConnection = p2p\<rparr>, w3)"
proof
  let ?m = "\<lparr>cdm_Timestamp = Itoa unix, cdm_Message = ''ConnectionDetails'', cdm_NodeAddress = addr\<rparr>"
  obtain sig where sig: "ECDSASign E (ConnectionDetailsMessage_String R ?m) privKey = Some sig"
    and b: "sx_body X \<lparr>cb_RpcVersion = ''2.0'', cb_Method = ''ConnectionDetails'', cb_Id = 10,
       cb_Params = \<lparr>cdp_PubKeyX = big_Text (pt_X (ec_Public E k)) 16, cdp_PubKeyY = big_Text (pt_Y (ec_Public E k)) 16,
                    cdp_Message = ?m, cdp_Signature = sig\<rparr>\<rparr> = Some body"
    using body assms(3,4,6) by (auto simp: connection_request_def go_bind_eq_Some Let_def)
  have v: "ConnectionDetailsMessage_Validate R E now ?m (pt_X (ec_Public E k)) (pt_Y (ec_Public E k)) sig = Some (Inr True)"
    using ECDSASign_verifies [OF assms(1) sig assms(5)] assms(8-10)
    by (simp add: Point_surjective ConnectionDetailsMessage_Validate_def Atoi_Itoa Before_def not_less)
  from assms(2) b have "rj_connection R (Some (params body)) = Inr \<lparr>cdp_PubKeyX = big_Text (pt_X (ec_Public E k)) 16,
      cdp_PubKeyY = big_Text (pt_Y (ec_Public E k)) 16, cdp_Message = ?m, cdp_Signature = sig\<rparr>"
    unfolding server_laws_def by fastforce
  then show "ConnectionDetailsHandler R E S now (Some (params body)) v = Some (Inr (tm, p2p), v3)"
    using v assms(11-13) by (simp add: ConnectionDetailsHandler_def HexToBigInt_def SetString_Text Point_surjective)
  show "ServerMethods_RequestConnectionDetails (server_Call R X E unix chain) endpoint w =
      Some (Inr \<lparr>cd_TMP2PConnection = tm, cd_P2PConnection = p2p\<rparr>, w3)"
    using body assms(14-17)
    by (simp add: ServerMethods_answer RequestConnectionDetails_def post_request_def post_failed_def Let_def)
qed

text \<open>
  When the connection to the port of an endpoint fails, so that there is no response, the request
  panics on the status of the missing response: the error reaches the caller as a panic, and the
  two other addresses are not tried, whatever they would answer.
\<close>

lemma closed_port_panics:
  assumes "Split endpoint (CHR '':'') = uri # port # rest" "port \<noteq> []"
    and "connection_request R X E unix chain w = Some (Some body, w')"
    and "sx_Post X (''http://'' @ uri @ '':'' @ port @ ''/rpc'') body = (Some e, None)"
  shows "ServerMethods_RequestConnectionDetails (server_Call R X E unix chain) endpoint w = Some (Inl ''panic'', w)"
  using assms by (simp add: ServerMethods_answer RequestConnectionDetails_def post_request_def Let_def)

text \<open>A node whose second address would answer.\<close>

definition conn_json :: rpcjson where
  "conn_json = \<lparr>rj_assign = (\<lambda>_. Inl (RpcError 0 [])), rj_lookup = (\<lambda>_. Inl (RpcError 0 [])),
     rj_commit = (\<lambda>_. Inl (RpcError 0 [])), rj_shares = (\<lambda>_. Inl (RpcError 0 [])),
     rj_connection = (\<lambda>b. if b = Some (string_bytes ''t'')
       then Inr \<lparr>cdp_PubKeyX = ''5'', cdp_PubKeyY = ''5'',
              cdp_Message = \<lparr>cdm_Timestamp = ''7'', cdm_Message = ''ConnectionDetails'', cdm_NodeAddress = [9]\<rparr>,
              cdp_Signature = the (ECDSASign toy_ecdsa (Join [''7'', ''ConnectionDetails'', ''x''] Delimiter1) 5)\<rparr>
       else Inl (RpcError 0 [])),
     rj_item = (\<lambda>_. None), rj_object = \<lparr>Marshal = (\<lambda>_. None), Unmarshal = (\<lambda>_. None)\<rparr>,
     rj_generic = (\<lambda>_. None), rj_tx_ok = (\<lambda>_. None), rj_address = (\<lambda>_. ''x'')\<rparr>"

definition conn_server :: "post \<Rightarrow> server_ext" where
  "conn_server r = \<lparr>sx_body = (\<lambda>q. if rj_connection conn_json (Some (string_bytes ''t'')) = Inr (cb_Params q)
                              then Some (string_bytes ''t'') else None),
     sx_Post = (\<lambda>url _. if url = ''http://h:1/rpc'' then r else (None, Some (200, Inr []))),
     sx_response = (\<lambda>_. Some \<lparr>cd_TMP2PConnection = ''tm'', cd_P2PConnection = ''p''\<rparr>)\<rparr>"

definition conn_call :: "unit service" where
  "conn_call method _ w =
     (Returns (if method = ''get_self_public_key'' then VPoint \<lparr>pt_X = 5, pt_Y = 5\<rparr>
       else if method = ''get_self_private_key'' then VBig 5
       else if method = ''get_self_address'' then VAddress [9]
       else if method = ''validate_epoch_pub_key'' then VBool True
       else if method = ''get_tm_p2p_connection'' then VString ''tm'' else VString ''p'') None, w)"

lemma conn_calls [simp]:
  "ChainMethods_GetSelfPublicKey conn_call w = Some (ec_Public toy_ecdsa 5, ())" "ChainMethods_GetSelfPrivateKey conn_call w = Some (5, ())"
  "ChainMethods_GetSelfAddress conn_call w = Some ([9], ())" "ChainMethods_ValidateEpochPubKey conn_call a pk w = Some (True, ())"
  "ChainMethods_GetTMP2PConnection conn_call w = Some (''tm'', ())" "ChainMethods_GetP2PConnection conn_call w = Some (''p'', ())"
  by (simp_all add: ChainMethods_GetSelfPublicKey_def ChainMethods_GetSelfPrivateKey_def ChainMethods_GetSelfAddress_def
      ChainMethods_ValidateEpochPubKey_def ChainMethods_GetTMP2PConnection_def ChainMethods_GetP2PConnection_def
      ask_def ServiceMethod_def conn_call_def checked_def retry_or_fatal_def numeral_eq_Suc toy_ecdsa_def)

lemma conn_request: "connection_request conn_json (conn_server r) toy_ecdsa 7 conn_call w = Some (Some (string_bytes ''t''), ())"
proof -
  have "Itoa 7 = ''7''" "big_Text 5 16 = ''5''" by code_simp+
  moreover have "\<exists>sig. ECDSASign toy_ecdsa s 5 = Some sig" for s by (simp add: ECDSASign_def toy_ecdsa_def)
  ultimately show ?thesis
    by (auto simp: connection_request_def conn_server_def conn_json_def ConnectionDetailsMessage_String_def go_bind_eq_Some)
      (simp_all add: toy_ecdsa_def)
qed

lemma conn_key: "ec_ToECDSA toy_ecdsa (big_Bytes 5) = Some 5"
  by code_simp

theorem connection_details_roundtrip_witness:
  "ConnectionDetailsHandler conn_json toy_ecdsa \<lparr>rs_chain = conn_call, rs_db = conn_call, rs_abci = conn_call, rs_cache = conn_call,
      rs_verifier = conn_call, rs_tendermint = conn_call\<rparr> 0 (Some (string_bytes ''t'')) () = Some (Inr (''tm'', ''p''), ()) \<and>
   ServerMethods_RequestConnectionDetails (server_Call conn_json (conn_server (None, Some (200, Inr []))) toy_ecdsa 7 conn_call) ''h:1'' () =
     Some (Inr \<lparr>cd_TMP2PConnection = ''tm'', cd_P2PConnection = ''p''\<rparr>, ())"
proof -
  have "server_laws (conn_server r) (\<lambda>b. b) conn_json" for r by (auto simp: server_laws_def conn_server_def)
  moreover have "(0 :: int) \<le> time_Add (time_Unix 7) 600" "Split ''h:1'' (CHR '':'') = [''h'', ''1'']" by code_simp+
  ultimately show ?thesis
    using conn_request [of "(None, Some (200, Inr []))" "()"] conn_key
    by (intro connection_details_roundtrip [where params = "\<lambda>b. b" and k = 5 and privKey = 5 and addr = "[9]" and uri = "''h''" and port = "''1''"
          and answer = "[]" and ?w1.0 = "()" and ?w2.0 = "()" and ?v1.0 = "()" and ?v2.0 = "()"]) (simp_all, simp_all add: conn_server_def)
qed

lemma closed_port_panics_witness:
  "ServerMethods_RequestConnectionDetails (server_Call conn_json (conn_server (Some ''refused'', None)) toy_ecdsa 7 conn_call) ''h:1'' () =
     Some (Inl ''panic'', ()) \<and>
   sx_Post (conn_server (Some ''refused'', None)) ''https://h/rpc'' (string_bytes ''t'') = (None, Some (200, Inr []))"
proof -
  have "Split ''h:1'' (CHR '':'') = [''h'', ''1'']" by code_simp
  then show ?thesis
    using closed_port_panics [OF _ _ conn_request [of "(Some ''refused'', None)" "()"], of "''h:1''" "''h''" "''1''" "[]" "''refused''"]
    by (simp add: conn_server_def)
qed

end
