(* ===== verification/Tendermint.thy ===== *)
theory Tendermint
  imports AbciTheorems
begin

text \<open>
  The consensus service, \<open>tendermint/core_service.go\<close> with the queue of \<open>tendermint/messageq\<close> and the
  rest of \<open>tendermint/bft_rpc.go\<close>: broadcasting a transaction, asking for its status, registering a
  query, and what the service hands to the consensus engine when it starts. The engine, its client
  and its encodings of keys are parameters; the goroutines that carry messages are run when their
  work is asked for.
\<close>

section \<open>Keys and validators\<close>

definition PadPrivKeyBytes :: "bytes \<Rightarrow> bytes" where
  "PadPrivKeyBytes kBytes = (if length kBytes < 32 then replicate (32 - length kBytes) 0 @ kBytes else kBytes)"

text \<open>The loop copies 32 bytes by their index.\<close>

definition tmPrivateKeyFromBigInt :: "int \<Rightarrow> bytes go" where
  "tmPrivateKeyFromBigInt key = do {
     let keyBytes = PadPrivKeyBytes (big_Bytes key);
     go_fold (\<lambda>i pv. do { b \<leftarrow> go_index keyBytes i; Some (pv @ [b]) }) [0..31] [] }"

record GenesisValidator =
  gn_Address :: bytes
  gn_PubKey :: bytes
  gn_Power :: int

record GenesisDoc =
  gd_ChainID :: string
  gd_GenesisTime :: int
  gd_Validators :: "GenesisValidator list"

text \<open>The client of the engine and the encoding of its keys.\<close>

record ResultBroadcastTx =
  rb_Code :: int
  rb_Hash :: bytes

record 'w engine =
  en_SerializeCompressed :: "Point \<Rightarrow> bytes"
  en_Address :: "bytes \<Rightarrow> bytes"
  en_BroadcastTxSync :: "bytes \<Rightarrow> 'w \<Rightarrow> ResultBroadcastTx err \<times> 'w"
  en_Tx :: "bytes \<Rightarrow> 'w \<Rightarrow> (int \<times> bytes) err \<times> 'w"
  en_Subscribe :: "string \<Rightarrow> 'w \<Rightarrow> unit err \<times> 'w"
  en_NodeKeyJSON :: "bytes \<Rightarrow> bytes option"
  en_JSONBytes :: "bytes \<Rightarrow> bytes option"
  en_Connect :: "'w \<Rightarrow> bool"

definition rawPointToTMPubKey :: "'w engine \<Rightarrow> int \<Rightarrow> int \<Rightarrow> bytes" where
  "rawPointToTMPubKey N X Y = en_SerializeCompressed N \<lparr>pt_X = X, pt_Y = Y\<rparr>"

definition getValidatorsAndPeerFromNodeList ::
  "'w engine \<Rightarrow> NodeReference list \<Rightarrow> (string list \<times> GenesisValidator list) go" where
  "getValidatorsAndPeerFromNodeList N nodeList =
     go_fold (\<lambda>node (peers, validators). do {
       p \<leftarrow> nr_PublicKey node;
       let pubkeyBytes = rawPointToTMPubKey N (pt_X p) (pt_Y p);
       Some (peers @ [nr_TMP2PConnection node],
             validators @ [\<lparr>gn_Address = en_Address N pubkeyBytes, gn_PubKey = pubkeyBytes, gn_Power = 1\<rparr>]) }) nodeList ([], [])"

definition createGenesisDoc :: "GenesisValidator list \<Rightarrow> GenesisDoc" where
  "createGenesisDoc validators =
     \<lparr>gd_ChainID = ''test-net-1'', gd_GenesisTime = 1578036594, gd_Validators = validators\<rparr>"

text \<open>
  What \<open>startTendermintCore\<close> hands to the engine: the persistent peers, the key of the validator and
  the first block. Writing the files and running the engine are not modelled.
\<close>

definition startTendermintCore ::
  "'w engine \<Rightarrow> 'w service \<Rightarrow> 'w \<Rightarrow> ((string \<times> bytes \<times> GenesisDoc) \<times> 'w) go" where
  "startTendermintCore N chain w = do {
     (epoch, w1) \<leftarrow> ChainMethods_GetCurrentEpoch chain w;
     (nodeList, w2) \<leftarrow> ChainMethods_AwaitCompleteNodeList chain epoch w1;
     (peerList, validators) \<leftarrow> getValidatorsAndPeerFromNodeList N nodeList;
     (privKey, w3) \<leftarrow> ChainMethods_GetSelfPrivateKey chain w2;
     key \<leftarrow> tmPrivateKeyFromBigInt privKey;
     Some ((Join peerList (CHR '',''), key, createGenesisDoc validators), w3) }"

section \<open>Broadcasting\<close>

text \<open>\<open>messageRunFunc\<close>, and the loop of a goroutine of the queue for one message: six attempts. A
  message that is not sent leaves a nil response.\<close>

definition messageRunFunc :: "'w engine \<Rightarrow> bytes \<Rightarrow> 'w \<Rightarrow> ResultBroadcastTx err \<times> 'w" where
  "messageRunFunc N msg w =
     (case en_BroadcastTxSync N msg w of
        (Inl e, w') \<Rightarrow> (Inl e, w')
      | (Inr response, w') \<Rightarrow> (Inr response, w'))"

fun RunMsgEngine :: "nat \<Rightarrow> ('w \<Rightarrow> 'a err \<times> 'w) \<Rightarrow> 'w \<Rightarrow> 'a option \<times> 'w" where
  "RunMsgEngine 0 processMessage w = (None, w)"
| "RunMsgEngine (Suc attempts) processMessage w =
     (case processMessage w of
        (Inr res, w') \<Rightarrow> (Some res, w')
      | (Inl e, w') \<Rightarrow> RunMsgEngine attempts processMessage w')"

definition MessageQueue_Add :: "('w \<Rightarrow> 'a err \<times> 'w) \<Rightarrow> 'w \<Rightarrow> 'a option \<times> 'w" where
  "MessageQueue_Add processMessage w = RunMsgEngine 6 processMessage w"

definition BFTRPC_Broadcast :: "tmjson \<Rightarrow> 'w engine \<Rightarrow> 'w service \<Rightarrow> int \<Rightarrow> iface \<Rightarrow> 'w \<Rightarrow> (bytes err \<times> 'w) go" where
  "BFTRPC_Broadcast J N chain nonce bftTx w = do {
     (prepared, w1) \<leftarrow> PrepareBFTTx J chain nonce bftTx w;
     Some (case prepared of
         Inl e \<Rightarrow> (Inl e, w1)
       | Inr preparedTx \<Rightarrow>
           (case MessageQueue_Add (messageRunFunc N preparedTx) w1 of
              (None, w2) \<Rightarrow> (Inl ''return type for broadcast was not *tmtypes.ResultBroadcastTx'', w2)
            | (Some response, w2) \<Rightarrow>
                (if rb_Code response \<noteq> 0 then Inl (''Could not broadcast, ErrorCode: '' @ Itoa (rb_Code response))
                 else Inr (rb_Hash response), w2))) }"

text \<open>\<open>Retrieve\<close> decodes the transaction into the byte string of a wrapper.\<close>

definition DecodeBFTTx :: "'w engine \<Rightarrow> bytes \<Rightarrow> DefaultBFTTxWrapper \<Rightarrow> DefaultBFTTxWrapper err" where
  "DecodeBFTTx N data wrapper =
     (case en_JSONBytes N data of None \<Rightarrow> Inl ''unmarshal'' | Some b \<Rightarrow> Inr (wrapper\<lparr>bw_BFTTx := b\<rparr>))"

definition BFTRPC_Retrieve ::
  "'w engine \<Rightarrow> bytes \<Rightarrow> DefaultBFTTxWrapper \<Rightarrow> 'w \<Rightarrow> DefaultBFTTxWrapper err \<times> 'w" where
  "BFTRPC_Retrieve N hash txStruct w =
     (case en_Tx N hash w of
        (Inl e, w') \<Rightarrow> (Inl e, w')
      | (Inr (_, tx), w') \<Rightarrow> (DecodeBFTTx N tx txStruct, w'))"

section \<open>The service\<close>

text \<open>A semaphore is a channel with a capacity, and as many values as were acquired.\<close>

record Semaphore =
  sem_cap :: nat
  sem_held :: nat

definition NewSemaphore :: "nat \<Rightarrow> Semaphore" where
  "NewSemaphore n = \<lparr>sem_cap = n, sem_held = 0\<rparr>"

datatype Status = WebSocketDown | WebSocketUp

text \<open>Whether \<open>bftrpc\<close> is set is all of it that the service looks at.\<close>

record TendermintService =
  tm_tmNodeKey :: "bytes option"
  tm_bftrpc :: bool
  tm_bftSemaphore :: "Semaphore option"
  tm_websocketStatus :: Status

definition NewCore :: TendermintService where
  "NewCore = \<lparr>tm_tmNodeKey = None, tm_bftrpc = False, tm_bftSemaphore = None, tm_websocketStatus = WebSocketDown\<rparr>"

definition tm_Start :: "bytes \<Rightarrow> TendermintService \<Rightarrow> TendermintService" where
  "tm_Start nodeKey t = t\<lparr>tm_tmNodeKey := Some nodeKey, tm_websocketStatus := WebSocketDown\<rparr>"

text \<open>A tick of the monitor, which ends with the first connection.\<close>

definition abciMonitor :: "'w engine \<Rightarrow> 'w \<Rightarrow> TendermintService \<Rightarrow> TendermintService" where
  "abciMonitor N w t =
     (if en_Connect N w then
        t\<lparr>tm_bftrpc := True, tm_bftSemaphore := Some (NewSemaphore 30), tm_websocketStatus := WebSocketUp\<rparr>
      else t)"

text \<open>Work between acquiring and releasing the semaphore: a panic does not release it.\<close>

definition with_semaphore ::
  "TendermintService \<times> 'w \<Rightarrow> ('w \<Rightarrow> (call_result \<times> 'w) go) \<Rightarrow> call_result \<times> TendermintService \<times> 'w" where
  "with_semaphore st f =
     (let (t, w) = st in
      case tm_bftSemaphore t of
        None \<Rightarrow> (Panics, st)
      | Some s \<Rightarrow>
          if sem_cap s \<le> sem_held s then (Blocks, st)
          else (case f w of
              None \<Rightarrow> (Panics, t\<lparr>tm_bftSemaphore := Some (s\<lparr>sem_held := sem_held s + 1\<rparr>)\<rparr>, w)
            | Some (r, w') \<Rightarrow> (r, t, w')))"

definition tm_ready :: "TendermintService \<Rightarrow> unit err" where
  "tm_ready t =
     (if \<not> tm_bftrpc t then Inl ''bft rpc is not initialized''
      else if tm_websocketStatus t = WebSocketDown then Inl ''bft ws is not up yet''
      else Inr ())"

text \<open>The attempts of a broadcast; in the pauses the monitor may tick.\<close>

fun await_ready :: "nat \<Rightarrow> (TendermintService \<Rightarrow> TendermintService) \<Rightarrow> TendermintService \<Rightarrow> unit err \<times> TendermintService" where
  "await_ready 0 meanwhile t = (Inr (), t)"
| "await_ready (Suc attempts) meanwhile t =
     (case tm_ready t of
        Inr _ \<Rightarrow> (Inr (), t)
      | Inl e \<Rightarrow> if attempts = 0 then (Inl e, t) else await_ready attempts meanwhile (meanwhile t))"

fun iface_of :: "iface \<Rightarrow> iface option" where "iface_of Nil_iface = None" | "iface_of v = Some v"

definition isHashValid :: "'w engine \<Rightarrow> bytes \<Rightarrow> 'w \<Rightarrow> bool \<times> 'w" where
  "isHashValid N hash w = (case en_Tx N hash w of (Inl e, w') \<Rightarrow> (False, w') | (Inr (code, _), w') \<Rightarrow> (code = 0, w'))"

text \<open>
  Registering a query subscribes to the engine, which may fail; the goroutines that wait for the
  event and publish it on the bus are not modelled.
\<close>

definition tendermint_Call ::
  "tmjson \<Rightarrow> 'w engine \<Rightarrow> 'w service \<Rightarrow> (TendermintService \<Rightarrow> TendermintService) \<Rightarrow> int \<Rightarrow> (TendermintService \<times> 'w) service" where
  "tendermint_Call J N chain meanwhile nonce method args = (\<lambda>(t, w).
     if method = ''get_node_key'' then
       (case tm_tmNodeKey t of
          None \<Rightarrow> (Panics, t, w)
        | Some k \<Rightarrow>
            (case en_NodeKeyJSON N k of
               None \<Rightarrow> (Returns Nil_iface (Some ''marshal''), t, w)
             | Some b \<Rightarrow> (Returns (VBytes b) None, t, w)))
     else if method = ''tx_status'' then or_panic (t, w) (do {
       args0 \<leftarrow> arg [] bytes_of args 0;
       if \<not> tm_bftrpc t then None
       else let (valid, w') = isHashValid N args0 w in Some (Returns (VBool valid) None, t, w') })
     else if method = ''broadcast'' then
       (case await_ready 6 meanwhile t of
          (Inl e, t') \<Rightarrow> (Returns Nil_iface (Some e), t', w)
        | (Inr _, t') \<Rightarrow> or_panic (t', w) (do {
            args0 \<leftarrow> arg Nil_iface iface_of args 0;
            Some (with_semaphore (t', w) (\<lambda>w. do {
              (txHash, w') \<leftarrow> BFTRPC_Broadcast J N chain nonce args0 w;
              Some (case txHash of
                  Inl e \<Rightarrow> (Returns Nil_iface (Some e), w')
                | Inr h \<Rightarrow> (Returns (VHash h) None, w')) })) }))
     else if method = ''register_query'' then or_panic (t, w) (do {
       args0 \<leftarrow> arg [] string_of args 0;
       Some (with_semaphore (t, w) (\<lambda>w.
         case en_Subscribe N args0 w of
           (Inl e, w') \<Rightarrow> Some (Returns Nil_iface (Some e), w')
         | (Inr _, w') \<Rightarrow> Some (Returns Nil_iface None, w'))) })
     else (Returns Nil_iface (Some (''tendermint service method '' @ method @ '' not found'')), t, w))"

definition TendermintMethods_GetNodeKey :: "(bytes \<Rightarrow> bytes option) \<Rightarrow> 'st service \<Rightarrow> 'st \<Rightarrow> (bytes \<times> 'st) go" where
  "TendermintMethods_GetNodeKey unmarshal tm =
     retry_or_fatal (ask (\<lambda>r. case checked bytes_of r of
         Inl e \<Rightarrow> Inl e
       | Inr data \<Rightarrow> (case unmarshal data of None \<Rightarrow> Inl ''unmarshal'' | Some k \<Rightarrow> Inr k)) tm ''get_node_key'' [])"

section \<open>The invariant of the service\<close>

text \<open>When the socket is up the client and the semaphore are there, and no more is held than the capacity.\<close>

definition tm_inv :: "TendermintService \<Rightarrow> bool" where
  "tm_inv t \<longleftrightarrow> (tm_websocketStatus t = WebSocketUp \<longrightarrow> tm_bftrpc t \<and> tm_bftSemaphore t \<noteq> None) \<and>
     (\<forall>s. tm_bftSemaphore t = Some s \<longrightarrow> sem_held s \<le> sem_cap s)"

lemma tm_inv_start [intro]: "tm_inv NewCore" "tm_inv t \<Longrightarrow> tm_inv (tm_Start k t)" "tm_inv t \<Longrightarrow> tm_inv (abciMonitor N w t)"
  by (auto simp: tm_inv_def NewCore_def tm_Start_def abciMonitor_def NewSemaphore_def)

lemma with_semaphore_inv:
  assumes "with_semaphore (t, w) f = (r, t', w')" "tm_inv t"
  shows "tm_inv t'"
  using assms by (auto simp: with_semaphore_def tm_inv_def split: option.splits if_splits)

lemma await_ready_inv:
  assumes "await_ready n meanwhile t = (r, t')" "tm_inv t" "\<And>s. tm_inv s \<Longrightarrow> tm_inv (meanwhile s)"
  shows "tm_inv t'"
  using assms by (induction n arbitrary: t) (auto split: sum.splits if_splits)

lemma await_ready_up:
  assumes "await_ready (Suc n) meanwhile t = (Inr u, t')"
  shows "tm_bftrpc t' \<and> tm_websocketStatus t' = WebSocketUp"
  using assms
proof (induction n arbitrary: t)
  case 0
  then show ?case by (cases "tm_websocketStatus t") (auto simp: tm_ready_def split: if_splits)
next
  case (Suc n)
  show ?case
  proof (cases "tm_ready t")
    case (Inl e)
    then show ?thesis using Suc.prems Suc.IH [of "meanwhile t"] by (auto split: if_splits)
  next
    case (Inr v)
    then show ?thesis using Suc.prems by (cases "tm_websocketStatus t") (auto simp: tm_ready_def split: if_splits)
  qed
qed

lemma tendermint_Call_inv:
  assumes "tendermint_Call J N chain meanwhile nonce m args (t, w) = (r, t', w')" "tm_inv t" "\<And>s. tm_inv s \<Longrightarrow> tm_inv (meanwhile s)"
  shows "tm_inv t'"
proof -
  obtain a s where a: "await_ready 6 meanwhile t = (a, s)" by fastforce
  then have s: "tm_inv s" using await_ready_inv assms(2,3) by blast
  show ?thesis
  proof (cases "m = ''broadcast''")
    case True
    then show ?thesis using assms(1) a s
      by (cases a; cases "arg Nil_iface iface_of args 0") (auto simp: tendermint_Call_def dest: with_semaphore_inv)
  next
    case False
    then show ?thesis using assms(1,2)
      by (cases "arg [] bytes_of args 0"; cases "arg [] string_of args 0")
        (auto simp: tendermint_Call_def dest: with_semaphore_inv split: if_splits option.splits prod.splits)
  qed
qed

text \<open>A broadcast waits for the client, and never finds it or the semaphore missing.\<close>

lemma broadcast_finds_client:
  assumes "tm_inv t" "\<And>s. tm_inv s \<Longrightarrow> tm_inv (meanwhile s)" "await_ready 6 meanwhile t = (Inr u, t')"
  shows "tm_bftrpc t' \<and> tm_bftSemaphore t' \<noteq> None"
proof -
  have "tm_inv t'" using await_ready_inv assms by blast
  moreover have "tm_websocketStatus t' = WebSocketUp" using await_ready_up [of 5] assms(3) by (simp add: numeral_eq_Suc)
  ultimately show ?thesis by (simp add: tm_inv_def)
qed

text \<open>The states of the service: it is made, started, called, and its monitor ticks, also while a call waits.\<close>

inductive tm_reachable :: "tmjson \<Rightarrow> 'w engine \<Rightarrow> TendermintService \<Rightarrow> bool" for J N where
  made: "tm_reachable J N NewCore"
| started: "tm_reachable J N t \<Longrightarrow> tm_reachable J N (tm_Start key t)"
| ticked: "tm_reachable J N t \<Longrightarrow> tm_reachable J N (abciMonitor N w t)"
| called: "\<lbrakk>tm_reachable J N t; tendermint_Call J N chain (abciMonitor N v) nonce m args (t, w) = (r, t', w')\<rbrakk> \<Longrightarrow>
    tm_reachable J N t'"

lemma tm_reachable_inv: "tm_reachable J N t \<Longrightarrow> tm_inv t"
  by (induction rule: tm_reachable.induct) (auto intro: tendermint_Call_inv)

text \<open>
  C40. In every state that the consensus service can reach, the client and the semaphore are there when
  the socket is up and no more of the semaphore is held than its capacity; so a broadcast, whose
  argument is there, panics only when preparing its transaction does.
\<close>

theorem consensus_service_well_formed:
  assumes "tm_reachable J N t"
  shows "tm_inv t \<and>
    (tendermint_Call J N chain (abciMonitor N v) nonce ''broadcast'' [tx] (t, w) = (Panics, st) \<longrightarrow>
       (\<exists>tx'. arg Nil_iface iface_of [tx] 0 = Some tx' \<and> BFTRPC_Broadcast J N chain nonce tx' w = None))"
proof (intro conjI impI)
  show inv: "tm_inv t" by (rule tm_reachable_inv [OF assms])
  assume p: "tendermint_Call J N chain (abciMonitor N v) nonce ''broadcast'' [tx] (t, w) = (Panics, st)"
  obtain tx' where tx': "arg Nil_iface iface_of [tx] 0 = Some tx'" by (simp add: arg_def go_index_def)
  obtain a s where a: "await_ready 6 (abciMonitor N v) t = (a, s)" by fastforce
  with p have "\<exists>u. a = Inr u" by (cases a) (simp_all add: tendermint_Call_def)
  then obtain u where u: "a = Inr u" ..
  then obtain sem where "tm_bftSemaphore s = Some sem"
    using broadcast_finds_client [OF inv _ a [unfolded u]] tm_inv_start(3) by blast
  with p a u tx' have "BFTRPC_Broadcast J N chain nonce tx' w = None"
    by (cases "BFTRPC_Broadcast J N chain nonce tx' w")
      (auto simp: tendermint_Call_def with_semaphore_def split: if_splits sum.splits)
  with tx' show "\<exists>tx'. arg Nil_iface iface_of [tx] 0 = Some tx' \<and> BFTRPC_Broadcast J N chain nonce tx' w = None" by blast
qed

section \<open>The key of the validator\<close>

lemma bytes_nat_length: "n < 256 ^ k \<Longrightarrow> length (bytes_nat n) \<le> k"
proof (induction k arbitrary: n)
  case (Suc k)
  then have "n div 256 < 256 ^ k" by (simp add: less_mult_imp_div_less mult.commute)
  then show ?case using Suc.IH [of "n div 256"] by (simp add: bytes_nat.simps [of n])
qed (simp add: bytes_nat.simps)

lemma big_SetBytes_zeros: "big_SetBytes (replicate n 0 @ b) = big_SetBytes b"
  by (induction n) (simp_all add: big_SetBytes_def)

lemma copy_bytes:
  assumes "n \<le> length bs"
  shows "go_fold (\<lambda>i pv. do { b \<leftarrow> go_index bs i; Some (pv @ [b]) }) [0..int n - 1] [] = Some (take n bs)"
  using assms
proof (induction n)
  case (Suc n)
  have "[0..int (Suc n) - 1] = [0..int n - 1] @ [int n]" by (simp add: upto_rec2)
  then show ?case using Suc by (simp add: go_fold_append go_index_def take_Suc_conv_app_nth)
qed simp

lemma tmPrivateKey_correct:
  assumes "0 \<le> key" "key < 2 ^ 256"
  shows "\<exists>pv. tmPrivateKeyFromBigInt key = Some pv \<and> length pv = 32 \<and> big_SetBytes pv = key"
proof -
  have "nat key < 256 ^ 32" using assms by (simp add: nat_less_iff)
  then have l: "length (big_Bytes key) \<le> 32" using assms by (simp add: big_Bytes_def bytes_nat_length)
  then have "length (PadPrivKeyBytes (big_Bytes key)) = 32" by (simp add: PadPrivKeyBytes_def)
  moreover have "big_SetBytes (PadPrivKeyBytes (big_Bytes key)) = key"
    using assms by (simp add: PadPrivKeyBytes_def big_SetBytes_zeros big_SetBytes_Bytes)
  ultimately show ?thesis using copy_bytes [of 32 "PadPrivKeyBytes (big_Bytes key)"]
    by (simp add: tmPrivateKeyFromBigInt_def)
qed

section \<open>A broadcast transaction reaches the application\<close>

lemma RunMsgEngine_Some:
  assumes "RunMsgEngine n f w = (Some res, w')"
  shows "\<exists>w1. f w1 = (Inr res, w')"
  using assms by (induction n arbitrary: w) (auto split: prod.splits sum.splits)

lemma messageRunFunc_eq [simp]: "messageRunFunc N msg w = en_BroadcastTxSync N msg w"
  by (auto simp: messageRunFunc_def split: prod.splits sum.splits)

lemma BFTRPC_Broadcast_accepted:
  assumes "BFTRPC_Broadcast J N chain nonce tx w = Some (Inr hash, w')"
  shows "\<exists>raw w0 res. PrepareBFTTx J chain nonce tx w = Some (Inr raw, w0) \<and>
    MessageQueue_Add (messageRunFunc N raw) w0 = (Some res, w') \<and> rb_Code res = 0 \<and> rb_Hash res = hash"
proof -
  obtain p w0 where p: "PrepareBFTTx J chain nonce tx w = Some (p, w0)"
    using assms by (auto simp: BFTRPC_Broadcast_def go_bind_eq_Some)
  with assms obtain raw where raw: "p = Inr raw" by (cases p) (auto simp: BFTRPC_Broadcast_def)
  obtain r w1 where "MessageQueue_Add (messageRunFunc N raw) w0 = (r, w1)" by fastforce
  with assms p raw show ?thesis by (cases r) (auto simp: BFTRPC_Broadcast_def split: if_splits)
qed

lemma chain_self [simp]:
  assumes "\<not> ch_locked ch"
  shows "ChainMethods_GetSelfPublicKey (chain_Call X E cache db) (ch, ca, d) = Some (ch_pubKey ch, ch, ca, d)"
  using assms by (simp add: ChainMethods_GetSelfPublicKey_def retry_or_fatal_def numeral_eq_Suc ask_def ServiceMethod_def
      chain_Call_def locking_def checked_def)

lemma chain_sign:
  assumes "ChainMethods_SelfSignData (chain_Call X E cache db) data (ch, ca, d) = Some (sig, w)"
  shows "\<exists>s. SignData E data (ch_privKey ch) = Some s \<and> sig = sg_Raw s"
  using assms by (cases "SignData E data (ch_privKey ch)")
    (simp_all add: ChainMethods_SelfSignData_def retry_or_fatal_def numeral_eq_Suc ask_def ServiceMethod_def
      chain_Call_def or_block_def checked_def arg_def go_index_def)

lemma PrepareBFTTx_signed:
  assumes "tmjson_laws J" "\<not> ch_locked ch"
    and "PrepareBFTTx J (chain_Call X E cache db) nonce tx (ch, ca, d) = Some (Inr raw, w)"
  shows "\<exists>wr s. Unmarshal (tj_wrapper J) raw = Some wr \<and> msg_type tx = Some (bw_MsgType wr) \<and>
    marshal_tx J tx = Some (bw_BFTTx wr) \<and> bw_PubKey wr = ch_pubKey ch \<and>
    SignData E (GetSerializedBody J wr) (ch_privKey ch) = Some s \<and> bw_Signature wr = sg_Raw s"
proof -
  from assms(2,3) obtain ty b sig w2 where ty: "msg_type tx = Some ty" "marshal_tx J tx = Some b"
    and sig: "ChainMethods_SelfSignData (chain_Call X E cache db) (GetSerializedBody J
        \<lparr>bw_BFTTx = b, bw_Nonce = word_of_int nonce, bw_PubKey = ch_pubKey ch, bw_MsgType = ty, bw_Signature = []\<rparr>) (ch, ca, d) =
      Some (sig, w2)"
    and raw: "Marshal (tj_wrapper J) \<lparr>bw_BFTTx = b, bw_Nonce = word_of_int nonce, bw_PubKey = ch_pubKey ch, bw_MsgType = ty,
        bw_Signature = sig\<rparr> = Some raw"
    by (auto simp: PrepareBFTTx_def case_option_eq go_bind_eq_Some split: if_splits)
  have "Unmarshal (tj_wrapper J) raw = Some \<lparr>bw_BFTTx = b, bw_Nonce = word_of_int nonce, bw_PubKey = ch_pubKey ch,
      bw_MsgType = ty, bw_Signature = sig\<rparr>"
    using assms(1) raw by (auto simp: tmjson_laws_def codec_ok_def)
  then show ?thesis using ty chain_sign [OF sig] by (auto simp: GetSerializedBody_def)
qed

lemma signed_data_verified:
  assumes "ecdsa_laws E" "SignData E data k = Some s"
  shows "VerifyPtFromRaw E data (ec_Public E k) (sg_Raw s) = Some True"
proof (rule SignData_Some [OF assms])
  fix raw
  assume raw: "length raw = 65" and s: "s = \<lparr>sg_Raw = raw, sg_Hash = ec_Keccak256 E data, sg_R = take 32 raw,
      sg_S = take 32 (drop 32 raw), sg_V = raw ! 64 + 27\<rparr>"
    and v: "ec_Verify E (ec_Public E k) (ec_Keccak256 E data) (big_SetBytes (take 32 raw)) (big_SetBytes (take 32 (drop 32 raw)))"
  have "length (ec_Keccak256 E data) = 32" using assms(1) by (simp add: ecdsa_laws_def)
  then show ?thesis using raw s v by (simp add: VerifyPtFromRaw_def verifyFromRaw_def go_slice_def)
qed

text \<open>
  C14. When a broadcast returns a hash, the engine has accepted a transaction with that hash, in one of
  the six attempts, that holds the message and its type; and every node that has the sender in its
  node list of the current epoch authenticates it as a transaction of a node with the key of the sender.
\<close>

theorem broadcast_tx_authenticates:
  assumes "tmjson_laws J" "ecdsa_laws E" "\<not> ch_locked ch" "ch_pubKey ch = ec_Public E (ch_privKey ch)"
    and b: "BFTRPC_Broadcast J N (chain_Call X E cache db) nonce tx (ch, ca, d) = Some (Inr hash, w)"
    and ch': "\<not> ch_locked ch'" "m_get (ch_nodeRegisterMap ch') (ch_currentEpoch ch') = Some reg" "listed (rg_NodeList reg)"
      "ch_currentEpoch ch' \<noteq> 0" "r \<in> set (rg_NodeList reg)" "nr_PublicKey r = Some (ch_pubKey ch)"
  shows "\<exists>raw w1 res wr r' i. en_BroadcastTxSync N raw w1 = (Inr res, w) \<and> rb_Code res = 0 \<and> rb_Hash res = hash \<and>
    msg_type tx = Some (bw_MsgType wr) \<and> marshal_tx J tx = Some (bw_BFTTx wr) \<and>
    r' \<in> set (rg_NodeList reg) \<and> nr_PublicKey r' = Some (ch_pubKey ch) \<and> nr_Index r' = Some i \<and>
    authenticateBftTx J (chain_Call X' E cache' db') raw (ch', ca', d') =
      Some (Inr (wr, \<lparr>kn_Index = Int64 i, kn_PubKey = ch_pubKey ch\<rparr>), ch', ca', d')"
proof -
  from BFTRPC_Broadcast_accepted [OF b] obtain raw w0 res where prep: "PrepareBFTTx J (chain_Call X E cache db) nonce tx (ch, ca, d) = Some (Inr raw, w0)"
    and q: "MessageQueue_Add (messageRunFunc N raw) w0 = (Some res, w)" and res: "rb_Code res = 0" "rb_Hash res = hash"
    by blast
  obtain w1 where sent: "en_BroadcastTxSync N raw w1 = (Inr res, w)"
    using RunMsgEngine_Some [OF q [unfolded MessageQueue_Add_def]] by auto
  obtain wr s where wr: "Unmarshal (tj_wrapper J) raw = Some wr" "msg_type tx = Some (bw_MsgType wr)"
    "marshal_tx J tx = Some (bw_BFTTx wr)" "bw_PubKey wr = ch_pubKey ch"
    and s: "SignData E (GetSerializedBody J wr) (ch_privKey ch) = Some s" "bw_Signature wr = sg_Raw s"
    using PrepareBFTTx_signed [OF assms(1,3) prep] by blast
  have v: "VerifyPtFromRaw E (GetSerializedBody J wr) (ch_pubKey ch) (bw_Signature wr) = Some True"
    using signed_data_verified [OF assms(2) s(1)] assms(4) s(2) by simp
  obtain r' where r': "find_node (ch_pubKey ch) (rg_NodeList reg) = Some (Some r')" "r' \<in> set (rg_NodeList reg)"
    "nr_PublicKey r' = Some (ch_pubKey ch)"
    using find_node_Some [OF ch'(3), of "ch_pubKey ch"] ch'(5,6) by (auto split: option.splits)
  then obtain i where i: "nr_Index r' = Some i" using ch'(3) by (auto simp: listed_def)
  have e: "ChainMethods_GetCurrentEpoch (chain_Call X' E cache' db') (ch', ca', d') = Some (ch_currentEpoch ch', ch', ca', d')"
    using ch'(4) by (simp add: ChainMethods_GetCurrentEpoch_def retry_or_fatal_def numeral_eq_Suc ask_def ServiceMethod_def chain_Call_def checked_def)
  have "authenticateBftTx J (chain_Call X' E cache' db') raw (ch', ca', d') =
      Some (Inr (wr, \<lparr>kn_Index = Int64 i, kn_PubKey = ch_pubKey ch\<rparr>), ch', ca', d')"
    using wr(1,4) v r' i ch'(1,2)
    by (simp add: authenticateBftTx_def e VerifyDataWithEpoch_call verifyDataWithEpoch_def verified_sender_def)
  then show ?thesis using sent res wr r' i by blast
qed

section \<open>An instance\<close>

definition sent_wrap :: "bytes \<Rightarrow> DefaultBFTTxWrapper" where
  "sent_wrap sig = \<lparr>bw_BFTTx = [1], bw_Nonce = 0, bw_PubKey = \<lparr>pt_X = 5, pt_Y = 5\<rparr>, bw_MsgType = 2, bw_Signature = sig\<rparr>"

definition sent_sig :: bytes where
  "sent_sig = (9 # replicate 31 0) @ replicate 31 0 @ [5, 0]"

definition sent_json :: tmjson where
  "sent_json = small_json\<lparr>tj_wrapper := table_codec [([9], sent_wrap []), ([8], sent_wrap sent_sig)]\<rparr>"

definition sent_engine :: "'w engine" where
  "sent_engine = \<lparr>en_SerializeCompressed = (\<lambda>_. []), en_Address = (\<lambda>b. b),
     en_BroadcastTxSync = (\<lambda>b w. (Inr \<lparr>rb_Code = 0, rb_Hash = b\<rparr>, w)), en_Tx = (\<lambda>_ w. (Inl [], w)),
     en_Subscribe = (\<lambda>_ w. (Inr (), w)), en_NodeKeyJSON = (\<lambda>k. Some k), en_JSONBytes = (\<lambda>b. Some b), en_Connect = (\<lambda>_. True)\<rparr>"

lemma sent_json_laws: "tmjson_laws sent_json"
proof -
  have "codec_ok (table_codec [([9], sent_wrap []), ([8], sent_wrap sent_sig)])"
    by (simp add: table_codec_ok sent_wrap_def sent_sig_def)
  then show ?thesis using small_json_laws by (simp add: tmjson_laws_def sent_json_def)
qed

lemma sent_signature:
  "SignData toy_ecdsa [9] 5 = Some \<lparr>sg_Raw = sent_sig, sg_Hash = 9 # replicate 31 0, sg_R = 9 # replicate 31 0,
     sg_S = replicate 31 0 @ [5], sg_V = 27\<rparr>"
  by code_simp

lemma sent_broadcast:
  "BFTRPC_Broadcast sent_json sent_engine toy_call 0 (VMessage (CreateMessage gf_round ''key_derivation_pubkey_gen'' [1])) toy_state =
     Some (Inr [8], toy_state)"
proof -
  let ?W = "tj_wrapper sent_json"
  have w: "Marshal ?W (sent_wrap []) = Some [9]" "Marshal ?W (sent_wrap sent_sig) = Some [8]"
    "Marshal (tj_message sent_json) (CreateMessage gf_round ''key_derivation_pubkey_gen'' [1]) = Some [1]"
    by (simp_all add: sent_json_def small_json_def table_codec_def sent_wrap_def sent_sig_def)
  have pk: "ChainMethods_GetSelfPublicKey toy_call toy_state = Some (\<lparr>pt_X = 5, pt_Y = 5\<rparr>, toy_state)"
    unfolding toy_call_def toy_state_def by (subst chain_self) (simp_all add: toy_chain_def)
  have s: "ChainMethods_SelfSignData toy_call [9] toy_state = Some (sent_sig, toy_state)"
    using sent_signature
    by (simp add: toy_call_def toy_state_def ChainMethods_SelfSignData_def retry_or_fatal_def numeral_eq_Suc ask_def ServiceMethod_def
        chain_Call_def or_block_def checked_def arg_def go_index_def toy_chain_def)
  have "PrepareBFTTx sent_json toy_call 0 (VMessage (CreateMessage gf_round ''key_derivation_pubkey_gen'' [1])) toy_state =
      Some (Inr [8], toy_state)"
    using w s by (simp add: PrepareBFTTx_def pk GetSerializedBody_def sent_wrap_def)
  then show ?thesis by (simp add: BFTRPC_Broadcast_def MessageQueue_Add_def numeral_eq_Suc sent_engine_def)
qed

theorem broadcast_tx_authenticates_witness:
  "\<exists>raw wr. authenticateBftTx sent_json toy_call raw toy_state = Some (Inr (wr, \<lparr>kn_Index = 1, kn_PubKey = \<lparr>pt_X = 5, pt_Y = 5\<rparr>\<rparr>), toy_state) \<and>
    bw_BFTTx wr = [1]"
proof -
  have m: "marshal_tx sent_json (VMessage (CreateMessage gf_round ''key_derivation_pubkey_gen'' [1])) = Some [1]"
    by (simp add: sent_json_def small_json_def table_codec_def)
  have k: "ch_pubKey toy_chain = ec_Public toy_ecdsa (ch_privKey toy_chain)" "ch_currentEpoch toy_chain = 1"
    by (simp_all add: toy_chain_def toy_ecdsa_def)
  have r: "m_get (ch_nodeRegisterMap toy_chain) (ch_currentEpoch toy_chain) = Some \<lparr>rg_AllConnected = True, rg_NodeList = [toy_ref]\<rparr>"
    "toy_ref \<in> set (rg_NodeList \<lparr>rg_AllConnected = True, rg_NodeList = [toy_ref]\<rparr>)"
    "nr_PublicKey toy_ref = Some (ch_pubKey toy_chain)"
    using toy_chain_facts k by (simp_all add: toy_ref_def toy_chain_def)
  from broadcast_tx_authenticates [OF sent_json_laws toy_ecdsa_laws toy_chain_facts(1) k(1) sent_broadcast [unfolded toy_call_def toy_state_def]
      toy_chain_facts(1) r(1) toy_chain_facts(4) _ r(2,3), of toy_ext "cache_Call toy_cache 0" "db_Call mem_db mem_json" "cache_Start toy_cache" "[]"]
  obtain raw wr r' i where "r' \<in> set [toy_ref]" "nr_Index r' = Some i" "Some [1] = Some (bw_BFTTx wr)"
    "authenticateBftTx sent_json toy_call raw toy_state = Some (Inr (wr, \<lparr>kn_Index = Int64 i, kn_PubKey = ch_pubKey toy_chain\<rparr>), toy_state)"
    using k(2) m by (auto simp: toy_call_def toy_state_def)
  moreover from this(1,2) have "i = 1" by (simp add: toy_ref_def)
  ultimately show ?thesis by (auto simp: Int64_def toy_chain_def)
qed

text \<open>A service that is started and connected, and panics on a transaction that is nil.\<close>

theorem consensus_service_well_formed_witness:
  "tm_inv (abciMonitor sent_engine () (tm_Start [] NewCore)) \<and>
   BFTRPC_Broadcast sent_json sent_engine small_chain 0 Nil_iface () = None"
proof -
  let ?t = "abciMonitor sent_engine () (tm_Start [] NewCore)"
  have r: "tm_reachable sent_json (sent_engine :: unit engine) ?t" by (rule tm_reachable.ticked, rule tm_reachable.started, rule tm_reachable.made)
  have a: "arg Nil_iface iface_of [Nil_iface] 0 = Some Nil_iface" by (simp add: arg_def go_index_def)
  have n: "BFTRPC_Broadcast sent_json sent_engine small_chain 0 Nil_iface () = None"
    by (simp add: BFTRPC_Broadcast_def PrepareBFTTx_def)
  have "fst (tendermint_Call sent_json sent_engine small_chain (abciMonitor sent_engine ()) 0 ''broadcast'' [Nil_iface] (?t, ())) = Panics"
    by (simp add: tendermint_Call_def a with_semaphore_def NewSemaphore_def abciMonitor_def sent_engine_def numeral_eq_Suc tm_ready_def
        BFTRPC_Broadcast_def PrepareBFTTx_def)
  then obtain st where "tendermint_Call sent_json sent_engine small_chain (abciMonitor sent_engine ()) 0 ''broadcast'' [Nil_iface] (?t, ()) =
      (Panics, st)" by (metis prod.collapse)
  with consensus_service_well_formed [OF r, of small_chain "()" 0 Nil_iface "()" st] a show ?thesis by simp
qed

end
