(* ===== verification/Spec2Isabelle.thy ===== *)
theory Spec2Isabelle
  imports SharingTheorems Network RpcTheorems KeygenServiceTheorems EventBus VerifierTheorems Server Tendermint
begin

text \<open>
  A model of a node for distributed key generation, the Go program under \<open>src/\<close>, and the theorems
  that make it correct.

  \<^bold>\<open>The program.\<close> Nodes that a contract lists generate keys of which every node holds a share.
  For a key every node deals a random secret (verifiable sharing over a reliable broadcast),
  the nodes agree on sets of dealers (a reliable broadcast of key sets and a binary agreement per
  dealer), and derive the public key and their shares of the sum of the secrets of the agreed dealers.
  A replicated application under a consensus engine counts the votes of the nodes for a public key and assigns
  decided keys to users. A user commits to a token of an identity provider at the nodes, has the
  token verified, and receives the shares of his key, encrypted. The parts are services of one
  process that call each other over an event bus.

  \<^bold>\<open>Theories and sources.\<close>

  \<^item> The language and libraries. \<open>Prelude\<close> (shared types, named collections of facts and generic lemmas),
    \<open>GoLib\<close>, \<open>GoTime\<close> and \<open>Sha256\<close> (the parts of Go's standard library the sources use), \<open>Externals\<close> (packages
    outside the repository as records of operations with named laws), \<open>Lagrange\<close> (interpolation in
    a field), \<open>Gf257\<close> (an instance of the laws, for the witnesses).
  \<^item> Key generation. \<open>Ids\<close>, \<open>Stores\<close>, \<open>Participant\<close> (\<open>common/adkg_common.go\<close>, \<open>dkgstore.go\<close>, \<open>types.go\<close>: identifiers,
    the state of a node, what a handler sees and does), \<open>Bits\<close> (\<open>keygen/common/common.go\<close>), \<open>Sharing\<close>
    (\<open>common/sharing\<close>, \<open>keygen/common/aba\<close>), \<open>AcssCommon\<close> (\<open>keygen/common/acss\<close>, \<open>keygen/messages\<close>); the handlers of
    \<open>keygen/message_handlers\<close>, one definition per \<open>Process\<close>: \<open>Rbc\<close> (echo and ready of both broadcasts),
    \<open>Handlers\<close> (the rest of \<open>acss\<close> and \<open>keyset\<close>), \<open>Aba\<close>, \<open>KeyDerivation\<close>; \<open>Node\<close> (construction and dispatch) and
    \<open>KeygenService\<close> (service, transport, tracker, and what becomes of the actions of handlers).
  \<^item> The other services. \<open>Broker\<close> (calls between services, \<open>common/service_broker.go\<close>) and \<open>EventBus\<close>
    (\<open>eventbus\<close>, \<open>common/service_registry.go\<close>), \<open>Db\<close> (\<open>db\<close>, \<open>keystore\<close>), \<open>Cache\<close>, \<open>Crypto\<close> (\<open>crypto\<close>, \<open>keygen/signature.go\<close>),
    \<open>Chain\<close>, \<open>P2p\<close>, \<open>Abci\<close> (the replicated application), \<open>Tendermint\<close> (the consensus service, its queue and
    transactions), \<open>Verifier\<close> (every identity provider), \<open>Rpc\<close> (the requests of users) and \<open>Server\<close>.

  \<^bold>\<open>How code becomes definitions.\<close> A structure is a record, a union of messages or methods a datatype, a
  machine integer a word or an integer that is reduced to its width (\<open>Int64\<close>, \<open>word_of_int\<close>), a map an
  association list (\<open>gomap\<close>) whose range order is a parameter. An error is the left side of a sum (\<open>err\<close>).
  A function that may panic, end the process or wait for ever returns \<open>go\<close>, an option, with \<open>None\<close>
  for these. State is passed on explicitly: a handler maps the state of the node to the
  new state and a list of actions (send, broadcast, deliver to itself, store, hand to the chain), and
  a service maps method, arguments and state to a result and a new state. Handlers run
  one at a time, as they hold the lock of their session, and so do calls of one service. What a goroutine does later
  is a pending message or task. Slices are lists: appending never writes into shared memory. The polling loops of the coin are modelled at
  their end. The clock, randomness and all code outside the repository are arguments.
  Recursion is structural or has a termination proof; the only fuel is the depth of nested proxy
  messages in \<open>ProviderMap_Verify\<close>, where more fuel never changes a result
  (\<open>ProviderMap_Verify_mono\<close>), and the attempts of retry loops, which the code bounds.

  \<^bold>\<open>Interfaces.\<close> The stores share the contract \<open>completion_store\<close>, the votes of the agreement
  \<open>vote_counter\<close>, the tables of the database \<open>table\<close>, and the two broadcasts \<open>rbc_messages\<close>; each is
  interpreted on the definitions of the model. Every broker method is generic in the service it is sent
  to.

  \<^bold>\<open>What the theorems show.\<close>

  \<^item> Sharing (\<open>SharingTheorems\<close>): shares combine to the secret, Feldman verification is exact and binding, derived
    public keys and coefficients are those of the sum of the dealings, an honest dealing is accepted.
  \<^item> Broadcast (\<open>Rbc\<close>): no panic, ready and output at most once, each resting on a quorum; a quorum of
    echoes sends ready.
  \<^item> Sessions (\<open>Sessions\<close>, \<open>SessionTheorems\<close>): every handler refines an abstract transition system of sessions; its
    invariant holds in every reachable state; a session forgets nothing; the share is stored in
    either order of derivation and decision.
  \<^item> Agreement (\<open>Agreement\<close>, \<open>Network\<close>): in a network with at most \<open>f\<close> faulty nodes two honest nodes that
    decide by the second auxiliary step of one round decide the same bit.
  \<^item> The application (\<open>AbciTheorems\<close>): assignments are permanent, a decided key has a threshold of voters, the search for a
    free key is exact, blocks start boundedly many keys, a restart continues from the last commit.
    A broadcast transaction is authenticated as one of its sender (\<open>Tendermint\<close>).
  \<^item> Services: a key is dealt once across restarts (\<open>KeygenServiceTheorems\<close>), shares are durable (\<open>Db\<close>), tokens are committed to
    once and shares released only to the entitled (\<open>RpcTheorems\<close>), a verified user is confirmed by an authority
    (\<open>VerifierTheorems\<close>), a request for connection details is accepted (\<open>Server\<close>), and the bus implements direct calls
    (\<open>EventBus\<close>).
  \<^item> Across services (this theory): a released share belongs to a user whom the authority of an identity
    provider confirms.
  \<^item> Errors of the code: theorems that state what the code does where it does not do what it means to, such
    as signatures whose verification is ignored, a lock that is not released, a dealer read in
    the wrong base, a key set that is replaced after the agreement.

  \<^bold>\<open>Not modelled.\<close> The bindings of the contracts (\<open>appdata\<close>, \<open>nodelist\<close>), which are generated; the wiring of
  the process, configuration, secrets, telemetry and HTTP middlewares, which hold no
  protocol state; creating hosts, servers, files and the consensus engine, which is I/O of libraries; and
  registering the node on the contract. Termination of the protocol with probability one is
  not stated: it rests on the randomness of the coin.
\<close>

section \<open>From the identity provider to the share\<close>

lemma verify_confirmed:
  assumes "verifier_laws X" "VerifierMethods_Verify (verifier_Call n X E now unix chain) b w = Some (Inr (True, user), w')"
  shows "\<exists>g h p ps v v'. Unmarshal (vx_generic X) b = Some g \<and> proxied X g h \<and>
    ChainMethods_GetClientIDViaVerifier chain (gv_AppID h) (gv_Provider h) v = Some (Inr ps, v') \<and> vp_ClientID ps \<noteq> [] \<and>
    confirmed_by X E now unix chain ps h p user \<and> gv_AppID h = gv_AppID g \<and> (p = Firebase \<or> user = gv_UserID g)"
proof -
  obtain v0 w0 where w: "w = (v0, w0)" by fastforce
  have "ProviderMap_Verify n X E now unix chain b (v0, w0) = Some (Inr (True, user), w')"
    using assms(2) unfolding w by (simp only: verifier_Call_verify)
  from ProviderMap_Verify_confirmed [OF assms(1) this] show ?thesis using proxied_keeps by metis
qed


text \<open>A user of Github whose application has no key space of its own.\<close>

definition end_json :: rpcjson where
  "end_json = tok_json\<lparr>rj_generic := (\<lambda>g. if g = \<lparr>gv_Token = ''tok'', gv_Provider = ''global_key_proxy'', gv_UserID = ''u'', gv_AppID = ''a''\<rparr>
     then Some [1] else None)\<rparr>"

definition end_services :: "(unit VerifierService \<times> unit) rpc_services" where
  "end_services = tok_services\<lparr>rs_verifier := verifier_Call 2 toy_verifier toy_ecdsa 0 0 toy_params\<rparr>"

lemma end_verifier:
  "VerifierMethods_Verify (verifier_Call 2 toy_verifier toy_ecdsa 0 0 toy_params) [1] (toy_started, ()) = Some (Inr (True, ''u''), toy_started, ())"
  "VerifierMethods_CleanToken (verifier_Call 2 toy_verifier toy_ecdsa 0 0 toy_params) ''github'' ''tok'' (toy_started, ()) =
     Some (Inr ''tok'', toy_started, ())"
  by code_simp+

lemma end_share:
  "\<exists>key. KeyShareRequestHandler tok_lib end_json toy_ecdsa end_services [] None (toy_started, ()) = Some (Inr [key], toy_started, ())"
  by (simp add: KeyShareRequestHandler_def end_services_def tok_services_def end_json_def tok_json_def share_item_def verify_item_def
      GetAppKeyPartition_def end_verifier tok_ref tok_check tok_hash_def [symmetric] release_share_def Int64_def) (simp add: tok_lib_def)


end
